(* ===== verification/Prelude.thy ===== *)
theory Prelude
  imports Complex_Main
    "HOL-Library.Char_ord" "HOL-Library.List_Lexorder" "HOL-Library.Product_Lexorder"
    "HOL-Library.Multiset" "HOL-Library.AList"
begin

text \<open>
  Shared vocabulary of the development.

  Python values: unbounded integers are \<open>int\<close>; a \<open>float\<close> or \<open>Decimal\<close> is the
  exact rational it denotes (\<open>pyfloat\<close>, rounding of intermediate float results is not
  modelled); a \<open>datetime\<close> is its UTC instant in microseconds, the resolution of
  Python and PostgreSQL; a UUID is the number it denotes, so that its canonical text
  and the number order UUIDs alike; a \<open>dict\<close> of strings is an association list with
  distinct keys. An operation that may raise returns \<open>'e + 'a\<close>, \<open>Inl\<close> for the
  exception.

  The rest of the theory holds the generic lemmas the components share: results,
  Python's \<open>round\<close>, rows of a table addressed by key, and the choice of a least
  candidate (locale \<open>ranked_choice\<close>).
\<close>

section \<open>Types and collections\<close>

type_synonym uuid = nat
type_synonym pyfloat = rat
type_synonym datetime = int
type_synonym str_dict = "(string \<times> string) list"

named_theorems result_simps \<open>unfolding of results that may be exceptions\<close>
named_theorems table_simps \<open>reading and writing rows of a table\<close>

section \<open>Results\<close>

definition ebind :: "'e + 'a \<Rightarrow> ('a \<Rightarrow> 'e + 'b) \<Rightarrow> 'e + 'b" where
  "ebind m f = (case m of Inl e \<Rightarrow> Inl e | Inr x \<Rightarrow> f x)"

definition guard :: "bool \<Rightarrow> 'e \<Rightarrow> 'e + unit" where
  "guard ok e = (if ok then Inr () else Inl e)"

lemma ebind_Inl [simp]: "ebind (Inl e) f = Inl e"
  by (simp add: ebind_def)

lemma ebind_Inr [simp]: "ebind (Inr x) f = f x"
  by (simp add: ebind_def)

lemma ebind_eq_Inr [result_simps]: "ebind m f = Inr y \<longleftrightarrow> (\<exists>x. m = Inr x \<and> f x = Inr y)"
  by (cases m) auto

lemma ebind_eq_Inl [result_simps]:
  "ebind m f = Inl e \<longleftrightarrow> m = Inl e \<or> (\<exists>x. m = Inr x \<and> f x = Inl e)"
  by (cases m) auto

lemma ebind_assoc: "ebind (ebind m f) g = ebind m (\<lambda>x. ebind (f x) g)"
  by (cases m) auto

lemma guard_eq_Inr [simp]: "guard ok e = Inr u \<longleftrightarrow> ok"
  by (simp add: guard_def)

lemma guard_eq_Inl [simp]: "guard ok e = Inl e' \<longleftrightarrow> \<not> ok \<and> e' = e"
  by (auto simp: guard_def)

lemma guard_True [simp]: "guard True e = Inr ()"
  by (simp add: guard_def)

lemma guard_False [simp]: "guard False e = Inl e"
  by (simp add: guard_def)

text \<open>A loop over a list whose body may raise.\<close>

primrec efold :: "('a \<Rightarrow> 's \<Rightarrow> 'e + 's) \<Rightarrow> 'a list \<Rightarrow> 's \<Rightarrow> 'e + 's" where
  "efold f [] s = Inr s"
| "efold f (x # xs) s = ebind (f x s) (efold f xs)"

lemma efold_invariant:
  assumes "efold f xs s = Inr s'" and "P s"
    and "\<And>x s s'. x \<in> set xs \<Longrightarrow> P s \<Longrightarrow> f x s = Inr s' \<Longrightarrow> P s'"
  shows "P s'"
  using assms
proof (induction xs arbitrary: s)
  case Nil
  then show ?case by simp
next
  case (Cons x xs)
  from Cons.prems(1) obtain s1 where s1: "f x s = Inr s1" "efold f xs s1 = Inr s'"
    by (auto simp: ebind_eq_Inr)
  have "P s1" using Cons.prems(3) [OF _ Cons.prems(2) s1(1)] by simp
  then show ?case
  proof (rule Cons.IH [OF s1(2)])
    fix y t t' assume "y \<in> set xs" "P t" "f y t = Inr t'"
    then show "P t'" using Cons.prems(3) [of y t t'] by simp
  qed
qed

text \<open>A list comprehension whose element expression may raise.\<close>

primrec emap :: "('a \<Rightarrow> 'e + 'b) \<Rightarrow> 'a list \<Rightarrow> 'e + 'b list" where
  "emap f [] = Inr []"
| "emap f (x # xs) = ebind (f x) (\<lambda>y. ebind (emap f xs) (\<lambda>ys. Inr (y # ys)))"

lemma emap_Inr_nth: "emap f xs = Inr ys \<Longrightarrow> list_all2 (\<lambda>x y. f x = Inr y) xs ys"
  by (induction xs arbitrary: ys) (auto simp: ebind_eq_Inr)

text \<open>
  A calculus for what holds of the result of an operation that may raise:
  \<open>returns m P\<close> says that \<open>P\<close> holds of the value if \<open>m\<close> returns one. The rules of
  \<open>returns_intros\<close> follow the syntax of an operation and collect the path conditions.
\<close>

definition returns :: "'e + 'a \<Rightarrow> ('a \<Rightarrow> bool) \<Rightarrow> bool" where
  "returns m P \<longleftrightarrow> (\<forall>x. m = Inr x \<longrightarrow> P x)"

lemma returnsD: "returns m P \<Longrightarrow> m = Inr x \<Longrightarrow> P x"
  by (simp add: returns_def)

lemma returns_mono: "returns m P \<Longrightarrow> (\<And>x. P x \<Longrightarrow> Q x) \<Longrightarrow> returns m Q"
  by (simp add: returns_def)

lemma returns_bind: "(\<And>x. m = Inr x \<Longrightarrow> returns (f x) P) \<Longrightarrow> returns (ebind m f) P"
  by (cases m) (simp_all add: returns_def)

lemma returns_Inl: "returns (Inl e) P"
  by (simp add: returns_def)

lemma returns_Inr: "P x \<Longrightarrow> returns (Inr x) P"
  by (simp add: returns_def)

lemma returns_guard: "(b \<Longrightarrow> returns (f ()) P) \<Longrightarrow> returns (ebind (guard b e) f) P"
  by (cases b) (simp_all add: returns_def)

lemma returns_assoc:
  "returns (ebind m (\<lambda>x. ebind (f x) g)) P \<Longrightarrow> returns (ebind (ebind m f) g) P"
  by (simp add: ebind_assoc)

lemma returns_bind_Inr: "returns (f x) P \<Longrightarrow> returns (ebind (Inr x) f) P"
  by simp

lemma returns_bind_Inl: "returns (ebind (Inl e) f) P"
  by (simp add: returns_def)

lemma returns_bind_if:
  "(c \<Longrightarrow> returns (ebind a f) P) \<Longrightarrow> (\<not> c \<Longrightarrow> returns (ebind b f) P)
   \<Longrightarrow> returns (ebind (if c then a else b) f) P"
  by simp

lemma returns_bind_option:
  "(x = None \<Longrightarrow> returns (ebind a f) P) \<Longrightarrow> (\<And>y. x = Some y \<Longrightarrow> returns (ebind (b y) f) P)
   \<Longrightarrow> returns (ebind (case x of None \<Rightarrow> a | Some y \<Rightarrow> b y) f) P"
  by (cases x) simp_all

lemma returns_if:
  "(c \<Longrightarrow> returns a P) \<Longrightarrow> (\<not> c \<Longrightarrow> returns b P) \<Longrightarrow> returns (if c then a else b) P"
  by simp

lemma returns_option:
  "(x = None \<Longrightarrow> returns a P) \<Longrightarrow> (\<And>y. x = Some y \<Longrightarrow> returns (b y) P)
   \<Longrightarrow> returns (case x of None \<Rightarrow> a | Some y \<Rightarrow> b y) P"
  by (cases x) simp_all

lemma returns_pair:
  "(\<And>a b. x = (a, b) \<Longrightarrow> returns (f a b) P) \<Longrightarrow> returns (case x of (a, b) \<Rightarrow> f a b) P"
  by (cases x) simp

lemma returns_let:
  "(\<And>x. x = a \<Longrightarrow> returns (f x) P) \<Longrightarrow> returns (let x = a in f x) P"
  by simp

lemma returns_efold:
  assumes "P s" and "\<And>x s. x \<in> set xs \<Longrightarrow> P s \<Longrightarrow> returns (f x s) P"
  shows "returns (efold f xs s) P"
  using assms efold_invariant [of f xs s _ P] by (auto simp: returns_def)

section \<open>Python's round and timedelta\<close>

definition py_round :: "rat \<Rightarrow> int" where
  "py_round x =
     (let f = \<lfloor>x\<rfloor>; d = x - of_int f
      in if d < 1/2 then f else if d > 1/2 then f + 1 else if even f then f else f + 1)"

lemma py_round_of_int [simp]: "py_round (of_int n) = n"
  by (simp add: py_round_def)

lemma py_round_close: "\<bar>of_int (py_round x) - x\<bar> \<le> 1/2"
proof -
  have "of_int \<lfloor>x\<rfloor> \<le> x" and "x < of_int \<lfloor>x\<rfloor> + 1"
    by linarith+
  then show ?thesis
    unfolding py_round_def Let_def by (auto simp: abs_le_iff)
qed

definition timedelta_seconds :: "rat \<Rightarrow> int" where
  "timedelta_seconds s = py_round (s * 1000000)"

lemma timedelta_seconds_of_int [simp]: "timedelta_seconds (of_int n) = n * 1000000"
proof -
  have "of_int n * 1000000 = (of_int (n * 1000000) :: rat)"
    by simp
  then show ?thesis
    unfolding timedelta_seconds_def by (simp only: py_round_of_int)
qed

definition total_seconds :: "int \<Rightarrow> rat" where
  "total_seconds us = of_int us / 1000000"

section \<open>Rows addressed by key\<close>

text \<open>
  A table is the list of its rows. \<open>tget\<close> reads a row by key, \<open>tput\<close> replaces the
  row with the same key.
\<close>

definition tget :: "('r \<Rightarrow> 'k) \<Rightarrow> 'k \<Rightarrow> 'r list \<Rightarrow> 'r option" where
  "tget key k rows = find (\<lambda>r. key r = k) rows"

definition tput :: "('r \<Rightarrow> 'k) \<Rightarrow> 'r \<Rightarrow> 'r list \<Rightarrow> 'r list" where
  "tput key r rows = map (\<lambda>r'. if key r' = key r then r else r') rows"

lemma tget_Nil [simp]: "tget key k [] = None"
  by (simp add: tget_def)

lemma tget_Cons [simp]:
  "tget key k (r # rows) = (if key r = k then Some r else tget key k rows)"
  by (simp add: tget_def)

lemma tget_append:
  "tget key k (xs @ ys) = (case tget key k xs of None \<Rightarrow> tget key k ys | Some r \<Rightarrow> Some r)"
  by (induction xs) auto

lemma tget_SomeD: "tget key k rows = Some r \<Longrightarrow> r \<in> set rows \<and> key r = k"
  by (induction rows) (auto split: if_splits)

lemma tget_None_iff: "tget key k rows = None \<longleftrightarrow> k \<notin> key ` set rows"
  by (induction rows) auto

lemma tget_Some_iff:
  "distinct (map key rows) \<Longrightarrow> tget key k rows = Some r \<longleftrightarrow> r \<in> set rows \<and> key r = k"
  by (induction rows) (auto simp: image_iff)

lemma tget_key: "tget key k rows = Some r \<Longrightarrow> k \<in> key ` set rows"
  by (metis option.distinct(1) tget_None_iff)

lemma tget_member: "distinct (map key rows) \<Longrightarrow> r \<in> set rows \<Longrightarrow> tget key (key r) rows = Some r"
  by (simp add: tget_Some_iff)

lemma returns_row:
  "(tget key k rows = None \<Longrightarrow> returns a P)
   \<Longrightarrow> (\<And>y. tget key (key y) rows = Some y \<Longrightarrow> k = key y \<Longrightarrow> returns (b y) P)
   \<Longrightarrow> returns (case tget key k rows of None \<Rightarrow> a | Some y \<Rightarrow> b y) P"
  by (cases "tget key k rows") (auto dest: tget_SomeD)

lemma returns_bind_row:
  "(tget key k rows = None \<Longrightarrow> returns (ebind a f) P)
   \<Longrightarrow> (\<And>y. tget key (key y) rows = Some y \<Longrightarrow> k = key y \<Longrightarrow> returns (ebind (b y) f) P)
   \<Longrightarrow> returns (ebind (case tget key k rows of None \<Rightarrow> a | Some y \<Rightarrow> b y) f) P"
  by (cases "tget key k rows") (auto dest: tget_SomeD)

lemmas returns_intros =
  returns_Inl returns_Inr returns_guard returns_assoc returns_bind_Inr returns_bind_Inl returns_bind_if
  returns_bind_row returns_bind_option returns_if returns_row returns_option returns_pair returns_let
  returns_bind

lemma tput_Nil [simp]: "tput key r [] = []"
  by (simp add: tput_def)

lemma tput_Cons [simp]:
  "tput key r (x # xs) = (if key x = key r then r else x) # tput key r xs"
  by (simp add: tput_def)

lemma tput_keys [table_simps]: "map key (tput key r rows) = map key rows"
  by (induction rows) auto

lemma length_tput [simp]: "length (tput key r rows) = length rows"
  by (simp add: tput_def)

lemma tget_tput [table_simps]:
  "tget key k (tput key r rows) =
     (if k = key r \<and> k \<in> key ` set rows then Some r else tget key k rows)"
  by (induction rows) auto

lemma tput_absent: "key r \<notin> key ` set rows \<Longrightarrow> tput key r rows = rows"
  by (induction rows) auto

lemma set_tputD: "x \<in> set (tput key r rows) \<Longrightarrow> x = r \<or> (x \<in> set rows \<and> key x \<noteq> key r)"
  by (auto simp: tput_def split: if_splits)

lemma set_tput:
  assumes "key r \<in> key ` set rows"
  shows "set (tput key r rows) = insert r {x \<in> set rows. key x \<noteq> key r}"
  using assms by (auto simp: tput_def)

lemma tput_tput [simp]: "key r = key r' \<Longrightarrow> tput key r (tput key r' rows) = tput key r rows"
  by (induction rows) auto

lemma tput_same [simp]:
  "distinct (map key rows) \<Longrightarrow> tget key (key r) rows = Some r \<Longrightarrow> tput key r rows = rows"
  by (induction rows) (auto simp: tput_absent image_iff split: if_splits)

lemma tput_split:
  assumes "distinct (map key rows)" and "tget key (key r) rows = Some old"
  shows "\<exists>xs ys. rows = xs @ old # ys \<and> tput key r rows = xs @ r # ys"
  using assms
proof (induction rows)
  case Nil
  then show ?case by simp
next
  case (Cons x rows)
  show ?case
  proof (cases "key x = key r")
    case True
    with Cons.prems have "tput key r rows = rows" and "x = old"
      by (auto intro: tput_absent split: if_splits simp: image_iff)
    with True have "x # rows = [] @ old # rows \<and> tput key r (x # rows) = [] @ r # rows"
      by simp
    then show ?thesis by blast
  next
    case False
    with Cons.prems Cons.IH obtain xs ys
      where "rows = xs @ old # ys" and "tput key r rows = xs @ r # ys"
      by auto
    with False have "x # rows = (x # xs) @ old # ys \<and> tput key r (x # rows) = (x # xs) @ r # ys"
      by simp
    then show ?thesis by blast
  qed
qed

text \<open>A query by ids that finds as many rows as there are ids finds every id.\<close>

lemma query_finds_all:
  assumes "distinct (map key rows)" and "distinct ids" and "length (filter P rows) = length ids"
    and "\<And>r. r \<in> set rows \<Longrightarrow> P r \<Longrightarrow> key r \<in> set ids"
  shows "set ids = key ` set (filter P rows)"
proof (rule card_subset_eq [symmetric])
  have "card (key ` set (filter P rows)) = length (map key (filter P rows))"
    using distinct_card [OF distinct_map_filter [OF assms(1)]] by simp
  then show "card (key ` set (filter P rows)) = card (set ids)"
    using assms(3) distinct_card [OF assms(2)] by simp
qed (use assms(4) in auto)

lemma filter_key_single:
  "distinct (map key rows) \<Longrightarrow> r \<in> set rows \<Longrightarrow> filter (\<lambda>x. key x = key r) rows = [r]"
proof (induction rows)
  case (Cons x xs)
  have x: "key y \<noteq> key x" if "y \<in> set xs" for y
    using Cons.prems(1) imageI [OF that, of key] by auto
  then have "filter (\<lambda>y. key y = key x) xs = []" by (simp add: filter_empty_conv)
  with Cons x show ?case by (cases "r = x") auto
qed simp

text \<open>Writing several rows back: \<open>fold (tput key) new rows\<close>.\<close>

lemma fold_tput_keys [table_simps]: "map key (fold (tput key) new rows) = map key rows"
  by (induction new arbitrary: rows) (simp_all add: tput_keys)

lemma fold_tput_key_set [table_simps]: "key ` set (fold (tput key) new rows) = key ` set rows"
  by (metis fold_tput_keys list.set_map)

lemma tget_fold_tput:
  assumes "distinct (map key new)"
  shows "tget key k (fold (tput key) new rows) =
    (case tget key k new of
       None \<Rightarrow> tget key k rows
     | Some r \<Rightarrow> if k \<in> key ` set rows then Some r else None)"
  using assms
proof (induction new arbitrary: rows)
  case Nil
  then show ?case by simp
next
  case (Cons r new)
  have keys: "key ` set (tput key r rows) = key ` set rows"
    by (metis tput_keys list.set_map)
  have IH: "tget key k (fold (tput key) new (tput key r rows)) =
      (case tget key k new of
         None \<Rightarrow> tget key k (tput key r rows)
       | Some r' \<Rightarrow> if k \<in> key ` set rows then Some r' else None)"
    using Cons.IH [of "tput key r rows", unfolded keys] Cons.prems by simp
  show ?case
  proof (cases "k = key r")
    case True
    then have "tget key k new = None"
      using Cons.prems by (simp add: tget_None_iff)
    then show ?thesis
      using IH True tget_None_iff [of key k rows] by (simp add: tget_tput)
  next
    case False
    then have "tget key k (tput key r rows) = tget key k rows"
      by (simp add: tget_tput)
    then show ?thesis
      using IH False by (cases "tget key k new") simp_all
  qed
qed

text \<open>
  The id of a new row, where the code draws a random UUID: some id that no row of the
  table has.
\<close>

definition fresh_id :: "('r \<Rightarrow> nat) \<Rightarrow> 'r list \<Rightarrow> nat" where
  "fresh_id key rows = Suc (fold max (map key rows) 0)"

lemma fold_max_ge: "a \<le> fold max xs a" for a :: nat
  by (induction xs arbitrary: a) (auto intro: order_trans [OF max.cobounded2])

lemma fold_max_member: "x \<in> set xs \<Longrightarrow> x \<le> fold max xs a" for x :: nat
  by (induction xs arbitrary: a) (auto intro: order_trans [OF max.cobounded1 fold_max_ge])

lemma fresh_id_notin: "fresh_id key rows \<notin> key ` set rows"
proof
  assume "fresh_id key rows \<in> key ` set rows"
  then have "fresh_id key rows \<le> fold max (map key rows) 0"
    by (intro fold_max_member) simp
  then show False by (simp add: fresh_id_def)
qed

text \<open>A sum or a count over a table changes by the difference of the one row replaced.\<close>

lemma tget_fresh: "tget key (fresh_id key rows) rows = None"
  by (simp add: tget_None_iff fresh_id_notin)

lemma sum_list_tput:
  fixes f :: "'r \<Rightarrow> 'n :: ab_group_add"
  assumes "distinct (map key rows)" and "tget key (key r) rows = Some old"
  shows "(\<Sum>x\<leftarrow>tput key r rows. f x) = (\<Sum>x\<leftarrow>rows. f x) - f old + f r"
proof -
  from tput_split [OF assms] obtain xs ys
    where "rows = xs @ old # ys" and "tput key r rows = xs @ r # ys"
    by blast
  then show ?thesis by (simp add: algebra_simps)
qed

section \<open>Least candidates\<close>

lemma sort_key_Nil_iff [simp]: "sort_key k xs = [] \<longleftrightarrow> xs = []"
  by (simp only: length_0_conv [symmetric] length_sort)

lemma hd_sort_key_least:
  assumes "xs \<noteq> []"
  shows "hd (sort_key k xs) \<in> set xs" and "\<And>x. x \<in> set xs \<Longrightarrow> k (hd (sort_key k xs)) \<le> k x"
proof -
  obtain y ys where y: "sort_key k xs = y # ys"
    using assms by (cases "sort_key k xs") simp_all
  then have s: "set xs = insert y (set ys)"
    using set_sort [of k xs] by simp
  then show "hd (sort_key k xs) \<in> set xs"
    using y by simp
  fix x assume "x \<in> set xs"
  moreover have "sorted (map k (y # ys))"
    using sorted_sort_key [of k xs] unfolding y .
  ultimately show "k (hd (sort_key k xs)) \<le> k x"
    using y s by auto
qed

lemma take_sort_key_le:
  assumes "x \<in> set (take n (sort_key k xs))" and "y \<in> set (drop n (sort_key k xs))"
  shows "k x \<le> k y"
proof -
  have "sorted (map k (take n (sort_key k xs) @ drop n (sort_key k xs)))"
    by (simp del: map_append)
  then have "\<forall>a \<in> set (map k (take n (sort_key k xs))). \<forall>b \<in> set (map k (drop n (sort_key k xs))). a \<le> b"
    unfolding map_append sorted_append by blast
  then show ?thesis using assms by simp
qed

lemma set_take_sort_key: "set (take n (sort_key k xs)) \<subseteq> set xs"
  using set_take_subset [of n "sort_key k xs"] by simp

lemma insort_key_map: "insort_key k (f x) (map f xs) = map f (insort_key (k \<circ> f) x xs)"
  by (induction xs) auto

lemma sort_key_map: "sort_key k (map f xs) = map f (sort_key (k \<circ> f) xs)"
  by (induction xs) (simp_all add: insort_key_map o_def)

text \<open>Python's \<open>xs[:n]\<close>: a negative bound counts from the end.\<close>

definition py_take :: "int \<Rightarrow> 'a list \<Rightarrow> 'a list" where
  "py_take n xs = (if n < 0 then take (length xs - nat (- n)) xs else take (nat n) xs)"

lemma py_take_nonneg [simp]: "0 \<le> n \<Longrightarrow> py_take n xs = take (nat n) xs"
  by (simp add: py_take_def)

text \<open>
  A scheduler decision of the code filters candidates by hard constraints, sorts the
  survivors by a tuple of scores and takes the first. The contract of such a decision:
  the chosen candidate is admissible and no admissible candidate has a smaller score;
  nothing is chosen only if nothing is admissible; with injective scores the order in
  which the candidates are listed does not matter.
\<close>

locale ranked_choice =
  fixes admissible :: "'c \<Rightarrow> bool"
    and score :: "'c \<Rightarrow> 'k :: linorder"
    and pick :: "'c list \<Rightarrow> 'c option"
  assumes pick_eq: "pick cs =
    (case sort_key score (filter admissible cs) of [] \<Rightarrow> None | c # _ \<Rightarrow> Some c)"
begin

lemma pick_hd:
  "pick cs = (if filter admissible cs = [] then None
    else Some (hd (sort_key score (filter admissible cs))))"
  by (auto simp: pick_eq split: list.splits)

lemma pick_sound: "pick cs = Some c \<Longrightarrow> c \<in> set cs \<and> admissible c"
  using hd_sort_key_least(1) [of "filter admissible cs" score]
  by (auto simp: pick_hd split: if_splits)

lemma pick_least:
  "pick cs = Some c \<Longrightarrow> c' \<in> set cs \<Longrightarrow> admissible c' \<Longrightarrow> score c \<le> score c'"
  using hd_sort_key_least(2) [of "filter admissible cs" c' score]
  by (auto simp: pick_hd split: if_splits)

lemma pick_None_iff: "pick cs = None \<longleftrightarrow> (\<forall>c \<in> set cs. \<not> admissible c)"
  by (auto simp: pick_hd filter_empty_conv)

lemma pick_order_irrelevant:
  assumes "mset cs = mset cs'" and "inj_on score (set cs)"
  shows "pick cs = pick cs'"
proof -
  have set_eq: "set cs = set cs'"
    using assms(1) by (rule mset_eq_setD)
  show ?thesis
  proof (cases "pick cs")
    case None
    then have "pick cs' = None"
      using set_eq by (simp add: pick_None_iff)
    with None show ?thesis by simp
  next
    case (Some c)
    then have "\<not> (pick cs' = None)"
      using set_eq pick_sound by (auto simp: pick_None_iff)
    then obtain c' where c': "pick cs' = Some c'"
      by auto
    have "score c = score c'"
    proof (rule order_antisym)
      show "score c \<le> score c'"
        using pick_sound [OF c'] set_eq by (intro pick_least [OF Some]) auto
      show "score c' \<le> score c"
        using pick_sound [OF Some] set_eq by (intro pick_least [OF c']) auto
    qed
    moreover have "c \<in> set cs" and "c' \<in> set cs"
      using pick_sound [OF Some] pick_sound [OF c'] set_eq by simp_all
    ultimately have "c = c'"
      by (rule inj_onD [OF assms(2)])
    with Some c' show ?thesis by simp
  qed
qed

end

section \<open>Ledgers\<close>

text \<open>
  Capacity is acquired and released in several places of the code, each time with a
  demand vector that is added to and later subtracted from persistent counters. The
  contract of such a ledger is what one successful acquire or release does to every
  counter; the client's facts are that a history of acquires and releases leaves each
  counter at its start plus the demands still held, and that balanced histories restore
  the counters.
\<close>

datatype ('r, 'x) ledger_op = Acquire 'r 'x | Release 'r 'x

locale ledger =
  fixes usage :: "'s \<Rightarrow> 'k \<Rightarrow> int"
    and demand :: "'r \<Rightarrow> 'k \<Rightarrow> int"
    and acquire :: "'r \<Rightarrow> 'x \<Rightarrow> 's \<Rightarrow> 'e + 's"
    and release :: "'r \<Rightarrow> 'x \<Rightarrow> 's \<Rightarrow> 'e + 's"
  assumes acquire_usage: "acquire r x s = Inr s' \<Longrightarrow> usage s' k = usage s k + demand r k"
    and release_usage: "release r x s = Inr s' \<Longrightarrow> usage s' k = usage s k - demand r k"
begin

primrec run_op :: "('r, 'x) ledger_op \<Rightarrow> 's \<Rightarrow> 'e + 's" where
  "run_op (Acquire r x) s = acquire r x s"
| "run_op (Release r x) s = release r x s"

primrec run_ops :: "('r, 'x) ledger_op list \<Rightarrow> 's \<Rightarrow> 'e + 's" where
  "run_ops [] s = Inr s"
| "run_ops (x # xs) s = ebind (run_op x s) (run_ops xs)"

primrec op_effect :: "('r, 'x) ledger_op \<Rightarrow> 'k \<Rightarrow> int" where
  "op_effect (Acquire r x) k = demand r k"
| "op_effect (Release r x) k = - demand r k"

lemma run_op_usage: "run_op x s = Inr s' \<Longrightarrow> usage s' k = usage s k + op_effect x k"
  by (cases x) (auto dest: acquire_usage release_usage)

lemma run_ops_usage:
  "run_ops xs s = Inr s' \<Longrightarrow> usage s' k = usage s k + (\<Sum>x\<leftarrow>xs. op_effect x k)"
  by (induction xs arbitrary: s) (auto simp: ebind_eq_Inr dest: run_op_usage)

lemma held_usage:
  assumes "run_ops xs s = Inr s'"
    and "mset [r. Acquire r _ \<leftarrow> xs] = mset [r. Release r _ \<leftarrow> xs] + mset held"
  shows "usage s' k = usage s k + (\<Sum>r\<leftarrow>held. demand r k)"
proof -
  have "(\<Sum>x\<leftarrow>xs. op_effect x k) =
      (\<Sum>r\<leftarrow>[r. Acquire r _ \<leftarrow> xs]. demand r k) - (\<Sum>r\<leftarrow>[r. Release r _ \<leftarrow> xs]. demand r k)"
    by (induction xs) (auto split: ledger_op.splits)
  moreover have "(\<Sum>r\<leftarrow>[r. Acquire r _ \<leftarrow> xs]. demand r k) =
      (\<Sum>r\<leftarrow>[r. Release r _ \<leftarrow> xs]. demand r k) + (\<Sum>r\<leftarrow>held. demand r k)"
    using arg_cong [OF assms(2), of "\<lambda>m. sum_mset (image_mset (\<lambda>r. demand r k) m)"]
    by (simp flip: sum_mset_sum_list)
  ultimately show ?thesis
    using run_ops_usage [OF assms(1), of k] by linarith
qed

lemma balanced_usage:
  "run_ops xs s = Inr s' \<Longrightarrow> mset [r. Acquire r _ \<leftarrow> xs] = mset [r. Release r _ \<leftarrow> xs]
   \<Longrightarrow> usage s' k = usage s k"
  using held_usage [of xs s s' "[]" k] by simp

end

end
