(* ===== verification/Task_Status.thy ===== *)
theory Task_Status
  imports Prelude
begin

text \<open>
  The enumerations of \<open>core/enums.py\<close> and the explicit task state graph of
  \<open>core/state_machine.py\<close>. A constructor carries the initials of its Python enum
  (\<open>TS\<close> for \<open>TaskStatus\<close>, \<open>WS\<close> for \<open>WorkerStatus\<close>, and so on). The theory
  ends with the graph's shape: the dead ends, which statuses own an execution, and that
  an execution can only be reached through an assignment.
\<close>

section \<open>Enumerations\<close>

datatype accelerator_vendor = NVIDIA | HUAWEI_ASCEND

datatype accelerator_kind = GPU | NPU

datatype accelerator_selection_policy =
  SP_ANY | SP_NVIDIA_ONLY | SP_ASCEND_ONLY | SP_PREFER_NVIDIA | SP_PREFER_ASCEND

datatype allocation_authority = CONTROL_PLANE_EXACT_DEVICE | KUBERNETES_DEVICE_PLUGIN

datatype task_status =
    TS_PENDING | TS_QUEUED | TS_SCHEDULING | TS_ASSIGNED | TS_PREPARING | TS_PULLING
  | TS_STARTING | TS_RUNNING | TS_PREEMPTING | TS_PREEMPTED | TS_STOPPING | TS_SUCCEEDED
  | TS_FAILED | TS_CANCELLED | TS_TIMED_OUT | TS_RETRYING

datatype worker_status = WS_ONLINE | WS_OFFLINE | WS_DRAINING

datatype log_stream = LS_STDOUT | LS_STDERR | LS_SYSTEM

datatype runtime_type = RT_DOCKER | RT_KUBERNETES | RT_FAKE

datatype workload_type = WT_BATCH_JOB | WT_MODEL_SERVICE

datatype retry_backoff = RB_EXPONENTIAL | RB_LINEAR | RB_FIXED

datatype error_category =
    EC_USER_ERROR | EC_INFRA_ERROR | EC_RESOURCE_ERROR | EC_TIMEOUT | EC_PREEMPTED
  | EC_CANCELLED | EC_INTERNAL_ERROR

datatype error_code =
    IMAGE_PULL_FAILED | CONTAINER_START_FAILED | OOM_KILLED | GPU_UNAVAILABLE | WORKER_LOST
  | LEASE_EXPIRED | MODEL_LOAD_FAILED | MODEL_LOAD_TIMEOUT | REPLICA_UNHEALTHY
  | NO_HEALTHY_REPLICA | UPSTREAM_CONNECT_TIMEOUT | INFERENCE_REQUEST_TIMEOUT
  | UPSTREAM_DISCONNECTED | GPU_ALLOCATION_FAILED | KUBERNETES_ARTIFACTS_UNSUPPORTED

datatype project_role = PR_OWNER | PR_ADMIN | PR_MEMBER | PR_VIEWER

definition FINAL_TASK_STATUSES :: "task_status set" where
  "FINAL_TASK_STATUSES = {TS_SUCCEEDED, TS_FAILED, TS_CANCELLED, TS_TIMED_OUT, TS_PREEMPTED}"

definition ACTIVE_TASK_STATUSES :: "task_status set" where
  "ACTIVE_TASK_STATUSES =
     {TS_SCHEDULING, TS_ASSIGNED, TS_PREPARING, TS_PULLING, TS_STARTING, TS_RUNNING,
      TS_PREEMPTING, TS_STOPPING}"

text \<open>The \<open>StrEnum\<close> values that are written to columns or compared as text.\<close>

fun task_status_value :: "task_status \<Rightarrow> string" where
  "task_status_value TS_PENDING = ''pending''"
| "task_status_value TS_QUEUED = ''queued''"
| "task_status_value TS_SCHEDULING = ''scheduling''"
| "task_status_value TS_ASSIGNED = ''assigned''"
| "task_status_value TS_PREPARING = ''preparing''"
| "task_status_value TS_PULLING = ''pulling''"
| "task_status_value TS_STARTING = ''starting''"
| "task_status_value TS_RUNNING = ''running''"
| "task_status_value TS_PREEMPTING = ''preempting''"
| "task_status_value TS_PREEMPTED = ''preempted''"
| "task_status_value TS_STOPPING = ''stopping''"
| "task_status_value TS_SUCCEEDED = ''succeeded''"
| "task_status_value TS_FAILED = ''failed''"
| "task_status_value TS_CANCELLED = ''cancelled''"
| "task_status_value TS_TIMED_OUT = ''timed_out''"
| "task_status_value TS_RETRYING = ''retrying''"

fun accelerator_vendor_value :: "accelerator_vendor \<Rightarrow> string" where
  "accelerator_vendor_value NVIDIA = ''nvidia''"
| "accelerator_vendor_value HUAWEI_ASCEND = ''huawei-ascend''"

definition accelerator_vendor_of :: "string \<Rightarrow> accelerator_vendor option" where
  "accelerator_vendor_of v =
     find (\<lambda>vendor. accelerator_vendor_value vendor = v) [NVIDIA, HUAWEI_ASCEND]"

lemma accelerator_vendor_of_value [simp]:
  "accelerator_vendor_of (accelerator_vendor_value vendor) = Some vendor"
  by (cases vendor) (simp_all add: accelerator_vendor_of_def)

fun accelerator_kind_value :: "accelerator_kind \<Rightarrow> string" where
  "accelerator_kind_value GPU = ''gpu''"
| "accelerator_kind_value NPU = ''npu''"

fun runtime_type_value :: "runtime_type \<Rightarrow> string" where
  "runtime_type_value RT_DOCKER = ''docker''"
| "runtime_type_value RT_KUBERNETES = ''kubernetes''"
| "runtime_type_value RT_FAKE = ''fake''"

fun error_category_value :: "error_category \<Rightarrow> string" where
  "error_category_value EC_USER_ERROR = ''USER_ERROR''"
| "error_category_value EC_INFRA_ERROR = ''INFRA_ERROR''"
| "error_category_value EC_RESOURCE_ERROR = ''RESOURCE_ERROR''"
| "error_category_value EC_TIMEOUT = ''TIMEOUT''"
| "error_category_value EC_PREEMPTED = ''PREEMPTED''"
| "error_category_value EC_CANCELLED = ''CANCELLED''"
| "error_category_value EC_INTERNAL_ERROR = ''INTERNAL_ERROR''"

definition error_categories :: "error_category list" where
  "error_categories =
     [EC_USER_ERROR, EC_INFRA_ERROR, EC_RESOURCE_ERROR, EC_TIMEOUT, EC_PREEMPTED, EC_CANCELLED,
      EC_INTERNAL_ERROR]"

definition error_category_of :: "string \<Rightarrow> error_category option" where
  "error_category_of v = find (\<lambda>c. error_category_value c = v) error_categories"

lemma error_category_of_value [simp]: "error_category_of (error_category_value c) = Some c"
  by (cases c) (simp_all add: error_category_of_def error_categories_def)

fun error_code_value :: "error_code \<Rightarrow> string" where
  "error_code_value IMAGE_PULL_FAILED = ''IMAGE_PULL_FAILED''"
| "error_code_value CONTAINER_START_FAILED = ''CONTAINER_START_FAILED''"
| "error_code_value OOM_KILLED = ''OOM_KILLED''"
| "error_code_value GPU_UNAVAILABLE = ''GPU_UNAVAILABLE''"
| "error_code_value WORKER_LOST = ''WORKER_LOST''"
| "error_code_value LEASE_EXPIRED = ''LEASE_EXPIRED''"
| "error_code_value MODEL_LOAD_FAILED = ''MODEL_LOAD_FAILED''"
| "error_code_value MODEL_LOAD_TIMEOUT = ''MODEL_LOAD_TIMEOUT''"
| "error_code_value REPLICA_UNHEALTHY = ''REPLICA_UNHEALTHY''"
| "error_code_value NO_HEALTHY_REPLICA = ''NO_HEALTHY_REPLICA''"
| "error_code_value UPSTREAM_CONNECT_TIMEOUT = ''UPSTREAM_CONNECT_TIMEOUT''"
| "error_code_value INFERENCE_REQUEST_TIMEOUT = ''INFERENCE_REQUEST_TIMEOUT''"
| "error_code_value UPSTREAM_DISCONNECTED = ''UPSTREAM_DISCONNECTED''"
| "error_code_value GPU_ALLOCATION_FAILED = ''GPU_ALLOCATION_FAILED''"
| "error_code_value KUBERNETES_ARTIFACTS_UNSUPPORTED = ''KUBERNETES_ARTIFACTS_UNSUPPORTED''"

section \<open>The task state graph\<close>

datatype transition_error = InvalidTaskTransition task_status task_status

fun ALLOWED_TRANSITIONS :: "task_status \<Rightarrow> task_status set" where
  "ALLOWED_TRANSITIONS TS_PENDING = {TS_QUEUED, TS_CANCELLED}"
| "ALLOWED_TRANSITIONS TS_QUEUED = {TS_SCHEDULING, TS_ASSIGNED, TS_CANCELLED}"
| "ALLOWED_TRANSITIONS TS_SCHEDULING = {TS_QUEUED, TS_ASSIGNED, TS_CANCELLED}"
| "ALLOWED_TRANSITIONS TS_ASSIGNED =
     {TS_PREPARING, TS_PULLING, TS_STOPPING, TS_PREEMPTING, TS_CANCELLED, TS_FAILED, TS_TIMED_OUT}"
| "ALLOWED_TRANSITIONS TS_PREPARING =
     {TS_PULLING, TS_STARTING, TS_STOPPING, TS_PREEMPTING, TS_FAILED, TS_TIMED_OUT}"
| "ALLOWED_TRANSITIONS TS_PULLING =
     {TS_STARTING, TS_RUNNING, TS_STOPPING, TS_PREEMPTING, TS_CANCELLED, TS_FAILED, TS_TIMED_OUT}"
| "ALLOWED_TRANSITIONS TS_STARTING =
     {TS_RUNNING, TS_STOPPING, TS_PREEMPTING, TS_FAILED, TS_TIMED_OUT}"
| "ALLOWED_TRANSITIONS TS_RUNNING =
     {TS_STOPPING, TS_PREEMPTING, TS_SUCCEEDED, TS_FAILED, TS_CANCELLED, TS_TIMED_OUT}"
| "ALLOWED_TRANSITIONS TS_STOPPING = {TS_CANCELLED, TS_FAILED, TS_TIMED_OUT}"
| "ALLOWED_TRANSITIONS TS_PREEMPTING = {TS_PREEMPTED, TS_FAILED, TS_CANCELLED}"
| "ALLOWED_TRANSITIONS TS_PREEMPTED = {TS_RETRYING}"
| "ALLOWED_TRANSITIONS TS_FAILED = {TS_RETRYING}"
| "ALLOWED_TRANSITIONS TS_TIMED_OUT = {TS_RETRYING}"
| "ALLOWED_TRANSITIONS TS_RETRYING = {TS_QUEUED, TS_CANCELLED}"
| "ALLOWED_TRANSITIONS TS_SUCCEEDED = {}"
| "ALLOWED_TRANSITIONS TS_CANCELLED = {}"

definition ensure_transition :: "task_status \<Rightarrow> task_status \<Rightarrow> transition_error + unit" where
  "ensure_transition current target =
     (if target \<notin> ALLOWED_TRANSITIONS current then Inl (InvalidTaskTransition current target)
      else Inr ())"

definition can_transition :: "task_status \<Rightarrow> task_status \<Rightarrow> bool" where
  "can_transition current target = (target \<in> ALLOWED_TRANSITIONS current)"

section \<open>Paths through the graph\<close>

inductive status_path :: "task_status \<Rightarrow> task_status list \<Rightarrow> task_status \<Rightarrow> bool" where
  path_stop: "status_path s [] s"
| path_step: "ensure_transition s t = Inr () \<Longrightarrow> status_path t ts u \<Longrightarrow> status_path s (t # ts) u"

inductive_cases status_path_NilE: "status_path s [] u"
inductive_cases status_path_ConsE: "status_path s (t # ts) u"

lemma ensure_transition_iff [simp]:
  "ensure_transition s t = Inr u \<longleftrightarrow> t \<in> ALLOWED_TRANSITIONS s"
  by (auto simp: ensure_transition_def)

lemma ensure_transition_Inl [simp]:
  "ensure_transition s t = Inl e \<longleftrightarrow> t \<notin> ALLOWED_TRANSITIONS s \<and> e = InvalidTaskTransition s t"
  by (auto simp: ensure_transition_def)

lemma final_not_active: "FINAL_TASK_STATUSES \<inter> ACTIVE_TASK_STATUSES = {}"
  by (simp add: FINAL_TASK_STATUSES_def ACTIVE_TASK_STATUSES_def)

text \<open>
  The statuses in which the control plane lets a worker own the task's execution: the
  active ones less \<open>SCHEDULING\<close>, in which no execution token exists yet.
\<close>

definition owned_statuses :: "task_status set" where
  "owned_statuses = ACTIVE_TASK_STATUSES - {TS_SCHEDULING}"

lemma enter_owned:
  "t \<in> ALLOWED_TRANSITIONS s \<Longrightarrow> t \<in> owned_statuses \<Longrightarrow> s \<notin> owned_statuses \<Longrightarrow> t = TS_ASSIGNED"
  by (cases s) (auto simp: owned_statuses_def ACTIVE_TASK_STATUSES_def)

lemma path_through_assigned:
  assumes "status_path s ts u" and "s \<notin> owned_statuses" and "u \<in> owned_statuses"
  shows "TS_ASSIGNED \<in> set ts"
  using assms
proof (induction rule: status_path.induct)
  case (path_stop s)
  then show ?case by simp
next
  case (path_step s t ts u)
  show ?case
  proof (cases "t \<in> owned_statuses")
    case True
    with path_step.hyps(1) path_step.prems(1) have "t = TS_ASSIGNED"
      by (auto intro: enter_owned)
    then show ?thesis by simp
  next
    case False
    with path_step.IH path_step.prems(2) show ?thesis by simp
  qed
qed

lemma leave_final: "t \<in> ALLOWED_TRANSITIONS s \<Longrightarrow> s \<in> FINAL_TASK_STATUSES \<Longrightarrow> t = TS_RETRYING"
  by (cases s) (auto simp: FINAL_TASK_STATUSES_def)

lemma leave_retrying:
  "t \<in> ALLOWED_TRANSITIONS TS_RETRYING \<Longrightarrow> t = TS_QUEUED \<or> t = TS_CANCELLED"
  by simp

text \<open>
  C19. A task can only come to be owned by a worker (assigned, preparing, pulling,
  starting, running, stopping or preempting) through the status ASSIGNED: every path of
  legal transitions from an unowned status to an owned one passes ASSIGNED.
\<close>

theorem owned_only_through_assigned:
  assumes "status_path s ts u" and "s \<notin> owned_statuses" and "u \<in> owned_statuses"
  shows "TS_ASSIGNED \<in> set ts"
  using assms by (rule path_through_assigned)

theorem owned_only_through_assigned_witness:
  "status_path TS_PENDING [TS_QUEUED, TS_ASSIGNED, TS_PULLING, TS_RUNNING] TS_RUNNING
   \<and> TS_ASSIGNED \<in> set [TS_QUEUED, TS_ASSIGNED, TS_PULLING, TS_RUNNING]"
proof -
  have p: "status_path TS_PENDING [TS_QUEUED, TS_ASSIGNED, TS_PULLING, TS_RUNNING] TS_RUNNING"
    by (intro status_path.intros) simp_all
  have "TS_PENDING \<notin> owned_statuses" and "TS_RUNNING \<in> owned_statuses"
    by (simp_all add: owned_statuses_def ACTIVE_TASK_STATUSES_def)
  with owned_only_through_assigned [OF p] p show ?thesis by blast
qed

text \<open>
  C20. The final statuses are stable: no path of legal transitions leaves SUCCEEDED or
  CANCELLED, and a path out of FAILED, TIMED\_OUT or PREEMPTED goes on through RETRYING,
  so that a finished attempt is never resumed in place.
\<close>

theorem final_statuses_stable:
  assumes "status_path s (t # ts) u" and "s \<in> FINAL_TASK_STATUSES"
  shows "s \<in> {TS_FAILED, TS_TIMED_OUT, TS_PREEMPTED} \<and> t = TS_RETRYING \<and>
         (ts = [] \<or> hd ts \<in> {TS_QUEUED, TS_CANCELLED})"
proof -
  from assms(1) have t: "t \<in> ALLOWED_TRANSITIONS s" and rest: "status_path t ts u"
    by (auto elim: status_path_ConsE)
  from t assms(2) have "t = TS_RETRYING"
    by (rule leave_final)
  moreover from t this have "s \<in> {TS_FAILED, TS_TIMED_OUT, TS_PREEMPTED}"
    by (cases s) auto
  moreover from rest \<open>t = TS_RETRYING\<close> have "ts = [] \<or> hd ts \<in> {TS_QUEUED, TS_CANCELLED}"
    by (cases ts) (auto elim: status_path_ConsE)
  ultimately show ?thesis by blast
qed

theorem final_statuses_stable_witness:
  "status_path TS_FAILED [TS_RETRYING, TS_QUEUED] TS_QUEUED \<and> TS_FAILED \<in> FINAL_TASK_STATUSES \<and>
   (TS_RETRYING :: task_status) = TS_RETRYING \<and> hd [TS_QUEUED] \<in> {TS_QUEUED, TS_CANCELLED}"
proof -
  have p: "status_path TS_FAILED [TS_RETRYING, TS_QUEUED] TS_QUEUED"
    by (intro status_path.intros) simp_all
  have f: "TS_FAILED \<in> FINAL_TASK_STATUSES"
    by (simp add: FINAL_TASK_STATUSES_def)
  from final_statuses_stable [OF p f] p f show ?thesis by simp
qed

text \<open>No task is trapped: one step leads from every status to a final one, or it is one.\<close>

lemma final_status_near:
  "s \<in> FINAL_TASK_STATUSES \<or> (\<exists>t \<in> FINAL_TASK_STATUSES. can_transition s t)"
  by (cases s) (auto simp: FINAL_TASK_STATUSES_def can_transition_def)

end
