(* ===== verification/Models.thy ===== *)
theory Models
  imports Task_Status
begin

text \<open>
  The rows of \<open>models/task.py\<close>, \<open>models/worker.py\<close>, \<open>models/usage.py\<close>,
  \<open>models/scheduling.py\<close>, \<open>models/outbox.py\<close> and the \<open>TaskDependency\<close> row of
  \<open>models/artifact.py\<close> as records, and the database as a record of tables. A column
  keeps its name behind a prefix of its row type. Left out are columns that no modelled
  operation reads or writes after the insert that fills them in (image, command,
  environment, network settings, submitter ids, price columns of unrelated rows, the
  accelerator profile snapshot of a task and the bookkeeping of inventory generations).

  The tables are grouped by record extension, so that an operation is stated on the
  tables it uses and applies to every database that contains them.
\<close>

section \<open>Exceptions of the repository layer\<close>

datatype repo_error =
    ValueError
  | QuotaNotFoundError
  | QuotaInvariantViolation
  | QuotaExceededError string rat rat
  | ResourceInvariantViolation
  | AllocationObservationConflict
  | ClaimRejected string
  | StaleExecutionError
  | DependencyValidationError
  | LookupError
  | TransitionError transition_error
  | IntegrityError string

section \<open>Project quotas\<close>

datatype project_status = PS_ACTIVE | PS_SUSPENDED | PS_DELETED

record project =
  p_id :: uuid
  p_status :: project_status

record project_quota =
  q_project_id :: uuid
  q_max_queued_tasks :: "int option"
  q_max_running_tasks :: "int option"
  q_max_cpu_millicores :: "int option"
  q_max_memory_mb :: "int option"
  q_max_gpus :: "int option"
  q_max_nvidia_gpus :: "int option"
  q_max_ascend_npus :: "int option"
  q_max_services :: "int option"
  q_max_service_replicas :: "int option"
  q_max_artifact_bytes :: "int option"
  q_daily_cost_limit :: "rat option"
  q_version :: int
  q_updated_at :: datetime

record project_quota_state =
  qs_project_id :: uuid
  qs_queued_tasks :: int
  qs_running_tasks :: int
  qs_reserved_cpu_millicores :: int
  qs_reserved_memory_mb :: int
  qs_reserved_gpus :: int
  qs_reserved_nvidia_gpus :: int
  qs_reserved_ascend_npus :: int
  qs_service_count :: int
  qs_service_replicas :: int
  qs_service_reserved_cpu_millicores :: int
  qs_service_reserved_memory_mb :: int
  qs_service_reserved_gpus :: int
  qs_service_reserved_nvidia_gpus :: int
  qs_service_reserved_ascend_npus :: int
  qs_artifact_bytes :: int
  qs_accounting_date :: int
  qs_daily_reserved_cost :: rat
  qs_daily_settled_cost :: rat
  qs_version :: int
  qs_updated_at :: datetime

record quota_db =
  tb_projects :: "project list"
  tb_quotas :: "project_quota list"
  tb_quota_states :: "project_quota_state list"

section \<open>Outbox\<close>

datatype json =
    JNull
  | JStr string
  | JUuid uuid
  | JNum rat
  | JStatus task_status

record outbox_event =
  o_id :: uuid
  o_aggregate_id :: uuid
  o_event_type :: string
  o_payload :: "(string \<times> json) list"
  o_created_at :: datetime
  o_available_at :: datetime
  o_processed_at :: "datetime option"
  o_locked_by :: "uuid option"
  o_locked_until :: "datetime option"
  o_attempts :: int
  o_last_error :: "string option"

record outbox_db = quota_db +
  tb_outbox :: "outbox_event list"

section \<open>Tasks, workers and reservations\<close>

record runtime_handle =
  h_runtime_type :: string
  h_runtime_namespace :: "string option"
  h_runtime_resource_kind :: string
  h_runtime_resource_name :: string
  h_runtime_resource_uid :: "string option"
  h_runtime_worker_session_id :: "uuid option"
  h_observed_pod_name :: "string option"
  h_observed_pod_uid :: "string option"
  h_runtime_spec_hash :: "string option"
  h_runtime_log_cursor_bytes :: int

record task =
  t_id :: uuid
  t_project_id :: uuid
  t_runtime_type :: runtime_type
  t_status :: task_status
  t_created_at :: datetime
  t_queued_at :: "datetime option"
  t_assigned_at :: "datetime option"
  t_started_at :: "datetime option"
  t_finished_at :: "datetime option"
  t_worker_id :: "string option"
  t_execution_id :: "uuid option"
  t_lease_expires_at :: "datetime option"
  t_exit_code :: "int option"
  t_error_message :: "string option"
  t_timeout_seconds :: int
  t_retry_count :: int
  t_max_retries :: int
  t_retry_backoff :: retry_backoff
  t_retry_base_seconds :: pyfloat
  t_retry_max_seconds :: pyfloat
  t_retry_on_exit_codes :: "int list"
  t_recovery_count :: int
  t_next_attempt_at :: "datetime option"
  t_cpu_limit :: pyfloat
  t_cpu_millicores :: int
  t_memory_limit_mb :: int
  t_gpu_count :: int
  t_gpu_memory_mb :: int
  t_gpu_model :: "string option"
  t_gpu_device_ids :: "string list"
  t_labels :: str_dict
  t_tolerations :: "str_dict list"
  t_priority :: int
  t_queue_order :: int
  t_preemptible :: bool
  t_preemption_count :: int
  t_requeue_on_preempt :: bool
  t_unschedulable_reason :: "string option"
  t_failure_category :: "string option"
  t_error_category :: "string option"
  t_error_code :: "string option"
  t_runtime_handle :: "runtime_handle option"
  t_cancel_requested :: bool
  t_duration_ms :: "int option"
  t_cpu_seconds :: "pyfloat option"
  t_gpu_seconds :: "pyfloat option"
  t_wall_time_seconds :: "pyfloat option"
  t_estimated_cost :: "pyfloat option"
  t_idempotency_key :: "string option"
  t_request_hash :: "string option"
  t_version :: int
  t_log_sequence :: int

record task_log =
  g_task_id :: uuid
  g_execution_id :: "uuid option"
  g_timestamp :: datetime
  g_stream :: log_stream
  g_sequence :: int
  g_content :: string

record task_event =
  e_project_id :: uuid
  e_task_id :: uuid
  e_event_type :: string
  e_sequence :: int
  e_from_status :: "task_status option"
  e_status :: task_status
  e_execution_id :: "uuid option"
  e_worker_id :: "string option"
  e_created_at :: datetime

record worker =
  w_id :: string
  w_worker_session_id :: uuid
  w_hostname :: string
  w_node_name :: "string option"
  w_runtime_types :: "string list"
  w_status :: worker_status
  w_started_at :: datetime
  w_last_heartbeat_at :: datetime
  w_running_tasks :: int
  w_concurrency :: int
  w_reserved_cpu :: pyfloat
  w_reserved_memory_mb :: int
  w_reserved_gpus :: int
  w_cpu_count :: int
  w_cpu_total_millicores :: int
  w_cpu_allocatable_millicores :: int
  w_memory_total_mb :: int
  w_memory_allocatable_mb :: int
  w_docker_version :: "string option"
  w_labels :: str_dict
  w_taints :: "str_dict list"
  w_gpu_count :: int
  w_gpu_model :: "string option"
  w_gpu_memory_mb :: int
  w_inventory_generation :: int
  w_inventory_updated_at :: datetime
  w_overcommitted :: bool
  w_drain_reason :: "string option"
  w_version :: int

record task_execution =
  x_id :: uuid
  x_task_id :: uuid
  x_project_id :: uuid
  x_worker_id :: "string option"
  x_worker_session_id :: "uuid option"
  x_attempt :: int
  x_status :: task_status
  x_cpu_millicores :: int
  x_memory_mb :: int
  x_gpu_count :: int
  x_gpu_model :: "string option"
  x_allocation_authority :: allocation_authority
  x_requested_vendor :: "string option"
  x_requested_kind :: "string option"
  x_observed_device_ids_json :: "string list option"
  x_observed_vendor :: "string option"
  x_observed_at :: "datetime option"
  x_cpu_price_per_hour :: rat
  x_memory_price_per_gb_hour :: rat
  x_gpu_price_per_hour :: rat
  x_assigned_at :: datetime
  x_started_at :: "datetime option"
  x_finished_at :: "datetime option"
  x_runtime_type :: runtime_type
  x_runtime_object_id :: "string option"
  x_runtime_namespace :: "string option"
  x_runtime_resource_kind :: "string option"
  x_runtime_resource_name :: "string option"
  x_runtime_resource_uid :: "string option"
  x_runtime_worker_session_id :: "uuid option"
  x_observed_pod_name :: "string option"
  x_observed_pod_uid :: "string option"
  x_runtime_spec_hash :: "string option"
  x_error_category :: "string option"
  x_error_code :: "string option"
  x_error_message :: "string option"

record resource_reservation =
  r_id :: uuid
  r_project_id :: uuid
  r_task_id :: uuid
  r_execution_id :: uuid
  r_worker_id :: string
  r_worker_session_id :: uuid
  r_cpu_millicores :: int
  r_memory_mb :: int
  r_gpu_count :: int
  r_allocation_authority :: allocation_authority
  r_requested_vendor :: "string option"
  r_requested_kind :: "string option"
  r_observed_device_ids_json :: "string list option"
  r_observed_vendor :: "string option"
  r_observed_at :: "datetime option"
  r_state :: string
  r_legacy_unbound :: bool
  r_created_at :: datetime
  r_released_at :: "datetime option"
  r_release_reason :: "string option"
  r_version :: int

record reservation_gpu_device =
  l_id :: uuid
  l_reservation_id :: uuid
  l_gpu_device_id :: uuid
  l_created_at :: datetime
  l_released_at :: "datetime option"

record gpu_device =
  d_id :: uuid
  d_worker_id :: string
  d_device_uuid :: string
  d_device_index :: int
  d_vendor :: string
  d_accelerator_kind :: string
  d_model :: string
  d_memory_total_mb :: int
  d_memory_free_mb :: int
  d_compute_capability :: "string option"
  d_compute_arch :: "string option"
  d_runtime_profile_ids :: "string list"
  d_capabilities_json :: "string list"
  d_kubernetes_resource_name :: "string option"
  d_kubernetes_node_name :: "string option"
  d_health :: string
  d_fake :: bool
  d_inventory_generation :: int
  d_last_seen_at :: datetime

record usage_ledger =
  u_project_id :: uuid
  u_task_id :: uuid
  u_execution_id :: uuid
  u_started_at :: datetime
  u_finished_at :: datetime
  u_cpu_seconds :: rat
  u_memory_gb_seconds :: rat
  u_gpu_seconds :: rat
  u_gpu_model :: "string option"
  u_cost :: rat

record preemption_plan =
  pp_id :: uuid
  pp_incoming_task_id :: uuid
  pp_victim_task_id :: uuid
  pp_worker_id :: string
  pp_state :: string
  pp_created_at :: datetime
  pp_completed_at :: "datetime option"

record task_dependency =
  dep_task_id :: uuid
  dep_depends_on_task_id :: uuid
  dep_job_group_id :: "uuid option"
  dep_failure_policy :: string

record task_db = outbox_db +
  tb_tasks :: "task list"
  tb_task_logs :: "task_log list"
  tb_task_events :: "task_event list"
  tb_workers :: "worker list"
  tb_task_executions :: "task_execution list"
  tb_reservations :: "resource_reservation list"
  tb_reservation_devices :: "reservation_gpu_device list"
  tb_gpu_devices :: "gpu_device list"
  tb_usage_ledger :: "usage_ledger list"
  tb_preemption_plans :: "preemption_plan list"
  tb_task_dependencies :: "task_dependency list"

text \<open>A transaction: an exception rolls every change back.\<close>

type_synonym 'a tx = "repo_error + task_db \<times> 'a"

end
