(* ===== verification/Policies.thy ===== *)
theory Policies
  imports Models
begin

text \<open>
  The placement policy \<open>scheduler/policies.py\<close>: the hard constraints a worker must meet
  (\<open>evaluate_snapshot\<close>, and the pre-check \<open>evaluate\<close> on database rows), the choice of a
  worker and of concrete devices (\<open>choose_placement\<close>), aging of priorities and dominant
  shares. The lemmas give a declarative reading of the constraints, soundness, optimality
  and completeness of the choice, and the bounds of aging.
\<close>

section \<open>Snapshots\<close>

datatype rejection_reason =
    TASK_NOT_FOUND | TASK_NOT_QUEUED | TASK_CANCELLED | WORKER_NOT_FOUND | WORKER_NOT_ONLINE
  | WORKER_AT_CAPACITY | INSUFFICIENT_CPU | INSUFFICIENT_MEMORY | INSUFFICIENT_GPU
  | LABEL_MISMATCH | RUNTIME_MISMATCH | TAINT_NOT_TOLERATED | GPU_MODEL_MISMATCH
  | INSUFFICIENT_GPU_MEMORY | WORKER_OVERCOMMITTED

record scheduling_decision =
  sd_allowed :: bool
  sd_reason :: "rejection_reason option"

record gpu_device_snapshot =
  gd_id :: string
  gd_uuid :: string
  gd_model :: string
  gd_memory_total_mb :: int
  gd_memory_free_mb :: "int option"
  gd_healthy :: bool
  gd_allocated :: bool

record worker_snapshot =
  ws_id :: string
  ws_status :: worker_status
  ws_runtime_types :: "string list"
  ws_running_tasks :: int
  ws_concurrency :: int
  ws_cpu_allocatable_millicores :: int
  ws_reserved_cpu_millicores :: int
  ws_memory_allocatable_mb :: int
  ws_reserved_memory_mb :: int
  ws_labels :: str_dict
  ws_taints :: "str_dict list"
  ws_gpu_devices :: "gpu_device_snapshot list"
  ws_overcommitted :: bool

record task_snapshot =
  tn_id :: string
  tn_project_id :: string
  tn_status :: task_status
  tn_runtime_type :: string
  tn_cpu_millicores :: int
  tn_memory_mb :: int
  tn_gpu_count :: int
  tn_gpu_memory_mb :: int
  tn_gpu_model :: "string option"
  tn_labels :: str_dict
  tn_tolerations :: "str_dict list"
  tn_priority :: int
  tn_queued_at :: "datetime option"
  tn_queue_order :: int

record placement =
  pl_worker_id :: string
  pl_gpu_device_ids :: "string list"
  pl_score :: "pyfloat list"

section \<open>Constraints\<close>

definition labels_match :: "str_dict \<Rightarrow> str_dict \<Rightarrow> bool" where
  "labels_match required offered = (\<forall>(key, v) \<in> set required. map_of offered key = Some v)"

definition get_default :: "str_dict \<Rightarrow> string \<Rightarrow> string \<Rightarrow> string" where
  "get_default d k v = (case map_of d k of Some x \<Rightarrow> x | None \<Rightarrow> v)"

fun taints_tolerated :: "str_dict list \<Rightarrow> str_dict list \<Rightarrow> bool" where
  "taints_tolerated [] tolerations = True"
| "taints_tolerated (taint # taints) tolerations =
     (if get_default taint ''effect'' ''NoSchedule'' \<noteq> ''NoSchedule''
      then taints_tolerated taints tolerations
      else if \<not> (\<exists>tolerance \<in> set tolerations.
                 map_of tolerance ''key'' = map_of taint ''key'' \<and>
                 (case map_of tolerance ''value'' of None \<Rightarrow> map_of taint ''value'' | Some v \<Rightarrow> Some v)
                   = map_of taint ''value'')
      then False
      else taints_tolerated taints tolerations)"

definition available_gpu_memory_mb :: "gpu_device_snapshot \<Rightarrow> int" where
  "available_gpu_memory_mb device =
     (case gd_memory_free_mb device of None \<Rightarrow> gd_memory_total_mb device | Some free \<Rightarrow> free)"

definition device_key :: "gpu_device_snapshot \<Rightarrow> int \<times> int \<times> string" where
  "device_key device =
     (available_gpu_memory_mb device, gd_memory_total_mb device, gd_uuid device)"

definition truthy :: "string option \<Rightarrow> bool" where
  "truthy s = (s \<noteq> None \<and> s \<noteq> Some [])"

definition evaluate_snapshot ::
  "worker_snapshot \<Rightarrow> task_snapshot \<Rightarrow> rejection_reason option \<times> string list" where
  "evaluate_snapshot worker task =
    (if ws_status worker \<noteq> WS_ONLINE then (Some WORKER_NOT_ONLINE, [])
     else if ws_overcommitted worker then (Some WORKER_OVERCOMMITTED, [])
     else if ws_running_tasks worker \<ge> ws_concurrency worker then (Some WORKER_AT_CAPACITY, [])
     else if tn_runtime_type task \<notin> set (ws_runtime_types worker) then (Some RUNTIME_MISMATCH, [])
     else if ws_reserved_cpu_millicores worker + tn_cpu_millicores task
               > ws_cpu_allocatable_millicores worker then (Some INSUFFICIENT_CPU, [])
     else if ws_reserved_memory_mb worker + tn_memory_mb task > ws_memory_allocatable_mb worker
       then (Some INSUFFICIENT_MEMORY, [])
     else if \<not> labels_match (tn_labels task) (ws_labels worker) then (Some LABEL_MISMATCH, [])
     else if \<not> taints_tolerated (ws_taints worker) (tn_tolerations task)
       then (Some TAINT_NOT_TOLERATED, [])
     else
       let available = filter (\<lambda>d. gd_healthy d \<and> \<not> gd_allocated d) (ws_gpu_devices worker);
           model_devices = filter (\<lambda>d. Some (gd_model d) = tn_gpu_model task) available
       in if truthy (tn_gpu_model task) \<and> int (length model_devices) < tn_gpu_count task
          then (Some GPU_MODEL_MISMATCH, [])
          else
            let available = (if truthy (tn_gpu_model task) then model_devices else available);
                memory_devices =
                  filter (\<lambda>d. available_gpu_memory_mb d \<ge> tn_gpu_memory_mb task) available
            in if tn_gpu_memory_mb task \<noteq> 0 \<and> int (length memory_devices) < tn_gpu_count task
               then (Some INSUFFICIENT_GPU_MEMORY, [])
               else
                 let available = (if tn_gpu_memory_mb task \<noteq> 0 then memory_devices else available)
                 in if int (length available) < tn_gpu_count task then (Some INSUFFICIENT_GPU, [])
                    else (None, map gd_id (py_take (tn_gpu_count task) (sort_key device_key available))))"

definition worker_accepts_new_tasks :: "worker option \<Rightarrow> bool" where
  "worker_accepts_new_tasks worker =
     (case worker of None \<Rightarrow> False
      | Some w \<Rightarrow> w_status w = WS_ONLINE \<and> w_running_tasks w < w_concurrency w)"

definition evaluate :: "worker option \<Rightarrow> task option \<Rightarrow> scheduling_decision" where
  "evaluate worker task =
    (let reject = (\<lambda>r. \<lparr>sd_allowed = False, sd_reason = Some r\<rparr>) in
     case worker of
       None \<Rightarrow> reject WORKER_NOT_FOUND
     | Some w \<Rightarrow>
       if w_status w \<noteq> WS_ONLINE then reject WORKER_NOT_ONLINE
       else if w_running_tasks w \<ge> w_concurrency w then reject WORKER_AT_CAPACITY
       else case task of
         None \<Rightarrow> reject TASK_NOT_FOUND
       | Some t \<Rightarrow>
         if t_status t \<noteq> TS_QUEUED then reject TASK_NOT_QUEUED
         else if t_cancel_requested t then reject TASK_CANCELLED
         else if w_reserved_cpu w + t_cpu_limit t > of_int (w_cpu_count w)
           then reject INSUFFICIENT_CPU
         else if w_reserved_memory_mb w + t_memory_limit_mb t > w_memory_total_mb w
           then reject INSUFFICIENT_MEMORY
         else if w_reserved_gpus w + t_gpu_count t > w_gpu_count w then reject INSUFFICIENT_GPU
         else if \<not> labels_match (t_labels t) (w_labels w) then reject LABEL_MISMATCH
         else \<lparr>sd_allowed = True, sd_reason = None\<rparr>)"

section \<open>Choice of a worker\<close>

definition placement_score :: "string \<Rightarrow> task_snapshot \<Rightarrow> worker_snapshot \<Rightarrow> pyfloat list" where
  "placement_score policy task worker =
    (let cpu_after = ws_reserved_cpu_millicores worker + tn_cpu_millicores task;
         memory_after = ws_reserved_memory_mb worker + tn_memory_mb task;
         cpu_fraction = of_int cpu_after / of_int (max 1 (ws_cpu_allocatable_millicores worker));
         memory_fraction = of_int memory_after / of_int (max 1 (ws_memory_allocatable_mb worker));
         gpu_fraction =
           (if ws_gpu_devices worker \<noteq> []
            then of_int (int (length (filter gd_allocated (ws_gpu_devices worker))) + tn_gpu_count task)
                   / of_int (max 1 (int (length (ws_gpu_devices worker))))
            else 0);
         dominant = max (max cpu_fraction memory_fraction) gpu_fraction;
         scarce_gpu_penalty =
           (if tn_gpu_count task = 0 \<and> ws_gpu_devices worker \<noteq> [] then 1 else 0)
     in if policy = ''spread''
        then [dominant, scarce_gpu_penalty, of_int (ws_running_tasks worker)]
        else [scarce_gpu_penalty, - dominant, - cpu_fraction, - memory_fraction])"

definition placement_of :: "string \<Rightarrow> task_snapshot \<Rightarrow> worker_snapshot \<Rightarrow> placement" where
  "placement_of policy task worker =
     \<lparr>pl_worker_id = ws_id worker,
      pl_gpu_device_ids = snd (evaluate_snapshot worker task),
      pl_score = placement_score policy task worker\<rparr>"

definition placement_key :: "placement \<Rightarrow> pyfloat list \<times> string \<times> string list" where
  "placement_key item = (pl_score item, pl_worker_id item, pl_gpu_device_ids item)"

definition choose_placement ::
  "string \<Rightarrow> task_snapshot \<Rightarrow> worker_snapshot list
   \<Rightarrow> repo_error + placement option \<times> (string \<times> rejection_reason) list" where
  "choose_placement policy task workers =
    (if policy \<notin> {''binpack'', ''spread''} then Inl ValueError
     else
       let placements =
             map (placement_of policy task)
               (filter (\<lambda>worker. fst (evaluate_snapshot worker task) = None) workers);
           rejected =
             fold (\<lambda>worker rejected.
                 case fst (evaluate_snapshot worker task) of
                   None \<Rightarrow> rejected
                 | Some reason \<Rightarrow> AList.update (ws_id worker) reason rejected)
               workers []
       in case sort_key placement_key placements of
            [] \<Rightarrow> Inr (None, rejected)
          | best # _ \<Rightarrow> Inr (Some best, rejected))"

section \<open>Priorities and shares\<close>

definition effective_priority :: "task_snapshot \<Rightarrow> datetime \<Rightarrow> int \<Rightarrow> repo_error + int" where
  "effective_priority task now aging_interval_seconds =
    (if aging_interval_seconds < 1 then Inl ValueError
     else case tn_queued_at task of
       None \<Rightarrow> Inr (tn_priority task)
     | Some queued_at \<Rightarrow>
         let waited = max 0 (total_seconds (now - queued_at))
         in Inr (min 100 (tn_priority task + \<lfloor>waited / of_int aging_interval_seconds\<rfloor>)))"

definition dominant_share :: "int \<Rightarrow> int \<Rightarrow> int \<Rightarrow> int \<Rightarrow> int \<Rightarrow> int \<Rightarrow> pyfloat" where
  "dominant_share cpu_millicores memory_mb gpus
     cluster_cpu_millicores cluster_memory_mb cluster_gpus =
    max (max (of_int cpu_millicores / of_int (max 1 cluster_cpu_millicores))
             (of_int memory_mb / of_int (max 1 cluster_memory_mb)))
        (if cluster_gpus \<noteq> 0 then of_int gpus / of_int (max 1 cluster_gpus)
         else if gpus \<noteq> 0 then 1 else 0)"


section \<open>What the constraints mean\<close>

definition eligible_devices :: "worker_snapshot \<Rightarrow> task_snapshot \<Rightarrow> gpu_device_snapshot list" where
  "eligible_devices worker task =
     filter (\<lambda>d. gd_healthy d \<and> \<not> gd_allocated d
        \<and> (truthy (tn_gpu_model task) \<longrightarrow> tn_gpu_model task = Some (gd_model d))
        \<and> (tn_gpu_memory_mb task \<noteq> 0 \<longrightarrow> tn_gpu_memory_mb task \<le> available_gpu_memory_mb d))
       (ws_gpu_devices worker)"

definition feasible :: "worker_snapshot \<Rightarrow> task_snapshot \<Rightarrow> bool" where
  "feasible worker task \<longleftrightarrow>
     ws_status worker = WS_ONLINE \<and> \<not> ws_overcommitted worker
     \<and> ws_running_tasks worker < ws_concurrency worker
     \<and> tn_runtime_type task \<in> set (ws_runtime_types worker)
     \<and> ws_reserved_cpu_millicores worker + tn_cpu_millicores task \<le> ws_cpu_allocatable_millicores worker
     \<and> ws_reserved_memory_mb worker + tn_memory_mb task \<le> ws_memory_allocatable_mb worker
     \<and> labels_match (tn_labels task) (ws_labels worker)
     \<and> taints_tolerated (ws_taints worker) (tn_tolerations task)
     \<and> tn_gpu_count task \<le> int (length (eligible_devices worker task))"

lemma eligible_devices_subset: "set (eligible_devices worker task) \<subseteq> set (ws_gpu_devices worker)"
  by (auto simp: eligible_devices_def)

lemma evaluate_snapshot_feasible:
  "feasible worker task \<Longrightarrow>
   evaluate_snapshot worker task =
     (None, map gd_id (py_take (tn_gpu_count task) (sort_key device_key (eligible_devices worker task))))"
proof -
  assume f: "feasible worker task"
  let ?free = "filter (\<lambda>d. gd_healthy d \<and> \<not> gd_allocated d) (ws_gpu_devices worker)"
  let ?model = "filter (\<lambda>d. Some (gd_model d) = tn_gpu_model task) ?free"
  let ?avail = "if truthy (tn_gpu_model task) then ?model else ?free"
  let ?mem = "filter (\<lambda>d. available_gpu_memory_mb d \<ge> tn_gpu_memory_mb task) ?avail"
  let ?last = "if tn_gpu_memory_mb task \<noteq> 0 then ?mem else ?avail"
  have last: "?last = eligible_devices worker task"
    unfolding eligible_devices_def by (auto intro: filter_cong)
  from f have n: "tn_gpu_count task \<le> int (length ?last)"
    unfolding last feasible_def by blast
  have "length ?mem \<le> length ?avail"
    by (rule length_filter_le)
  then have "length ?last \<le> length ?avail"
    by (simp del: filter_filter)
  with n have a: "tn_gpu_count task \<le> int (length ?avail)"
    by linarith
  from f have "ws_status worker = WS_ONLINE" "\<not> ws_overcommitted worker"
    "ws_running_tasks worker < ws_concurrency worker"
    "tn_runtime_type task \<in> set (ws_runtime_types worker)"
    "ws_reserved_cpu_millicores worker + tn_cpu_millicores task \<le> ws_cpu_allocatable_millicores worker"
    "ws_reserved_memory_mb worker + tn_memory_mb task \<le> ws_memory_allocatable_mb worker"
    "labels_match (tn_labels task) (ws_labels worker)"
    "taints_tolerated (ws_taints worker) (tn_tolerations task)"
    unfolding feasible_def by blast+
  then show ?thesis
    unfolding evaluate_snapshot_def Let_def last [symmetric] using n a by auto
qed

lemma evaluate_snapshot_None:
  assumes "fst (evaluate_snapshot worker task) = None"
  shows "feasible worker task"
proof -
  let ?free = "filter (\<lambda>d. gd_healthy d \<and> \<not> gd_allocated d) (ws_gpu_devices worker)"
  let ?model = "filter (\<lambda>d. Some (gd_model d) = tn_gpu_model task) ?free"
  let ?avail = "if truthy (tn_gpu_model task) then ?model else ?free"
  let ?mem = "filter (\<lambda>d. available_gpu_memory_mb d \<ge> tn_gpu_memory_mb task) ?avail"
  let ?last = "if tn_gpu_memory_mb task \<noteq> 0 then ?mem else ?avail"
  have last: "?last = eligible_devices worker task"
    unfolding eligible_devices_def by (auto intro: filter_cong)
  show ?thesis
    unfolding feasible_def last [symmetric] using assms
    unfolding evaluate_snapshot_def Let_def by (simp del: filter_filter split: if_splits)
qed

lemma evaluate_snapshot_rejects_empty:
  "fst (evaluate_snapshot worker task) \<noteq> None \<Longrightarrow> snd (evaluate_snapshot worker task) = []"
  unfolding evaluate_snapshot_def Let_def by (simp split: if_splits)

lemma evaluate_snapshot_iff [simp]:
  "fst (evaluate_snapshot worker task) = None \<longleftrightarrow> feasible worker task"
  using evaluate_snapshot_None evaluate_snapshot_feasible by fastforce

section \<open>The chosen devices\<close>

lemma evaluate_snapshot_devices:
  assumes "evaluate_snapshot worker task = (None, ids)" and "0 \<le> tn_gpu_count task"
  shows "int (length ids) = tn_gpu_count task"
    and "ids = map gd_id (take (nat (tn_gpu_count task)) (sort_key device_key (eligible_devices worker task)))"
    and "set ids \<subseteq> gd_id ` set (eligible_devices worker task)"
proof -
  from assms(1) have f: "feasible worker task"
    by (simp flip: evaluate_snapshot_iff)
  with assms show ids:
    "ids = map gd_id (take (nat (tn_gpu_count task)) (sort_key device_key (eligible_devices worker task)))"
    by (simp add: evaluate_snapshot_feasible)
  from f assms(2) show "int (length ids) = tn_gpu_count task"
    unfolding ids by (auto simp: feasible_def min_def)
  show "set ids \<subseteq> gd_id ` set (eligible_devices worker task)"
    unfolding ids using set_take_sort_key [of _ device_key "eligible_devices worker task"] by auto
qed

section \<open>The chosen worker\<close>

definition pick_worker :: "string \<Rightarrow> task_snapshot \<Rightarrow> worker_snapshot list \<Rightarrow> worker_snapshot option" where
  "pick_worker policy task ws =
     (case sort_key (placement_key \<circ> placement_of policy task)
             (filter (\<lambda>w. feasible w task) ws) of
        [] \<Rightarrow> None
      | w # _ \<Rightarrow> Some w)"

interpretation placement_choice: ranked_choice
  "\<lambda>w. feasible w task" "placement_key \<circ> placement_of policy task" "pick_worker policy task"
  for policy task
  by unfold_locales (simp add: pick_worker_def)

definition rejections :: "task_snapshot \<Rightarrow> worker_snapshot list \<Rightarrow> (string \<times> rejection_reason) list" where
  "rejections task ws =
     fold (\<lambda>worker rejected.
         case fst (evaluate_snapshot worker task) of
           None \<Rightarrow> rejected
         | Some reason \<Rightarrow> AList.update (ws_id worker) reason rejected)
       ws []"

lemma choose_placement_pick:
  assumes "policy \<in> {''binpack'', ''spread''}"
  shows "choose_placement policy task ws =
    Inr (map_option (placement_of policy task) (pick_worker policy task ws), rejections task ws)"
  using assms
  by (auto simp: choose_placement_def Let_def rejections_def pick_worker_def sort_key_map
      split: list.splits)

lemma choose_placement_SomeD:
  assumes "choose_placement policy task ws = Inr (Some p, rejected)"
  obtains w where "pick_worker policy task ws = Some w" and "p = placement_of policy task w"
proof -
  from assms have "policy \<in> {''binpack'', ''spread''}"
    by (auto simp: choose_placement_def split: if_splits)
  from choose_placement_pick [OF this, of task ws] assms that show thesis
    by (cases "pick_worker policy task ws") auto
qed

lemma map_of_fold_update_absent:
  "k \<notin> key ` set ws \<Longrightarrow>
   map_of (fold (\<lambda>w r. case f w of None \<Rightarrow> r | Some v \<Rightarrow> AList.update (key w) v r) ws r) k = map_of r k"
  by (induction ws arbitrary: r) (auto simp: update_conv' split: option.splits)

lemma map_of_fold_update:
  "distinct (map key ws) \<Longrightarrow> w \<in> set ws \<Longrightarrow>
   map_of (fold (\<lambda>w r. case f w of None \<Rightarrow> r | Some v \<Rightarrow> AList.update (key w) v r) ws r) (key w) =
     (case f w of None \<Rightarrow> map_of r (key w) | Some v \<Rightarrow> Some v)"
  by (induction ws arbitrary: r)
    (auto simp: update_conv' map_of_fold_update_absent image_iff split: option.splits)

lemma rejections_map_of:
  assumes "distinct (map ws_id ws)" and "w \<in> set ws"
  shows "map_of (rejections task ws) (ws_id w) = fst (evaluate_snapshot w task)"
  unfolding rejections_def map_of_fold_update [OF assms]
  by (auto split: option.split simp del: evaluate_snapshot_iff)

section \<open>Aging\<close>

lemma effective_priority_queued:
  assumes "1 \<le> interval" and "tn_queued_at task = Some q"
  shows "effective_priority task now interval =
    Inr (min 100 (tn_priority task + max 0 (now - q) div (interval * 1000000)))"
proof -
  have w: "max 0 (total_seconds (now - q)) = of_int (max 0 (now - q)) / 1000000"
    by (simp add: total_seconds_def max_def)
  have "\<lfloor>max 0 (total_seconds (now - q)) / of_int interval\<rfloor> =
      \<lfloor>of_int (max 0 (now - q)) / (of_int (interval * 1000000) :: rat)\<rfloor>"
    unfolding w by (simp only: divide_divide_eq_left of_int_mult of_int_numeral mult.commute)
  also have "\<dots> = max 0 (now - q) div (interval * 1000000)"
    by (rule floor_divide_of_int_eq)
  finally show ?thesis
    using assms by (simp add: effective_priority_def Let_def)
qed

lemma aging_bounds:
  fixes p k q now now' :: int
  assumes "0 < k" and "now \<le> now'" and "p \<le> 100"
  shows "p \<le> min 100 (p + max 0 (now - q) div k)"
    and "min 100 (p + max 0 (now - q) div k) \<le> min 100 (p + max 0 (now' - q) div k)"
    and "min 100 (p + max 0 (now' - q) div k) \<le> 100"
    and "q + (100 - p) * k \<le> now \<Longrightarrow> min 100 (p + max 0 (now - q) div k) = 100"
proof -
  have "0 \<le> max 0 (now - q) div k"
    using assms(1) by (intro div_int_pos_iff [THEN iffD2]) simp
  then show "p \<le> min 100 (p + max 0 (now - q) div k)"
    using assms(3) by simp
  have "max 0 (now - q) div k \<le> max 0 (now' - q) div k"
    using assms(1,2) by (intro zdiv_mono1) simp_all
  then show "min 100 (p + max 0 (now - q) div k) \<le> min 100 (p + max 0 (now' - q) div k)"
    by (intro min.mono) simp_all
  show "min 100 (p + max 0 (now' - q) div k) \<le> 100"
    by simp
  assume "q + (100 - p) * k \<le> now"
  then have "(100 - p) * k div k \<le> max 0 (now - q) div k"
    using assms(1) by (intro zdiv_mono1) simp_all
  then show "min 100 (p + max 0 (now - q) div k) = 100"
    using assms(1) by simp
qed

lemma binpack_score_head:
  "\<exists>rest. placement_score ''binpack'' task w =
    (if tn_gpu_count task = 0 \<and> ws_gpu_devices w \<noteq> [] then 1 else 0) # rest"
  by (simp add: placement_score_def Let_def)

section \<open>A concrete cluster\<close>

definition example_device :: "string \<Rightarrow> int \<Rightarrow> gpu_device_snapshot" where
  "example_device name free =
     \<lparr>gd_id = name, gd_uuid = name, gd_model = ''L4'', gd_memory_total_mb = 24000,
      gd_memory_free_mb = Some free, gd_healthy = True, gd_allocated = False\<rparr>"

definition example_worker :: "string \<Rightarrow> gpu_device_snapshot list \<Rightarrow> worker_snapshot" where
  "example_worker name devices =
     \<lparr>ws_id = name, ws_status = WS_ONLINE, ws_runtime_types = [''docker''], ws_running_tasks = 0,
      ws_concurrency = 2, ws_cpu_allocatable_millicores = 4000, ws_reserved_cpu_millicores = 0,
      ws_memory_allocatable_mb = 8000, ws_reserved_memory_mb = 0, ws_labels = [], ws_taints = [],
      ws_gpu_devices = devices, ws_overcommitted = False\<rparr>"

definition example_task :: "int \<Rightarrow> task_snapshot" where
  "example_task gpus =
     \<lparr>tn_id = ''t'', tn_project_id = ''p'', tn_status = TS_QUEUED, tn_runtime_type = ''docker'',
      tn_cpu_millicores = 1000, tn_memory_mb = 512, tn_gpu_count = gpus, tn_gpu_memory_mb = 8000,
      tn_gpu_model = None, tn_labels = [], tn_tolerations = [], tn_priority = 40,
      tn_queued_at = Some 0, tn_queue_order = 0\<rparr>"

definition example_workers :: "worker_snapshot list" where
  "example_workers =
     [example_worker ''g'' [example_device ''d1'' 20000, example_device ''d2'' 9000],
      example_worker ''c'' []]"

lemma example_gpu_placement:
  "choose_placement ''binpack'' (example_task 1) example_workers =
    Inr (Some \<lparr>pl_worker_id = ''g'', pl_gpu_device_ids = [''d2''], pl_score = [0, -1/2, -1/4, -8/125]\<rparr>,
      [(''c'', INSUFFICIENT_GPU_MEMORY)])"
  by code_simp

lemma example_cpu_placement:
  "choose_placement ''binpack'' (example_task 0) example_workers =
    Inr (Some \<lparr>pl_worker_id = ''c'', pl_gpu_device_ids = [], pl_score = [0, -1/4, -1/4, -8/125]\<rparr>, [])"
  by code_simp

section \<open>Properties\<close>

text \<open>
  C18. A placement returned by the scheduler policy is feasible and optimal: it names one
  of the given workers, which is online, not overcommitted, has a free slot, runs the
  task's runtime, has CPU and memory left for it, carries its labels and only taints it
  tolerates; it binds exactly the requested number of devices, all healthy, unallocated
  and of the requested model and memory; and no feasible worker has a smaller key.
\<close>

theorem choose_placement_correct:
  assumes "choose_placement policy task ws = Inr (Some p, rejected)" and "0 \<le> tn_gpu_count task"
  shows "\<exists>w \<in> set ws. pl_worker_id p = ws_id w \<and> feasible w task
     \<and> int (length (pl_gpu_device_ids p)) = tn_gpu_count task
     \<and> set (pl_gpu_device_ids p) \<subseteq> gd_id ` set (eligible_devices w task)
     \<and> (\<forall>w' \<in> set ws. feasible w' task \<longrightarrow> placement_key p \<le> placement_key (placement_of policy task w'))"
proof -
  from assms(1) obtain w
    where w: "pick_worker policy task ws = Some w" and p: "p = placement_of policy task w"
    by (rule choose_placement_SomeD)
  from w have f: "w \<in> set ws" "feasible w task"
    using placement_choice.pick_sound by blast+
  then have "evaluate_snapshot w task = (None, pl_gpu_device_ids p)"
    by (simp add: p placement_of_def prod_eq_iff)
  note ids = evaluate_snapshot_devices [OF this assms(2)]
  moreover have "placement_key p \<le> placement_key (placement_of policy task w')"
    if "w' \<in> set ws" "feasible w' task" for w'
    using placement_choice.pick_least [OF w that] by (simp add: p)
  ultimately show ?thesis
    using f by (intro bexI [of _ w]) (auto simp: p placement_of_def)
qed

theorem choose_placement_correct_witness:
  "\<exists>w \<in> set example_workers. ws_id w = ''g'' \<and> feasible w (example_task 1)
     \<and> set [''d2''] \<subseteq> gd_id ` set (eligible_devices w (example_task 1))"
  using choose_placement_correct [OF example_gpu_placement] by (auto simp: example_task_def)

text \<open>
  C21. The scheduler policy is complete and explains itself: for a known policy name and
  workers with distinct ids it returns no placement only if no worker is feasible, and
  the rejection map holds for every worker exactly the reason of its own evaluation
  (and none for a feasible worker).
\<close>

theorem choose_placement_complete:
  assumes "policy \<in> {''binpack'', ''spread''}" and "distinct (map ws_id ws)"
  shows "\<exists>choice rejected. choose_placement policy task ws = Inr (choice, rejected)
     \<and> (choice = None \<longleftrightarrow> (\<forall>w \<in> set ws. \<not> feasible w task))
     \<and> (\<forall>w \<in> set ws. map_of rejected (ws_id w) = fst (evaluate_snapshot w task))"
  using choose_placement_pick [OF assms(1), of task ws] rejections_map_of [OF assms(2)]
    placement_choice.pick_None_iff [of policy task ws]
  by auto

theorem choose_placement_complete_witness:
  "\<exists>choice rejected. choose_placement ''binpack'' (example_task 9) example_workers = Inr (choice, rejected)
     \<and> (choice = None \<longleftrightarrow> (\<forall>w \<in> set example_workers. \<not> feasible w (example_task 9)))
     \<and> (\<forall>w \<in> set example_workers. map_of rejected (ws_id w) = fst (evaluate_snapshot w (example_task 9)))"
  by (rule choose_placement_complete) code_simp+

text \<open>
  C22. Best fit: the devices bound on a worker are the ones with the least free memory
  (then least total memory, then least UUID) among the eligible devices of the worker.
\<close>

theorem evaluate_snapshot_best_fit:
  assumes "evaluate_snapshot worker task = (None, ids)" and "0 \<le> tn_gpu_count task"
    and "distinct (map gd_id (ws_gpu_devices worker))"
    and "d \<in> set (eligible_devices worker task)" and "gd_id d \<in> set ids"
    and "d' \<in> set (eligible_devices worker task)" and "gd_id d' \<notin> set ids"
  shows "device_key d \<le> device_key d'"
proof -
  let ?n = "nat (tn_gpu_count task)" and ?s = "sort_key device_key (eligible_devices worker task)"
  from evaluate_snapshot_devices(2) [OF assms(1,2)] have ids: "ids = map gd_id (take ?n ?s)" .
  have inj: "inj_on gd_id (set (eligible_devices worker task))"
    using assms(3) unfolding distinct_map by (blast intro: inj_on_subset [OF _ eligible_devices_subset])
  have "d \<in> set (take ?n ?s)"
    using assms(4,5) inj set_take_sort_key [of ?n device_key "eligible_devices worker task"]
    by (auto simp: ids dest: inj_onD)
  moreover have "d' \<in> set ?s - set (take ?n ?s)"
    using assms(6,7) by (auto simp: ids)
  then have "d' \<in> set (drop ?n ?s)"
    by (metis DiffD1 DiffD2 Un_iff append_take_drop_id set_append)
  ultimately show ?thesis
    by (rule take_sort_key_le)
qed

theorem evaluate_snapshot_best_fit_witness:
  "device_key (example_device ''d2'' 9000) \<le> device_key (example_device ''d1'' 20000)"
  by (rule evaluate_snapshot_best_fit
      [of "example_worker ''g'' [example_device ''d1'' 20000, example_device ''d2'' 9000]"
        "example_task 1" "[''d2'']"]) code_simp+

text \<open>
  C23. Aging never starves a task: with a positive aging interval the effective priority
  of a queued task lies between its own priority and 100, never falls as time passes, and
  is 100 once the task has waited for (100 - priority) intervals.
\<close>

theorem effective_priority_aging:
  assumes "1 \<le> interval" and "tn_queued_at task = Some q" and "tn_priority task \<le> 100" and "now \<le> now'"
  shows "\<exists>p p'. effective_priority task now interval = Inr p
     \<and> effective_priority task now' interval = Inr p'
     \<and> tn_priority task \<le> p \<and> p \<le> p' \<and> p' \<le> 100
     \<and> (q + (100 - tn_priority task) * interval * 1000000 \<le> now \<longrightarrow> p = 100)"
proof -
  have pos: "0 < interval * 1000000"
    using assms(1) by simp
  show ?thesis
    unfolding effective_priority_queued [OF assms(1,2)] mult.assoc
    using aging_bounds [OF pos assms(4,3)] by blast
qed

theorem effective_priority_aging_witness:
  "\<exists>p p'. effective_priority (example_task 0) 1800000000 30 = Inr p
     \<and> effective_priority (example_task 0) 1900000000 30 = Inr p' \<and> p = 100 \<and> p \<le> p'"
  using effective_priority_aging [of 30 "example_task 0" 0 1800000000 1900000000]
  by (auto simp: example_task_def)

text \<open>
  C24. Bin-packing keeps accelerator workers free: under the \<open>binpack\<close> policy a task that
  needs no device is placed on a worker with devices only if every feasible worker has
  devices.
\<close>

theorem binpack_spares_gpu_workers:
  assumes "choose_placement ''binpack'' task ws = Inr (Some p, rejected)"
    and "tn_gpu_count task = 0" and "w \<in> set ws" and "feasible w task" and "ws_gpu_devices w = []"
  shows "\<exists>v \<in> set ws. pl_worker_id p = ws_id v \<and> feasible v task \<and> ws_gpu_devices v = []"
proof -
  from assms(1) obtain v
    where v: "pick_worker ''binpack'' task ws = Some v" and p: "p = placement_of ''binpack'' task v"
    by (rule choose_placement_SomeD)
  have "placement_key (placement_of ''binpack'' task v) \<le> placement_key (placement_of ''binpack'' task w)"
    using placement_choice.pick_least [OF v assms(3,4)] by simp
  then have "placement_score ''binpack'' task v \<le> placement_score ''binpack'' task w"
    by (auto simp: placement_key_def placement_of_def)
  moreover obtain r where "placement_score ''binpack'' task v =
      (if tn_gpu_count task = 0 \<and> ws_gpu_devices v \<noteq> [] then 1 else 0) # r"
    using binpack_score_head by blast
  moreover obtain r' where "placement_score ''binpack'' task w =
      (if tn_gpu_count task = 0 \<and> ws_gpu_devices w \<noteq> [] then 1 else 0) # r'"
    using binpack_score_head by blast
  ultimately have "ws_gpu_devices v = []"
    using assms(2,5) by (simp split: if_splits)
  then show ?thesis
    using placement_choice.pick_sound [OF v] by (auto simp: p placement_of_def)
qed

theorem binpack_spares_gpu_workers_witness:
  "\<exists>v \<in> set example_workers. ws_id v = ''c'' \<and> feasible v (example_task 0) \<and> ws_gpu_devices v = []"
proof -
  have "example_worker ''c'' [] \<in> set example_workers" "feasible (example_worker ''c'' []) (example_task 0)"
    "tn_gpu_count (example_task 0) = 0" "ws_gpu_devices (example_worker ''c'' []) = []"
    by code_simp+
  from binpack_spares_gpu_workers [OF example_cpu_placement this(3,1,2,4)] show ?thesis
    by auto
qed

end
