(* ===== verification/Redactor.thy ===== *)
theory Redactor
  imports Prelude "HOL-Library.Word" "HOL-Library.List_Lexorder" "HOL-Library.Sublist"
begin

text \<open>
  The log redactor \<open>worker/redaction.py\<close>: replacing secret values in a byte stream that
  arrives in chunks. Strings are lists of Unicode code points, bytes are 8-bit words.
\<close>

type_synonym byte = "8 word"

section \<open>UTF-8\<close>

text \<open>\<open>str.encode("utf-8")\<close>; surrogate code points raise \<open>UnicodeEncodeError\<close>.\<close>

datatype redaction_error = UnicodeEncodeError

definition encode_point :: "nat \<Rightarrow> redaction_error + byte list" where
  "encode_point c =
    (if c < 0x80 then Inr [of_nat c]
     else if c < 0x800 then Inr [of_nat (0xC0 + c div 64), of_nat (0x80 + c mod 64)]
     else if 0xD800 \<le> c \<and> c \<le> 0xDFFF then Inl UnicodeEncodeError
     else if c < 0x10000
     then Inr [of_nat (0xE0 + c div 4096), of_nat (0x80 + c div 64 mod 64), of_nat (0x80 + c mod 64)]
     else Inr [of_nat (0xF0 + c div 262144), of_nat (0x80 + c div 4096 mod 64),
               of_nat (0x80 + c div 64 mod 64), of_nat (0x80 + c mod 64)])"

primrec encode_utf8 :: "nat list \<Rightarrow> redaction_error + byte list" where
  "encode_utf8 [] = Inr []"
| "encode_utf8 (c # cs) =
     ebind (encode_point c) (\<lambda>bs. ebind (encode_utf8 cs) (\<lambda>rest. Inr (bs @ rest)))"

primrec encode_all :: "nat list list \<Rightarrow> redaction_error + byte list list" where
  "encode_all [] = Inr []"
| "encode_all (v # vs) = ebind (encode_utf8 v) (\<lambda>b. ebind (encode_all vs) (\<lambda>bs. Inr (b # bs)))"

section \<open>The streaming redactor\<close>

record redactor =
  rd_patterns :: "byte list list"
  rd_maximum :: nat
  rd_pending :: "byte list"

definition REDACTION_MARKER :: "byte list" where
  "REDACTION_MARKER = map of_char ''***REDACTED***''"

definition ordered_patterns :: "byte list list \<Rightarrow> byte list list" where
  "ordered_patterns encoded = sort_key (\<lambda>p. (- int (length p), p)) (remdups encoded)"

definition new_redactor :: "nat list list \<Rightarrow> redaction_error + redactor" where
  "new_redactor values =
     ebind (encode_all (filter (\<lambda>v. v \<noteq> []) values)) (\<lambda>encoded.
     let patterns = ordered_patterns encoded in
     Inr \<lparr>rd_patterns = patterns, rd_maximum = fold max (map length patterns) 0, rd_pending = []\<rparr>)"

text \<open>
  The loop of \<open>_consume\<close>. The data from the current position on is \<open>rest\<close>; the result is the
  output and the bytes kept pending, or \<open>None\<close> if the loop does not end.
\<close>

definition could_complete :: "redactor \<Rightarrow> bool \<Rightarrow> byte list \<Rightarrow> bool" where
  "could_complete r final rest \<longleftrightarrow>
     \<not> final \<and> length rest < rd_maximum r
     \<and> (\<exists>p \<in> set (rd_patterns r). length p > length rest \<and> prefix rest p)"

definition matched :: "redactor \<Rightarrow> byte list \<Rightarrow> byte list option" where
  "matched r rest = find (\<lambda>p. prefix p rest) (rd_patterns r)"

partial_function (option) consume :: "redactor \<Rightarrow> bool \<Rightarrow> byte list \<Rightarrow> (byte list \<times> byte list) option" where
  "consume r final rest =
    (case rest of
       [] \<Rightarrow> Some ([], [])
     | b # bs \<Rightarrow>
         if could_complete r final rest then Some ([], rest)
         else case matched r rest of
           None \<Rightarrow> Option.bind (consume r final bs) (\<lambda>(out, pending). Some (b # out, pending))
         | Some p \<Rightarrow> Option.bind (consume r final (drop (length p) rest))
                       (\<lambda>(out, pending). Some (REDACTION_MARKER @ out, pending)))"

declare consume.simps [code]

definition feed :: "byte list \<Rightarrow> redactor \<Rightarrow> (redactor \<times> byte list) option" where
  "feed content r =
    (if rd_patterns r = [] then Some (r, content)
     else case consume r False (rd_pending r @ content) of
       None \<Rightarrow> None
     | Some (out, pending) \<Rightarrow> Some (r\<lparr>rd_pending := pending\<rparr>, out))"

definition finish :: "redactor \<Rightarrow> (redactor \<times> byte list) option" where
  "finish r =
    (if rd_patterns r = [] then Some (r, [])
     else case consume r True (rd_pending r) of
       None \<Rightarrow> None
     | Some (out, pending) \<Rightarrow> Some (r\<lparr>rd_pending := pending\<rparr>, out))"

definition pending_bytes :: "redactor \<Rightarrow> nat" where
  "pending_bytes r = length (rd_pending r)"

text \<open>A whole stream: feed every chunk, then finish.\<close>

primrec feed_all :: "byte list list \<Rightarrow> redactor \<Rightarrow> (redactor \<times> byte list) option" where
  "feed_all [] r = Some (r, [])"
| "feed_all (c # cs) r =
    (case feed c r of
       None \<Rightarrow> None
     | Some (r, out) \<Rightarrow> (case feed_all cs r of
         None \<Rightarrow> None | Some (r, out') \<Rightarrow> Some (r, out @ out')))"

definition redact_stream :: "byte list list \<Rightarrow> redactor \<Rightarrow> byte list option" where
  "redact_stream chunks r =
    (case feed_all chunks r of
       None \<Rightarrow> None
     | Some (r, out) \<Rightarrow> (case finish r of None \<Rightarrow> None | Some (_, out') \<Rightarrow> Some (out @ out')))"

section \<open>Whole text\<close>

text \<open>\<open>str.replace\<close> of a non-empty pattern: leftmost, non-overlapping.\<close>

function replace_text :: "nat list \<Rightarrow> nat list \<Rightarrow> nat list \<Rightarrow> nat list" where
  "replace_text old new [] = []"
| "replace_text old new (c # cs) =
    (if old \<noteq> [] \<and> prefix old (c # cs)
     then new @ replace_text old new (drop (length old) (c # cs))
     else c # replace_text old new cs)"
  by pat_completeness auto

termination replace_text
  by (relation "measure (\<lambda>(old, new, s). length s)") (auto simp: neq_Nil_conv)

definition redact_text :: "nat list \<Rightarrow> nat list list \<Rightarrow> nat list" where
  "redact_text v secrets =
     foldl (\<lambda>redacted secret. replace_text secret (map of_char ''***REDACTED***'') redacted) v
       (sort_key (\<lambda>s. (- int (length s), s)) (remdups (filter (\<lambda>s. s \<noteq> []) secrets)))"

section \<open>The loop\<close>

definition redactor_ok :: "redactor \<Rightarrow> bool" where
  "redactor_ok r \<longleftrightarrow> [] \<notin> set (rd_patterns r)
     \<and> (\<forall>p \<in> set (rd_patterns r). length p \<le> rd_maximum r)
     \<and> sorted_wrt (\<lambda>p q. length q \<le> length p) (rd_patterns r)"

lemma find_SomeD: "find P xs = Some x \<Longrightarrow> x \<in> set xs \<and> P x"
  by (induction xs) (auto split: if_splits)

lemma find_sorted:
  "find P xs = Some x \<Longrightarrow> sorted_wrt R xs \<Longrightarrow> y \<in> set xs \<Longrightarrow> P y \<Longrightarrow> x = y \<or> R x y"
  by (induction xs) (auto split: if_splits)

lemma find_same: "(\<And>x. x \<in> set xs \<Longrightarrow> P x = Q x) \<Longrightarrow> find P xs = find Q xs"
  by (induction xs) auto

lemma matchedD:
  assumes "matched r rest = Some p" and "redactor_ok r"
  shows "p \<in> set (rd_patterns r)" and "prefix p rest" and "0 < length p"
    and "\<And>q. q \<in> set (rd_patterns r) \<Longrightarrow> prefix q rest \<Longrightarrow> length q \<le> length p"
proof -
  from assms(1) show p: "p \<in> set (rd_patterns r)" and "prefix p rest"
    by (auto simp: matched_def dest: find_SomeD)
  from p assms(2) show "0 < length p" by (auto simp: redactor_ok_def)
  show "length q \<le> length p" if "q \<in> set (rd_patterns r)" "prefix q rest" for q
    using find_sorted [OF assms(1) [unfolded matched_def], of "\<lambda>p q. length q \<le> length p" q] assms(2) that
    by (auto simp: redactor_ok_def)
qed

text \<open>Every pattern is non-empty, so the loop ends.\<close>

lemma consume_ends:
  assumes "redactor_ok r"
  shows "\<exists>out pending. consume r final rest = Some (out, pending)"
proof (induction rest rule: length_induct)
  case (1 rest)
  show ?case
  proof (cases rest)
    case Nil
    then show ?thesis by (simp add: consume.simps)
  next
    case (Cons b bs)
    have "\<exists>out pending. consume r final bs = Some (out, pending)"
      using 1 Cons by simp
    moreover have "\<exists>out pending. consume r final (drop (length p) rest) = Some (out, pending)"
      if "matched r rest = Some p" for p
      using 1 Cons matchedD(3) [OF that assms] by simp
    ultimately show ?thesis
      unfolding Cons by (subst consume.simps) (auto split: option.split simp: Cons)
  qed
qed

lemma consume_final_pending: "redactor_ok r \<Longrightarrow> consume r True rest = Some (out, pending) \<Longrightarrow> pending = []"
proof (induction rest arbitrary: out pending rule: length_induct)
  case (1 rest)
  show ?case
  proof (cases rest)
    case Nil
    with 1 show ?thesis by (simp add: consume.simps)
  next
    case (Cons b bs)
    then have "\<not> could_complete r True rest" by (simp add: could_complete_def)
    with 1(3) Cons show ?thesis
      using 1(1)[rule_format, of bs] 1(1)[rule_format, of "drop (length (the (matched r rest))) rest"] 1(2)
        matchedD(3) [of r rest]
      by (subst (asm) consume.simps) (auto simp: bind_eq_Some_conv Cons split: option.splits)
  qed
qed

text \<open>The result of redacting all of the data at once.\<close>

definition redact :: "redactor \<Rightarrow> byte list \<Rightarrow> byte list" where
  "redact r rest = fst (the (consume r True rest))"

lemma consume_final: "redactor_ok r \<Longrightarrow> consume r True rest = Some (redact r rest, [])"
  using consume_ends [of r True rest] consume_final_pending [of r rest] by (auto simp: redact_def)

lemma redact_Nil [simp]: "redact r [] = []"
  by (simp add: redact_def consume.simps)

lemma redact_Cons:
  assumes "redactor_ok r"
  shows "redact r (b # bs) =
    (case matched r (b # bs) of
       None \<Rightarrow> b # redact r bs
     | Some p \<Rightarrow> REDACTION_MARKER @ redact r (drop (length p) (b # bs)))"
proof -
  have "Some (redact r (b # bs), []) =
      (case matched r (b # bs) of
         None \<Rightarrow> Option.bind (consume r True bs) (\<lambda>(out, pending). Some (b # out, pending))
       | Some p \<Rightarrow> Option.bind (consume r True (drop (length p) (b # bs)))
                       (\<lambda>(out, pending). Some (REDACTION_MARKER @ out, pending)))"
    unfolding consume_final [OF assms, symmetric]
    by (subst consume.simps) (simp add: could_complete_def)
  then show ?thesis
    by (auto simp: consume_final [OF assms] split: option.splits)
qed

text \<open>
  Bytes that arrive later do not change what the loop has already decided: when no longer
  pattern can complete at a position, the match there is the match in the whole stream.
\<close>

lemma matched_later:
  assumes "redactor_ok r" and "\<not> could_complete r False rest"
  shows "matched r (rest @ later) = matched r rest"
  unfolding matched_def
proof (rule find_same)
  fix p assume p: "p \<in> set (rd_patterns r)"
  show "prefix p (rest @ later) = prefix p rest"
  proof (cases "length p \<le> length rest")
    case True
    then show ?thesis by (meson prefix_append prefix_length_prefix prefixI)
  next
    case False
    moreover from p assms(1) have "length p \<le> rd_maximum r" by (simp add: redactor_ok_def)
    ultimately have "\<not> prefix rest p" using assms(2) p by (auto simp: could_complete_def)
    with False show ?thesis by (metis linorder_le_cases prefix_length_le prefix_length_prefix prefixI)
  qed
qed

lemma consume_then_redact:
  "redactor_ok r \<Longrightarrow> consume r False rest = Some (out, pending)
   \<Longrightarrow> redact r (rest @ later) = out @ redact r (pending @ later)"
proof (induction rest arbitrary: out rule: length_induct)
  case (1 rest)
  show ?case
  proof (cases rest)
    case Nil
    with 1 show ?thesis by (simp add: consume.simps)
  next
    case (Cons b bs)
    show ?thesis
    proof (cases "could_complete r False rest")
      case True
      with 1(3) Cons show ?thesis by (subst (asm) consume.simps) simp
    next
      case False
      note m = matched_later [OF 1(2) False, of later]
      show ?thesis
      proof (cases "matched r rest")
        case None
        with 1(3) False Cons obtain out' where "consume r False bs = Some (out', pending)" "out = b # out'"
          by (subst (asm) consume.simps) (auto simp: bind_eq_Some_conv split: option.splits)
        with 1(1,2) Cons None m show ?thesis by (simp add: redact_Cons)
      next
        case (Some p)
        have p: "0 < length p" "length p \<le> length rest"
          using matchedD(2,3) [OF Some 1(2)] by (auto dest: prefix_length_le)
        from 1(3) False Cons Some obtain out' where
          "consume r False (drop (length p) rest) = Some (out', pending)" "out = REDACTION_MARKER @ out'"
          by (subst (asm) consume.simps) (auto simp: bind_eq_Some_conv split: option.splits)
        moreover have "drop (length p) (b # bs @ later) = drop (length p) rest @ later"
          using p Cons drop_append [of "length p" rest later] by simp
        ultimately show ?thesis
          using 1(1)[rule_format, of "drop (length p) rest" out'] 1(2) Some m p Cons
          by (simp add: redact_Cons)
      qed
    qed
  qed
qed

lemma consume_pending:
  "consume r False rest = Some (out, pending) \<Longrightarrow> redactor_ok r \<Longrightarrow> pending = [] \<or> length pending < rd_maximum r"
proof (induction rest arbitrary: out rule: length_induct)
  case (1 rest)
  show ?case
  proof (cases rest)
    case Nil
    with 1 show ?thesis by (simp add: consume.simps)
  next
    case (Cons b bs)
    show ?thesis
    proof (cases "could_complete r False rest")
      case True
      with 1(2) Cons show ?thesis by (subst (asm) consume.simps) (auto simp: could_complete_def)
    next
      case False
      with 1(2) Cons show ?thesis
        using 1(1)[rule_format, of bs] 1(1)[rule_format, of "drop (length (the (matched r rest))) rest"] 1(3)
          matchedD(3) [of r rest]
        by (subst (asm) consume.simps) (auto simp: bind_eq_Some_conv Cons split: option.splits)
    qed
  qed
qed

section \<open>Streams\<close>

lemma encode_utf8_nonempty: "encode_utf8 v = Inr bs \<Longrightarrow> v \<noteq> [] \<Longrightarrow> bs \<noteq> []"
  by (cases v) (auto simp: encode_point_def ebind_eq_Inr split: if_splits)

lemma encode_all_Inr:
  "encode_all vs = Inr bss \<Longrightarrow> set bss = {bs. \<exists>v \<in> set vs. encode_utf8 v = Inr bs}"
  by (induction vs arbitrary: bss) (auto simp: ebind_eq_Inr)

lemma new_redactor_ok:
  assumes "new_redactor values = Inr r"
  shows "redactor_ok r" and "rd_pending r = []"
proof -
  from assms obtain encoded where e: "encode_all (filter (\<lambda>v. v \<noteq> []) values) = Inr encoded"
    and r: "rd_patterns r = ordered_patterns encoded"
      "rd_maximum r = fold max (map length (ordered_patterns encoded)) 0" "rd_pending r = []"
    by (auto simp: new_redactor_def ebind_eq_Inr Let_def)
  have "[] \<notin> set encoded"
    using encode_all_Inr [OF e] encode_utf8_nonempty by auto
  moreover have "sorted_wrt (\<lambda>p q. length q \<le> length p) (ordered_patterns encoded)"
    using sorted_sort_key [of "\<lambda>p. (- int (length p), p)" "remdups encoded"]
    unfolding ordered_patterns_def sorted_map
    by (rule sorted_wrt_mono_rel [rotated]) auto
  ultimately show "redactor_ok r"
    unfolding redactor_ok_def r by (auto simp: ordered_patterns_def intro: fold_max_member)
  show "rd_pending r = []" by (rule r(3))
qed

lemma redactor_ok_pending [simp]: "redactor_ok (r\<lparr>rd_pending := p\<rparr>) = redactor_ok r"
  by (simp add: redactor_ok_def)

text \<open>The pending bytes do not enter the loop.\<close>

lemma could_complete_pending [simp]: "could_complete (r\<lparr>rd_pending := p\<rparr>) = could_complete r"
  by (intro ext) (simp add: could_complete_def)

lemma matched_pending [simp]: "matched (r\<lparr>rd_pending := p\<rparr>) = matched r"
  by (intro ext) (simp add: matched_def)

lemma redact_pending [simp]: "redactor_ok r \<Longrightarrow> redact (r\<lparr>rd_pending := p\<rparr>) rest = redact r rest"
proof (induction rest rule: length_induct)
  case (1 rest)
  then show ?case
    by (cases rest) (auto simp: redact_Cons split: option.split dest: matchedD(3))
qed

lemma redact_no_patterns: "redactor_ok r \<Longrightarrow> rd_patterns r = [] \<Longrightarrow> redact r rest = rest"
  by (induction rest) (simp_all add: redact_Cons matched_def)

text \<open>
  A state of the redactor while it reads a stream: without patterns nothing is ever kept.
\<close>

definition streaming :: "redactor \<Rightarrow> bool" where
  "streaming r \<longleftrightarrow> redactor_ok r \<and> (rd_patterns r = [] \<longrightarrow> rd_pending r = [])"

lemma feed_streaming:
  assumes "streaming r"
  obtains r' out where "feed content r = Some (r', out)" "streaming r'"
    and "\<And>later. redact r (rd_pending r @ content @ later) = out @ redact r' (rd_pending r' @ later)"
proof (cases "rd_patterns r = []")
  case True
  with assms that [of r content] show thesis
    by (simp add: feed_def streaming_def redact_no_patterns)
next
  case False
  with assms obtain out pending where c: "consume r False (rd_pending r @ content) = Some (out, pending)"
    using consume_ends by (metis streaming_def)
  with assms False that [of "r\<lparr>rd_pending := pending\<rparr>" out] consume_then_redact [OF _ c]
  show thesis by (simp add: feed_def streaming_def)
qed

lemma feed_all_streaming:
  "streaming r \<Longrightarrow> \<exists>r' out. feed_all chunks r = Some (r', out) \<and> streaming r'
     \<and> redact r (rd_pending r @ concat chunks) = out @ redact r' (rd_pending r')"
proof (induction chunks arbitrary: r)
  case (Cons c cs)
  from feed_streaming [OF Cons.prems] obtain r' out where r': "feed c r = Some (r', out)" "streaming r'"
    "\<And>later. redact r (rd_pending r @ c @ later) = out @ redact r' (rd_pending r' @ later)"
    by metis
  from Cons.IH [OF r'(2)] obtain r'' out' where "feed_all cs r' = Some (r'', out')" "streaming r''"
    "redact r' (rd_pending r' @ concat cs) = out' @ redact r'' (rd_pending r'')"
    by blast
  with r' show ?case by simp
qed simp

lemma redact_stream_redact:
  assumes "new_redactor values = Inr r"
  shows "redact_stream chunks r = Some (redact r (concat chunks))"
proof -
  have s: "streaming r" using new_redactor_ok [OF assms] by (simp add: streaming_def)
  from feed_all_streaming [OF s, of chunks] obtain r' out where f: "feed_all chunks r = Some (r', out)"
    "streaming r'" "redact r (concat chunks) = out @ redact r' (rd_pending r')"
    using new_redactor_ok(2) [OF assms] by auto
  have "\<exists>r''. finish r' = Some (r'', redact r' (rd_pending r'))"
    using f(2) by (auto simp: finish_def streaming_def consume_final)
  with f show ?thesis by (auto simp: redact_stream_def)
qed

lemma feed_pending:
  assumes "streaming r" and "feed content r = Some (r', out)"
  shows "streaming r' \<and> rd_maximum r' = rd_maximum r
     \<and> (pending_bytes r' = 0 \<or> pending_bytes r' < rd_maximum r')"
  using assms
  by (auto simp: feed_def streaming_def pending_bytes_def split: if_splits option.splits dest: consume_pending)

lemma feed_all_pending:
  "feed_all chunks r = Some (r', out) \<Longrightarrow> streaming r
   \<Longrightarrow> pending_bytes r = 0 \<or> pending_bytes r < rd_maximum r
   \<Longrightarrow> rd_maximum r' = rd_maximum r \<and> (pending_bytes r' = 0 \<or> pending_bytes r' < rd_maximum r')"
proof (induction chunks arbitrary: r out)
  case (Cons c cs)
  from Cons.prems(1) obtain r1 o1 o2 where "feed c r = Some (r1, o1)" "feed_all cs r1 = Some (r', o2)"
    by (auto split: option.splits)
  with feed_pending [OF Cons.prems(2)] Cons.IH show ?case by metis
qed simp

section \<open>What a redacted stream is\<close>

text \<open>
  The intended result, without positions, buffers or chunks: reading from the left, the longest
  secret that starts at a position is replaced by the marker, every other byte is kept.
\<close>

inductive redaction :: "byte list set \<Rightarrow> byte list \<Rightarrow> byte list \<Rightarrow> bool" for S where
  redaction_end: "redaction S [] []"
| redaction_keep: "(\<And>s. s \<in> S \<Longrightarrow> \<not> prefix s (b # bs)) \<Longrightarrow> redaction S bs out
    \<Longrightarrow> redaction S (b # bs) (b # out)"
| redaction_secret: "s \<in> S \<Longrightarrow> s \<noteq> [] \<Longrightarrow> (\<And>t. t \<in> S \<Longrightarrow> prefix t (s @ rest) \<Longrightarrow> length t \<le> length s)
    \<Longrightarrow> redaction S rest out \<Longrightarrow> redaction S (s @ rest) (REDACTION_MARKER @ out)"

inductive_cases redaction_NilE: "redaction S [] out"
inductive_cases redaction_ConsE: "redaction S (b # bs) out"

lemma redact_redaction:
  assumes "redactor_ok r"
  shows "redaction (set (rd_patterns r)) data (redact r data)"
proof (induction data rule: length_induct)
  case (1 data)
  show ?case
  proof (cases data)
    case Nil
    then show ?thesis by (simp add: redaction_end)
  next
    case (Cons b bs)
    show ?thesis
    proof (cases "matched r data")
      case None
      then have "\<not> prefix s data" if "s \<in> set (rd_patterns r)" for s
        using that by (auto simp: matched_def find_None_iff)
      with None 1 assms Cons show ?thesis by (auto simp: redact_Cons intro!: redaction_keep)
    next
      case (Some p)
      note p = matchedD [OF Some assms]
      obtain rest where rest: "data = p @ rest" using p(2) by (auto simp: prefix_def)
      with 1 p(3) have "redaction (set (rd_patterns r)) rest (redact r rest)" by simp
      moreover have "redact r data = REDACTION_MARKER @ redact r (drop (length p) data)"
        using Some Cons by (simp add: redact_Cons [OF assms])
      then have "redact r data = REDACTION_MARKER @ redact r rest" by (simp add: rest)
      ultimately show ?thesis
        using p rest by (auto intro!: redaction_secret)
    qed
  qed
qed

lemma redaction_unique: "redaction S data out \<Longrightarrow> redaction S data out' \<Longrightarrow> out = out'"
proof (induction arbitrary: out' rule: redaction.induct)
  case redaction_end
  then show ?case by (auto elim: redaction.cases)
next
  case (redaction_keep b bs out)
  from redaction_keep.prems show ?case
  proof (cases rule: redaction.cases)
    case (redaction_keep out'')
    then show ?thesis using redaction_keep.IH by blast
  next
    case (redaction_secret s rest out'')
    then show ?thesis using redaction_keep.hyps(1) by (metis prefixI)
  qed
next
  case (redaction_secret s rest out)
  note s = redaction_secret.hyps
  note IH = redaction_secret.IH
  from redaction_secret.prems show ?case
  proof (cases rule: redaction.cases)
    case redaction_end
    then show ?thesis using s(2) by simp
  next
    case (redaction_keep b bs out'')
    then show ?thesis using s(1) by (metis prefixI)
  next
    case (redaction_secret t rest' out'')
    have "length t \<le> length s" using s(3) [of t] redaction_secret(1,3) by (metis prefixI)
    moreover have "length s \<le> length t" using redaction_secret(5) [of s] redaction_secret(1) s(1) by (metis prefixI)
    ultimately have "rest = rest'" using redaction_secret(1) by simp
    then show ?thesis using redaction_secret IH by blast
  qed
qed

lemma replace_text_absent: "\<not> sublist old s \<Longrightarrow> replace_text old new s = s"
proof (induction s)
  case (Cons c cs)
  then have "\<not> prefix old (c # cs)" "\<not> sublist old cs"
    by (auto simp: sublist_Cons_right)
  with Cons.IH show ?case by simp
qed simp

lemma redact_text_absent: "(\<And>s. s \<in> set secrets \<Longrightarrow> \<not> sublist s v) \<Longrightarrow> redact_text v secrets = v"
proof -
  assume absent: "\<And>s. s \<in> set secrets \<Longrightarrow> \<not> sublist s v"
  have "foldl (\<lambda>redacted secret. replace_text secret m redacted) v xs = v" if "set xs \<subseteq> set secrets" for xs m
    using that by (induction xs) (auto simp: replace_text_absent absent)
  then show ?thesis unfolding redact_text_def by (rule) auto
qed

section \<open>Properties\<close>

text \<open>
  C5. The streaming redactor writes exactly the leftmost-longest redaction of the data it was
  fed: for every way the log bytes are cut into chunks, feeding the chunks and finishing ends
  and outputs the one byte string in which, reading from the left, the longest secret starting at
  a position is replaced by the marker and every other byte is kept.
\<close>

theorem stream_redaction_exact:
  assumes "new_redactor values = Inr r"
  shows "redact_stream chunks r = Some out \<longleftrightarrow> redaction (set (rd_patterns r)) (concat chunks) out"
proof -
  have exact: "redaction (set (rd_patterns r)) (concat chunks) (redact r (concat chunks))"
    by (rule redact_redaction [OF new_redactor_ok(1) [OF assms]])
  show ?thesis
    unfolding redact_stream_redact [OF assms] option.inject
    by (rule iffI) (use exact in blast, erule redaction_unique [OF exact])
qed

definition example_secrets :: "nat list list" where
  "example_secrets = [map of_char ''key'', map of_char ''keyring'', []]"

definition example_redactor :: redactor where
  "example_redactor =
     \<lparr>rd_patterns = [map of_char ''keyring'', map of_char ''key''], rd_maximum = 7, rd_pending = []\<rparr>"

lemma example_new_redactor: "new_redactor example_secrets = Inr example_redactor"
  by code_simp

theorem stream_redaction_exact_witness:
  "redaction (set (rd_patterns example_redactor))
     (concat [map of_char ''a ke'', map of_char ''yri'', map of_char ''ng''])
     (map of_char ''a '' @ REDACTION_MARKER)"
proof -
  have "redact_stream [map of_char ''a ke'', map of_char ''yri'', map of_char ''ng''] example_redactor
      = Some (map of_char ''a '' @ REDACTION_MARKER)"
    by code_simp
  then show ?thesis by (simp only: stream_redaction_exact [OF example_new_redactor])
qed



text \<open>
  C29. The redactor holds back less than one secret: after any chunk, the bytes kept pending are
  none or fewer than the longest pattern has, whatever was fed before.
\<close>

theorem pending_bounded:
  assumes "new_redactor values = Inr r" and "feed_all (chunks @ [chunk]) r = Some (r', out)"
  shows "pending_bytes r' = 0 \<or> pending_bytes r' < rd_maximum r"
proof -
  have "streaming r" using new_redactor_ok [OF assms(1)] by (simp add: streaming_def)
  then have "pending_bytes r' = 0 \<or> pending_bytes r' < rd_maximum r'" "rd_maximum r' = rd_maximum r"
    using feed_all_pending [OF assms(2)] new_redactor_ok(2) [OF assms(1)]
    by (auto simp: pending_bytes_def)
  then show ?thesis by simp
qed

theorem pending_bounded_witness:
  "\<exists>r' out. feed_all ([map of_char ''a k''] @ [map of_char ''eyr'']) example_redactor = Some (r', out)
     \<and> pending_bytes r' = 4 \<and> (pending_bytes r' = 0 \<or> pending_bytes r' < rd_maximum example_redactor)"
proof -
  let ?r = "example_redactor\<lparr>rd_pending := map of_char ''keyr''\<rparr>"
  have f: "feed_all ([map of_char ''a k''] @ [map of_char ''eyr'']) example_redactor = Some (?r, map of_char ''a '')"
    by code_simp
  have "pending_bytes ?r = 4" by (simp add: pending_bytes_def)
  with f pending_bounded [OF example_new_redactor f] show ?thesis by blast
qed

end
