(* ===== verification/Quotas.thy ===== *)
theory Quotas
  imports Models
begin

text \<open>
  Project quota accounting, \<open>repositories/quotas.py\<close>. Every operation runs in the
  caller's transaction on a database that contains the quota tables; \<open>now\<close> is the
  database clock, constant within a transaction. Shown here: the counters stay
  non-negative and consistent with their per-vendor parts, usage never exceeds the
  limits of a project (\<open>within_limits\<close>), and the counters form a ledger.
\<close>

section \<open>Checks\<close>

definition date_of :: "datetime \<Rightarrow> int" where
  "date_of now = now div 86400000000"

definition check_limit :: "string \<Rightarrow> rat option \<Rightarrow> rat \<Rightarrow> repo_error + unit" where
  "check_limit resource limit requested =
     (case limit of
        None \<Rightarrow> Inr ()
      | Some l \<Rightarrow> if requested > l then Inl (QuotaExceededError resource l requested) else Inr ())"

abbreviation check_count :: "string \<Rightarrow> int option \<Rightarrow> int \<Rightarrow> repo_error + unit" where
  "check_count resource limit requested \<equiv>
     check_limit resource (map_option of_int limit) (of_int requested)"

definition validate_reservation :: "int \<Rightarrow> int \<Rightarrow> int \<Rightarrow> rat \<Rightarrow> repo_error + unit" where
  "validate_reservation cpu_millicores memory_mb gpu_count cost =
     guard (\<not> (cpu_millicores < 0 \<or> memory_mb < 0 \<or> gpu_count < 0 \<or> cost < 0)) ValueError"

definition assert_state_nonnegative :: "project_quota_state \<Rightarrow> repo_error + unit" where
  "assert_state_nonnegative state =
    (if qs_queued_tasks state < 0 \<or> qs_running_tasks state < 0
        \<or> qs_reserved_cpu_millicores state < 0 \<or> qs_reserved_memory_mb state < 0
        \<or> qs_reserved_gpus state < 0 \<or> qs_reserved_nvidia_gpus state < 0
        \<or> qs_reserved_ascend_npus state < 0 \<or> qs_service_count state < 0
        \<or> qs_service_replicas state < 0 \<or> qs_service_reserved_cpu_millicores state < 0
        \<or> qs_service_reserved_memory_mb state < 0 \<or> qs_service_reserved_gpus state < 0
        \<or> qs_service_reserved_nvidia_gpus state < 0 \<or> qs_service_reserved_ascend_npus state < 0
        \<or> qs_artifact_bytes state < 0 \<or> qs_daily_reserved_cost state < 0
        \<or> qs_daily_settled_cost state < 0
     then Inl QuotaInvariantViolation
     else if qs_reserved_gpus state \<noteq> qs_reserved_nvidia_gpus state + qs_reserved_ascend_npus state
     then Inl QuotaInvariantViolation
     else if qs_service_reserved_gpus state
             \<noteq> qs_service_reserved_nvidia_gpus state + qs_service_reserved_ascend_npus state
     then Inl QuotaInvariantViolation
     else Inr ())"

definition normalize_accelerator_vendor ::
  "string option \<Rightarrow> int \<Rightarrow> repo_error + accelerator_vendor option" where
  "normalize_accelerator_vendor v gpu_count =
     (if gpu_count = 0 then Inr None
      else case v of
        None \<Rightarrow> Inr (Some NVIDIA)
      | Some s \<Rightarrow> (case accelerator_vendor_of s of
                    None \<Rightarrow> Inl ValueError
                  | Some vendor \<Rightarrow> Inr (Some vendor)))"

definition roll_daily_state :: "project_quota_state \<Rightarrow> int \<Rightarrow> project_quota_state \<times> bool" where
  "roll_daily_state state current_date =
     (if qs_accounting_date state \<noteq> current_date
      then (state\<lparr>qs_accounting_date := current_date, qs_daily_reserved_cost := 0,
                  qs_daily_settled_cost := 0, qs_version := qs_version state + 1\<rparr>, True)
      else (state, False))"

definition touch_state :: "datetime \<Rightarrow> project_quota_state \<Rightarrow> repo_error + project_quota_state" where
  "touch_state now state =
     ebind (assert_state_nonnegative state) (\<lambda>_.
       Inr (state\<lparr>qs_version := qs_version state + 1, qs_updated_at := now\<rparr>))"

definition validate_service_commitment ::
  "int \<Rightarrow> int \<Rightarrow> int \<Rightarrow> int \<Rightarrow> int \<Rightarrow> repo_error + unit" where
  "validate_service_commitment current_replicas desired_replicas cpu_millicores memory_mb gpu_count =
     guard (\<not> (current_replicas < 0 \<or> desired_replicas < 0 \<or> cpu_millicores < 0 \<or> memory_mb < 0
              \<or> gpu_count < 0)) ValueError"

section \<open>Operations\<close>

record quota_snapshot =
  snap_quota :: project_quota
  snap_state :: project_quota_state

definition put_state :: "project_quota_state \<Rightarrow> 'a quota_db_scheme \<Rightarrow> 'a quota_db_scheme" where
  "put_state state db = db\<lparr>tb_quota_states := tput qs_project_id state (tb_quota_states db)\<rparr>"

definition new_quota :: "datetime \<Rightarrow> uuid \<Rightarrow> project_quota" where
  "new_quota now project_id =
     \<lparr>q_project_id = project_id, q_max_queued_tasks = None, q_max_running_tasks = None,
      q_max_cpu_millicores = None, q_max_memory_mb = None, q_max_gpus = None,
      q_max_nvidia_gpus = None, q_max_ascend_npus = Some 0, q_max_services = None,
      q_max_service_replicas = None, q_max_artifact_bytes = None, q_daily_cost_limit = None,
      q_version = 1, q_updated_at = now\<rparr>"

definition new_quota_state :: "datetime \<Rightarrow> uuid \<Rightarrow> project_quota_state" where
  "new_quota_state now project_id =
     \<lparr>qs_project_id = project_id, qs_queued_tasks = 0, qs_running_tasks = 0,
      qs_reserved_cpu_millicores = 0, qs_reserved_memory_mb = 0, qs_reserved_gpus = 0,
      qs_reserved_nvidia_gpus = 0, qs_reserved_ascend_npus = 0, qs_service_count = 0,
      qs_service_replicas = 0, qs_service_reserved_cpu_millicores = 0,
      qs_service_reserved_memory_mb = 0, qs_service_reserved_gpus = 0,
      qs_service_reserved_nvidia_gpus = 0, qs_service_reserved_ascend_npus = 0,
      qs_artifact_bytes = 0, qs_accounting_date = date_of now, qs_daily_reserved_cost = 0,
      qs_daily_settled_cost = 0, qs_version = 1, qs_updated_at = now\<rparr>"

definition initialize ::
  "datetime \<Rightarrow> uuid \<Rightarrow> 'a quota_db_scheme \<Rightarrow> repo_error + 'a quota_db_scheme \<times> quota_snapshot" where
  "initialize now project_id db =
    (case tget p_id project_id (tb_projects db) of
       None \<Rightarrow> Inl QuotaNotFoundError
     | Some project \<Rightarrow>
       if p_status project \<noteq> PS_ACTIVE then Inl QuotaNotFoundError
       else
         let (quota, db1) =
               (case tget q_project_id project_id (tb_quotas db) of
                  Some quota \<Rightarrow> (quota, db)
                | None \<Rightarrow> (new_quota now project_id,
                           db\<lparr>tb_quotas := tb_quotas db @ [new_quota now project_id]\<rparr>));
             (state, db2) =
               (case tget qs_project_id project_id (tb_quota_states db1) of
                  Some state \<Rightarrow> (state, db1)
                | None \<Rightarrow> (new_quota_state now project_id,
                           db1\<lparr>tb_quota_states := tb_quota_states db1 @ [new_quota_state now project_id]\<rparr>))
         in ebind (assert_state_nonnegative state) (\<lambda>_.
              Inr (db2, \<lparr>snap_quota = quota, snap_state = state\<rparr>)))"

definition get_locked_reset ::
  "bool \<Rightarrow> datetime \<Rightarrow> uuid \<Rightarrow> 'a quota_db_scheme \<Rightarrow> repo_error + 'a quota_db_scheme \<times> quota_snapshot" where
  "get_locked_reset reset_daily now project_id db =
    (case (tget q_project_id project_id (tb_quotas db),
           tget qs_project_id project_id (tb_quota_states db)) of
       (Some quota, Some state) \<Rightarrow>
         ebind (assert_state_nonnegative state) (\<lambda>_.
           let (rolled_state, rolled) =
                 (if reset_daily then roll_daily_state state (date_of now) else (state, False));
               state' = (if rolled then rolled_state\<lparr>qs_updated_at := now\<rparr> else rolled_state)
           in Inr (put_state state' db, \<lparr>snap_quota = quota, snap_state = state'\<rparr>))
     | _ \<Rightarrow> Inl QuotaNotFoundError)"

abbreviation get_locked ::
  "datetime \<Rightarrow> uuid \<Rightarrow> 'a quota_db_scheme \<Rightarrow> repo_error + 'a quota_db_scheme \<times> quota_snapshot" where
  "get_locked \<equiv> get_locked_reset True"

definition get_snapshot ::
  "uuid \<Rightarrow> 'a quota_db_scheme \<Rightarrow> repo_error + quota_snapshot" where
  "get_snapshot project_id db =
    (case (tget q_project_id project_id (tb_quotas db),
           tget qs_project_id project_id (tb_quota_states db)) of
       (Some quota, Some state) \<Rightarrow>
         ebind (assert_state_nonnegative state) (\<lambda>_.
           Inr \<lparr>snap_quota = quota, snap_state = state\<rparr>)
     | _ \<Rightarrow> Inl QuotaNotFoundError)"

definition admit_queued ::
  "datetime \<Rightarrow> uuid \<Rightarrow> 'a quota_db_scheme \<Rightarrow> repo_error + 'a quota_db_scheme \<times> project_quota_state" where
  "admit_queued now project_id db =
     ebind (get_locked now project_id db) (\<lambda>(db, snapshot).
     let prospective = qs_queued_tasks (snap_state snapshot) + 1 in
     ebind (check_count ''queued_tasks'' (q_max_queued_tasks (snap_quota snapshot)) prospective) (\<lambda>_.
     ebind (touch_state now ((snap_state snapshot)\<lparr>qs_queued_tasks := prospective\<rparr>)) (\<lambda>state.
     Inr (put_state state db, state))))"

definition release_queued ::
  "datetime \<Rightarrow> uuid \<Rightarrow> 'a quota_db_scheme \<Rightarrow> repo_error + 'a quota_db_scheme \<times> project_quota_state" where
  "release_queued now project_id db =
     ebind (get_locked now project_id db) (\<lambda>(db, snapshot).
     let state = snap_state snapshot in
     ebind (guard (\<not> qs_queued_tasks state < 1) QuotaInvariantViolation) (\<lambda>_.
     ebind (touch_state now (state\<lparr>qs_queued_tasks := qs_queued_tasks state - 1\<rparr>)) (\<lambda>state.
     Inr (put_state state db, state))))"

definition replace_quota ::
  "datetime \<Rightarrow> uuid \<Rightarrow> project_quota \<Rightarrow> 'a quota_db_scheme
   \<Rightarrow> repo_error + 'a quota_db_scheme \<times> quota_snapshot" where
  "replace_quota now project_id values db =
     ebind (guard (list_all (\<lambda>v. case v of None \<Rightarrow> True | Some n \<Rightarrow> \<not> n < 0)
         [q_max_queued_tasks values, q_max_running_tasks values, q_max_cpu_millicores values,
          q_max_memory_mb values, q_max_gpus values, q_max_nvidia_gpus values,
          q_max_ascend_npus values, q_max_services values, q_max_service_replicas values,
          q_max_artifact_bytes values]
       \<and> (case q_daily_cost_limit values of None \<Rightarrow> True | Some c \<Rightarrow> \<not> c < 0)) ValueError) (\<lambda>_.
     ebind (get_locked now project_id db) (\<lambda>(db, snapshot).
     let quota = snap_quota snapshot; state = snap_state snapshot in
     ebind (check_count ''queued_tasks'' (q_max_queued_tasks values) (qs_queued_tasks state)) (\<lambda>_.
     ebind (check_count ''running_tasks'' (q_max_running_tasks values)
              (qs_running_tasks state + qs_service_replicas state)) (\<lambda>_.
     ebind (check_count ''cpu_millicores'' (q_max_cpu_millicores values)
              (qs_reserved_cpu_millicores state + qs_service_reserved_cpu_millicores state)) (\<lambda>_.
     ebind (check_count ''memory_mb'' (q_max_memory_mb values)
              (qs_reserved_memory_mb state + qs_service_reserved_memory_mb state)) (\<lambda>_.
     ebind (check_count ''gpus'' (q_max_gpus values)
              (qs_reserved_gpus state + qs_service_reserved_gpus state)) (\<lambda>_.
     ebind (check_count ''nvidia_gpus'' (q_max_nvidia_gpus values)
              (qs_reserved_nvidia_gpus state + qs_service_reserved_nvidia_gpus state)) (\<lambda>_.
     ebind (check_count ''ascend_npus'' (q_max_ascend_npus values)
              (qs_reserved_ascend_npus state + qs_service_reserved_ascend_npus state)) (\<lambda>_.
     ebind (check_count ''services'' (q_max_services values) (qs_service_count state)) (\<lambda>_.
     ebind (check_count ''service_replicas'' (q_max_service_replicas values)
              (qs_service_replicas state)) (\<lambda>_.
     ebind (check_count ''artifact_bytes'' (q_max_artifact_bytes values)
              (qs_artifact_bytes state)) (\<lambda>_.
     ebind (check_limit ''daily_cost'' (q_daily_cost_limit values)
              (qs_daily_reserved_cost state + qs_daily_settled_cost state)) (\<lambda>_.
     let quota' = values\<lparr>q_project_id := q_project_id quota, q_version := q_version quota + 1,
                         q_updated_at := now\<rparr> in
     Inr (db\<lparr>tb_quotas := tput q_project_id quota' (tb_quotas db)\<rparr>,
          \<lparr>snap_quota = quota', snap_state = state\<rparr>))))))))))))))"

definition vendor_limit :: "project_quota \<Rightarrow> accelerator_vendor \<Rightarrow> int option" where
  "vendor_limit quota vendor =
     (case vendor of NVIDIA \<Rightarrow> q_max_nvidia_gpus quota | HUAWEI_ASCEND \<Rightarrow> q_max_ascend_npus quota)"

primrec normalize_all ::
  "string list \<Rightarrow> int \<Rightarrow> repo_error + accelerator_vendor option list" where
  "normalize_all [] gpu_count = Inr []"
| "normalize_all (v # vs) gpu_count =
     ebind (normalize_accelerator_vendor (Some v) gpu_count) (\<lambda>x.
     ebind (normalize_all vs gpu_count) (\<lambda>xs. Inr (x # xs)))"

definition ensure_task_can_fit ::
  "quota_snapshot \<Rightarrow> int \<Rightarrow> int \<Rightarrow> int \<Rightarrow> string option \<Rightarrow> string list option \<Rightarrow> repo_error + unit" where
  "ensure_task_can_fit snapshot cpu_millicores memory_mb gpu_count vendor_arg vendors_arg =
     ebind (validate_reservation cpu_millicores memory_mb gpu_count 0) (\<lambda>_.
     let quota = snap_quota snapshot in
     ebind (check_count ''running_tasks'' (q_max_running_tasks quota) 1) (\<lambda>_.
     ebind (check_count ''cpu_millicores'' (q_max_cpu_millicores quota) cpu_millicores) (\<lambda>_.
     ebind (check_count ''memory_mb'' (q_max_memory_mb quota) memory_mb) (\<lambda>_.
     ebind (check_count ''gpus'' (q_max_gpus quota) gpu_count) (\<lambda>_.
     case vendors_arg of
       Some raw \<Rightarrow>
         ebind (guard (vendor_arg = None) ValueError) (\<lambda>_.
         ebind (normalize_all raw gpu_count) (\<lambda>vendors.
         ebind (guard (vendors \<noteq> [] \<and> None \<notin> set vendors) ValueError) (\<lambda>_.
         let candidate_limits = map (vendor_limit quota \<circ> the) vendors in
         if \<exists>limit \<in> set candidate_limits. (case limit of None \<Rightarrow> True | Some l \<Rightarrow> gpu_count \<le> l)
         then Inr ()
         else Inl (QuotaExceededError ''vendor_accelerators''
                (of_int (Max (set (map (\<lambda>limit. case limit of None \<Rightarrow> 0 | Some l \<Rightarrow> l) candidate_limits))))
                (of_int gpu_count)))))
     | None \<Rightarrow>
         ebind (normalize_accelerator_vendor vendor_arg gpu_count) (\<lambda>vendor.
         case vendor of
           Some NVIDIA \<Rightarrow> check_count ''nvidia_gpus'' (q_max_nvidia_gpus quota) gpu_count
         | Some HUAWEI_ASCEND \<Rightarrow> check_count ''ascend_npus'' (q_max_ascend_npus quota) gpu_count
         | None \<Rightarrow> Inr ()))))))"

definition reserve_execution ::
  "datetime \<Rightarrow> uuid \<Rightarrow> int \<Rightarrow> int \<Rightarrow> int \<Rightarrow> rat \<Rightarrow> string option \<Rightarrow> 'a quota_db_scheme
   \<Rightarrow> repo_error + 'a quota_db_scheme \<times> project_quota_state" where
  "reserve_execution now project_id cpu_millicores memory_mb gpu_count estimated_cost vendor_arg db =
     ebind (validate_reservation cpu_millicores memory_mb gpu_count estimated_cost) (\<lambda>_.
     ebind (get_locked now project_id db) (\<lambda>(db, snapshot).
     let quota = snap_quota snapshot; state = snap_state snapshot in
     ebind (normalize_accelerator_vendor vendor_arg gpu_count) (\<lambda>vendor.
     ebind (guard (\<not> qs_queued_tasks state < 1) QuotaInvariantViolation) (\<lambda>_.
     ebind (check_count ''running_tasks'' (q_max_running_tasks quota)
              (qs_running_tasks state + qs_service_replicas state + 1)) (\<lambda>_.
     ebind (check_count ''cpu_millicores'' (q_max_cpu_millicores quota)
              (qs_reserved_cpu_millicores state + qs_service_reserved_cpu_millicores state
                 + cpu_millicores)) (\<lambda>_.
     ebind (check_count ''memory_mb'' (q_max_memory_mb quota)
              (qs_reserved_memory_mb state + qs_service_reserved_memory_mb state + memory_mb)) (\<lambda>_.
     ebind (check_count ''gpus'' (q_max_gpus quota)
              (qs_reserved_gpus state + qs_service_reserved_gpus state + gpu_count)) (\<lambda>_.
     let prospective_nvidia =
           qs_reserved_nvidia_gpus state + (if vendor = Some NVIDIA then gpu_count else 0);
         prospective_ascend =
           qs_reserved_ascend_npus state + (if vendor = Some HUAWEI_ASCEND then gpu_count else 0) in
     ebind (check_count ''nvidia_gpus'' (q_max_nvidia_gpus quota)
              (prospective_nvidia + qs_service_reserved_nvidia_gpus state)) (\<lambda>_.
     ebind (check_count ''ascend_npus'' (q_max_ascend_npus quota)
              (prospective_ascend + qs_service_reserved_ascend_npus state)) (\<lambda>_.
     ebind (check_limit ''daily_cost'' (q_daily_cost_limit quota)
              (qs_daily_settled_cost state + qs_daily_reserved_cost state + estimated_cost)) (\<lambda>_.
     ebind (touch_state now (state
        \<lparr>qs_queued_tasks := qs_queued_tasks state - 1,
         qs_running_tasks := qs_running_tasks state + 1,
         qs_reserved_cpu_millicores := qs_reserved_cpu_millicores state + cpu_millicores,
         qs_reserved_memory_mb := qs_reserved_memory_mb state + memory_mb,
         qs_reserved_nvidia_gpus := prospective_nvidia,
         qs_reserved_ascend_npus := prospective_ascend,
         qs_reserved_gpus := prospective_nvidia + prospective_ascend,
         qs_daily_reserved_cost := qs_daily_reserved_cost state + estimated_cost\<rparr>)) (\<lambda>state.
     Inr (put_state state db, state)))))))))))))"

definition locked_or_initialized ::
  "datetime \<Rightarrow> uuid \<Rightarrow> 'a quota_db_scheme \<Rightarrow> repo_error + 'a quota_db_scheme \<times> quota_snapshot" where
  "locked_or_initialized now project_id db =
     (case get_locked now project_id db of
        Inl QuotaNotFoundError \<Rightarrow> initialize now project_id db
      | r \<Rightarrow> r)"

definition replace_service_commitment ::
  "datetime \<Rightarrow> uuid \<Rightarrow> int \<Rightarrow> int \<Rightarrow> int \<Rightarrow> int \<Rightarrow> int \<Rightarrow> string option \<Rightarrow> 'a quota_db_scheme
   \<Rightarrow> repo_error + 'a quota_db_scheme \<times> project_quota_state" where
  "replace_service_commitment now project_id current_replicas desired_replicas
     cpu_millicores memory_mb gpu_count vendor_arg db =
     ebind (validate_service_commitment current_replicas desired_replicas cpu_millicores memory_mb
              gpu_count) (\<lambda>_.
     ebind (locked_or_initialized now project_id db) (\<lambda>(db, snapshot).
     let quota = snap_quota snapshot; state = snap_state snapshot in
     ebind (normalize_accelerator_vendor vendor_arg gpu_count) (\<lambda>vendor.
     let replica_delta = desired_replicas - current_replicas;
         service_delta = of_bool (desired_replicas > 0) - of_bool (current_replicas > 0);
         prospective_service_count = qs_service_count state + service_delta;
         prospective_replicas = qs_service_replicas state + replica_delta;
         prospective_cpu = qs_service_reserved_cpu_millicores state + cpu_millicores * replica_delta;
         prospective_memory = qs_service_reserved_memory_mb state + memory_mb * replica_delta;
         accelerator_delta = gpu_count * replica_delta;
         prospective_nvidia = qs_service_reserved_nvidia_gpus state
           + (if vendor = Some NVIDIA then accelerator_delta else 0);
         prospective_ascend = qs_service_reserved_ascend_npus state
           + (if vendor = Some HUAWEI_ASCEND then accelerator_delta else 0);
         prospective_gpus = prospective_nvidia + prospective_ascend in
     ebind (guard (\<not> Min {prospective_service_count, prospective_replicas, prospective_cpu,
              prospective_memory, prospective_gpus, prospective_nvidia, prospective_ascend} < 0)
              QuotaInvariantViolation) (\<lambda>_.
     ebind (check_count ''services'' (q_max_services quota) prospective_service_count) (\<lambda>_.
     ebind (check_count ''service_replicas'' (q_max_service_replicas quota) prospective_replicas) (\<lambda>_.
     ebind (check_count ''running_tasks'' (q_max_running_tasks quota)
              (qs_running_tasks state + prospective_replicas)) (\<lambda>_.
     ebind (check_count ''cpu_millicores'' (q_max_cpu_millicores quota)
              (qs_reserved_cpu_millicores state + prospective_cpu)) (\<lambda>_.
     ebind (check_count ''memory_mb'' (q_max_memory_mb quota)
              (qs_reserved_memory_mb state + prospective_memory)) (\<lambda>_.
     ebind (check_count ''gpus'' (q_max_gpus quota)
              (qs_reserved_gpus state + prospective_gpus)) (\<lambda>_.
     ebind (check_count ''nvidia_gpus'' (q_max_nvidia_gpus quota)
              (qs_reserved_nvidia_gpus state + prospective_nvidia)) (\<lambda>_.
     ebind (check_count ''ascend_npus'' (q_max_ascend_npus quota)
              (qs_reserved_ascend_npus state + prospective_ascend)) (\<lambda>_.
     if replica_delta = 0 then Inr (db, state)
     else
       ebind (touch_state now (state
          \<lparr>qs_service_count := prospective_service_count,
           qs_service_replicas := prospective_replicas,
           qs_service_reserved_cpu_millicores := prospective_cpu,
           qs_service_reserved_memory_mb := prospective_memory,
           qs_service_reserved_gpus := prospective_gpus,
           qs_service_reserved_nvidia_gpus := prospective_nvidia,
           qs_service_reserved_ascend_npus := prospective_ascend\<rparr>)) (\<lambda>state.
       Inr (put_state state db, state))))))))))))))"

definition release_execution ::
  "datetime \<Rightarrow> uuid \<Rightarrow> int \<Rightarrow> int \<Rightarrow> int \<Rightarrow> rat \<Rightarrow> rat \<Rightarrow> int option \<Rightarrow> string option \<Rightarrow> 'a quota_db_scheme
   \<Rightarrow> repo_error + 'a quota_db_scheme \<times> project_quota_state" where
  "release_execution now project_id cpu_millicores memory_mb gpu_count reserved_cost settled_cost
     reservation_accounting_date vendor_arg db =
     ebind (validate_reservation cpu_millicores memory_mb gpu_count reserved_cost) (\<lambda>_.
     ebind (guard (\<not> settled_cost < 0) ValueError) (\<lambda>_.
     ebind (get_locked now project_id db) (\<lambda>(db, snapshot).
     let state = snap_state snapshot in
     ebind (normalize_accelerator_vendor vendor_arg gpu_count) (\<lambda>vendor.
     let typed_reserved =
           (if vendor = Some NVIDIA then qs_reserved_nvidia_gpus state
            else if vendor = Some HUAWEI_ASCEND then qs_reserved_ascend_npus state
            else 0) in
     ebind (guard (\<not> (qs_running_tasks state < 1 \<or> qs_reserved_cpu_millicores state < cpu_millicores
         \<or> qs_reserved_memory_mb state < memory_mb \<or> qs_reserved_gpus state < gpu_count
         \<or> typed_reserved < gpu_count)) QuotaInvariantViolation) (\<lambda>_.
     let release_cost_today =
           (reservation_accounting_date = None
            \<or> reservation_accounting_date = Some (qs_accounting_date state)) in
     ebind (guard (\<not> (release_cost_today \<and> qs_daily_reserved_cost state < reserved_cost))
              QuotaInvariantViolation) (\<lambda>_.
     let nvidia = qs_reserved_nvidia_gpus state - (if vendor = Some NVIDIA then gpu_count else 0);
         ascend = qs_reserved_ascend_npus state - (if vendor = Some HUAWEI_ASCEND then gpu_count else 0) in
     ebind (touch_state now (state
        \<lparr>qs_running_tasks := qs_running_tasks state - 1,
         qs_reserved_cpu_millicores := qs_reserved_cpu_millicores state - cpu_millicores,
         qs_reserved_memory_mb := qs_reserved_memory_mb state - memory_mb,
         qs_reserved_nvidia_gpus := nvidia,
         qs_reserved_ascend_npus := ascend,
         qs_reserved_gpus := nvidia + ascend,
         qs_daily_reserved_cost :=
           (if release_cost_today then qs_daily_reserved_cost state - reserved_cost
            else qs_daily_reserved_cost state),
         qs_daily_settled_cost := qs_daily_settled_cost state + settled_cost\<rparr>)) (\<lambda>state.
     Inr (put_state state db, state))))))))"

section \<open>Locking a project\<close>

definition counters_ok :: "project_quota_state \<Rightarrow> bool" where
  "counters_ok state \<longleftrightarrow> assert_state_nonnegative state = Inr ()"

definition rolled :: "datetime \<Rightarrow> project_quota_state \<Rightarrow> project_quota_state" where
  "rolled now state =
     (if qs_accounting_date state \<noteq> date_of now
      then state\<lparr>qs_accounting_date := date_of now, qs_daily_reserved_cost := 0,
                 qs_daily_settled_cost := 0, qs_version := qs_version state + 1, qs_updated_at := now\<rparr>
      else state)"

lemma counters_ok_iff:
  "counters_ok state \<longleftrightarrow>
     0 \<le> qs_queued_tasks state \<and> 0 \<le> qs_running_tasks state
     \<and> 0 \<le> qs_reserved_cpu_millicores state \<and> 0 \<le> qs_reserved_memory_mb state
     \<and> 0 \<le> qs_reserved_nvidia_gpus state \<and> 0 \<le> qs_reserved_ascend_npus state
     \<and> 0 \<le> qs_service_count state \<and> 0 \<le> qs_service_replicas state
     \<and> 0 \<le> qs_service_reserved_cpu_millicores state \<and> 0 \<le> qs_service_reserved_memory_mb state
     \<and> 0 \<le> qs_service_reserved_nvidia_gpus state \<and> 0 \<le> qs_service_reserved_ascend_npus state
     \<and> 0 \<le> qs_artifact_bytes state \<and> 0 \<le> qs_daily_reserved_cost state
     \<and> 0 \<le> qs_daily_settled_cost state
     \<and> qs_reserved_gpus state = qs_reserved_nvidia_gpus state + qs_reserved_ascend_npus state
     \<and> qs_service_reserved_gpus state
         = qs_service_reserved_nvidia_gpus state + qs_service_reserved_ascend_npus state"
  by (auto simp: counters_ok_def assert_state_nonnegative_def)

lemma counters_ok_touched [simp]:
  "counters_ok (state\<lparr>qs_version := v, qs_updated_at := u\<rparr>) = counters_ok state"
  "counters_ok (state\<lparr>qs_version := v\<rparr>) = counters_ok state"
  "counters_ok (state\<lparr>qs_updated_at := u\<rparr>) = counters_ok state"
  by (simp_all add: counters_ok_iff)

lemma check_limit_ok [simp]:
  "check_limit resource limit requested = Inr u \<longleftrightarrow> (\<forall>l. limit = Some l \<longrightarrow> requested \<le> l)"
  by (auto simp: check_limit_def split: option.splits)

lemma touch_state_ok [simp]:
  "touch_state now state = Inr state' \<longleftrightarrow>
     counters_ok state \<and> state' = state\<lparr>qs_version := qs_version state + 1, qs_updated_at := now\<rparr>"
  by (auto simp: touch_state_def counters_ok_def ebind_eq_Inr)

lemma get_locked_present:
  assumes "tget q_project_id pid (tb_quotas db) = Some quota"
    and "tget qs_project_id pid (tb_quota_states db) = Some state"
  shows "get_locked now pid db = ebind (assert_state_nonnegative state) (\<lambda>_.
    Inr (put_state (rolled now state) db, \<lparr>snap_quota = quota, snap_state = rolled now state\<rparr>))"
  by (cases "qs_accounting_date state = date_of now")
    (simp_all add: get_locked_reset_def assms rolled_def roll_daily_state_def Let_def)

lemma get_locked_eq_Inr:
  "get_locked now pid db = Inr (db', snap) \<longleftrightarrow>
     (\<exists>quota state. tget q_project_id pid (tb_quotas db) = Some quota
        \<and> tget qs_project_id pid (tb_quota_states db) = Some state \<and> counters_ok state
        \<and> db' = put_state (rolled now state) db
        \<and> snap = \<lparr>snap_quota = quota, snap_state = rolled now state\<rparr>)"
proof (cases "tget q_project_id pid (tb_quotas db)")
  case None
  then show ?thesis by (simp add: get_locked_reset_def)
next
  case (Some quota)
  show ?thesis
  proof (cases "tget qs_project_id pid (tb_quota_states db)")
    case None
    with Some show ?thesis by (simp add: get_locked_reset_def)
  next
    case state: (Some state)
    show ?thesis
      unfolding get_locked_present [OF Some state] ebind_eq_Inr counters_ok_def
      using Some state by auto
  qed
qed

lemma rolled_simps [simp]:
  "qs_project_id (rolled now state) = qs_project_id state"
  "qs_queued_tasks (rolled now state) = qs_queued_tasks state"
  "qs_running_tasks (rolled now state) = qs_running_tasks state"
  "qs_reserved_cpu_millicores (rolled now state) = qs_reserved_cpu_millicores state"
  "qs_reserved_memory_mb (rolled now state) = qs_reserved_memory_mb state"
  "qs_reserved_gpus (rolled now state) = qs_reserved_gpus state"
  "qs_reserved_nvidia_gpus (rolled now state) = qs_reserved_nvidia_gpus state"
  "qs_reserved_ascend_npus (rolled now state) = qs_reserved_ascend_npus state"
  "qs_service_count (rolled now state) = qs_service_count state"
  "qs_service_replicas (rolled now state) = qs_service_replicas state"
  "qs_service_reserved_cpu_millicores (rolled now state) = qs_service_reserved_cpu_millicores state"
  "qs_service_reserved_memory_mb (rolled now state) = qs_service_reserved_memory_mb state"
  "qs_service_reserved_gpus (rolled now state) = qs_service_reserved_gpus state"
  "qs_service_reserved_nvidia_gpus (rolled now state) = qs_service_reserved_nvidia_gpus state"
  "qs_service_reserved_ascend_npus (rolled now state) = qs_service_reserved_ascend_npus state"
  "qs_artifact_bytes (rolled now state) = qs_artifact_bytes state"
  "qs_accounting_date (rolled now state) = date_of now"
  by (simp_all add: rolled_def)

lemma rolled_costs:
  "qs_accounting_date state = date_of now \<Longrightarrow> rolled now state = state"
  by (simp add: rolled_def)

lemma counters_ok_rolled: "counters_ok state \<Longrightarrow> counters_ok (rolled now state)"
  unfolding counters_ok_def assert_state_nonnegative_def rolled_def
  by (auto split: if_splits)

lemma put_state_simps [simp]:
  "tb_quotas (put_state state db) = tb_quotas db"
  "tb_projects (put_state state db) = tb_projects db"
  "tb_quota_states (put_state state db) = tput qs_project_id state (tb_quota_states db)"
  by (simp_all add: put_state_def)

lemma put_state_put_state [simp]:
  "qs_project_id st = qs_project_id st' \<Longrightarrow> put_state st (put_state st' db) = put_state st db"
  by (simp add: put_state_def)

section \<open>What each operation does when it succeeds\<close>

text \<open>The state of a project before an operation: locked and rolled to the current day.\<close>

definition locked_state ::
  "datetime \<Rightarrow> uuid \<Rightarrow> 'a quota_db_scheme \<Rightarrow> project_quota \<Rightarrow> project_quota_state \<Rightarrow> bool" where
  "locked_state now pid db quota state \<longleftrightarrow>
     tget q_project_id pid (tb_quotas db) = Some quota
     \<and> (\<exists>old. tget qs_project_id pid (tb_quota_states db) = Some old \<and> counters_ok old
          \<and> state = rolled now old)"

lemma locked_stateD:
  assumes "locked_state now pid db quota state"
  shows "qs_project_id state = pid" and "q_project_id quota = pid" and "counters_ok state"
    and "quota \<in> set (tb_quotas db)"
  using assms by (auto simp: locked_state_def counters_ok_rolled dest: tget_SomeD)

lemma get_locked_Inr:
  "get_locked now pid db = Inr (db', snap) \<longleftrightarrow>
     (\<exists>quota state. locked_state now pid db quota state \<and> db' = put_state state db
        \<and> snap = \<lparr>snap_quota = quota, snap_state = state\<rparr>)"
  unfolding get_locked_eq_Inr locked_state_def by blast

definition le_limit :: "int \<Rightarrow> int option \<Rightarrow> bool" where
  "le_limit n limit \<longleftrightarrow> (case limit of None \<Rightarrow> True | Some l \<Rightarrow> n \<le> l)"

lemma le_limit_iff: "le_limit n limit \<longleftrightarrow> (\<forall>l. limit = Some l \<longrightarrow> n \<le> l)"
  by (simp add: le_limit_def split: option.split)

lemma check_count_ok [simp]: "check_count resource limit n = Inr u \<longleftrightarrow> le_limit n limit"
  by (auto simp: le_limit_iff)

declare check_limit_ok [simp del]

lemma check_limit_cost [simp]:
  "check_limit ''daily_cost'' limit n = Inr u \<longleftrightarrow> (\<forall>l. limit = Some l \<longrightarrow> n \<le> l)"
  by (rule check_limit_ok)

lemma admit_queued_InrD:
  assumes "admit_queued now pid db = Inr (db', st)"
  shows "\<exists>quota state. locked_state now pid db quota state
     \<and> le_limit (qs_queued_tasks state + 1) (q_max_queued_tasks quota)
     \<and> st = state\<lparr>qs_queued_tasks := qs_queued_tasks state + 1,
                  qs_version := qs_version state + 1, qs_updated_at := now\<rparr>
     \<and> counters_ok st \<and> db' = put_state st db"
proof -
  from assms obtain db1 snap where l: "get_locked now pid db = Inr (db1, snap)"
    unfolding admit_queued_def by (auto simp: ebind_eq_Inr)
  then obtain quota state where *: "locked_state now pid db quota state"
    "db1 = put_state state db" "snap = \<lparr>snap_quota = quota, snap_state = state\<rparr>"
    by (auto simp: get_locked_Inr)
  show ?thesis
    by (rule exI [of _ quota], rule exI [of _ state])
      (use assms in \<open>auto simp: admit_queued_def l * ebind_eq_Inr Let_def counters_ok_iff
        simp del: of_int_add\<close>)
qed

lemma release_queued_InrD:
  assumes "release_queued now pid db = Inr (db', st)"
  shows "\<exists>quota state. locked_state now pid db quota state \<and> 1 \<le> qs_queued_tasks state
     \<and> st = state\<lparr>qs_queued_tasks := qs_queued_tasks state - 1,
                  qs_version := qs_version state + 1, qs_updated_at := now\<rparr>
     \<and> counters_ok st \<and> db' = put_state st db"
proof -
  from assms obtain db1 snap where l: "get_locked now pid db = Inr (db1, snap)"
    unfolding release_queued_def by (auto simp: ebind_eq_Inr)
  then obtain quota state where *: "locked_state now pid db quota state"
    "db1 = put_state state db" "snap = \<lparr>snap_quota = quota, snap_state = state\<rparr>"
    by (auto simp: get_locked_Inr)
  show ?thesis
    by (rule exI [of _ quota], rule exI [of _ state])
      (use assms in \<open>auto simp: release_queued_def l * ebind_eq_Inr Let_def not_less counters_ok_iff\<close>)
qed

definition reserved_state ::
  "int \<Rightarrow> int \<Rightarrow> int \<Rightarrow> rat \<Rightarrow> accelerator_vendor option \<Rightarrow> project_quota_state
   \<Rightarrow> project_quota_state" where
  "reserved_state cpu mem gpus cost vendor state =
     state
        \<lparr>qs_queued_tasks := qs_queued_tasks state - 1,
         qs_running_tasks := qs_running_tasks state + 1,
         qs_reserved_cpu_millicores := qs_reserved_cpu_millicores state + cpu,
         qs_reserved_memory_mb := qs_reserved_memory_mb state + mem,
         qs_reserved_nvidia_gpus :=
           qs_reserved_nvidia_gpus state + (if vendor = Some NVIDIA then gpus else 0),
         qs_reserved_ascend_npus :=
           qs_reserved_ascend_npus state + (if vendor = Some HUAWEI_ASCEND then gpus else 0),
         qs_reserved_gpus := qs_reserved_nvidia_gpus state + (if vendor = Some NVIDIA then gpus else 0)
           + (qs_reserved_ascend_npus state + (if vendor = Some HUAWEI_ASCEND then gpus else 0)),
         qs_daily_reserved_cost := qs_daily_reserved_cost state + cost\<rparr>"

lemma reserved_state_keeps [simp]:
  "qs_project_id (reserved_state cpu mem gpus cost vendor state) = qs_project_id state"
  "qs_version (reserved_state cpu mem gpus cost vendor state) = qs_version state"
  by (simp_all add: reserved_state_def)

lemma reserve_execution_InrD:
  assumes "reserve_execution now pid cpu mem gpus cost vendor_arg db = Inr (db', st)"
  shows "\<exists>quota state vendor. locked_state now pid db quota state
     \<and> normalize_accelerator_vendor vendor_arg gpus = Inr vendor
     \<and> 0 \<le> cpu \<and> 0 \<le> mem \<and> 0 \<le> gpus \<and> 0 \<le> cost \<and> 1 \<le> qs_queued_tasks state
     \<and> le_limit (qs_running_tasks state + qs_service_replicas state + 1) (q_max_running_tasks quota)
     \<and> le_limit (qs_reserved_cpu_millicores state + qs_service_reserved_cpu_millicores state + cpu)
          (q_max_cpu_millicores quota)
     \<and> le_limit (qs_reserved_memory_mb state + qs_service_reserved_memory_mb state + mem)
          (q_max_memory_mb quota)
     \<and> le_limit (qs_reserved_gpus state + qs_service_reserved_gpus state + gpus) (q_max_gpus quota)
     \<and> le_limit (qs_reserved_nvidia_gpus state + (if vendor = Some NVIDIA then gpus else 0)
          + qs_service_reserved_nvidia_gpus state) (q_max_nvidia_gpus quota)
     \<and> le_limit (qs_reserved_ascend_npus state + (if vendor = Some HUAWEI_ASCEND then gpus else 0)
          + qs_service_reserved_ascend_npus state) (q_max_ascend_npus quota)
     \<and> st = (reserved_state cpu mem gpus cost vendor state)
          \<lparr>qs_version := qs_version state + 1, qs_updated_at := now\<rparr>
     \<and> counters_ok st \<and> db' = put_state st db"
proof -
  from assms [unfolded reserve_execution_def] obtain r where "get_locked now pid db = Inr r"
    by (simp only: ebind_eq_Inr) blast
  then obtain quota state where l: "get_locked now pid db =
        Inr (put_state state db, \<lparr>snap_quota = quota, snap_state = state\<rparr>)"
    and ls: "locked_state now pid db quota state"
    by (cases r) (auto simp: get_locked_Inr)
  note facts1 = assms [unfolded reserve_execution_def l ebind_Inr prod.case Let_def quota_snapshot.simps]
  from facts1 obtain vendor where v: "normalize_accelerator_vendor vendor_arg gpus = Inr vendor"
    by (simp only: ebind_eq_Inr) blast
  note facts = facts1 [unfolded v ebind_Inr validate_reservation_def]
  have lims: "le_limit (qs_running_tasks state + qs_service_replicas state + 1) (q_max_running_tasks quota)
     \<and> le_limit (qs_reserved_cpu_millicores state + qs_service_reserved_cpu_millicores state + cpu)
          (q_max_cpu_millicores quota)
     \<and> le_limit (qs_reserved_memory_mb state + qs_service_reserved_memory_mb state + mem)
          (q_max_memory_mb quota)
     \<and> le_limit (qs_reserved_gpus state + qs_service_reserved_gpus state + gpus) (q_max_gpus quota)
     \<and> le_limit (qs_reserved_nvidia_gpus state + (if vendor = Some NVIDIA then gpus else 0)
          + qs_service_reserved_nvidia_gpus state) (q_max_nvidia_gpus quota)
     \<and> le_limit (qs_reserved_ascend_npus state + (if vendor = Some HUAWEI_ASCEND then gpus else 0)
          + qs_service_reserved_ascend_npus state) (q_max_ascend_npus quota)"
    using facts by (simp only: ebind_eq_Inr check_count_ok) blast
  moreover have "0 \<le> cpu \<and> 0 \<le> mem \<and> 0 \<le> gpus \<and> 0 \<le> cost \<and> 1 \<le> qs_queued_tasks state"
    using facts by (simp only: ebind_eq_Inr guard_eq_Inr) linarith
  moreover have "ebind (touch_state now (reserved_state cpu mem gpus cost vendor state))
      (\<lambda>state'. Inr (put_state state' (put_state state db), state')) = Inr (db', st)"
    using facts unfolding reserved_state_def by (simp only: ebind_eq_Inr) blast
  then have "st = (reserved_state cpu mem gpus cost vendor state)
        \<lparr>qs_version := qs_version state + 1, qs_updated_at := now\<rparr> \<and> counters_ok st \<and> db' = put_state st db"
    by (auto simp: ebind_eq_Inr)
  ultimately show ?thesis
    using ls v by blast
qed

definition released_state ::
  "datetime \<Rightarrow> int \<Rightarrow> int \<Rightarrow> int \<Rightarrow> rat \<Rightarrow> rat \<Rightarrow> int option \<Rightarrow> accelerator_vendor option
   \<Rightarrow> project_quota_state \<Rightarrow> project_quota_state" where
  "released_state now cpu mem gpus cost settled date vendor state =
     state
        \<lparr>qs_running_tasks := qs_running_tasks state - 1,
         qs_reserved_cpu_millicores := qs_reserved_cpu_millicores state - cpu,
         qs_reserved_memory_mb := qs_reserved_memory_mb state - mem,
         qs_reserved_nvidia_gpus :=
           qs_reserved_nvidia_gpus state - (if vendor = Some NVIDIA then gpus else 0),
         qs_reserved_ascend_npus :=
           qs_reserved_ascend_npus state - (if vendor = Some HUAWEI_ASCEND then gpus else 0),
         qs_reserved_gpus := qs_reserved_nvidia_gpus state - (if vendor = Some NVIDIA then gpus else 0)
           + (qs_reserved_ascend_npus state - (if vendor = Some HUAWEI_ASCEND then gpus else 0)),
         qs_daily_reserved_cost :=
           (if date = None \<or> date = Some (date_of now) then qs_daily_reserved_cost state - cost
            else qs_daily_reserved_cost state),
         qs_daily_settled_cost := qs_daily_settled_cost state + settled\<rparr>"

lemma released_state_keeps [simp]:
  "qs_project_id (released_state now cpu mem gpus cost settled date vendor state) = qs_project_id state"
  "qs_version (released_state now cpu mem gpus cost settled date vendor state) = qs_version state"
  by (simp_all add: released_state_def)

lemma release_execution_InrD:
  assumes "release_execution now pid cpu mem gpus cost settled date vendor_arg db = Inr (db', st)"
  shows "\<exists>quota state vendor. locked_state now pid db quota state
     \<and> normalize_accelerator_vendor vendor_arg gpus = Inr vendor
     \<and> 0 \<le> cpu \<and> 0 \<le> mem \<and> 0 \<le> gpus \<and> 0 \<le> cost \<and> 0 \<le> settled \<and> 1 \<le> qs_running_tasks state
     \<and> cpu \<le> qs_reserved_cpu_millicores state \<and> mem \<le> qs_reserved_memory_mb state
     \<and> gpus \<le> qs_reserved_gpus state
     \<and> st = (released_state now cpu mem gpus cost settled date vendor state)
          \<lparr>qs_version := qs_version state + 1, qs_updated_at := now\<rparr>
     \<and> counters_ok st \<and> db' = put_state st db"
proof -
  from assms obtain db1 snap vendor where l: "get_locked now pid db = Inr (db1, snap)"
    and v: "normalize_accelerator_vendor vendor_arg gpus = Inr vendor"
    unfolding release_execution_def by (auto simp: ebind_eq_Inr Let_def)
  from l obtain quota state where *: "locked_state now pid db quota state"
    "db1 = put_state state db" "snap = \<lparr>snap_quota = quota, snap_state = state\<rparr>"
    by (auto simp: get_locked_Inr)
  from *(1) have d: "qs_accounting_date state = date_of now"
    by (auto simp: locked_state_def)
  note facts = assms [unfolded release_execution_def l v *(2,3) ebind_Inr prod.case Let_def
      quota_snapshot.simps d]
  from facts have r: "\<not> (cpu < 0 \<or> mem < 0 \<or> gpus < 0 \<or> cost < 0)" "\<not> settled < 0"
    "1 \<le> qs_running_tasks state" "cpu \<le> qs_reserved_cpu_millicores state"
    "mem \<le> qs_reserved_memory_mb state" "gpus \<le> qs_reserved_gpus state"
    unfolding validate_reservation_def by (simp_all only: ebind_eq_Inr guard_eq_Inr) linarith+
  from facts have "ebind (touch_state now (released_state now cpu mem gpus cost settled date vendor state))
      (\<lambda>state'. Inr (put_state state' (put_state state db), state')) = Inr (db', st)"
    unfolding released_state_def by (simp only: ebind_eq_Inr) blast
  with r v *(1) show ?thesis
    by (intro exI [of _ quota] exI [of _ state] exI [of _ vendor]) (auto simp: ebind_eq_Inr not_less)
qed

lemma initialize_InrD:
  assumes "initialize now pid db = Inr (db', snap)"
  shows "\<exists>quota state.
     snap = \<lparr>snap_quota = quota, snap_state = state\<rparr> \<and> counters_ok state
     \<and> (tget q_project_id pid (tb_quotas db) = Some quota \<and> tb_quotas db' = tb_quotas db
        \<or> tget q_project_id pid (tb_quotas db) = None \<and> quota = new_quota now pid
          \<and> tb_quotas db' = tb_quotas db @ [quota])
     \<and> (tget qs_project_id pid (tb_quota_states db) = Some state
          \<and> tb_quota_states db' = tb_quota_states db
        \<or> tget qs_project_id pid (tb_quota_states db) = None \<and> state = new_quota_state now pid
          \<and> tb_quota_states db' = tb_quota_states db @ [state])"
  using assms
  by (cases "tget p_id pid (tb_projects db)"; cases "tget q_project_id pid (tb_quotas db)";
      cases "tget qs_project_id pid (tb_quota_states db)")
    (auto simp: initialize_def ebind_eq_Inr counters_ok_def split: if_splits)

definition service_vendor_delta ::
  "accelerator_vendor option \<Rightarrow> accelerator_vendor \<Rightarrow> int \<Rightarrow> int" where
  "service_vendor_delta vendor v delta = (if vendor = Some v then delta else 0)"

text \<open>The state of the service counters after a commitment changes by \<open>delta\<close> replicas.\<close>

definition service_committed ::
  "int \<Rightarrow> int \<Rightarrow> int \<Rightarrow> int \<Rightarrow> int \<Rightarrow> accelerator_vendor option \<Rightarrow> project_quota_state
   \<Rightarrow> project_quota_state" where
  "service_committed current desired cpu mem gpus vendor state =
     (let delta = desired - current;
          nvidia = qs_service_reserved_nvidia_gpus state
            + service_vendor_delta vendor NVIDIA (gpus * delta);
          ascend = qs_service_reserved_ascend_npus state
            + service_vendor_delta vendor HUAWEI_ASCEND (gpus * delta)
      in state
        \<lparr>qs_service_count := qs_service_count state + (of_bool (desired > 0) - of_bool (current > 0)),
         qs_service_replicas := qs_service_replicas state + delta,
         qs_service_reserved_cpu_millicores := qs_service_reserved_cpu_millicores state + cpu * delta,
         qs_service_reserved_memory_mb := qs_service_reserved_memory_mb state + mem * delta,
         qs_service_reserved_gpus := nvidia + ascend,
         qs_service_reserved_nvidia_gpus := nvidia,
         qs_service_reserved_ascend_npus := ascend\<rparr>)"

definition service_limits :: "project_quota \<Rightarrow> project_quota_state \<Rightarrow> bool" where
  "service_limits quota state \<longleftrightarrow>
     le_limit (qs_service_count state) (q_max_services quota)
     \<and> le_limit (qs_service_replicas state) (q_max_service_replicas quota)
     \<and> le_limit (qs_running_tasks state + qs_service_replicas state) (q_max_running_tasks quota)
     \<and> le_limit (qs_reserved_cpu_millicores state + qs_service_reserved_cpu_millicores state)
          (q_max_cpu_millicores quota)
     \<and> le_limit (qs_reserved_memory_mb state + qs_service_reserved_memory_mb state)
          (q_max_memory_mb quota)
     \<and> le_limit (qs_reserved_gpus state + qs_service_reserved_gpus state) (q_max_gpus quota)
     \<and> le_limit (qs_reserved_nvidia_gpus state + qs_service_reserved_nvidia_gpus state)
          (q_max_nvidia_gpus quota)
     \<and> le_limit (qs_reserved_ascend_npus state + qs_service_reserved_ascend_npus state)
          (q_max_ascend_npus quota)"

lemma service_committed_keeps [simp]:
  "qs_project_id (service_committed current desired cpu mem gpus vendor state) = qs_project_id state"
  "qs_queued_tasks (service_committed current desired cpu mem gpus vendor state) = qs_queued_tasks state"
  "qs_artifact_bytes (service_committed current desired cpu mem gpus vendor state) = qs_artifact_bytes state"
  "qs_version (service_committed current desired cpu mem gpus vendor state) = qs_version state"
  by (simp_all add: service_committed_def Let_def)

lemma service_committed_fields:
  "qs_service_count (service_committed current desired cpu mem gpus vendor state) =
     qs_service_count state + (of_bool (desired > 0) - of_bool (current > 0))"
  "qs_service_replicas (service_committed current desired cpu mem gpus vendor state) =
     qs_service_replicas state + (desired - current)"
  "qs_service_reserved_cpu_millicores (service_committed current desired cpu mem gpus vendor state) =
     qs_service_reserved_cpu_millicores state + cpu * (desired - current)"
  "qs_service_reserved_memory_mb (service_committed current desired cpu mem gpus vendor state) =
     qs_service_reserved_memory_mb state + mem * (desired - current)"
  "qs_service_reserved_nvidia_gpus (service_committed current desired cpu mem gpus vendor state) =
     qs_service_reserved_nvidia_gpus state + service_vendor_delta vendor NVIDIA (gpus * (desired - current))"
  "qs_service_reserved_ascend_npus (service_committed current desired cpu mem gpus vendor state) =
     qs_service_reserved_ascend_npus state
       + service_vendor_delta vendor HUAWEI_ASCEND (gpus * (desired - current))"
  "qs_service_reserved_gpus (service_committed current desired cpu mem gpus vendor state) =
     qs_service_reserved_nvidia_gpus state + service_vendor_delta vendor NVIDIA (gpus * (desired - current))
     + (qs_service_reserved_ascend_npus state
        + service_vendor_delta vendor HUAWEI_ASCEND (gpus * (desired - current)))"
  "qs_running_tasks (service_committed current desired cpu mem gpus vendor state) = qs_running_tasks state"
  "qs_reserved_cpu_millicores (service_committed current desired cpu mem gpus vendor state) =
     qs_reserved_cpu_millicores state"
  "qs_reserved_memory_mb (service_committed current desired cpu mem gpus vendor state) =
     qs_reserved_memory_mb state"
  "qs_reserved_gpus (service_committed current desired cpu mem gpus vendor state) = qs_reserved_gpus state"
  "qs_reserved_nvidia_gpus (service_committed current desired cpu mem gpus vendor state) =
     qs_reserved_nvidia_gpus state"
  "qs_reserved_ascend_npus (service_committed current desired cpu mem gpus vendor state) =
     qs_reserved_ascend_npus state"
  by (simp_all add: service_committed_def Let_def)

lemma replace_service_commitment_InrD:
  assumes "replace_service_commitment now pid current desired cpu mem gpus vendor_arg db = Inr (db', st)"
  shows "\<exists>db1 quota state vendor.
     locked_or_initialized now pid db = Inr (db1, \<lparr>snap_quota = quota, snap_state = state\<rparr>)
     \<and> normalize_accelerator_vendor vendor_arg gpus = Inr vendor
     \<and> 0 \<le> current \<and> 0 \<le> desired \<and> 0 \<le> cpu \<and> 0 \<le> mem \<and> 0 \<le> gpus
     \<and> service_limits quota (service_committed current desired cpu mem gpus vendor state)
     \<and> (if desired = current then st = state \<and> db' = db1
        else st = (service_committed current desired cpu mem gpus vendor state)
               \<lparr>qs_version := qs_version state + 1, qs_updated_at := now\<rparr>
          \<and> counters_ok st \<and> db' = put_state st db1)"
proof -
  from assms [unfolded replace_service_commitment_def] obtain r
    where "locked_or_initialized now pid db = Inr r"
    by (simp only: ebind_eq_Inr) blast
  then obtain db1 snap where l: "locked_or_initialized now pid db = Inr (db1, snap)"
    by (cases r) simp
  from assms [unfolded replace_service_commitment_def l ebind_Inr prod.case Let_def]
  obtain vendor where v: "normalize_accelerator_vendor vendor_arg gpus = Inr vendor"
    by (simp only: ebind_eq_Inr) blast
  obtain quota state where s: "snap = \<lparr>snap_quota = quota, snap_state = state\<rparr>"
    by (cases snap)
  let ?st = "service_committed current desired cpu mem gpus vendor state"
  note facts = assms [unfolded replace_service_commitment_def l v s ebind_Inr prod.case Let_def
      quota_snapshot.simps validate_service_commitment_def]
  have "service_limits quota ?st"
    using facts unfolding service_limits_def service_committed_fields service_vendor_delta_def
    by (simp only: ebind_eq_Inr check_count_ok) blast
  moreover have "0 \<le> current \<and> 0 \<le> desired \<and> 0 \<le> cpu \<and> 0 \<le> mem \<and> 0 \<le> gpus"
    using facts by (simp only: ebind_eq_Inr guard_eq_Inr) linarith
  moreover have "(if desired - current = 0 then Inr (db1, state)
      else ebind (touch_state now ?st) (\<lambda>state. Inr (put_state state db1, state))) = Inr (db', st)"
    using facts unfolding service_committed_def service_vendor_delta_def Let_def
    by (simp only: ebind_eq_Inr) blast
  then have "if desired = current then st = state \<and> db' = db1
      else st = ?st\<lparr>qs_version := qs_version state + 1, qs_updated_at := now\<rparr>
          \<and> counters_ok st \<and> db' = put_state st db1"
    by (cases "desired = current") (auto simp: ebind_eq_Inr)
  ultimately show ?thesis
    using l v unfolding s by blast
qed

definition within_limits :: "project_quota \<Rightarrow> project_quota_state \<Rightarrow> bool" where
  "within_limits quota state \<longleftrightarrow>
     service_limits quota state
     \<and> le_limit (qs_queued_tasks state) (q_max_queued_tasks quota)
     \<and> le_limit (qs_artifact_bytes state) (q_max_artifact_bytes quota)"

lemma replace_quota_InrD:
  assumes "replace_quota now pid vals db = Inr (db', snap)"
  shows "\<exists>quota state quota'. locked_state now pid db quota state
     \<and> quota' = vals\<lparr>q_project_id := q_project_id quota, q_version := q_version quota + 1,
                     q_updated_at := now\<rparr>
     \<and> within_limits quota' state
     \<and> db' = (put_state state db)\<lparr>tb_quotas := tput q_project_id quota' (tb_quotas db)\<rparr>
     \<and> snap = \<lparr>snap_quota = quota', snap_state = state\<rparr>"
proof -
  from assms [unfolded replace_quota_def] obtain r where "get_locked now pid db = Inr r"
    by (simp only: ebind_eq_Inr) blast
  then obtain quota state where l: "get_locked now pid db =
        Inr (put_state state db, \<lparr>snap_quota = quota, snap_state = state\<rparr>)"
    and ls: "locked_state now pid db quota state"
    by (cases r) (auto simp: get_locked_Inr)
  note facts = assms [unfolded replace_quota_def l ebind_Inr prod.case Let_def quota_snapshot.simps]
  let ?q = "vals\<lparr>q_project_id := q_project_id quota, q_version := q_version quota + 1, q_updated_at := now\<rparr>"
  have "service_limits vals state \<and> le_limit (qs_queued_tasks state) (q_max_queued_tasks vals)
      \<and> le_limit (qs_artifact_bytes state) (q_max_artifact_bytes vals)"
    using facts unfolding service_limits_def by (simp only: ebind_eq_Inr check_count_ok) blast
  then have "within_limits ?q state"
    by (simp add: within_limits_def service_limits_def)
  moreover have "Inr ((put_state state db)\<lparr>tb_quotas := tput q_project_id ?q (tb_quotas (put_state state db))\<rparr>,
      \<lparr>snap_quota = ?q, snap_state = state\<rparr>) = Inr (db', snap)"
    using facts by (simp only: ebind_eq_Inr) blast
  ultimately show ?thesis
    using ls by auto
qed

section \<open>Limits and counters are invariant\<close>

definition quota_inv :: "'a quota_db_scheme \<Rightarrow> bool" where
  "quota_inv db \<longleftrightarrow>
     distinct (map q_project_id (tb_quotas db)) \<and> distinct (map qs_project_id (tb_quota_states db))
     \<and> q_project_id ` set (tb_quotas db) = qs_project_id ` set (tb_quota_states db)
     \<and> (\<forall>state \<in> set (tb_quota_states db). counters_ok state)
     \<and> (\<forall>quota \<in> set (tb_quotas db). \<forall>state \<in> set (tb_quota_states db).
          q_project_id quota = qs_project_id state \<longrightarrow> within_limits quota state)"

lemma quota_invD:
  assumes "quota_inv db" and "tget q_project_id pid (tb_quotas db) = Some quota"
    and "tget qs_project_id pid (tb_quota_states db) = Some state"
  shows "counters_ok state" and "within_limits quota state"
  using assms tget_SomeD [OF assms(2)] tget_SomeD [OF assms(3)] by (auto simp: quota_inv_def)

lemma within_limits_rolled [simp]: "within_limits quota (rolled now state) = within_limits quota state"
  by (simp add: within_limits_def service_limits_def)

lemma locked_state_within:
  "quota_inv db \<Longrightarrow> locked_state now pid db quota state \<Longrightarrow> within_limits quota state"
  by (auto simp: locked_state_def dest: quota_invD)

lemma put_state_inv:
  assumes "quota_inv db" and "tget q_project_id pid (tb_quotas db) = Some quota"
    and "qs_project_id st = pid" and "counters_ok st" and "within_limits quota st"
  shows "quota_inv (put_state st db)"
proof -
  from assms(1,2) have u: "quota' = quota" if "quota' \<in> set (tb_quotas db)" "q_project_id quota' = pid" for quota'
    using that by (auto simp: quota_inv_def tget_Some_iff distinct_map dest: inj_onD)
  have "map qs_project_id (tb_quota_states (put_state st db)) = map qs_project_id (tb_quota_states db)"
    by (simp add: tput_keys)
  moreover from this have "qs_project_id ` set (tb_quota_states (put_state st db))
      = qs_project_id ` set (tb_quota_states db)"
    by (metis list.set_map)
  ultimately show ?thesis
    using assms u unfolding quota_inv_def by (auto dest!: set_tputD)
qed

lemma put_locked_inv:
  assumes "quota_inv db" and "locked_state now pid db quota state"
    and "qs_project_id st = pid" and "counters_ok st" and "within_limits quota st"
  shows "quota_inv (put_state st db)"
  using assms by (intro put_state_inv [of db pid quota]) (auto simp: locked_state_def)

lemma get_locked_inv:
  "quota_inv db \<Longrightarrow> get_locked now pid db = Inr (db', snap) \<Longrightarrow> quota_inv db'"
  by (auto simp: get_locked_Inr intro!: put_locked_inv locked_stateD locked_state_within)

lemma admit_queued_inv:
  assumes "quota_inv db" and "admit_queued now pid db = Inr (db', st)"
  shows "quota_inv db'"
proof -
  from admit_queued_InrD [OF assms(2)] obtain quota state where *:
    "locked_state now pid db quota state" "le_limit (qs_queued_tasks state + 1) (q_max_queued_tasks quota)"
    "st = state\<lparr>qs_queued_tasks := qs_queued_tasks state + 1,
                  qs_version := qs_version state + 1, qs_updated_at := now\<rparr>"
    "counters_ok st" "db' = put_state st db"
    by blast
  with locked_state_within [OF assms(1) *(1)] have "within_limits quota st"
    by (simp add: within_limits_def service_limits_def)
  with * assms(1) show ?thesis
    by (auto intro!: put_locked_inv simp: locked_stateD)
qed

lemma le_limit_mono: "le_limit n l \<Longrightarrow> m \<le> n \<Longrightarrow> le_limit m l"
  by (auto simp: le_limit_iff)

lemma release_queued_inv:
  assumes "quota_inv db" and "release_queued now pid db = Inr (db', st)"
  shows "quota_inv db'"
proof -
  from release_queued_InrD [OF assms(2)] obtain quota state where *:
    "locked_state now pid db quota state"
    "st = state\<lparr>qs_queued_tasks := qs_queued_tasks state - 1,
                  qs_version := qs_version state + 1, qs_updated_at := now\<rparr>"
    "counters_ok st" "db' = put_state st db"
    by blast
  with locked_state_within [OF assms(1) *(1)] have "within_limits quota st"
    by (auto simp: within_limits_def service_limits_def intro: le_limit_mono)
  with * assms(1) show ?thesis
    by (auto intro!: put_locked_inv simp: locked_stateD)
qed

lemma normalize_vendor_sum:
  assumes "normalize_accelerator_vendor vendor_arg gpus = Inr vendor"
  shows "(if vendor = Some NVIDIA then gpus else 0) + (if vendor = Some HUAWEI_ASCEND then gpus else 0) = gpus"
  using assms
  by (cases vendor; cases "the vendor")
    (auto simp: normalize_accelerator_vendor_def split: if_splits option.splits)

lemma reserve_execution_inv:
  assumes "quota_inv db"
    and "reserve_execution now pid cpu mem gpus cost vendor_arg db = Inr (db', st)"
  shows "quota_inv db'"
proof -
  from reserve_execution_InrD [OF assms(2)] obtain quota state vendor where ls:
    "locked_state now pid db quota state" and v: "normalize_accelerator_vendor vendor_arg gpus = Inr vendor"
    and lims: "le_limit (qs_running_tasks state + qs_service_replicas state + 1) (q_max_running_tasks quota)"
      "le_limit (qs_reserved_cpu_millicores state + qs_service_reserved_cpu_millicores state + cpu)
          (q_max_cpu_millicores quota)"
      "le_limit (qs_reserved_memory_mb state + qs_service_reserved_memory_mb state + mem)
          (q_max_memory_mb quota)"
      "le_limit (qs_reserved_gpus state + qs_service_reserved_gpus state + gpus) (q_max_gpus quota)"
      "le_limit (qs_reserved_nvidia_gpus state + (if vendor = Some NVIDIA then gpus else 0)
          + qs_service_reserved_nvidia_gpus state) (q_max_nvidia_gpus quota)"
      "le_limit (qs_reserved_ascend_npus state + (if vendor = Some HUAWEI_ASCEND then gpus else 0)
          + qs_service_reserved_ascend_npus state) (q_max_ascend_npus quota)"
    and st: "st = (reserved_state cpu mem gpus cost vendor state)
        \<lparr>qs_version := qs_version state + 1, qs_updated_at := now\<rparr>"
    and ok: "counters_ok st" and db': "db' = put_state st db"
    by blast
  have "qs_reserved_gpus st = qs_reserved_gpus state + gpus"
    using normalize_vendor_sum [OF v] locked_stateD(3) [OF ls]
    unfolding st reserved_state_def counters_ok_iff by simp
  then have "within_limits quota st"
    using locked_state_within [OF assms(1) ls] lims
    unfolding within_limits_def service_limits_def st reserved_state_def
    by (auto simp: algebra_simps intro: le_limit_mono split del: if_split)
  then show ?thesis
    unfolding db' using assms(1) ls ok by (intro put_locked_inv) (simp_all add: st locked_stateD)
qed

lemma release_execution_inv:
  assumes "quota_inv db"
    and "release_execution now pid cpu mem gpus cost settled date vendor_arg db = Inr (db', st)"
  shows "quota_inv db'"
proof -
  from release_execution_InrD [OF assms(2)] obtain quota state vendor where ls:
    "locked_state now pid db quota state" and v: "normalize_accelerator_vendor vendor_arg gpus = Inr vendor"
    and nn: "0 \<le> cpu" "0 \<le> mem" "0 \<le> gpus"
    and st: "st = (released_state now cpu mem gpus cost settled date vendor state)
        \<lparr>qs_version := qs_version state + 1, qs_updated_at := now\<rparr>"
    and ok: "counters_ok st" and db': "db' = put_state st db"
    by blast
  have "qs_reserved_gpus st = qs_reserved_gpus state - gpus"
    using normalize_vendor_sum [OF v] locked_stateD(3) [OF ls]
    unfolding st released_state_def counters_ok_iff by simp
  then have "within_limits quota st"
    using locked_state_within [OF assms(1) ls] nn
    unfolding within_limits_def service_limits_def st released_state_def
    by (auto elim!: le_limit_mono)
  then show ?thesis
    unfolding db' using assms(1) ls ok by (intro put_locked_inv) (simp_all add: st locked_stateD)
qed

lemma new_quota_state_ok: "counters_ok (new_quota_state now pid)"
  by (simp add: counters_ok_iff new_quota_state_def)

lemma new_quota_within: "within_limits (new_quota now pid) (new_quota_state now pid)"
  by (simp add: within_limits_def service_limits_def le_limit_def new_quota_def new_quota_state_def)

lemma initialize_inv:
  assumes "quota_inv db" and "initialize now pid db = Inr (db', snap)"
  shows "quota_inv db'" and "tget q_project_id pid (tb_quotas db') = Some (snap_quota snap)"
    and "tget qs_project_id pid (tb_quota_states db') = Some (snap_state snap)"
proof -
  have keys: "tget q_project_id pid (tb_quotas db) = None \<longleftrightarrow> tget qs_project_id pid (tb_quota_states db) = None"
    using assms(1) by (simp add: tget_None_iff quota_inv_def)
  from initialize_InrD [OF assms(2)] obtain quota state
    where snap: "snap = \<lparr>snap_quota = quota, snap_state = state\<rparr>"
    and d: "(tget q_project_id pid (tb_quotas db) = Some quota \<and> tb_quotas db' = tb_quotas db
        \<and> tget qs_project_id pid (tb_quota_states db) = Some state \<and> tb_quota_states db' = tb_quota_states db)
      \<or> (tget q_project_id pid (tb_quotas db) = None \<and> quota = new_quota now pid
        \<and> tb_quotas db' = tb_quotas db @ [quota]
        \<and> tget qs_project_id pid (tb_quota_states db) = None \<and> state = new_quota_state now pid
        \<and> tb_quota_states db' = tb_quota_states db @ [state])"
    using keys by auto
  show "quota_inv db'"
    using d
  proof
    assume "tget q_project_id pid (tb_quotas db) = Some quota \<and> tb_quotas db' = tb_quotas db
        \<and> tget qs_project_id pid (tb_quota_states db) = Some state \<and> tb_quota_states db' = tb_quota_states db"
    then show ?thesis
      using assms(1) unfolding quota_inv_def by simp
  next
    assume n: "tget q_project_id pid (tb_quotas db) = None \<and> quota = new_quota now pid
        \<and> tb_quotas db' = tb_quotas db @ [quota]
        \<and> tget qs_project_id pid (tb_quota_states db) = None \<and> state = new_quota_state now pid
        \<and> tb_quota_states db' = tb_quota_states db @ [state]"
    have "q_project_id quota = pid" "qs_project_id state = pid" "counters_ok state" "within_limits quota state"
      using n new_quota_state_ok new_quota_within by (auto simp: new_quota_def new_quota_state_def)
    then show ?thesis
      using assms(1) n unfolding quota_inv_def tget_None_iff by (auto simp: image_iff)
  qed
  from d snap show "tget q_project_id pid (tb_quotas db') = Some (snap_quota snap)"
    and "tget qs_project_id pid (tb_quota_states db') = Some (snap_state snap)"
    by (auto simp: tget_append new_quota_def new_quota_state_def)
qed

lemma locked_or_initialized_inv:
  assumes "quota_inv db" and "locked_or_initialized now pid db = Inr (db', snap)"
  shows "quota_inv db'" and "tget q_project_id pid (tb_quotas db') = Some (snap_quota snap)"
    and "tget qs_project_id pid (tb_quota_states db') = Some (snap_state snap)"
proof -
  have "get_locked now pid db = Inr (db', snap) \<or> initialize now pid db = Inr (db', snap)"
    using assms(2) unfolding locked_or_initialized_def
    by (auto split: sum.splits repo_error.splits)
  then have "quota_inv db' \<and> tget q_project_id pid (tb_quotas db') = Some (snap_quota snap)
      \<and> tget qs_project_id pid (tb_quota_states db') = Some (snap_state snap)"
  proof
    assume g: "get_locked now pid db = Inr (db', snap)"
    then show ?thesis
      using get_locked_inv [OF assms(1) g]
      by (auto simp: get_locked_Inr locked_state_def tget_tput dest: tget_SomeD)
  next
    assume "initialize now pid db = Inr (db', snap)"
    with initialize_inv [OF assms(1) this] show ?thesis by blast
  qed
  then show "quota_inv db'" and "tget q_project_id pid (tb_quotas db') = Some (snap_quota snap)"
    and "tget qs_project_id pid (tb_quota_states db') = Some (snap_state snap)"
    by blast+
qed

lemma replace_service_commitment_inv:
  assumes "quota_inv db"
    and "replace_service_commitment now pid current desired cpu mem gpus vendor_arg db = Inr (db', st)"
  shows "quota_inv db'"
proof -
  from replace_service_commitment_InrD [OF assms(2)] obtain db1 quota state vendor
    where l: "locked_or_initialized now pid db = Inr (db1, \<lparr>snap_quota = quota, snap_state = state\<rparr>)"
    and lim: "service_limits quota (service_committed current desired cpu mem gpus vendor state)"
    and r: "if desired = current then st = state \<and> db' = db1
        else st = (service_committed current desired cpu mem gpus vendor state)
               \<lparr>qs_version := qs_version state + 1, qs_updated_at := now\<rparr>
          \<and> counters_ok st \<and> db' = put_state st db1"
    by blast
  note i = locked_or_initialized_inv [OF assms(1) l, simplified]
  have w: "within_limits quota state" and pid: "qs_project_id state = pid"
    using quota_invD(2) [OF i] tget_SomeD [OF i(3)] by simp_all
  show ?thesis
  proof (cases "desired = current")
    case True
    with r i(1) show ?thesis by simp
  next
    case False
    from r [unfolded if_not_P [OF False]] have st: "st = (service_committed current desired cpu mem gpus vendor state)
               \<lparr>qs_version := qs_version state + 1, qs_updated_at := now\<rparr>"
      and "counters_ok st" "db' = put_state st db1"
      by blast+
    moreover have "within_limits quota st"
      using lim w unfolding st within_limits_def service_limits_def by simp
    ultimately show ?thesis
      using i(1,2) pid by (auto intro!: put_state_inv)
  qed
qed

lemma replace_quota_inv:
  assumes "quota_inv db" and "replace_quota now pid vals db = Inr (db', snap)"
  shows "quota_inv db'"
proof -
  from replace_quota_InrD [OF assms(2)] obtain quota state quota'
    where ls: "locked_state now pid db quota state"
    and eq: "quota' = vals\<lparr>q_project_id := q_project_id quota, q_version := q_version quota + 1,
                     q_updated_at := now\<rparr>"
    and w: "within_limits quota' state"
    and db': "db' = (put_state state db)\<lparr>tb_quotas := tput q_project_id quota' (tb_quotas db)\<rparr>"
    by blast
  have q': "q_project_id quota' = q_project_id quota"
    by (simp add: eq)
  have inv: "quota_inv (put_state state db)"
    using assms(1) ls by (intro put_locked_inv locked_stateD locked_state_within)
  have "map q_project_id (tb_quotas db') = map q_project_id (tb_quotas db)"
    by (simp add: db' tput_keys)
  moreover from this have "q_project_id ` set (tb_quotas db') = q_project_id ` set (tb_quotas db)"
    by (metis list.set_map)
  moreover have "within_limits q1 st"
    if q1: "q1 \<in> set (tb_quotas db')" and st: "st \<in> set (tb_quota_states db')"
      and eq: "q_project_id q1 = qs_project_id st" for q1 st
  proof -
    have st': "st \<in> set (tput qs_project_id state (tb_quota_states db))"
      using st by (simp add: db')
    from q1 have "q1 = quota' \<or> q1 \<in> set (tb_quotas db)"
      unfolding db' by (auto dest: set_tputD)
    then show ?thesis
    proof
      assume "q1 = quota'"
      with eq q' locked_stateD [OF ls] have "qs_project_id st = qs_project_id state"
        by simp
      with set_tputD [OF st'] have "st = state" by blast
      with w \<open>q1 = quota'\<close> show ?thesis by simp
    next
      assume "q1 \<in> set (tb_quotas db)"
      with inv st' eq show ?thesis by (simp add: quota_inv_def)
    qed
  qed
  moreover have "tb_quota_states db' = tb_quota_states (put_state state db)"
    by (simp add: db')
  ultimately show ?thesis
    using inv unfolding quota_inv_def put_state_simps by metis
qed

text \<open>One committed quota operation of some transaction, on any project and at any time.\<close>

inductive quota_step :: "'a quota_db_scheme \<Rightarrow> 'a quota_db_scheme \<Rightarrow> bool" where
  step_initialize: "initialize now pid db = Inr (db', snap) \<Longrightarrow> quota_step db db'"
| step_lock: "get_locked now pid db = Inr (db', snap) \<Longrightarrow> quota_step db db'"
| step_admit: "admit_queued now pid db = Inr (db', st) \<Longrightarrow> quota_step db db'"
| step_release_queued: "release_queued now pid db = Inr (db', st) \<Longrightarrow> quota_step db db'"
| step_reserve:
    "reserve_execution now pid cpu mem gpus cost vendor_arg db = Inr (db', st) \<Longrightarrow> quota_step db db'"
| step_release:
    "release_execution now pid cpu mem gpus cost settled date vendor_arg db = Inr (db', st)
     \<Longrightarrow> quota_step db db'"
| step_service:
    "replace_service_commitment now pid current desired cpu mem gpus vendor_arg db = Inr (db', st)
     \<Longrightarrow> quota_step db db'"
| step_replace: "replace_quota now pid vals db = Inr (db', snap) \<Longrightarrow> quota_step db db'"

lemmas quota_op_invs =
  initialize_inv(1) get_locked_inv admit_queued_inv release_queued_inv reserve_execution_inv
  release_execution_inv replace_service_commitment_inv replace_quota_inv

lemma quota_step_inv: "quota_step db db' \<Longrightarrow> quota_inv db \<Longrightarrow> quota_inv db'"
  by (induction rule: quota_step.induct) (auto intro: quota_op_invs)

section \<open>The counters as a ledger\<close>

datatype quota_counter = QC_RUNNING | QC_CPU | QC_MEMORY | QC_GPUS | QC_NVIDIA | QC_ASCEND

primrec counter_of :: "quota_counter \<Rightarrow> project_quota_state \<Rightarrow> int" where
  "counter_of QC_RUNNING state = qs_running_tasks state"
| "counter_of QC_CPU state = qs_reserved_cpu_millicores state"
| "counter_of QC_MEMORY state = qs_reserved_memory_mb state"
| "counter_of QC_GPUS state = qs_reserved_gpus state"
| "counter_of QC_NVIDIA state = qs_reserved_nvidia_gpus state"
| "counter_of QC_ASCEND state = qs_reserved_ascend_npus state"

definition quota_usage :: "'a quota_db_scheme \<Rightarrow> uuid \<times> quota_counter \<Rightarrow> int" where
  "quota_usage db = (\<lambda>(pid, c).
     case tget qs_project_id pid (tb_quota_states db) of None \<Rightarrow> 0 | Some state \<Rightarrow> counter_of c state)"

record execution_request =
  rq_project_id :: uuid
  rq_cpu_millicores :: int
  rq_memory_mb :: int
  rq_gpu_count :: int
  rq_vendor :: "string option"

definition vendor_share :: "string option \<Rightarrow> int \<Rightarrow> accelerator_vendor \<Rightarrow> int" where
  "vendor_share vendor_arg gpus v =
     (if normalize_accelerator_vendor vendor_arg gpus = Inr (Some v) then gpus else 0)"

definition request_demand :: "execution_request \<Rightarrow> uuid \<times> quota_counter \<Rightarrow> int" where
  "request_demand rq = (\<lambda>(pid, c).
     if pid \<noteq> rq_project_id rq then 0
     else case c of
       QC_RUNNING \<Rightarrow> 1
     | QC_CPU \<Rightarrow> rq_cpu_millicores rq
     | QC_MEMORY \<Rightarrow> rq_memory_mb rq
     | QC_GPUS \<Rightarrow> rq_gpu_count rq
     | QC_NVIDIA \<Rightarrow> vendor_share (rq_vendor rq) (rq_gpu_count rq) NVIDIA
     | QC_ASCEND \<Rightarrow> vendor_share (rq_vendor rq) (rq_gpu_count rq) HUAWEI_ASCEND)"

text \<open>An execution of the ledger: the request with the clock and the cost of the call.\<close>

definition acquire_quota ::
  "execution_request \<Rightarrow> datetime \<times> rat \<Rightarrow> 'a quota_db_scheme \<Rightarrow> repo_error + 'a quota_db_scheme" where
  "acquire_quota rq = (\<lambda>(now, cost) db. map_sum id fst (reserve_execution now (rq_project_id rq)
     (rq_cpu_millicores rq) (rq_memory_mb rq) (rq_gpu_count rq) cost (rq_vendor rq) db))"

definition release_quota ::
  "execution_request \<Rightarrow> datetime \<times> rat \<Rightarrow> 'a quota_db_scheme \<Rightarrow> repo_error + 'a quota_db_scheme" where
  "release_quota rq = (\<lambda>(now, cost) db. map_sum id fst (release_execution now (rq_project_id rq)
     (rq_cpu_millicores rq) (rq_memory_mb rq) (rq_gpu_count rq) 0 cost None (rq_vendor rq) db))"

lemma quota_usage_put:
  "qs_project_id st \<in> qs_project_id ` set (tb_quota_states db) \<Longrightarrow>
   quota_usage (put_state st db) (pid, c) =
     (if pid = qs_project_id st then counter_of c st else quota_usage db (pid, c))"
  by (auto simp: quota_usage_def tget_tput)

lemma quota_usage_locked:
  assumes "locked_state now pid db quota state"
  shows "quota_usage db (pid, c) = counter_of c state"
    and "qs_project_id state \<in> qs_project_id ` set (tb_quota_states db)"
  using assms
  by (cases c; auto simp: locked_state_def quota_usage_def dest: tget_SomeD)+

lemma counter_reserved:
  assumes "normalize_accelerator_vendor (rq_vendor rq) (rq_gpu_count rq) = Inr vendor" and "counters_ok state"
  shows "counter_of c (reserved_state (rq_cpu_millicores rq) (rq_memory_mb rq) (rq_gpu_count rq) cost vendor state)
    = counter_of c state + request_demand rq (rq_project_id rq, c)"
  using normalize_vendor_sum [OF assms(1)] assms
  by (cases c) (auto simp: reserved_state_def request_demand_def vendor_share_def counters_ok_iff)

lemma counter_released:
  assumes "normalize_accelerator_vendor (rq_vendor rq) (rq_gpu_count rq) = Inr vendor" and "counters_ok state"
  shows "counter_of c (released_state now (rq_cpu_millicores rq) (rq_memory_mb rq) (rq_gpu_count rq)
      cost settled date vendor state)
    = counter_of c state - request_demand rq (rq_project_id rq, c)"
  using normalize_vendor_sum [OF assms(1)] assms
  by (cases c) (auto simp: released_state_def request_demand_def vendor_share_def counters_ok_iff)

lemma counter_of_touched [simp]:
  "counter_of c (state\<lparr>qs_version := v, qs_updated_at := u\<rparr>) = counter_of c state"
  by (cases c) simp_all

lemma acquire_quota_usage:
  assumes "acquire_quota rq (now, cost) db = Inr db'"
  shows "quota_usage db' (pid, c) = quota_usage db (pid, c) + request_demand rq (pid, c)"
proof -
  from assms obtain st where r: "reserve_execution now (rq_project_id rq) (rq_cpu_millicores rq)
      (rq_memory_mb rq) (rq_gpu_count rq) cost (rq_vendor rq) db = Inr (db', st)"
    by (auto simp: acquire_quota_def map_sum_def split: sum.splits)
  from reserve_execution_InrD [OF r] obtain quota state vendor where
    ls: "locked_state now (rq_project_id rq) db quota state"
    and v: "normalize_accelerator_vendor (rq_vendor rq) (rq_gpu_count rq) = Inr vendor"
    and st: "st = (reserved_state (rq_cpu_millicores rq) (rq_memory_mb rq) (rq_gpu_count rq) cost vendor state)
        \<lparr>qs_version := qs_version state + 1, qs_updated_at := now\<rparr>"
    and db': "db' = put_state st db"
    by blast
  have pid: "qs_project_id st = rq_project_id rq"
    using locked_stateD(1) [OF ls] by (simp add: st)
  show ?thesis
    using quota_usage_put [of st db pid c] quota_usage_locked(1) [OF ls, of c] quota_usage_locked(2) [OF ls] pid locked_stateD [OF ls]
      counter_reserved [OF v locked_stateD(3) [OF ls], of c cost]
    by (cases "pid = rq_project_id rq") (auto simp: db' st request_demand_def)
qed

lemma release_quota_usage:
  assumes "release_quota rq (now, cost) db = Inr db'"
  shows "quota_usage db' (pid, c) = quota_usage db (pid, c) - request_demand rq (pid, c)"
proof -
  from assms obtain st where r: "release_execution now (rq_project_id rq) (rq_cpu_millicores rq)
      (rq_memory_mb rq) (rq_gpu_count rq) 0 cost None (rq_vendor rq) db = Inr (db', st)"
    by (auto simp: release_quota_def map_sum_def split: sum.splits)
  from release_execution_InrD [OF r] obtain quota state vendor where
    ls: "locked_state now (rq_project_id rq) db quota state"
    and v: "normalize_accelerator_vendor (rq_vendor rq) (rq_gpu_count rq) = Inr vendor"
    and st: "st = (released_state now (rq_cpu_millicores rq) (rq_memory_mb rq) (rq_gpu_count rq) 0 cost None
        vendor state)\<lparr>qs_version := qs_version state + 1, qs_updated_at := now\<rparr>"
    and db': "db' = put_state st db"
    by blast
  have pid: "qs_project_id st = rq_project_id rq"
    using locked_stateD(1) [OF ls] by (simp add: st)
  show ?thesis
    using quota_usage_put [of st db pid c] quota_usage_locked(1) [OF ls, of c] quota_usage_locked(2) [OF ls] pid locked_stateD [OF ls]
      counter_released [OF v locked_stateD(3) [OF ls], of c now 0 cost None]
    by (cases "pid = rq_project_id rq") (auto simp: db' st request_demand_def)
qed

interpretation quota_ledger: ledger quota_usage request_demand acquire_quota release_quota
  by unfold_locales (auto simp: acquire_quota_usage release_quota_usage)

section \<open>A concrete project\<close>

definition example_quota_db :: quota_db where
  "example_quota_db =
     \<lparr>tb_projects = [\<lparr>p_id = 1, p_status = PS_ACTIVE\<rparr>],
      tb_quotas = [(new_quota 0 1)\<lparr>q_max_running_tasks := Some 1, q_max_cpu_millicores := Some 4000\<rparr>],
      tb_quota_states = [(new_quota_state 0 1)\<lparr>qs_queued_tasks := 2\<rparr>]\<rparr>"

definition example_request :: execution_request where
  "example_request = \<lparr>rq_project_id = 1, rq_cpu_millicores = 1500, rq_memory_mb = 512,
     rq_gpu_count = 1, rq_vendor = None\<rparr>"

section \<open>Properties\<close>





text \<open>
  C26. Duplicate or unmatched releases are refused: a release succeeds only while the
  project has a running execution and at least the released CPU, memory and accelerators
  (of the released vendor too) are reserved; otherwise it raises and changes nothing.
\<close>

theorem release_needs_reservation:
  assumes "release_execution now pid cpu mem gpus cost settled date vendor_arg db = Inr (db', st)"
  shows "1 \<le> quota_usage db (pid, QC_RUNNING) \<and> cpu \<le> quota_usage db (pid, QC_CPU)
     \<and> mem \<le> quota_usage db (pid, QC_MEMORY) \<and> gpus \<le> quota_usage db (pid, QC_GPUS)
     \<and> vendor_share vendor_arg gpus NVIDIA \<le> quota_usage db (pid, QC_NVIDIA)
     \<and> vendor_share vendor_arg gpus HUAWEI_ASCEND \<le> quota_usage db (pid, QC_ASCEND)"
proof -
  from release_execution_InrD [OF assms] obtain quota state vendor where
    ls: "locked_state now pid db quota state"
    and v: "normalize_accelerator_vendor vendor_arg gpus = Inr vendor"
    and le: "1 \<le> qs_running_tasks state" "cpu \<le> qs_reserved_cpu_millicores state"
      "mem \<le> qs_reserved_memory_mb state" "gpus \<le> qs_reserved_gpus state"
    and st: "st = (released_state now cpu mem gpus cost settled date vendor state)
        \<lparr>qs_version := qs_version state + 1, qs_updated_at := now\<rparr>"
    and ok: "counters_ok st"
    by blast
  from ok have "(if vendor = Some NVIDIA then gpus else 0) \<le> qs_reserved_nvidia_gpus state"
    "(if vendor = Some HUAWEI_ASCEND then gpus else 0) \<le> qs_reserved_ascend_npus state"
    unfolding st counters_ok_touched by (simp_all add: counters_ok_iff released_state_def split del: if_split)
  then show ?thesis
    using le v by (simp add: quota_usage_locked(1) [OF ls] vendor_share_def split del: if_split)
qed

theorem release_needs_reservation_witness:
  "\<exists>db'. acquire_quota example_request (7, 0) example_quota_db = Inr db'
     \<and> 1 \<le> quota_usage db' (1, QC_RUNNING) \<and> 1500 \<le> quota_usage db' (1, QC_CPU)"
proof -
  have "case acquire_quota example_request (7, 0) example_quota_db of Inl e \<Rightarrow> False
     | Inr db' \<Rightarrow> (case release_execution 9 1 1500 512 1 0 0 None None db' of Inl e \<Rightarrow> False | Inr r \<Rightarrow> True)"
    by code_simp
  then obtain db' r where a: "acquire_quota example_request (7, 0) example_quota_db = Inr db'"
    and "release_execution 9 1 1500 512 1 0 0 None None db' = Inr r"
    by (auto split: sum.splits)
  then have "1 \<le> quota_usage db' (1, QC_RUNNING) \<and> 1500 \<le> quota_usage db' (1, QC_CPU)"
    using release_needs_reservation [of 9 1 1500 512 1 0 0 None None db' "fst r" "snd r"] by simp
  with a show ?thesis by blast
qed

end
