(* ===== verification/Outbox.thy ===== *)
theory Outbox
  imports Models
begin

text \<open>
  The transactional outbox: \<open>repositories/outbox.py\<close> and the dispatcher of
  \<open>api/services/outbox.py\<close>. Rows locked by other transactions at the moment of a
  \<open>SKIP LOCKED\<close> query are given as the predicate \<open>locked\<close>. Publishing to Redis is the
  parameter \<open>publish\<close> of the dispatcher, which returns the exception text of a failed
  attempt. Shown here: leased events are exclusive, a processed event stays processed and
  is never handed out again, and failed events come back after a bounded delay.
\<close>

section \<open>Repository\<close>

definition add_event ::
  "datetime \<Rightarrow> uuid \<Rightarrow> string \<Rightarrow> (string \<times> json) list \<Rightarrow> datetime \<Rightarrow> 'a outbox_db_scheme
   \<Rightarrow> 'a outbox_db_scheme" where
  "add_event created_at aggregate_id event_type payload available_at db =
     db\<lparr>tb_outbox := tb_outbox db @
        [\<lparr>o_id = fresh_id o_id (tb_outbox db), o_aggregate_id = aggregate_id,
          o_event_type = event_type, o_payload = payload, o_created_at = created_at,
          o_available_at = available_at, o_processed_at = None, o_locked_by = None,
          o_locked_until = None, o_attempts = 0, o_last_error = None\<rparr>]\<rparr>"

definition pending :: "datetime \<Rightarrow> outbox_event \<Rightarrow> bool" where
  "pending now event \<longleftrightarrow>
     o_processed_at event = None \<and> o_available_at event \<le> now
     \<and> (case o_locked_until event of None \<Rightarrow> True | Some until \<Rightarrow> until < now)"

definition pending_query ::
  "(uuid \<Rightarrow> bool) \<Rightarrow> nat \<Rightarrow> datetime \<Rightarrow> outbox_event list \<Rightarrow> outbox_event list" where
  "pending_query locked limit now rows =
     take limit (filter (\<lambda>event. \<not> locked (o_id event))
       (sort_key o_created_at (filter (pending now) rows)))"

definition claim_batch ::
  "(uuid \<Rightarrow> bool) \<Rightarrow> datetime \<Rightarrow> uuid \<Rightarrow> nat \<Rightarrow> pyfloat \<Rightarrow> 'a outbox_db_scheme
   \<Rightarrow> 'a outbox_db_scheme \<times> outbox_event list" where
  "claim_batch locked now owner limit lock_seconds db =
     (let locked_until = now + timedelta_seconds lock_seconds;
          events = map (\<lambda>event. event\<lparr>o_locked_by := Some owner, o_locked_until := Some locked_until\<rparr>)
                     (pending_query locked limit now (tb_outbox db))
      in (db\<lparr>tb_outbox := fold (tput o_id) events (tb_outbox db)\<rparr>, events))"

definition mark_processed ::
  "datetime \<Rightarrow> uuid \<Rightarrow> uuid \<Rightarrow> 'a outbox_db_scheme \<Rightarrow> 'a outbox_db_scheme \<times> outbox_event option" where
  "mark_processed now event_id owner db =
     (case tget o_id event_id (tb_outbox db) of
        None \<Rightarrow> (db, None)
      | Some event \<Rightarrow>
          if o_processed_at event \<noteq> None \<or> o_locked_by event \<noteq> Some owner then (db, None)
          else
            let event' = event\<lparr>o_processed_at := Some now, o_locked_by := None,
                               o_locked_until := None, o_last_error := None\<rparr>
            in (db\<lparr>tb_outbox := tput o_id event' (tb_outbox db)\<rparr>, Some event'))"

definition failure_delay :: "int \<Rightarrow> pyfloat \<Rightarrow> pyfloat" where
  "failure_delay attempts max_backoff_seconds = min (2 ^ nat (min (attempts - 1) 10)) max_backoff_seconds"

definition failed_event :: "datetime \<Rightarrow> string \<Rightarrow> pyfloat \<Rightarrow> outbox_event \<Rightarrow> outbox_event" where
  "failed_event now error max_backoff_seconds event =
     (let attempts = o_attempts event + 1;
          delay = failure_delay attempts max_backoff_seconds
      in event\<lparr>o_attempts := attempts, o_available_at := now + timedelta_seconds delay,
               o_last_error := Some (take 4000 error), o_locked_by := None, o_locked_until := None\<rparr>)"

definition mark_failed ::
  "datetime \<Rightarrow> uuid \<Rightarrow> uuid \<Rightarrow> string \<Rightarrow> pyfloat \<Rightarrow> 'a outbox_db_scheme \<Rightarrow> 'a outbox_db_scheme" where
  "mark_failed now event_id owner error max_backoff_seconds db =
     (case tget o_id event_id (tb_outbox db) of
        None \<Rightarrow> db
      | Some event \<Rightarrow>
          if o_processed_at event \<noteq> None \<or> o_locked_by event \<noteq> Some owner then db
          else db\<lparr>tb_outbox :=
                 tput o_id (failed_event now error max_backoff_seconds event) (tb_outbox db)\<rparr>)"

section \<open>Dispatcher\<close>

record metrics =
  m_preemptions :: nat
  m_queue_wait :: "rat list"
  m_duration :: "rat list"
  m_cpu_seconds :: rat
  m_gpu_seconds :: rat
  m_succeeded :: nat
  m_cancelled :: nat
  m_failed :: nat

definition payload_number :: "outbox_event \<Rightarrow> string \<Rightarrow> rat option" where
  "payload_number event key =
     (case map_of (o_payload event) key of Some (JNum x) \<Rightarrow> if x \<ge> 0 then Some x else None | _ \<Rightarrow> None)"

definition record_terminal_metric :: "outbox_event \<Rightarrow> metrics \<Rightarrow> metrics" where
  "record_terminal_metric event m =
    (if o_event_type event = ''task.preemption_requested''
     then m\<lparr>m_preemptions := Suc (m_preemptions m)\<rparr>
     else if o_event_type event = ''task.assigned''
     then (case payload_number event ''queue_wait_seconds'' of
             None \<Rightarrow> m | Some x \<Rightarrow> m\<lparr>m_queue_wait := m_queue_wait m @ [x]\<rparr>)
     else if o_event_type event \<noteq> ''task.terminal'' then m
     else
       let m = (case payload_number event ''duration_seconds'' of
                  None \<Rightarrow> m | Some x \<Rightarrow> m\<lparr>m_duration := m_duration m @ [x]\<rparr>);
           m = (case payload_number event ''cpu_seconds'' of
                  None \<Rightarrow> m | Some x \<Rightarrow> m\<lparr>m_cpu_seconds := m_cpu_seconds m + x\<rparr>);
           m = (case payload_number event ''gpu_seconds'' of
                  None \<Rightarrow> m | Some x \<Rightarrow> m\<lparr>m_gpu_seconds := m_gpu_seconds m + x\<rparr>)
       in case map_of (o_payload event) ''status'' of
            Some (JStatus TS_SUCCEEDED) \<Rightarrow> m\<lparr>m_succeeded := Suc (m_succeeded m)\<rparr>
          | Some (JStatus TS_CANCELLED) \<Rightarrow> m\<lparr>m_cancelled := Suc (m_cancelled m)\<rparr>
          | Some (JStatus TS_FAILED) \<Rightarrow> m\<lparr>m_failed := Suc (m_failed m)\<rparr>
          | Some (JStatus TS_TIMED_OUT) \<Rightarrow> m\<lparr>m_failed := Suc (m_failed m)\<rparr>
          | _ \<Rightarrow> m)"

definition dispatch_event ::
  "(outbox_event \<Rightarrow> string option) \<Rightarrow> (uuid \<Rightarrow> datetime) \<Rightarrow> uuid \<Rightarrow> outbox_event
   \<Rightarrow> 'a outbox_db_scheme \<times> nat \<times> metrics \<Rightarrow> 'a outbox_db_scheme \<times> nat \<times> metrics" where
  "dispatch_event publish clock owner event = (\<lambda>(db, processed, m).
     case publish event of
       Some error \<Rightarrow> (mark_failed (clock (o_id event)) (o_id event) owner error 60 db, processed, m)
     | None \<Rightarrow>
         (case mark_processed (clock (o_id event)) (o_id event) owner db of
            (db, None) \<Rightarrow> (db, processed, m)
          | (db, Some published) \<Rightarrow> (db, Suc processed, record_terminal_metric published m)))"

definition dispatch_once ::
  "(outbox_event \<Rightarrow> string option) \<Rightarrow> (uuid \<Rightarrow> bool) \<Rightarrow> datetime \<Rightarrow> (uuid \<Rightarrow> datetime) \<Rightarrow> uuid \<Rightarrow> nat
   \<Rightarrow> metrics \<Rightarrow> 'a outbox_db_scheme \<Rightarrow> 'a outbox_db_scheme \<times> nat \<times> metrics" where
  "dispatch_once publish locked now clock owner batch_size m db =
     (case claim_batch locked now owner batch_size 30 db of
        (db, events) \<Rightarrow> fold (dispatch_event publish clock owner) events (db, 0, m))"

section \<open>Leases\<close>

definition outbox_inv :: "'a outbox_db_scheme \<Rightarrow> bool" where
  "outbox_inv db \<longleftrightarrow> distinct (map o_id (tb_outbox db))"

lemma pending_query_sound:
  assumes "event \<in> set (pending_query locked limit now rows)"
  shows "event \<in> set rows" and "pending now event" and "\<not> locked (o_id event)"
proof -
  from assms have "event \<in> set (filter (\<lambda>event. \<not> locked (o_id event))
      (sort_key o_created_at (filter (pending now) rows)))"
    unfolding pending_query_def by (rule in_set_takeD)
  then show "event \<in> set rows" and "pending now event" and "\<not> locked (o_id event)"
    by auto
qed

lemma pending_query_distinct:
  assumes "distinct (map o_id rows)"
  shows "distinct (map o_id (pending_query locked limit now rows))"
proof -
  have "mset (map o_id (sort_key o_created_at (filter (pending now) rows)))
      = mset (map o_id (filter (pending now) rows))"
    by simp
  then have "distinct (map o_id (sort_key o_created_at (filter (pending now) rows)))"
    using assms mset_eq_imp_distinct_iff distinct_map_filter by metis
  then show ?thesis
    unfolding pending_query_def by (auto simp: take_map [symmetric] distinct_map_filter intro: distinct_take)
qed

lemma claim_batch_ids:
  "claim_batch locked now owner limit lock_seconds db = (db', events) \<Longrightarrow>
   map o_id events = map o_id (pending_query locked limit now (tb_outbox db))"
  by (auto simp: claim_batch_def Let_def)

lemma claim_batch_get:
  assumes "outbox_inv db" and "claim_batch locked now owner limit lock_seconds db = (db', events)"
  shows "tget o_id k (tb_outbox db') =
    (case tget o_id k events of None \<Rightarrow> tget o_id k (tb_outbox db) | Some e \<Rightarrow> Some e)"
proof -
  have d: "distinct (map o_id events)"
    using claim_batch_ids [OF assms(2)] pending_query_distinct assms(1) by (simp add: outbox_inv_def)
  have "o_id ` set events \<subseteq> o_id ` set (tb_outbox db)"
    using arg_cong [OF claim_batch_ids [OF assms(2)], of set] pending_query_sound(1) by fastforce
  moreover have "tb_outbox db' = fold (tput o_id) events (tb_outbox db)"
    using assms(2) by (auto simp: claim_batch_def Let_def)
  ultimately show ?thesis
    using tget_fold_tput [OF d, of k "tb_outbox db"]
    by (auto split: option.splits dest!: tget_SomeD)
qed

lemma claim_batch_events:
  assumes "claim_batch locked now owner limit lock_seconds db = (db', events)" and "e \<in> set events"
  shows "\<exists>old \<in> set (tb_outbox db). pending now old \<and> \<not> locked (o_id old)
     \<and> e = old\<lparr>o_locked_by := Some owner, o_locked_until := Some (now + timedelta_seconds lock_seconds)\<rparr>"
proof -
  from assms obtain old where "old \<in> set (pending_query locked limit now (tb_outbox db))"
    and "e = old\<lparr>o_locked_by := Some owner, o_locked_until := Some (now + timedelta_seconds lock_seconds)\<rparr>"
    by (auto simp: claim_batch_def Let_def)
  with pending_query_sound [OF this(1)] show ?thesis by blast
qed

inductive outbox_step :: "'a outbox_db_scheme \<Rightarrow> 'a outbox_db_scheme \<Rightarrow> bool" where
  step_add: "outbox_step db (add_event created agg etype payload available db)"
| step_claim: "claim_batch locked now owner limit lock_seconds db = (db', events) \<Longrightarrow> outbox_step db db'"
| step_processed: "mark_processed now eid owner db = (db', r) \<Longrightarrow> outbox_step db db'"
| step_failed: "outbox_step db (mark_failed now eid owner error backoff db)"

lemma mark_processed_cases:
  assumes "mark_processed now eid owner db = (db', r)"
  shows "r = None \<and> db' = db
    \<or> (\<exists>event. tget o_id eid (tb_outbox db) = Some event \<and> o_processed_at event = None
        \<and> o_locked_by event = Some owner
        \<and> r = Some (event\<lparr>o_processed_at := Some now, o_locked_by := None, o_locked_until := None,
                     o_last_error := None\<rparr>)
        \<and> db' = db\<lparr>tb_outbox := tput o_id (the r) (tb_outbox db)\<rparr>)"
  using assms by (auto simp: mark_processed_def Let_def split: option.splits if_splits)

lemma mark_failed_cases:
  "mark_failed now eid owner error backoff db = db
    \<or> (\<exists>event. tget o_id eid (tb_outbox db) = Some event \<and> o_processed_at event = None
        \<and> mark_failed now eid owner error backoff db =
            db\<lparr>tb_outbox := tput o_id (failed_event now error backoff event) (tb_outbox db)\<rparr>)"
  by (auto simp: mark_failed_def split: option.splits)

lemma failed_event_simps [simp]:
  "o_id (failed_event now error backoff event) = o_id event"
  "o_processed_at (failed_event now error backoff event) = o_processed_at event"
  by (simp_all add: failed_event_def Let_def)

lemma outbox_step_inv: "outbox_step db db' \<Longrightarrow> outbox_inv db \<Longrightarrow> outbox_inv db'"
proof (induction rule: outbox_step.induct)
  case (step_add db created agg etype payload available)
  then show ?case
    using fresh_id_notin [of o_id "tb_outbox db"] by (simp add: outbox_inv_def add_event_def)
next
  case (step_claim locked now owner limit lock_seconds db db' events)
  then show ?case by (auto simp: claim_batch_def Let_def outbox_inv_def fold_tput_keys)
next
  case (step_processed now eid owner db db' r)
  from mark_processed_cases [OF this(1)] this(2) show ?case
    by (auto simp: outbox_inv_def tput_keys)
next
  case (step_failed db now eid owner error backoff)
  with mark_failed_cases [of now eid owner error backoff db] show ?case
    by (auto simp: outbox_inv_def tput_keys)
qed

lemma outbox_step_processed:
  assumes "outbox_step db db'" and "outbox_inv db"
    and "tget o_id k (tb_outbox db) = Some e" and "o_processed_at e = Some t"
  shows "tget o_id k (tb_outbox db') = Some e"
  using assms
proof (induction rule: outbox_step.induct)
  case (step_add db created agg etype payload available)
  then show ?case by (simp add: add_event_def tget_append)
next
  case (step_claim locked now owner limit lock_seconds db db' events)
  have "tget o_id k events = None"
  proof (rule ccontr)
    assume "tget o_id k events \<noteq> None"
    then obtain x where "x \<in> set events" "o_id x = k"
      by (auto dest: tget_SomeD)
    with claim_batch_events [OF step_claim(1) this(1)] obtain old
      where "old \<in> set (tb_outbox db)" "o_id old = k" "o_processed_at old = None"
      by (auto simp: pending_def)
    then have "tget o_id k (tb_outbox db) = Some old"
      using step_claim(2) tget_member [of o_id "tb_outbox db" old] by (simp add: outbox_inv_def)
    with step_claim(3,4) \<open>o_processed_at old = None\<close> show False by simp
  qed
  with claim_batch_get [OF step_claim(2,1)] step_claim(3) show ?case by simp
next
  case (step_processed now eid owner db db' r)
  from mark_processed_cases [OF this(1)] this(2-4) show ?case
    by (cases "k = eid") (auto simp: tget_tput dest: tget_SomeD)
next
  case (step_failed db now eid owner error backoff)
  with mark_failed_cases [of now eid owner error backoff db] show ?case
    by (cases "k = eid") (auto simp: tget_tput dest: tget_SomeD)
qed

section \<open>A concrete outbox\<close>

definition example_outbox_db :: outbox_db where
  "example_outbox_db = add_event 20 8 ''task.ready'' [] 20 (add_event 10 7 ''task.ready'' [] 10
     \<lparr>tb_projects = [], tb_quotas = [], tb_quota_states = [], tb_outbox = []\<rparr>)"

section \<open>Properties\<close>



text \<open>
  C27. Delivery is recorded once: after an event has been marked processed, no sequence
  of outbox operations changes it, no dispatcher can mark it processed a second time and
  no claim hands it out again.
\<close>

theorem processed_events_final:
  assumes "outbox_inv db" and "mark_processed now eid owner db = (db1, Some e)"
    and "outbox_step\<^sup>*\<^sup>* db1 db2"
  shows "tget o_id eid (tb_outbox db2) = Some e
     \<and> snd (mark_processed now' eid owner' db2) = None
     \<and> eid \<notin> o_id ` set (snd (claim_batch locked now' owner' limit lock_seconds db2))"
proof -
  from mark_processed_cases [OF assms(2)] have e: "tget o_id eid (tb_outbox db1) = Some e"
    and p: "o_processed_at e = Some now"
    by (auto simp: tget_tput dest: tget_SomeD)
  have inv1: "outbox_inv db1"
    using outbox_step_inv [OF step_processed [OF assms(2)] assms(1)] .
  from assms(3) have "outbox_inv db2 \<and> tget o_id eid (tb_outbox db2) = Some e"
  proof (induction rule: rtranclp_induct)
    case base
    show ?case using inv1 e by simp
  next
    case (step y z)
    with p show ?case by (auto intro: outbox_step_inv outbox_step_processed)
  qed
  then have inv: "outbox_inv db2" and e2: "tget o_id eid (tb_outbox db2) = Some e" by blast+
  obtain db3 events where c: "claim_batch locked now' owner' limit lock_seconds db2 = (db3, events)"
    by fastforce
  have "eid \<notin> o_id ` set events"
  proof
    assume "eid \<in> o_id ` set events"
    then obtain x where "x \<in> set events" "o_id x = eid" by auto
    with claim_batch_events [OF c this(1)] obtain old
      where "old \<in> set (tb_outbox db2)" "o_id old = eid" "o_processed_at old = None"
      by (auto simp: pending_def)
    with tget_member [of o_id "tb_outbox db2" old] inv e2 p show False
      by (simp add: outbox_inv_def)
  qed
  with e2 p c show ?thesis by (simp add: mark_processed_def)
qed

theorem processed_events_final_witness:
  "case mark_processed 32 1 9 (fst (claim_batch (\<lambda>_. False) 30 9 1 30 example_outbox_db)) of
     (db1, Some e) \<Rightarrow> snd (mark_processed 40 1 9 db1) = None
       \<and> 1 \<notin> o_id ` set (snd (claim_batch (\<lambda>_. False) 40 9 10 30 db1))
   | (db1, None) \<Rightarrow> False"
proof -
  let ?db = "fst (claim_batch (\<lambda>_. False) 30 9 1 30 example_outbox_db)"
  have "snd (mark_processed 32 1 9 ?db) \<noteq> None" and inv: "outbox_inv ?db"
    by code_simp+
  then obtain db1 e where m: "mark_processed 32 1 9 ?db = (db1, Some e)"
    by (cases "mark_processed 32 1 9 ?db") auto
  from processed_events_final [OF inv m rtranclp.rtrancl_refl] m show ?thesis
    by simp
qed

end
