(* ===== verification/Text.thy ===== *)
theory Text
  imports Prelude
begin

text \<open>
  The string operations that the validators share. A \<open>string\<close> is a list of 8-bit characters;
  case folding and white space are those of ASCII text.
\<close>

definition ascii_space :: "char \<Rightarrow> bool" where
  "ascii_space c \<longleftrightarrow> of_char c \<in> {9, 10, 11, 12, 13, 28, 29, 30, 31, 32 :: nat}"

text \<open>\<open>str.strip\<close>\<close>

definition strip :: "string \<Rightarrow> string" where
  "strip s = rev (dropWhile ascii_space (rev (dropWhile ascii_space s)))"

definition ascii_control :: "char \<Rightarrow> bool" where
  "ascii_control c \<longleftrightarrow> of_char c < (32 :: nat) \<or> of_char c = (127 :: nat)"

definition char_between :: "nat \<Rightarrow> nat \<Rightarrow> char \<Rightarrow> bool" where
  "char_between a b c \<longleftrightarrow> a \<le> of_char c \<and> of_char c \<le> b"

definition ascii_digit :: "char \<Rightarrow> bool" where
  "ascii_digit c \<longleftrightarrow> char_between 48 57 c"

definition ascii_upper :: "char \<Rightarrow> bool" where
  "ascii_upper c \<longleftrightarrow> char_between 65 90 c"

definition ascii_lower :: "char \<Rightarrow> bool" where
  "ascii_lower c \<longleftrightarrow> char_between 97 122 c"

definition ascii_alnum :: "char \<Rightarrow> bool" where
  "ascii_alnum c \<longleftrightarrow> ascii_digit c \<or> ascii_upper c \<or> ascii_lower c"

text \<open>\<open>str.casefold\<close>\<close>

definition fold_char :: "char \<Rightarrow> char" where
  "fold_char c = (if ascii_upper c then char_of (of_char c + 32 :: nat) else c)"

definition casefold :: "string \<Rightarrow> string" where
  "casefold s = map fold_char s"

lemma of_char_fold [simp]:
  "of_char (fold_char c) = (if ascii_upper c then of_char c + 32 else (of_char c :: nat))"
  by (auto simp: fold_char_def ascii_upper_def char_between_def of_char_of)

lemma fold_char_idem [simp]: "fold_char (fold_char c) = fold_char c"
proof -
  have "\<not> ascii_upper (fold_char c)" by (auto simp: ascii_upper_def char_between_def)
  then show ?thesis by (simp add: fold_char_def [of "fold_char c"])
qed

lemma casefold_idem [simp]: "casefold (casefold s) = casefold s"
  by (simp add: casefold_def)

lemma length_casefold [simp]: "length (casefold s) = length s"
  by (simp add: casefold_def)

lemma fold_char_space [simp]: "ascii_space (fold_char c) = ascii_space c"
  by (auto simp: ascii_space_def ascii_upper_def char_between_def)

lemma dropWhile_casefold: "dropWhile ascii_space (casefold s) = casefold (dropWhile ascii_space s)"
  by (induction s) (auto simp: casefold_def)

lemma strip_casefold: "strip (casefold s) = casefold (strip s)"
  by (simp add: strip_def dropWhile_casefold [unfolded casefold_def] casefold_def rev_map)

lemma dropWhile_idem [simp]: "dropWhile P (dropWhile P s) = dropWhile P s"
  by (induction s) auto

lemma dropWhile_rev_dropWhile:
  "dropWhile P (rev (dropWhile P (rev (dropWhile P s)))) = rev (dropWhile P (rev (dropWhile P s)))"
proof (cases "dropWhile P s")
  case (Cons c cs)
  then have c: "\<not> P c" by (simp add: dropWhile_eq_Cons_conv)
  have "dropWhile P (rev cs @ [c]) = dropWhile P (rev cs) @ [c]"
    using c by (induction "rev cs" arbitrary: cs) (auto simp: dropWhile_append3 dropWhile_append)
  with c show ?thesis by (simp add: Cons)
next
  case Nil
  show ?thesis unfolding Nil by simp
qed

lemma strip_idem [simp]: "strip (strip s) = strip s"
  by (simp add: strip_def dropWhile_rev_dropWhile)

end
