(* ===== verification/Reservations.thy ===== *)
theory Reservations
  imports Quotas Outbox Text
begin

text \<open>
  Resource reservations, \<open>repositories/reservations.py\<close>: binding of concrete devices,
  deferred observation of device-plugin allocations, and release with settlement of the
  usage ledger. A transaction works on the task row it holds as a local value and
  returns it changed; the caller writes it back. Shown here: a reservation is released at
  most once, a release gives back exactly what the reservation holds, and at most one
  ledger row is ever written for an execution.
\<close>

section \<open>Rows\<close>

definition put_task :: "task \<Rightarrow> task_db \<Rightarrow> task_db" where
  "put_task task db = db\<lparr>tb_tasks := tput t_id task (tb_tasks db)\<rparr>"

definition put_worker :: "worker \<Rightarrow> task_db \<Rightarrow> task_db" where
  "put_worker worker db = db\<lparr>tb_workers := tput w_id worker (tb_workers db)\<rparr>"

definition put_execution :: "task_execution \<Rightarrow> task_db \<Rightarrow> task_db" where
  "put_execution execution db =
     db\<lparr>tb_task_executions := tput x_id execution (tb_task_executions db)\<rparr>"

definition put_reservation :: "resource_reservation \<Rightarrow> task_db \<Rightarrow> task_db" where
  "put_reservation reservation db =
     db\<lparr>tb_reservations := tput r_id reservation (tb_reservations db)\<rparr>"

section \<open>Bindings\<close>

definition active_reservation :: "resource_reservation \<Rightarrow> bool" where
  "active_reservation reservation \<longleftrightarrow> r_released_at reservation = None"

definition get_active_for_execution :: "uuid \<Rightarrow> task_db \<Rightarrow> resource_reservation option" where
  "get_active_for_execution execution_id db =
     find (\<lambda>r. r_execution_id r = execution_id \<and> active_reservation r) (tb_reservations db)"

definition active_links :: "uuid \<Rightarrow> task_db \<Rightarrow> reservation_gpu_device list" where
  "active_links reservation_id db =
     filter (\<lambda>l. l_reservation_id l = reservation_id \<and> l_released_at l = None)
       (tb_reservation_devices db)"

text \<open>The join of the active links with the device table, ordered by device UUID.\<close>

definition bound_devices :: "uuid \<Rightarrow> task_db \<Rightarrow> gpu_device list" where
  "bound_devices reservation_id db =
     sort_key d_device_uuid
       (concat (map (\<lambda>l. filter (\<lambda>d. d_id d = l_gpu_device_id l) (tb_gpu_devices db))
          (active_links reservation_id db)))"

definition assert_exact_device_binding :: "resource_reservation \<Rightarrow> task_db \<Rightarrow> repo_error + unit" where
  "assert_exact_device_binding reservation db =
    (if r_gpu_count reservation = 0 \<or> r_legacy_unbound reservation
        \<or> r_allocation_authority reservation \<noteq> CONTROL_PLANE_EXACT_DEVICE
     then Inr ()
     else
       let rows = bound_devices (r_id reservation) db in
       ebind (guard (int (length rows) = r_gpu_count reservation) ResourceInvariantViolation) (\<lambda>_.
       ebind (guard (set (map (Some \<circ> d_vendor) rows) = {r_requested_vendor reservation})
                ResourceInvariantViolation) (\<lambda>_.
       guard (sort (case r_observed_device_ids_json reservation of None \<Rightarrow> [] | Some ids \<Rightarrow> ids)
                = sort (map d_device_uuid rows)) ResourceInvariantViolation)))"

definition record_observed_allocation ::
  "uuid \<Rightarrow> string \<Rightarrow> string list \<Rightarrow> datetime \<Rightarrow> task_db \<Rightarrow> bool tx" where
  "record_observed_allocation execution_id vendor device_ids observed_at db =
    (case accelerator_vendor_of vendor of
       None \<Rightarrow> Inl AllocationObservationConflict
     | Some v \<Rightarrow>
       let normalized_vendor = accelerator_vendor_value v;
           normalized_ids = map strip device_ids in
       ebind (guard ([] \<notin> set normalized_ids) AllocationObservationConflict) (\<lambda>_.
       ebind (guard (distinct normalized_ids) AllocationObservationConflict) (\<lambda>_.
       case get_active_for_execution execution_id db of
         None \<Rightarrow> Inl AllocationObservationConflict
       | Some reservation \<Rightarrow>
       (case tget x_id execution_id (tb_task_executions db) of
         None \<Rightarrow> Inl ResourceInvariantViolation
       | Some execution \<Rightarrow>
         ebind (guard (r_allocation_authority reservation = KUBERNETES_DEVICE_PLUGIN
                  \<and> x_allocation_authority execution = KUBERNETES_DEVICE_PLUGIN)
                  AllocationObservationConflict) (\<lambda>_.
         ebind (guard (r_requested_vendor reservation = Some normalized_vendor)
                  AllocationObservationConflict) (\<lambda>_.
         ebind (guard (int (length normalized_ids) = r_gpu_count reservation)
                  AllocationObservationConflict) (\<lambda>_.
         ebind (guard (filter (\<lambda>l. l_reservation_id l = r_id reservation) (tb_reservation_devices db) = [])
                  ResourceInvariantViolation) (\<lambda>_.
         if r_observed_at reservation \<noteq> None \<or> x_observed_at execution \<noteq> None
         then
           if r_observed_vendor reservation = Some normalized_vendor
              \<and> r_observed_device_ids_json reservation = Some normalized_ids
              \<and> x_observed_vendor execution = Some normalized_vendor
              \<and> x_observed_device_ids_json execution = Some normalized_ids
           then Inr (db, False)
           else Inl AllocationObservationConflict
         else
           Inr (put_execution (execution\<lparr>x_observed_device_ids_json := Some normalized_ids,
                  x_observed_vendor := Some normalized_vendor, x_observed_at := Some observed_at\<rparr>)
                (put_reservation (reservation\<lparr>r_observed_device_ids_json := Some normalized_ids,
                  r_observed_vendor := Some normalized_vendor, r_observed_at := Some observed_at,
                  r_version := r_version reservation + 1\<rparr>) db), True)))))))))"

section \<open>Release and settlement\<close>

definition release_worker_aggregate ::
  "resource_reservation \<Rightarrow> worker \<Rightarrow> repo_error + worker" where
  "release_worker_aggregate reservation worker =
    (let expected_cpu = of_int (r_cpu_millicores reservation) / 1000 in
     ebind (guard (\<not> (w_running_tasks worker < 1
              \<or> w_reserved_cpu worker + 1 / 1000000000 < expected_cpu
              \<or> w_reserved_memory_mb worker < r_memory_mb reservation
              \<or> w_reserved_gpus worker < r_gpu_count reservation)) ResourceInvariantViolation) (\<lambda>_.
     Inr (worker\<lparr>w_running_tasks := w_running_tasks worker - 1,
                 w_reserved_cpu := w_reserved_cpu worker - expected_cpu,
                 w_reserved_memory_mb := w_reserved_memory_mb worker - r_memory_mb reservation,
                 w_reserved_gpus := w_reserved_gpus worker - r_gpu_count reservation,
                 w_version := w_version worker + 1\<rparr>)))"

definition release_links ::
  "datetime \<Rightarrow> uuid \<Rightarrow> reservation_gpu_device list \<Rightarrow> reservation_gpu_device list" where
  "release_links now reservation_id =
     map (\<lambda>l. if l_reservation_id l = reservation_id \<and> l_released_at l = None
              then l\<lparr>l_released_at := Some now\<rparr> else l)"

definition settle_usage ::
  "uuid \<Rightarrow> uuid \<Rightarrow> task_execution \<Rightarrow> datetime \<Rightarrow> datetime \<Rightarrow> usage_ledger" where
  "settle_usage project_id task_id execution started_at now =
    (let duration = max 0 (total_seconds (now - started_at));
         cpu_seconds = duration * of_int (x_cpu_millicores execution) / 1000;
         memory_gb_seconds = duration * of_int (x_memory_mb execution) / 1024;
         gpu_seconds = duration * of_int (x_gpu_count execution);
         cost = cpu_seconds * x_cpu_price_per_hour execution / 3600
           + memory_gb_seconds * x_memory_price_per_gb_hour execution / 3600
           + gpu_seconds * x_gpu_price_per_hour execution / 3600
     in \<lparr>u_project_id = project_id, u_task_id = task_id, u_execution_id = x_id execution,
         u_started_at = started_at, u_finished_at = now, u_cpu_seconds = cpu_seconds,
         u_memory_gb_seconds = memory_gb_seconds, u_gpu_seconds = gpu_seconds,
         u_gpu_model = x_gpu_model execution, u_cost = cost\<rparr>)"

definition release_and_settle ::
  "datetime \<Rightarrow> task \<Rightarrow> uuid \<Rightarrow> task_status \<Rightarrow> string \<Rightarrow> task_db \<Rightarrow> (task \<times> bool) tx" where
  "release_and_settle now task execution_id final_status release_reason db =
    (case get_active_for_execution execution_id db of
       None \<Rightarrow> Inr (db, task, False)
     | Some reservation \<Rightarrow>
       ebind (get_locked now (r_project_id reservation) db) (\<lambda>(db, _).
       ebind (case tget w_id (r_worker_id reservation) (tb_workers db) of
                None \<Rightarrow> Inr db
              | Some worker \<Rightarrow>
                  ebind (release_worker_aggregate reservation worker) (\<lambda>worker. Inr (put_worker worker db)))
         (\<lambda>db.
       let db = db\<lparr>tb_reservation_devices :=
                  release_links now (r_id reservation) (tb_reservation_devices db)\<rparr>;
           db = put_reservation (reservation\<lparr>r_state := ''released'', r_released_at := Some now,
                  r_release_reason := Some release_reason, r_version := r_version reservation + 1\<rparr>) db in
       (case tget x_id execution_id (tb_task_executions db) of
          None \<Rightarrow> Inl ResourceInvariantViolation
        | Some execution \<Rightarrow>
          let execution = execution\<lparr>x_status := final_status, x_finished_at := Some now\<rparr>;
              release = (\<lambda>settled_cost. release_execution now (r_project_id reservation)
                (r_cpu_millicores reservation) (r_memory_mb reservation) (r_gpu_count reservation)
                0 settled_cost (Some (date_of (r_created_at reservation))) (r_requested_vendor reservation)) in
          (case t_started_at task of
             None \<Rightarrow>
               ebind (release 0 (put_execution execution db)) (\<lambda>(db, _). Inr (db, task, True))
           | Some started_at \<Rightarrow>
               let db = put_execution (execution\<lparr>x_started_at := Some started_at\<rparr>) db in
               if execution_id \<in> u_execution_id ` set (tb_usage_ledger db)
               then ebind (release 0 db) (\<lambda>(db, _). Inr (db, task, True))
               else
                 let usage = settle_usage (r_project_id reservation) (t_id task) execution started_at now in
                 ebind (release (u_cost usage) (db\<lparr>tb_usage_ledger := tb_usage_ledger db @ [usage]\<rparr>))
                   (\<lambda>(db, _). Inr (db, task\<lparr>t_estimated_cost := Some (u_cost usage)\<rparr>, True)))))))"

end
