(* ===== verification/Tasks.thy ===== *)
theory Tasks
  imports Policies Reservations
begin

text \<open>
  The task repository \<open>repositories/tasks.py\<close>: submission with dependencies, the atomic
  claim of a worker, the execution-fenced updates of a running task, completion with
  retries, cancellation, lease recovery and dependency resolution. Each operation is a
  transaction on the database; \<open>now\<close> is the database clock of the transaction. The
  optional \<open>worker_session_id\<close> of the code is \<open>None\<close> for callers without a session.
\<close>

section \<open>Pure rules\<close>

definition retry_delay_seconds :: "int \<Rightarrow> pyfloat \<Rightarrow> retry_backoff \<Rightarrow> pyfloat \<Rightarrow> repo_error + pyfloat" where
  "retry_delay_seconds retry_count maximum backoff base_seconds =
    (if retry_count < 1 then Inl ValueError
     else if base_seconds \<le> 0 then Inl ValueError
     else if maximum \<le> 0 then Inl ValueError
     else
       let delay =
             (case backoff of
                RB_FIXED \<Rightarrow> base_seconds
              | RB_LINEAR \<Rightarrow> base_seconds * of_int retry_count
              | RB_EXPONENTIAL \<Rightarrow> base_seconds * 2 ^ nat (retry_count - 1))
       in Inr (min delay maximum))"

definition should_retry_failure :: "string option \<Rightarrow> int option \<Rightarrow> int list \<Rightarrow> repo_error + bool" where
  "should_retry_failure category exit_code retry_on_exit_codes =
    (case category of
       None \<Rightarrow> Inr True
     | Some v \<Rightarrow>
       (case error_category_of v of
          None \<Rightarrow> Inl ValueError
        | Some c \<Rightarrow>
          if c \<in> {EC_INFRA_ERROR, EC_INTERNAL_ERROR, EC_TIMEOUT} then Inr True
          else if c \<in> {EC_USER_ERROR, EC_RESOURCE_ERROR}
          then Inr (case exit_code of None \<Rightarrow> False | Some code \<Rightarrow> code \<in> set retry_on_exit_codes)
          else Inr False))"

text \<open>The transition of the task row and the event it appends.\<close>

definition transition_event :: "task \<Rightarrow> task_status \<Rightarrow> string \<Rightarrow> datetime \<Rightarrow> task_event" where
  "transition_event task target event_type changed_at =
     \<lparr>e_project_id = t_project_id task, e_task_id = t_id task, e_event_type = event_type,
      e_sequence = t_version task + 1, e_from_status = Some (t_status task), e_status = target,
      e_execution_id = t_execution_id task, e_worker_id = t_worker_id task, e_created_at = changed_at\<rparr>"

definition transition_task :: "task \<Rightarrow> task_status \<Rightarrow> datetime \<Rightarrow> task" where
  "transition_task task target changed_at =
    (let task = task\<lparr>t_status := target, t_version := t_version task + 1\<rparr> in
     if target = TS_QUEUED then task\<lparr>t_queued_at := Some changed_at, t_finished_at := None\<rparr>
     else if target = TS_ASSIGNED then task\<lparr>t_assigned_at := Some changed_at\<rparr>
     else if target = TS_RUNNING then task\<lparr>t_started_at := Some changed_at\<rparr>
     else if target \<in> {TS_SUCCEEDED, TS_FAILED, TS_CANCELLED, TS_TIMED_OUT, TS_PREEMPTED}
     then task\<lparr>t_finished_at := Some changed_at\<rparr>
     else if target = TS_RETRYING then task\<lparr>t_finished_at := None\<rparr>
     else task)"

definition transition ::
  "task \<Rightarrow> task_status \<Rightarrow> datetime \<Rightarrow> string \<Rightarrow> task_db \<Rightarrow> repo_error + task_db \<times> task" where
  "transition task target now event_type db =
    (case ensure_transition (t_status task) target of
       Inl e \<Rightarrow> Inl (TransitionError e)
     | Inr _ \<Rightarrow>
         Inr (db\<lparr>tb_task_events := tb_task_events db @ [transition_event task target event_type now]\<rparr>,
              transition_task task target now))"

definition status_changed :: string where
  "status_changed = ''task.status_changed''"

definition prepare_for_assignment :: "task \<Rightarrow> task" where
  "prepare_for_assignment task = task
     \<lparr>t_started_at := None, t_finished_at := None, t_exit_code := None, t_error_message := None,
      t_failure_category := None, t_error_category := None, t_error_code := None,
      t_duration_ms := None, t_cpu_seconds := None, t_gpu_seconds := None,
      t_wall_time_seconds := None, t_estimated_cost := None, t_runtime_handle := None,
      t_gpu_device_ids := [], t_cancel_requested := False, t_next_attempt_at := None,
      t_unschedulable_reason := None\<rparr>"

text \<open>
  An accelerator request is \<open>None\<close> or a JSON object, of which only \<open>allowed_vendors\<close>
  matters here: \<open>Some None\<close> when that entry is missing or not a list.
\<close>

primrec parse_vendors :: "string list \<Rightarrow> repo_error + string list" where
  "parse_vendors [] = Inr []"
| "parse_vendors (v # vs) =
     (case accelerator_vendor_of v of
        None \<Rightarrow> Inl ValueError
      | Some _ \<Rightarrow> ebind (parse_vendors vs) (\<lambda>vs. Inr (v # vs)))"

definition accelerator_request_vendors ::
  "string list option option \<Rightarrow> int \<Rightarrow> repo_error + string list option" where
  "accelerator_request_vendors request gpu_count =
    (if gpu_count = 0 then Inr None
     else case request of
       None \<Rightarrow> Inr None
     | Some None \<Rightarrow> Inr None
     | Some (Some []) \<Rightarrow> Inr None
     | Some (Some raw) \<Rightarrow> ebind (parse_vendors raw) (\<lambda>vs. Inr (Some vs)))"

definition tasks_labels_match :: "str_dict \<Rightarrow> str_dict \<Rightarrow> bool" where
  "tasks_labels_match required offered = (\<forall>(key, v) \<in> set required. map_of offered key = Some v)"

definition tasks_taints_tolerated :: "str_dict list \<Rightarrow> str_dict list \<Rightarrow> bool" where
  "tasks_taints_tolerated taints tolerations =
     (\<forall>taint \<in> set taints.
        get_default taint ''effect'' ''NoSchedule'' = ''NoSchedule'' \<longrightarrow>
        (\<exists>tolerance \<in> set tolerations.
           map_of tolerance ''key'' = map_of taint ''key'' \<and>
           (case map_of tolerance ''value'' of None \<Rightarrow> map_of taint ''value'' | Some v \<Rightarrow> Some v)
             = map_of taint ''value''))"

definition worker_can_run_task :: "worker \<Rightarrow> task \<Rightarrow> bool" where
  "worker_can_run_task worker task \<longleftrightarrow>
     w_status worker = WS_ONLINE
     \<and> \<not> w_overcommitted worker
     \<and> runtime_type_value (t_runtime_type task) \<in> set (w_runtime_types worker)
     \<and> py_round (w_reserved_cpu worker * 1000) + t_cpu_millicores task \<le> w_cpu_allocatable_millicores worker
     \<and> w_reserved_memory_mb worker + t_memory_limit_mb task \<le> w_memory_allocatable_mb worker
     \<and> w_reserved_gpus worker + t_gpu_count task \<le> w_gpu_count worker
     \<and> tasks_labels_match (t_labels task) (w_labels worker)
     \<and> tasks_taints_tolerated (w_taints worker) (t_tolerations task)"

definition release_worker_capacity :: "worker \<Rightarrow> task \<Rightarrow> worker" where
  "release_worker_capacity worker task = worker
     \<lparr>w_running_tasks := max 0 (w_running_tasks worker - 1),
      w_reserved_cpu := max 0 (w_reserved_cpu worker - t_cpu_limit task),
      w_reserved_memory_mb := max 0 (w_reserved_memory_mb worker - t_memory_limit_mb task),
      w_reserved_gpus := max 0 (w_reserved_gpus worker - t_gpu_count task),
      w_version := w_version worker + 1\<rparr>"

definition runtime_lease_expiry :: "task \<Rightarrow> datetime \<Rightarrow> pyfloat \<Rightarrow> pyfloat \<Rightarrow> repo_error + datetime" where
  "runtime_lease_expiry task now lease_seconds kubernetes_cleanup_grace_seconds =
    (if kubernetes_cleanup_grace_seconds < 0 then Inl ValueError
     else
       let ordinary_expiry = now + timedelta_seconds lease_seconds in
       if t_runtime_type task \<noteq> RT_KUBERNETES \<or> t_runtime_handle task = None then Inr ordinary_expiry
       else
         let started_at = (case t_started_at task of Some s \<Rightarrow> s | None \<Rightarrow> now);
             job_expiry = started_at
               + timedelta_seconds (of_int (t_timeout_seconds task) + kubernetes_cleanup_grace_seconds)
         in Inr (max ordinary_expiry job_expiry))"

section \<open>Dependencies\<close>

definition dependency_statuses :: "uuid \<Rightarrow> task_db \<Rightarrow> (string \<times> task_status) list" where
  "dependency_statuses task_id db =
     concat (map (\<lambda>d. map (\<lambda>t. (dep_failure_policy d, t_status t))
         (filter (\<lambda>t. t_id t = dep_depends_on_task_id d) (tb_tasks db)))
       (filter (\<lambda>d. dep_task_id d = task_id) (tb_task_dependencies db)))"

definition unsatisfied_dependencies :: "uuid \<Rightarrow> task_db \<Rightarrow> bool" where
  "unsatisfied_dependencies task_id db \<longleftrightarrow>
     (\<exists>(_, status) \<in> set (dependency_statuses task_id db). status \<noteq> TS_SUCCEEDED)"

definition dependencies_ready :: "uuid \<Rightarrow> task_db \<Rightarrow> bool" where
  "dependencies_ready task_id db \<longleftrightarrow> \<not> unsatisfied_dependencies task_id db"

definition add_terminal_event :: "datetime \<Rightarrow> task \<Rightarrow> task_status \<Rightarrow> task_db \<Rightarrow> task_db" where
  "add_terminal_event now task status =
     add_event now (t_id task) ''task.terminal''
       [(''task_id'', JUuid (t_id task)), (''status'', JStatus status)] now"

definition add_ready_event :: "datetime \<Rightarrow> task \<Rightarrow> task_db \<Rightarrow> task_db" where
  "add_ready_event now task =
     add_event now (t_id task) ''task.ready'' [(''task_id'', JUuid (t_id task))] now"

section \<open>Submission\<close>

record task_spec =
  sp_project_id :: uuid
  sp_runtime_type :: runtime_type
  sp_timeout_seconds :: int
  sp_max_retries :: int
  sp_retry_backoff :: retry_backoff
  sp_retry_base_seconds :: pyfloat
  sp_retry_max_seconds :: pyfloat
  sp_retry_on_exit_codes :: "int list option"
  sp_cpu_limit :: pyfloat
  sp_memory_limit_mb :: int
  sp_gpu_count :: int
  sp_gpu_memory_mb :: int
  sp_gpu_model :: "string option"
  sp_accelerator_request :: "string list option option"
  sp_labels :: str_dict
  sp_tolerations :: "str_dict list"
  sp_priority :: int
  sp_preemptible :: bool
  sp_idempotency_key :: "string option"
  sp_request_hash :: "string option"
  sp_depends_on :: "uuid list"
  sp_dependency_failure_policy :: string

definition new_task :: "task_spec \<Rightarrow> uuid \<Rightarrow> datetime \<Rightarrow> task" where
  "new_task spec task_id now =
     \<lparr>t_id = task_id, t_project_id = sp_project_id spec, t_runtime_type = sp_runtime_type spec,
      t_status = TS_PENDING, t_created_at = now, t_queued_at = None, t_assigned_at = None,
      t_started_at = None, t_finished_at = None, t_worker_id = None, t_execution_id = None,
      t_lease_expires_at = None, t_exit_code = None, t_error_message = None,
      t_timeout_seconds = sp_timeout_seconds spec, t_retry_count = 0,
      t_max_retries = sp_max_retries spec, t_retry_backoff = sp_retry_backoff spec,
      t_retry_base_seconds = sp_retry_base_seconds spec, t_retry_max_seconds = sp_retry_max_seconds spec,
      t_retry_on_exit_codes =
        (case sp_retry_on_exit_codes spec of None \<Rightarrow> [1, 137] | Some codes \<Rightarrow> codes),
      t_recovery_count = 0, t_next_attempt_at = None, t_cpu_limit = sp_cpu_limit spec,
      t_cpu_millicores = py_round (sp_cpu_limit spec * 1000),
      t_memory_limit_mb = sp_memory_limit_mb spec, t_gpu_count = sp_gpu_count spec,
      t_gpu_memory_mb = sp_gpu_memory_mb spec, t_gpu_model = sp_gpu_model spec,
      t_gpu_device_ids = [], t_labels = sp_labels spec, t_tolerations = sp_tolerations spec,
      t_priority = sp_priority spec, t_queue_order = 0, t_preemptible = sp_preemptible spec,
      t_preemption_count = 0, t_requeue_on_preempt = True, t_unschedulable_reason = None,
      t_failure_category = None, t_error_category = None, t_error_code = None,
      t_runtime_handle = None, t_cancel_requested = False, t_duration_ms = None,
      t_cpu_seconds = None, t_gpu_seconds = None, t_wall_time_seconds = None,
      t_estimated_cost = None, t_idempotency_key = sp_idempotency_key spec,
      t_request_hash = sp_request_hash spec, t_version = 1, t_log_sequence = 0\<rparr>"

text \<open>The row constraints the database checks when the new task is flushed.\<close>

definition task_constraints :: "task \<Rightarrow> task_db \<Rightarrow> repo_error + unit" where
  "task_constraints task db =
     ebind (guard (0 \<le> t_priority task \<and> t_priority task \<le> 100) (IntegrityError ''priority'')) (\<lambda>_.
     ebind (guard (0 < t_cpu_millicores task) (IntegrityError ''cpu_millicores'')) (\<lambda>_.
     ebind (guard (0 \<le> t_gpu_memory_mb task) (IntegrityError ''gpu_memory'')) (\<lambda>_.
     ebind (guard (0 < t_retry_base_seconds task) (IntegrityError ''retry_base_seconds'')) (\<lambda>_.
     ebind (guard (t_retry_base_seconds task \<le> t_retry_max_seconds task)
              (IntegrityError ''retry_max_seconds'')) (\<lambda>_.
     guard (t_idempotency_key task = None
            \<or> \<not> (\<exists>t \<in> set (tb_tasks db). t_project_id t = t_project_id task
                   \<and> t_idempotency_key t = t_idempotency_key task))
       (IntegrityError ''uq_tasks_project_idempotency''))))))"

definition created_event :: "task \<Rightarrow> datetime \<Rightarrow> task_event" where
  "created_event task now =
     \<lparr>e_project_id = t_project_id task, e_task_id = t_id task, e_event_type = ''task.created'',
      e_sequence = 0, e_from_status = None, e_status = TS_PENDING, e_execution_id = None,
      e_worker_id = None, e_created_at = now\<rparr>"

definition dependency_rows :: "task_spec \<Rightarrow> uuid \<Rightarrow> task_dependency list" where
  "dependency_rows spec task_id =
     map (\<lambda>d. \<lparr>dep_task_id = task_id, dep_depends_on_task_id = d, dep_job_group_id = None,
               dep_failure_policy = sp_dependency_failure_policy spec\<rparr>) (sp_depends_on spec)"

definition prerequisite_message :: string where
  "prerequisite_message = ''a prerequisite task did not succeed''"

definition cancelled :: "string option" where
  "cancelled = Some (error_category_value EC_CANCELLED)"

definition create_queued :: "datetime \<Rightarrow> task_spec \<Rightarrow> task_db \<Rightarrow> task tx" where
  "create_queued now spec db =
    (let dependency_ids = sp_depends_on spec in
     ebind (guard (distinct dependency_ids) DependencyValidationError) (\<lambda>_.
     ebind (guard (sp_dependency_failure_policy spec \<in> {''block'', ''cancel''})
              DependencyValidationError) (\<lambda>_.
     let dependency_tasks = sort_key t_id (filter (\<lambda>t. t_project_id t = sp_project_id spec
             \<and> t_id t \<in> set dependency_ids) (tb_tasks db)) in
     ebind (guard (length dependency_tasks = length dependency_ids) DependencyValidationError) (\<lambda>_.
     ebind (initialize now (sp_project_id spec) db) (\<lambda>(db, quota).
     ebind (accelerator_request_vendors (sp_accelerator_request spec) (sp_gpu_count spec)) (\<lambda>vendors.
     ebind (ensure_task_can_fit quota (py_round (sp_cpu_limit spec * 1000)) (sp_memory_limit_mb spec)
              (sp_gpu_count spec) None vendors) (\<lambda>_.
     ebind (admit_queued now (sp_project_id spec) db) (\<lambda>(db, _).
     let task = new_task spec (fresh_id t_id (tb_tasks db)) now in
     ebind (task_constraints task db) (\<lambda>_.
     let db = db\<lparr>tb_tasks := tb_tasks db @ [task],
                 tb_task_dependencies := tb_task_dependencies db @ dependency_rows spec (t_id task),
                 tb_task_events := tb_task_events db @ [created_event task now]\<rparr>;
         dependency_failed = (\<exists>d \<in> set dependency_tasks.
             t_status d \<in> FINAL_TASK_STATUSES \<and> t_status d \<noteq> TS_SUCCEEDED);
         dependencies_succeeded = (\<forall>d \<in> set dependency_tasks. t_status d = TS_SUCCEEDED) in
     if dependency_failed \<and> sp_dependency_failure_policy spec = ''cancel''
     then
       ebind (transition task TS_CANCELLED now ''task.dependency_cancelled'' db) (\<lambda>(db, task).
       let task = task\<lparr>t_error_message := Some prerequisite_message, t_failure_category := cancelled,
                       t_error_category := cancelled\<rparr> in
       ebind (release_queued now (sp_project_id spec) db) (\<lambda>(db, _).
       Inr (add_terminal_event now task TS_CANCELLED (put_task task db), task)))
     else if dependencies_succeeded
     then
       ebind (transition task TS_QUEUED now ''task.queued'' db) (\<lambda>(db, task).
       Inr (add_ready_event now task (put_task task db), task))
     else Inr (db, task))))))))))"

section \<open>Claim\<close>

text \<open>
  The GPUs a claim may bind, in the order of the query; devices row-locked by other
  transactions (\<open>SKIP LOCKED\<close>) are given by \<open>locked\<close>.
\<close>

definition claimable_devices :: "(uuid \<Rightarrow> bool) \<Rightarrow> worker \<Rightarrow> task \<Rightarrow> task_db \<Rightarrow> gpu_device list" where
  "claimable_devices locked worker task db =
     take (nat (t_gpu_count task)) (filter (\<lambda>d. \<not> locked (d_id d))
       (sort_key (\<lambda>d. (d_memory_free_mb d, d_memory_total_mb d, d_device_uuid d))
         (filter (\<lambda>d. d_worker_id d = w_id worker \<and> d_health d = ''healthy''
             \<and> d_memory_free_mb d \<ge> t_gpu_memory_mb task
             \<and> d_vendor d = accelerator_vendor_value NVIDIA
             \<and> d_accelerator_kind d = accelerator_kind_value GPU
             \<and> d_id d \<notin> l_gpu_device_id ` set (filter (\<lambda>l. l_released_at l = None) (tb_reservation_devices db))
             \<and> (case t_gpu_model task of None \<Rightarrow> True | Some m \<Rightarrow> d_model d = m))
           (tb_gpu_devices db))))"

definition when_gpus :: "int \<Rightarrow> 'a \<Rightarrow> 'a option" where
  "when_gpus gpu_count v = (if gpu_count \<noteq> 0 then Some v else None)"

definition when_devices :: "gpu_device list \<Rightarrow> 'a \<Rightarrow> 'a option" where
  "when_devices devices v = (if devices \<noteq> [] then Some v else None)"

definition next_attempt :: "uuid \<Rightarrow> task_db \<Rightarrow> int" where
  "next_attempt task_id db =
     fold max (map x_attempt (filter (\<lambda>x. x_task_id x = task_id) (tb_task_executions db))) 0 + 1"

definition new_execution ::
  "datetime \<Rightarrow> uuid \<Rightarrow> task \<Rightarrow> worker \<Rightarrow> int \<Rightarrow> gpu_device list \<Rightarrow> rat \<Rightarrow> rat \<Rightarrow> rat \<Rightarrow> task_execution" where
  "new_execution now execution_id task worker attempt devices cpu_price memory_price gpu_price =
     \<lparr>x_id = execution_id, x_task_id = t_id task, x_project_id = t_project_id task,
      x_worker_id = Some (w_id worker), x_worker_session_id = Some (w_worker_session_id worker),
      x_attempt = attempt, x_status = TS_ASSIGNED, x_cpu_millicores = t_cpu_millicores task,
      x_memory_mb = t_memory_limit_mb task, x_gpu_count = t_gpu_count task,
      x_gpu_model = t_gpu_model task, x_allocation_authority = CONTROL_PLANE_EXACT_DEVICE,
      x_requested_vendor = when_gpus (t_gpu_count task) (accelerator_vendor_value NVIDIA),
      x_requested_kind = when_gpus (t_gpu_count task) (accelerator_kind_value GPU),
      x_observed_device_ids_json = when_devices devices (map d_device_uuid devices),
      x_observed_vendor = when_devices devices (accelerator_vendor_value NVIDIA),
      x_observed_at = when_devices devices now, x_cpu_price_per_hour = cpu_price,
      x_memory_price_per_gb_hour = memory_price, x_gpu_price_per_hour = gpu_price,
      x_assigned_at = now, x_started_at = None, x_finished_at = None,
      x_runtime_type = t_runtime_type task, x_runtime_object_id = None, x_runtime_namespace = None,
      x_runtime_resource_kind = None, x_runtime_resource_name = None, x_runtime_resource_uid = None,
      x_runtime_worker_session_id = None, x_observed_pod_name = None, x_observed_pod_uid = None,
      x_runtime_spec_hash = None, x_error_category = None, x_error_code = None,
      x_error_message = None\<rparr>"

definition new_reservation ::
  "datetime \<Rightarrow> uuid \<Rightarrow> uuid \<Rightarrow> task \<Rightarrow> worker \<Rightarrow> gpu_device list \<Rightarrow> resource_reservation" where
  "new_reservation now reservation_id execution_id task worker devices =
     \<lparr>r_id = reservation_id, r_project_id = t_project_id task, r_task_id = t_id task,
      r_execution_id = execution_id, r_worker_id = w_id worker,
      r_worker_session_id = w_worker_session_id worker, r_cpu_millicores = t_cpu_millicores task,
      r_memory_mb = t_memory_limit_mb task, r_gpu_count = t_gpu_count task,
      r_allocation_authority = CONTROL_PLANE_EXACT_DEVICE,
      r_requested_vendor = when_gpus (t_gpu_count task) (accelerator_vendor_value NVIDIA),
      r_requested_kind = when_gpus (t_gpu_count task) (accelerator_kind_value GPU),
      r_observed_device_ids_json = when_devices devices (map d_device_uuid devices),
      r_observed_vendor = when_devices devices (accelerator_vendor_value NVIDIA),
      r_observed_at = when_devices devices now, r_state = ''active'', r_legacy_unbound = False,
      r_created_at = now, r_released_at = None, r_release_reason = None, r_version = 1\<rparr>"

text \<open>The value constraints of a reservation row.\<close>

definition reservation_constraints :: "resource_reservation \<Rightarrow> repo_error + unit" where
  "reservation_constraints reservation =
     guard (0 < r_cpu_millicores reservation \<and> 0 < r_memory_mb reservation \<and> 0 \<le> r_gpu_count reservation)
       (IntegrityError ''resource_reservations'')"

definition new_links ::
  "datetime \<Rightarrow> uuid \<Rightarrow> gpu_device list \<Rightarrow> reservation_gpu_device list \<Rightarrow> reservation_gpu_device list" where
  "new_links now reservation_id devices rows =
     fold (\<lambda>device rows. rows @
         [\<lparr>l_id = fresh_id l_id rows, l_reservation_id = reservation_id,
           l_gpu_device_id = d_id device, l_created_at = now, l_released_at = None\<rparr>])
       devices rows"

text \<open>The defaults of the three prices are left to the caller.\<close>

definition claim ::
  "(uuid \<Rightarrow> bool) \<Rightarrow> datetime \<Rightarrow> uuid \<Rightarrow> uuid \<Rightarrow> string \<Rightarrow> pyfloat \<Rightarrow> uuid option
   \<Rightarrow> rat \<Rightarrow> rat \<Rightarrow> rat \<Rightarrow> task_db \<Rightarrow> (task \<times> uuid) tx" where
  "claim locked now execution_id task_id worker_id lease_seconds worker_session_id
     cpu_price_per_hour memory_price_per_gb_hour gpu_price_per_hour db =
    (case tget t_id task_id (tb_tasks db) of
       None \<Rightarrow> Inl (ClaimRejected ''task is no longer queued'')
     | Some task \<Rightarrow>
       ebind (guard (t_status task = TS_QUEUED \<and> \<not> t_cancel_requested task)
                (ClaimRejected ''task is no longer queued'')) (\<lambda>_.
       ebind (guard (dependencies_ready (t_id task) db)
                (ClaimRejected ''task dependencies are not ready'')) (\<lambda>_.
       ebind (get_locked now (t_project_id task) db) (\<lambda>(db, _).
       case tget w_id worker_id (tb_workers db) of
         None \<Rightarrow> Inl (ClaimRejected ''worker is not online'')
       | Some worker \<Rightarrow>
         ebind (guard (w_status worker = WS_ONLINE) (ClaimRejected ''worker is not online'')) (\<lambda>_.
         ebind (guard (worker_session_id = None \<or> worker_session_id = Some (w_worker_session_id worker))
                  (ClaimRejected ''worker session is stale'')) (\<lambda>_.
         ebind (guard (\<not> w_running_tasks worker \<ge> w_concurrency worker)
                  (ClaimRejected ''worker has no free concurrency slot'')) (\<lambda>_.
         ebind (guard (worker_can_run_task worker task)
                  (ClaimRejected ''worker does not satisfy task requirements'')) (\<lambda>_.
         let devices = (if t_gpu_count task \<noteq> 0 then claimable_devices locked worker task db else []) in
         ebind (guard (t_gpu_count task = 0 \<or> int (length devices) = t_gpu_count task)
                  (ClaimRejected ''worker concrete GPU inventory is insufficient'')) (\<lambda>_.
         ebind (transition (prepare_for_assignment task) TS_ASSIGNED now ''task.assigned'' db) (\<lambda>(db, task).
         let task = task\<lparr>t_worker_id := Some (w_id worker), t_execution_id := Some execution_id,
                         t_lease_expires_at := Some (now + timedelta_seconds lease_seconds)\<rparr>;
             worker = worker\<lparr>w_running_tasks := w_running_tasks worker + 1,
                         w_reserved_cpu := w_reserved_cpu worker + t_cpu_limit task,
                         w_reserved_memory_mb := w_reserved_memory_mb worker + t_memory_limit_mb task,
                         w_reserved_gpus := w_reserved_gpus worker + t_gpu_count task,
                         w_version := w_version worker + 1\<rparr>;
             task = (if devices \<noteq> [] then task\<lparr>t_gpu_device_ids := map d_device_uuid devices\<rparr> else task);
             db = put_worker worker (put_task task db);
             execution = new_execution now execution_id task worker (next_attempt (t_id task) db) devices
               cpu_price_per_hour memory_price_per_gb_hour gpu_price_per_hour;
             reservation = new_reservation now (fresh_id r_id (tb_reservations db)) execution_id task
               worker devices;
             db = db\<lparr>tb_task_executions := tb_task_executions db @ [execution],
                     tb_reservations := tb_reservations db @ [reservation],
                     tb_reservation_devices :=
                       new_links now (r_id reservation) devices (tb_reservation_devices db)\<rparr> in
         ebind (reservation_constraints reservation) (\<lambda>_.
         ebind (assert_exact_device_binding reservation db) (\<lambda>_.
         ebind (reserve_execution now (t_project_id task) (t_cpu_millicores task) (t_memory_limit_mb task)
                  (t_gpu_count task) 0 (when_gpus (t_gpu_count task) (accelerator_vendor_value NVIDIA)) db)
           (\<lambda>(db, _).
         Inr (add_event now (t_id task) ''task.assigned''
                [(''task_id'', JUuid (t_id task)), (''worker_id'', JStr (w_id worker)),
                 (''execution_id'', JUuid execution_id),
                 (''queue_wait_seconds'',
                   JNum (case t_queued_at task of
                           None \<Rightarrow> 0 | Some queued_at \<Rightarrow> max 0 (total_seconds (now - queued_at))))]
                now db, task, execution_id))))))))))))))"

section \<open>Execution fencing\<close>

definition session_owns_execution :: "string \<Rightarrow> uuid \<Rightarrow> uuid \<Rightarrow> task_db \<Rightarrow> bool" where
  "session_owns_execution worker_id execution_id worker_session_id db =
    (case tget w_id worker_id (tb_workers db) of
       None \<Rightarrow> False
     | Some worker \<Rightarrow>
         w_worker_session_id worker = worker_session_id
         \<and> find (\<lambda>r. r_execution_id r = execution_id \<and> r_worker_id r = worker_id
                 \<and> r_worker_session_id r = worker_session_id \<and> r_released_at r = None)
             (tb_reservations db) \<noteq> None)"

definition owned_task ::
  "uuid \<Rightarrow> string \<Rightarrow> uuid \<Rightarrow> uuid option \<Rightarrow> task_db \<Rightarrow> repo_error + task" where
  "owned_task task_id worker_id execution_id worker_session_id db =
    (case tget t_id task_id (tb_tasks db) of
       None \<Rightarrow> Inl StaleExecutionError
     | Some task \<Rightarrow>
       if t_worker_id task \<noteq> Some worker_id \<or> t_execution_id task \<noteq> Some execution_id
       then Inl StaleExecutionError
       else case worker_session_id of
         None \<Rightarrow> Inr task
       | Some sid \<Rightarrow>
           if session_owns_execution worker_id execution_id sid db then Inr task
           else Inl StaleExecutionError)"

definition bump_version :: "task \<Rightarrow> task" where
  "bump_version task = task\<lparr>t_version := t_version task + 1\<rparr>"

definition append_log ::
  "datetime \<Rightarrow> uuid \<Rightarrow> uuid option \<Rightarrow> log_stream \<Rightarrow> string \<Rightarrow> string option \<Rightarrow> uuid option
   \<Rightarrow> task_db \<Rightarrow> task_log tx" where
  "append_log now task_id execution_id stream content worker_id worker_session_id db =
     ebind (case worker_session_id of
              Some sid \<Rightarrow>
                (case (worker_id, execution_id) of
                   (Some wid, Some eid) \<Rightarrow> owned_task task_id wid eid (Some sid) db
                 | _ \<Rightarrow> Inl ValueError)
            | None \<Rightarrow>
                (case tget t_id task_id (tb_tasks db) of None \<Rightarrow> Inl LookupError | Some task \<Rightarrow> Inr task))
       (\<lambda>task.
     ebind (guard (case execution_id of None \<Rightarrow> True
              | Some eid \<Rightarrow> t_execution_id task = Some eid \<and> t_status task \<in> ACTIVE_TASK_STATUSES)
              StaleExecutionError) (\<lambda>_.
     let task = bump_version (task\<lparr>t_log_sequence := t_log_sequence task + 1\<rparr>);
         log = \<lparr>g_task_id = task_id, g_execution_id = execution_id, g_timestamp = now, g_stream = stream,
                g_sequence = t_log_sequence task, g_content = content\<rparr> in
     Inr ((put_task task db)\<lparr>tb_task_logs := tb_task_logs db @ [log]\<rparr>, log)))"

text \<open>
  The assignment query joins the task with a reservation of its execution and its worker;
  tasks row-locked by other transactions are skipped.
\<close>

definition assignable :: "string \<Rightarrow> uuid \<Rightarrow> task_db \<Rightarrow> task \<Rightarrow> bool" where
  "assignable worker_id worker_session_id db task \<longleftrightarrow>
     t_worker_id task = Some worker_id \<and> t_status task = TS_ASSIGNED
     \<and> (\<exists>r \<in> set (tb_reservations db). Some (r_execution_id r) = t_execution_id task
          \<and> r_worker_session_id r = worker_session_id \<and> r_released_at r = None
          \<and> r_gpu_count r = t_gpu_count task
          \<and> (t_gpu_count task = 0 \<or> int (length (active_links (r_id r) db)) = t_gpu_count task))
     \<and> (\<exists>w \<in> set (tb_workers db). Some (w_id w) = t_worker_id task
          \<and> w_worker_session_id w = worker_session_id)"

text \<open>PostgreSQL sorts \<open>NULL\<close> last in ascending order.\<close>

definition nulls_last :: "int option \<Rightarrow> bool \<times> int" where
  "nulls_last v = (case v of None \<Rightarrow> (True, 0) | Some n \<Rightarrow> (False, n))"

definition take_global_assignment ::
  "(uuid \<Rightarrow> bool) \<Rightarrow> datetime \<Rightarrow> string \<Rightarrow> uuid \<Rightarrow> pyfloat \<Rightarrow> task_db \<Rightarrow> task option tx" where
  "take_global_assignment locked now worker_id worker_session_id lease_seconds db =
    (case filter (\<lambda>t. \<not> locked (t_id t)) (sort_key (\<lambda>t. (nulls_last (t_assigned_at t), t_id t))
            (filter (assignable worker_id worker_session_id db) (tb_tasks db))) of
       [] \<Rightarrow> Inr (db, None)
     | task # _ \<Rightarrow>
       ebind (transition task TS_PREPARING now status_changed db) (\<lambda>(db, task).
       let task = task\<lparr>t_lease_expires_at := Some (now + timedelta_seconds lease_seconds)\<rparr> in
       Inr (put_task task db, Some task)))"

text \<open>
  The three progress marks share their shape: a repeated mark renews the lease, a mark
  from an earlier status makes the transition, anything else is stale.
\<close>

definition mark_progress ::
  "task_status set \<Rightarrow> task_status set \<Rightarrow> task_status \<Rightarrow> datetime \<Rightarrow> uuid \<Rightarrow> string \<Rightarrow> uuid \<Rightarrow> pyfloat
   \<Rightarrow> uuid option \<Rightarrow> pyfloat \<Rightarrow> task_db \<Rightarrow> task tx" where
  "mark_progress reached before target now task_id worker_id execution_id lease_seconds
     worker_session_id grace db =
     ebind (owned_task task_id worker_id execution_id worker_session_id db) (\<lambda>task.
     if t_status task \<in> reached
     then
       ebind (runtime_lease_expiry task now lease_seconds grace) (\<lambda>expiry.
       let task = bump_version (task\<lparr>t_lease_expires_at := Some expiry\<rparr>) in
       Inr (put_task task db, task))
     else
       ebind (guard (t_status task \<in> before) StaleExecutionError) (\<lambda>_.
       ebind (transition task target now status_changed db) (\<lambda>(db, task).
       ebind (runtime_lease_expiry task now lease_seconds grace) (\<lambda>expiry.
       let task = task\<lparr>t_lease_expires_at := Some expiry\<rparr> in
       Inr (put_task task db, task)))))"

definition mark_pulling where
  "mark_pulling =
     mark_progress {TS_PULLING, TS_STARTING, TS_RUNNING} {TS_ASSIGNED, TS_PREPARING} TS_PULLING"

definition mark_starting where
  "mark_starting = mark_progress {TS_STARTING, TS_RUNNING} {TS_PULLING} TS_STARTING"

definition mark_running where
  "mark_running = mark_progress {TS_RUNNING} {TS_PULLING, TS_STARTING} TS_RUNNING"

definition renew_lease ::
  "datetime \<Rightarrow> uuid \<Rightarrow> string \<Rightarrow> uuid \<Rightarrow> pyfloat \<Rightarrow> uuid option \<Rightarrow> pyfloat \<Rightarrow> task_db \<Rightarrow> bool tx" where
  "renew_lease now task_id worker_id execution_id lease_seconds worker_session_id grace db =
    (case tget t_id task_id (tb_tasks db) of
       None \<Rightarrow> Inr (db, False)
     | Some task \<Rightarrow>
       if t_worker_id task \<noteq> Some worker_id \<or> t_execution_id task \<noteq> Some execution_id
          \<or> t_status task \<notin> ACTIVE_TASK_STATUSES
       then Inr (db, False)
       else if (case worker_session_id of None \<Rightarrow> False
                | Some sid \<Rightarrow> \<not> session_owns_execution worker_id execution_id sid db)
       then Inr (db, False)
       else
         ebind (runtime_lease_expiry task now lease_seconds grace) (\<lambda>expiry.
         Inr (put_task (bump_version (task\<lparr>t_lease_expires_at := Some expiry\<rparr>)) db, True)))"

definition cancellation_requested ::
  "uuid \<Rightarrow> string \<Rightarrow> uuid \<Rightarrow> uuid option \<Rightarrow> task_db \<Rightarrow> repo_error + bool" where
  "cancellation_requested task_id worker_id execution_id worker_session_id db =
     ebind (owned_task task_id worker_id execution_id worker_session_id db) (\<lambda>task.
     Inr (t_cancel_requested task \<or> t_status task = TS_CANCELLED))"

definition preserve_kubernetes_handoff_lease ::
  "datetime \<Rightarrow> uuid \<Rightarrow> string \<Rightarrow> uuid \<Rightarrow> uuid \<Rightarrow> int \<Rightarrow> task_db \<Rightarrow> task tx" where
  "preserve_kubernetes_handoff_lease now task_id worker_id execution_id worker_session_id
     cleanup_grace_seconds db =
     ebind (owned_task task_id worker_id execution_id (Some worker_session_id) db) (\<lambda>task.
     ebind (guard (\<not> (t_runtime_type task \<noteq> RT_KUBERNETES \<or> t_runtime_handle task = None))
              StaleExecutionError) (\<lambda>_.
     ebind (guard (\<not> cleanup_grace_seconds < 0) ValueError) (\<lambda>_.
     let task = bump_version (task\<lparr>t_lease_expires_at :=
           Some (now + timedelta_seconds (of_int (t_timeout_seconds task + cleanup_grace_seconds)))\<rparr>) in
     Inr (put_task task db, task))))"

section \<open>Runtime handles\<close>

record handle_request =
  hq_runtime_type :: string
  hq_resource_kind :: string
  hq_resource_name :: string
  hq_namespace :: "string option"
  hq_resource_uid :: "string option"
  hq_runtime_worker_session_id :: "uuid option"
  hq_spec_hash :: "string option"
  hq_observed_pod_name :: "string option"
  hq_observed_pod_uid :: "string option"

definition kubernetes :: string where
  "kubernetes = runtime_type_value RT_KUBERNETES"

definition incomplete_job :: "handle_request \<Rightarrow> bool" where
  "incomplete_job q \<longleftrightarrow>
     hq_resource_kind q \<noteq> ''job'' \<or> \<not> truthy (hq_namespace q) \<or> hq_resource_name q = []
     \<or> \<not> truthy (hq_resource_uid q) \<or> hq_runtime_worker_session_id q = None
     \<or> \<not> truthy (hq_spec_hash q)"

definition handle_of :: "handle_request \<Rightarrow> runtime_handle option \<Rightarrow> runtime_handle" where
  "handle_of q existing =
     \<lparr>h_runtime_type = hq_runtime_type q, h_runtime_namespace = hq_namespace q,
      h_runtime_resource_kind = hq_resource_kind q, h_runtime_resource_name = hq_resource_name q,
      h_runtime_resource_uid = hq_resource_uid q,
      h_runtime_worker_session_id = hq_runtime_worker_session_id q,
      h_observed_pod_name = hq_observed_pod_name q, h_observed_pod_uid = hq_observed_pod_uid q,
      h_runtime_spec_hash = hq_spec_hash q,
      h_runtime_log_cursor_bytes =
        (case existing of None \<Rightarrow> 0 | Some h \<Rightarrow> h_runtime_log_cursor_bytes h)\<rparr>"

definition record_runtime_handle ::
  "datetime \<Rightarrow> uuid \<Rightarrow> string \<Rightarrow> uuid \<Rightarrow> handle_request \<Rightarrow> uuid option \<Rightarrow> pyfloat \<Rightarrow> task_db \<Rightarrow> task tx" where
  "record_runtime_handle now task_id worker_id execution_id q worker_session_id grace db =
     ebind (owned_task task_id worker_id execution_id worker_session_id db) (\<lambda>task.
     case tget x_id execution_id (tb_task_executions db) of
       None \<Rightarrow> Inl StaleExecutionError
     | Some execution \<Rightarrow>
       ebind (guard (x_task_id execution = task_id \<and> x_worker_id execution = Some worker_id)
                StaleExecutionError) (\<lambda>_.
       ebind (guard (worker_session_id = None \<or> x_worker_session_id execution = worker_session_id)
                StaleExecutionError) (\<lambda>_.
       ebind (guard (runtime_type_value (x_runtime_type execution) = hq_runtime_type q)
                StaleExecutionError) (\<lambda>_.
       ebind (guard ((hq_observed_pod_name q = None) = (hq_observed_pod_uid q = None)) ValueError) (\<lambda>_.
       ebind (guard (\<not> (x_observed_pod_name execution \<noteq> None
                  \<and> (x_observed_pod_name execution \<noteq> hq_observed_pod_name q
                     \<or> x_observed_pod_uid execution \<noteq> hq_observed_pod_uid q))) StaleExecutionError) (\<lambda>_.
       ebind (guard (case t_runtime_handle task of None \<Rightarrow> True
                | Some h \<Rightarrow> \<not> (h_observed_pod_name h \<noteq> None
                    \<and> (h_observed_pod_name h \<noteq> hq_observed_pod_name q
                       \<or> h_observed_pod_uid h \<noteq> hq_observed_pod_uid q))) StaleExecutionError) (\<lambda>_.
       ebind (if hq_runtime_type q = kubernetes
              then
                ebind (guard (\<not> grace < 0) ValueError) (\<lambda>_.
                ebind (guard (\<not> incomplete_job q) ValueError) (\<lambda>_.
                guard (\<not> (x_runtime_worker_session_id execution \<noteq> None
                          \<and> x_runtime_worker_session_id execution \<noteq> hq_runtime_worker_session_id q))
                  StaleExecutionError))
              else Inr ()) (\<lambda>_.
       let task = bump_version (task\<lparr>t_runtime_handle := Some (handle_of q (t_runtime_handle task))\<rparr>) in
       ebind (if hq_runtime_type q = kubernetes
              then ebind (runtime_lease_expiry task now 0 grace) (\<lambda>expiry.
                Inr (task\<lparr>t_lease_expires_at := Some expiry\<rparr>))
              else Inr task) (\<lambda>task.
       let execution = execution\<lparr>x_runtime_object_id := Some (hq_resource_name q)\<rparr>;
           execution =
             (if hq_runtime_type q = kubernetes
              then execution\<lparr>x_runtime_namespace := hq_namespace q,
                 x_runtime_resource_kind := Some (hq_resource_kind q),
                 x_runtime_resource_name := Some (hq_resource_name q),
                 x_runtime_resource_uid := hq_resource_uid q,
                 x_runtime_worker_session_id := hq_runtime_worker_session_id q,
                 x_observed_pod_name := hq_observed_pod_name q, x_observed_pod_uid := hq_observed_pod_uid q,
                 x_runtime_spec_hash := hq_spec_hash q\<rparr>
              else execution) in
       Inr (put_execution execution (put_task task db), task))))))))))"

definition advance_runtime_log_cursor ::
  "uuid \<Rightarrow> string \<Rightarrow> uuid \<Rightarrow> int \<Rightarrow> string \<Rightarrow> string \<Rightarrow> string \<Rightarrow> uuid \<Rightarrow> task_db \<Rightarrow> task tx" where
  "advance_runtime_log_cursor task_id worker_id execution_id cursor_bytes resource_name resource_uid
     spec_hash worker_session_id db =
     ebind (guard (\<not> cursor_bytes < 0) ValueError) (\<lambda>_.
     ebind (owned_task task_id worker_id execution_id (Some worker_session_id) db) (\<lambda>task.
     case (tget x_id execution_id (tb_task_executions db), t_runtime_handle task) of
       (Some execution, Some persisted) \<Rightarrow>
         ebind (guard (x_task_id execution = task_id \<and> x_worker_id execution = Some worker_id
             \<and> x_worker_session_id execution = Some worker_session_id
             \<and> x_runtime_type execution = RT_KUBERNETES
             \<and> x_runtime_resource_name execution = Some resource_name
             \<and> x_runtime_resource_uid execution = Some resource_uid
             \<and> x_runtime_spec_hash execution = Some spec_hash
             \<and> h_runtime_type persisted = kubernetes
             \<and> h_runtime_resource_name persisted = resource_name
             \<and> h_runtime_resource_uid persisted = Some resource_uid
             \<and> h_runtime_spec_hash persisted = Some spec_hash) StaleExecutionError) (\<lambda>_.
         let current = h_runtime_log_cursor_bytes persisted in
         ebind (guard (\<not> current < 0) StaleExecutionError) (\<lambda>_.
         ebind (guard (\<not> cursor_bytes < current) StaleExecutionError) (\<lambda>_.
         if cursor_bytes = current then Inr (db, task)
         else
           let task = bump_version (task\<lparr>t_runtime_handle :=
                 Some (persisted\<lparr>h_runtime_log_cursor_bytes := cursor_bytes\<rparr>)\<rparr>) in
           Inr (put_task task db, task))))
     | _ \<Rightarrow> Inl StaleExecutionError))"

definition runtime_cleanup_owned ::
  "uuid \<Rightarrow> string \<Rightarrow> uuid \<Rightarrow> uuid \<Rightarrow> string \<Rightarrow> string \<Rightarrow> string option \<Rightarrow> string option \<Rightarrow> task_db \<Rightarrow> bool" where
  "runtime_cleanup_owned task_id worker_id execution_id worker_session_id runtime_typ resource_name
     resource_uid spec_hash db =
    (case (tget w_id worker_id (tb_workers db), tget x_id execution_id (tb_task_executions db),
           find (\<lambda>r. r_execution_id r = execution_id) (tb_reservations db)) of
       (Some worker, Some execution, Some reservation) \<Rightarrow>
         if w_worker_session_id worker \<noteq> worker_session_id \<or> x_task_id execution \<noteq> task_id
            \<or> x_worker_id execution \<noteq> Some worker_id
            \<or> x_worker_session_id execution \<noteq> Some worker_session_id
            \<or> r_worker_id reservation \<noteq> worker_id \<or> r_worker_session_id reservation \<noteq> worker_session_id
            \<or> runtime_type_value (x_runtime_type execution) \<noteq> runtime_typ
            \<or> x_runtime_object_id execution \<noteq> Some resource_name
         then False
         else if runtime_typ = kubernetes
         then x_runtime_resource_kind execution = Some ''job''
              \<and> x_runtime_resource_name execution = Some resource_name
              \<and> x_runtime_resource_uid execution = resource_uid
              \<and> x_runtime_spec_hash execution = spec_hash
         else True
     | _ \<Rightarrow> False)"

text \<open>
  An observed Kubernetes job. An id that is missing or not a UUID is \<open>None\<close>.
\<close>

record job_observation =
  ob_task_id :: "uuid option"
  ob_execution_id :: "uuid option"
  ob_worker_session_id :: "uuid option"
  ob_controller_session_id :: "uuid option"
  ob_namespace :: "string option"
  ob_resource_name :: "string option"
  ob_resource_uid :: "string option"
  ob_spec_hash :: "string option"
  ob_observed_pod_name :: "string option"
  ob_observed_pod_uid :: "string option"

record recoverable_execution =
  re_task_id :: uuid
  re_execution_id :: uuid
  re_worker_session_id :: uuid
  re_log_cursor_bytes :: int

definition transfer_match ::
  "string \<Rightarrow> job_observation \<Rightarrow> uuid \<Rightarrow> uuid \<Rightarrow> uuid \<Rightarrow> task \<Rightarrow> task_execution \<Rightarrow> resource_reservation
   \<Rightarrow> runtime_handle \<Rightarrow> bool" where
  "transfer_match worker_id ob task_id execution_id runtime_session task execution reservation h \<longleftrightarrow>
     0 \<le> h_runtime_log_cursor_bytes h
     \<and> t_status task \<in> ACTIVE_TASK_STATUSES \<and> t_worker_id task = Some worker_id
     \<and> t_execution_id task = Some execution_id \<and> t_runtime_type task = RT_KUBERNETES
     \<and> x_task_id execution = task_id \<and> x_worker_id execution = Some worker_id
     \<and> x_runtime_worker_session_id execution = Some runtime_session
     \<and> r_worker_id reservation = worker_id
     \<and> x_worker_session_id execution = Some (r_worker_session_id reservation)
     \<and> h_runtime_type h = kubernetes \<and> h_runtime_namespace h = ob_namespace ob
     \<and> h_runtime_resource_kind h = ''job'' \<and> Some (h_runtime_resource_name h) = ob_resource_name ob
     \<and> h_runtime_resource_uid h = ob_resource_uid ob
     \<and> h_runtime_worker_session_id h = Some runtime_session \<and> h_runtime_spec_hash h = ob_spec_hash ob
     \<and> x_runtime_namespace execution = ob_namespace ob \<and> x_runtime_resource_kind execution = Some ''job''
     \<and> x_runtime_resource_name execution = ob_resource_name ob
     \<and> x_runtime_resource_uid execution = ob_resource_uid ob
     \<and> x_runtime_spec_hash execution = ob_spec_hash ob
     \<and> (ob_observed_pod_name ob = None) = (ob_observed_pod_uid ob = None)
     \<and> \<not> (h_observed_pod_name h \<noteq> None \<and> (h_observed_pod_name h \<noteq> ob_observed_pod_name ob
           \<or> h_observed_pod_uid h \<noteq> ob_observed_pod_uid ob))
     \<and> \<not> (x_observed_pod_name execution \<noteq> None \<and> (x_observed_pod_name execution \<noteq> ob_observed_pod_name ob
           \<or> x_observed_pod_uid execution \<noteq> ob_observed_pod_uid ob))"

definition transfer_one ::
  "datetime \<Rightarrow> string \<Rightarrow> uuid \<Rightarrow> pyfloat \<Rightarrow> pyfloat \<Rightarrow> job_observation \<Rightarrow> task_db \<times> recoverable_execution list
   \<Rightarrow> repo_error + task_db \<times> recoverable_execution list" where
  "transfer_one now worker_id new_session lease_seconds grace ob = (\<lambda>(db, recovered).
    (case (ob_task_id ob, ob_execution_id ob, ob_worker_session_id ob, ob_controller_session_id ob) of
       (Some task_id, Some execution_id, Some runtime_session, Some controller) \<Rightarrow>
         if controller \<noteq> new_session then Inr (db, recovered)
         else
         (case (tget t_id task_id (tb_tasks db), tget x_id execution_id (tb_task_executions db),
                get_active_for_execution execution_id db) of
            (Some task, Some execution, Some reservation) \<Rightarrow>
              (case t_runtime_handle task of
                 None \<Rightarrow> Inr (db, recovered)
               | Some h \<Rightarrow>
                 if \<not> transfer_match worker_id ob task_id execution_id runtime_session task execution
                        reservation h
                 then Inr (db, recovered)
                 else
                   ebind (runtime_lease_expiry task now lease_seconds grace) (\<lambda>expiry.
                   Inr (put_reservation (reservation\<lparr>r_worker_session_id := new_session\<rparr>)
                       (put_execution (execution\<lparr>x_worker_session_id := Some new_session\<rparr>)
                       (put_task (bump_version (task\<lparr>t_lease_expires_at := Some expiry\<rparr>)) db)),
                     recovered @ [\<lparr>re_task_id = task_id, re_execution_id = execution_id,
                       re_worker_session_id = new_session,
                       re_log_cursor_bytes = h_runtime_log_cursor_bytes h\<rparr>])))
          | _ \<Rightarrow> Inr (db, recovered))
     | _ \<Rightarrow> Inr (db, recovered)))"

definition transfer_recoverable_kubernetes_executions ::
  "datetime \<Rightarrow> string \<Rightarrow> uuid \<Rightarrow> pyfloat \<Rightarrow> job_observation list \<Rightarrow> pyfloat \<Rightarrow> task_db
   \<Rightarrow> recoverable_execution list tx" where
  "transfer_recoverable_kubernetes_executions now worker_id new_session lease_seconds observations grace db =
    (case tget w_id worker_id (tb_workers db) of
       None \<Rightarrow> Inr (db, [])
     | Some worker \<Rightarrow>
         if w_worker_session_id worker \<noteq> new_session then Inr (db, [])
         else efold (transfer_one now worker_id new_session lease_seconds grace) observations (db, []))"

section \<open>Completion\<close>

definition admit_retry :: "datetime \<Rightarrow> uuid \<Rightarrow> task_db \<Rightarrow> bool tx" where
  "admit_retry now project_id db =
    (case tget qs_project_id project_id (tb_quota_states db) of
       None \<Rightarrow> Inr (db, True)
     | Some _ \<Rightarrow>
       (case admit_queued now project_id db of
          Inr (db', _) \<Rightarrow> Inr (db', True)
        | Inl (QuotaExceededError _ _ _) \<Rightarrow>
            \<comment> \<open>the exception is caught, so the daily roll of the locked state stays\<close>
            ebind (get_locked now project_id db) (\<lambda>(db', _). Inr (db', False))
        | Inl e \<Rightarrow> Inl e))"

definition complete_preemption_plans :: "datetime \<Rightarrow> uuid \<Rightarrow> task_db \<Rightarrow> task_db" where
  "complete_preemption_plans now task_id db = db\<lparr>tb_preemption_plans :=
     map (\<lambda>plan. if pp_victim_task_id plan = task_id \<and> pp_state plan = ''requested''
                 then plan\<lparr>pp_state := ''completed'', pp_completed_at := Some now\<rparr> else plan)
       (tb_preemption_plans db)\<rparr>"

record execution_result =
  er_accepted :: bool
  er_status :: "task_status option"
  er_retry_scheduled :: bool

record outcome =
  oc_target :: task_status
  oc_error_message :: "string option"
  oc_error_category :: "string option"
  oc_error_code :: "string option"

text \<open>The outcome the control plane records for what the worker reported.\<close>

definition final_outcome :: "task \<Rightarrow> int option \<Rightarrow> outcome \<Rightarrow> outcome" where
  "final_outcome task exit_code reported =
    (let preemption_requested = (t_status task = TS_PREEMPTING);
         user_cancelled_preemption =
           (preemption_requested \<and> t_failure_category task = Some ''CANCELLED'');
         target = oc_target reported in
     if t_cancel_requested task \<and> (\<not> preemption_requested \<or> user_cancelled_preemption)
     then \<lparr>oc_target = TS_CANCELLED, oc_error_message = Some ''task was cancelled by user request'',
           oc_error_category = cancelled, oc_error_code = None\<rparr>
     else if preemption_requested
     then \<lparr>oc_target = TS_PREEMPTED,
           oc_error_message = Some ''task was stopped to admit a higher-priority workload'',
           oc_error_category = Some (error_category_value EC_PREEMPTED), oc_error_code = None\<rparr>
     else if oc_error_category reported = None
     then reported\<lparr>oc_error_category :=
            (if target = TS_TIMED_OUT then Some (error_category_value EC_TIMEOUT)
             else if target = TS_CANCELLED then cancelled
             else if target = TS_PREEMPTED then Some (error_category_value EC_PREEMPTED)
             else if target = TS_FAILED
             then Some (error_category_value
                    (if exit_code \<noteq> None then EC_USER_ERROR else EC_INTERNAL_ERROR))
             else None)\<rparr>
     else reported)"

definition record_duration :: "datetime \<Rightarrow> pyfloat \<Rightarrow> pyfloat \<Rightarrow> task \<Rightarrow> task" where
  "record_duration now cpu_price_per_hour gpu_price_per_hour task =
    (case t_started_at task of
       None \<Rightarrow> task
     | Some start \<Rightarrow>
         let duration = max 0 (total_seconds (now - start));
             cpu_seconds = duration * t_cpu_limit task;
             gpu_seconds = duration * of_int (t_gpu_count task)
         in task\<lparr>t_duration_ms := Some (py_round (duration * 1000)), t_wall_time_seconds := Some duration,
                 t_cpu_seconds := Some cpu_seconds, t_gpu_seconds := Some gpu_seconds,
                 t_estimated_cost := Some (cpu_seconds * cpu_price_per_hour / 3600
                   + gpu_seconds * gpu_price_per_hour / 3600)\<rparr>)"

definition json_of :: "pyfloat option \<Rightarrow> json" where
  "json_of v = (case v of None \<Rightarrow> JNull | Some x \<Rightarrow> JNum x)"

text \<open>Compatibility release for an execution without a reservation, and the error of an execution.\<close>

definition release_unreserved :: "string option \<Rightarrow> task \<Rightarrow> task_db \<Rightarrow> task_db" where
  "release_unreserved worker_id task db =
    (case worker_id of
       None \<Rightarrow> db
     | Some wid \<Rightarrow>
       (case tget w_id wid (tb_workers db) of
          None \<Rightarrow> db
        | Some worker \<Rightarrow> put_worker (release_worker_capacity worker task) db))"

definition set_execution_error :: "uuid option \<Rightarrow> task \<Rightarrow> task_db \<Rightarrow> task_db" where
  "set_execution_error execution_id task db =
    (case execution_id of
       None \<Rightarrow> db
     | Some eid \<Rightarrow>
       (case tget x_id eid (tb_task_executions db) of
          None \<Rightarrow> db
        | Some execution \<Rightarrow> put_execution (execution\<lparr>x_error_category := t_error_category task,
            x_error_code := t_error_code task, x_error_message := t_error_message task\<rparr>) db))"

text \<open>
  \<open>finish_execution\<close> in three parts: the fence, closing the execution (the transition to its
  outcome, the settlement, the error record), and the decision between a retry and the end.
\<close>

definition close_execution ::
  "datetime \<Rightarrow> string \<Rightarrow> uuid \<Rightarrow> outcome \<Rightarrow> int option \<Rightarrow> pyfloat \<Rightarrow> pyfloat \<Rightarrow> task \<Rightarrow> task_db \<Rightarrow> task tx" where
  "close_execution now worker_id execution_id oc exit_code cpu_price_per_hour gpu_price_per_hour task db =
    (let target = oc_target oc; preemption_requested = (t_status task = TS_PREEMPTING) in
     ebind (transition task target now (''task.'' @ task_status_value target) db) (\<lambda>(db, task).
     let task = task\<lparr>t_exit_code := exit_code, t_error_message := oc_error_message oc,
                     t_failure_category := oc_error_category oc, t_error_category := oc_error_category oc,
                     t_error_code := oc_error_code oc, t_lease_expires_at := None\<rparr>;
         task = record_duration now cpu_price_per_hour gpu_price_per_hour task in
     ebind (release_and_settle now task execution_id target (task_status_value target) db)
       (\<lambda>(db, task, released).
     let db = (if released then db else release_unreserved (Some worker_id) task db);
         db = set_execution_error (Some execution_id) task db;
         db = (if preemption_requested then complete_preemption_plans now (t_id task) db else db) in
     Inr (db, task))))"

definition retry_or_end ::
  "datetime \<Rightarrow> outcome \<Rightarrow> int option \<Rightarrow> pyfloat \<Rightarrow> task \<Rightarrow> task_db \<Rightarrow> execution_result tx" where
  "retry_or_end now oc exit_code retry_max_backoff_seconds task db =
    (let target = oc_target oc;
         failed_retry = (target \<in> {TS_FAILED, TS_TIMED_OUT} \<and> t_retry_count task < t_max_retries task) in
     ebind (if failed_retry
            then should_retry_failure (oc_error_category oc) exit_code (t_retry_on_exit_codes task)
            else Inr False) (\<lambda>retry_failure.
     ebind (if target = TS_PREEMPTED \<and> t_requeue_on_preempt task then admit_retry now (t_project_id task) db
            else if failed_retry \<and> retry_failure then admit_retry now (t_project_id task) db
            else Inr (db, False)) (\<lambda>(db, retry_admitted).
     if failed_retry \<and> retry_failure \<and> retry_admitted
     then
       let task = task\<lparr>t_retry_count := t_retry_count task + 1\<rparr> in
       ebind (transition task TS_RETRYING now status_changed db) (\<lambda>(db, task).
       ebind (retry_delay_seconds (t_retry_count task)
                (min (t_retry_max_seconds task) retry_max_backoff_seconds) (t_retry_backoff task)
                (t_retry_base_seconds task)) (\<lambda>delay.
       let task = task\<lparr>t_next_attempt_at := Some (now + timedelta_seconds delay), t_worker_id := None,
                       t_execution_id := None, t_cancel_requested := False\<rparr> in
       Inr (put_task task db, \<lparr>er_accepted = True, er_status = Some (t_status task),
                                er_retry_scheduled = True\<rparr>)))
     else if target = TS_PREEMPTED \<and> t_requeue_on_preempt task \<and> retry_admitted
     then
       ebind (transition task TS_RETRYING now status_changed db) (\<lambda>(db, task).
       let task = task\<lparr>t_next_attempt_at := Some now, t_worker_id := None, t_execution_id := None,
                       t_cancel_requested := False\<rparr> in
       Inr (put_task task db, \<lparr>er_accepted = True, er_status = Some (t_status task),
                                er_retry_scheduled = True\<rparr>))
     else
       Inr (add_event now (t_id task) ''task.terminal''
              [(''task_id'', JUuid (t_id task)), (''status'', JStatus (t_status task)),
               (''duration_seconds'', json_of (t_wall_time_seconds task)),
               (''cpu_seconds'', json_of (t_cpu_seconds task)),
               (''gpu_seconds'', json_of (t_gpu_seconds task))] now (put_task task db),
            \<lparr>er_accepted = True, er_status = Some (t_status task), er_retry_scheduled = False\<rparr>))))"

definition rejected :: "task_status option \<Rightarrow> execution_result" where
  "rejected status = \<lparr>er_accepted = False, er_status = status, er_retry_scheduled = False\<rparr>"

definition finish_execution ::
  "datetime \<Rightarrow> uuid \<Rightarrow> string \<Rightarrow> uuid \<Rightarrow> outcome \<Rightarrow> int option \<Rightarrow> pyfloat \<Rightarrow> pyfloat \<Rightarrow> pyfloat
   \<Rightarrow> uuid option \<Rightarrow> task_db \<Rightarrow> execution_result tx" where
  "finish_execution now task_id worker_id execution_id reported exit_code retry_max_backoff_seconds
     cpu_price_per_hour gpu_price_per_hour worker_session_id db =
    (case tget t_id task_id (tb_tasks db) of
       None \<Rightarrow> Inr (db, rejected None)
     | Some task \<Rightarrow>
       if t_worker_id task \<noteq> Some worker_id \<or> t_execution_id task \<noteq> Some execution_id
       then Inr (db, rejected None)
       else if t_status task \<notin> ACTIVE_TASK_STATUSES then Inr (db, rejected (Some (t_status task)))
       else
       ebind (case worker_session_id of
                None \<Rightarrow> Inr (db, True)
              | Some sid \<Rightarrow>
                  ebind (get_locked now (t_project_id task) db) (\<lambda>(db, _).
                  Inr (db, session_owns_execution worker_id execution_id sid db))) (\<lambda>(db, owned).
       if \<not> owned then Inr (db, rejected None)
       else
       let oc = final_outcome task exit_code reported in
       ebind (close_execution now worker_id execution_id oc exit_code cpu_price_per_hour
                gpu_price_per_hour task db) (\<lambda>(db, task).
       retry_or_end now oc exit_code retry_max_backoff_seconds task db)))"

section \<open>Cancellation\<close>

definition cancel :: "datetime \<Rightarrow> uuid \<Rightarrow> task_db \<Rightarrow> task option tx" where
  "cancel now task_id db =
    (case tget t_id task_id (tb_tasks db) of
       None \<Rightarrow> Inr (db, None)
     | Some task \<Rightarrow>
       if t_status task \<in> {TS_SUCCEEDED, TS_FAILED, TS_CANCELLED, TS_TIMED_OUT, TS_PREEMPTED}
       then Inr (db, Some task)
       else if t_status task = TS_PREEMPTING
       then
         let task = bump_version (task\<lparr>t_cancel_requested := True, t_requeue_on_preempt := False,
               t_failure_category := cancelled, t_error_category := cancelled, t_error_code := None\<rparr>) in
         Inr (put_task task db, Some task)
       else if t_status task \<in> ACTIVE_TASK_STATUSES \<and> t_execution_id task \<noteq> None
       then
         let task = task\<lparr>t_cancel_requested := True\<rparr> in
         if t_status task \<noteq> TS_STOPPING
         then
           ebind (transition task TS_STOPPING now ''task.stop_requested'' db) (\<lambda>(db, task).
           Inr (put_task task db, Some task))
         else Inr (put_task task db, Some task)
       else
         let previous_status = t_status task; previous_worker_id = t_worker_id task in
         ebind (transition task TS_CANCELLED now status_changed db) (\<lambda>(db, task).
         let task = task\<lparr>t_cancel_requested := True, t_failure_category := cancelled,
               t_error_category := cancelled, t_error_code := None, t_lease_expires_at := None,
               t_execution_id := None\<rparr> in
         ebind (if previous_status \<in> {TS_PENDING, TS_QUEUED, TS_SCHEDULING, TS_RETRYING}
                   \<and> tget qs_project_id (t_project_id task) (tb_quota_states db) \<noteq> None
                then ebind (release_queued now (t_project_id task) db) (\<lambda>(db, _). Inr db)
                else Inr db) (\<lambda>db.
         let db = release_unreserved previous_worker_id task db in
         Inr (add_terminal_event now task TS_CANCELLED (put_task task db), Some task))))"

definition cancel_for_project :: "datetime \<Rightarrow> uuid \<Rightarrow> uuid \<Rightarrow> task_db \<Rightarrow> task option tx" where
  "cancel_for_project now project_id task_id db =
    (case find (\<lambda>t. t_project_id t = project_id \<and> t_id t = task_id) (tb_tasks db) of
       None \<Rightarrow> Inr (db, None)
     | Some _ \<Rightarrow> cancel now task_id db)"

end
