(* ===== verification/Dag.thy ===== *)
theory Dag
  imports Tasks
begin

text \<open>
  Job groups: the dependency graphs of \<open>repositories/dag.py\<close>. The rows of the group table
  and the graph operations of \<open>DAGRepository\<close>, with the topological sort of
  \<open>_contains_cycle\<close> that guards every new edge. The JSON retry policy of a group is the
  UTF-8 text that \<open>json.dumps\<close> gives for it, absent where \<open>json.dumps\<close> raises.
\<close>

section \<open>Data\<close>

datatype dependency_failure_policy = FP_CANCEL | FP_BLOCK

primrec failure_policy_value :: "dependency_failure_policy \<Rightarrow> string" where
  "failure_policy_value FP_CANCEL = ''cancel''"
| "failure_policy_value FP_BLOCK = ''block''"

definition parse_failure_policy :: "string \<Rightarrow> dependency_failure_policy option" where
  "parse_failure_policy s =
    (if s = ''cancel'' then Some FP_CANCEL else if s = ''block'' then Some FP_BLOCK else None)"

datatype dependency_state = DS_READY | DS_WAITING | DS_BLOCKED | DS_CANCELLED

datatype job_group_status = JG_PENDING | JG_RUNNING | JG_SUCCEEDED | JG_FAILED

datatype dag_error = DAGValueError | DAGNotFoundError | DAGConflictError | DAGCycleError | DAGInvariantViolation

record dependency_spec =
  ds_task_id :: uuid
  ds_depends_on_task_id :: uuid
  ds_failure_policy :: dependency_failure_policy

record dependency_resolution =
  dr_task_id :: uuid
  dr_task_status :: task_status
  dr_state :: dependency_state
  dr_dependency_ids :: "uuid list"
  dr_waiting_on_task_ids :: "uuid list"
  dr_failed_dependency_ids :: "uuid list"

record job_group =
  jg_id :: uuid
  jg_project_id :: uuid
  jg_name :: string
  jg_status :: job_group_status
  jg_retry_policy :: string
  jg_created_at :: datetime

record job_group_summary =
  js_group :: job_group
  js_status :: job_group_status
  js_task_count :: nat
  js_ready_tasks :: nat
  js_waiting_tasks :: nat
  js_blocked_tasks :: nat
  js_cancelled_tasks :: nat
  js_succeeded_tasks :: nat
  js_failed_tasks :: nat
  js_finished_at :: "datetime option"

text \<open>The database with the group table.\<close>

record dag_db =
  dag_tables :: task_db
  tb_job_groups :: "job_group list"

type_synonym edge = "uuid \<times> uuid"

definition edge_of :: "task_dependency \<Rightarrow> edge" where
  "edge_of e = (dep_task_id e, dep_depends_on_task_id e)"

section \<open>The topological sort\<close>

text \<open>
  Dictionaries are association lists in insertion order, a Python set is a list without
  repetitions. \<open>roots\<close> is a stack whose top is the head of the list.
\<close>

definition setdefault :: "'k \<Rightarrow> 'v \<Rightarrow> ('k \<times> 'v) list \<Rightarrow> ('k \<times> 'v) list" where
  "setdefault k v d = (if map_of d k = None then AList.update k v d else d)"

fun count_edge :: "edge \<Rightarrow> (uuid \<times> uuid list) list \<times> (uuid \<times> int) list
    \<Rightarrow> (uuid \<times> uuid list) list \<times> (uuid \<times> int) list" where
  "count_edge (task_id, dependency_id) (graph, indegree) =
    (let graph = setdefault task_id [] graph;
         graph = AList.update task_id (List.insert dependency_id (the (map_of graph task_id))) graph;
         graph = setdefault dependency_id [] graph;
         indegree = setdefault task_id 0 indegree;
         indegree = AList.update dependency_id
           ((case map_of indegree dependency_id of None \<Rightarrow> 0 | Some n \<Rightarrow> n) + 1) indegree
     in (graph, indegree))"

text \<open>Every neighbour has an entry in \<open>indegree\<close>, so the lookup does not raise.\<close>

fun visit_neighbor :: "uuid \<Rightarrow> (uuid \<times> int) list \<times> uuid list \<Rightarrow> (uuid \<times> int) list \<times> uuid list" where
  "visit_neighbor neighbor (indegree, roots) =
    (case map_of indegree neighbor of
       None \<Rightarrow> (indegree, roots)
     | Some n \<Rightarrow> (AList.update neighbor (n - 1) indegree, if n - 1 = 0 then neighbor # roots else roots))"

definition degree_sum :: "(uuid \<times> int) list \<Rightarrow> nat" where
  "degree_sum indegree = sum_list (map (\<lambda>(k, n). nat n) indegree)"

lemma degree_sum_update:
  "map_of d k = Some n \<Longrightarrow> degree_sum (AList.update k (n - 1) d) + (if 0 < n then 1 else 0) = degree_sum d"
  by (induction d) (auto simp: degree_sum_def split: if_splits)

lemma visit_neighbor_measure:
  "visit_neighbor x (d, roots) = (d', roots') \<Longrightarrow> degree_sum d' + length roots' \<le> degree_sum d + length roots"
proof (cases "map_of d x")
  case (Some n)
  from degree_sum_update [OF this] Some show "visit_neighbor x (d, roots) = (d', roots') \<Longrightarrow> ?thesis"
    by (auto split: if_splits)
qed simp

lemma visit_neighbors_measure:
  "fold visit_neighbor xs (d, roots) = (d', roots') \<Longrightarrow> degree_sum d' + length roots' \<le> degree_sum d + length roots"
proof (induction xs arbitrary: d roots)
  case (Cons x xs)
  obtain d1 r1 where v: "visit_neighbor x (d, roots) = (d1, r1)" by (cases "visit_neighbor x (d, roots)")
  with Cons.prems have "fold visit_neighbor xs (d1, r1) = (d', roots')" by simp
  from Cons.IH [OF this] visit_neighbor_measure [OF v] show ?case by simp
qed simp

function visit_roots ::
  "(uuid \<times> uuid list) list \<Rightarrow> (uuid \<times> int) list \<Rightarrow> uuid list \<Rightarrow> nat \<Rightarrow> nat" where
  "visit_roots graph indegree [] visited = visited"
| "visit_roots graph indegree (node # roots) visited =
    (let (indegree', roots') = fold visit_neighbor (the (map_of graph node)) (indegree, roots)
     in visit_roots graph indegree' roots' (visited + 1))"
  by pat_completeness auto

termination visit_roots
proof (relation "measure (\<lambda>(graph, indegree, roots, visited). degree_sum indegree + length roots)")
  show "((graph, d', r', visited + 1), graph, indegree, node # roots, visited)
      \<in> measure (\<lambda>(graph, indegree, roots, visited). degree_sum indegree + length roots)"
    if "x = fold visit_neighbor (the (map_of graph node)) (indegree, roots)" "(d', r') = x"
    for graph indegree node roots visited x d' r'
    using visit_neighbors_measure [of _ indegree roots d' r'] that by fastforce
qed simp

definition contains_cycle :: "edge list \<Rightarrow> bool" where
  "contains_cycle edges =
    (let (graph, indegree) = fold count_edge edges ([], []);
         roots = rev (map fst (filter (\<lambda>(node, degree). degree = 0) indegree))
     in visit_roots graph indegree roots 0 \<noteq> length indegree)"

section \<open>The sort finds exactly the cycles\<close>

definition preds :: "edge set \<Rightarrow> uuid \<Rightarrow> uuid set" where
  "preds E n = {u. (u, n) \<in> E}"

definition succs :: "edge set \<Rightarrow> uuid \<Rightarrow> uuid set" where
  "succs E n = {d. (n, d) \<in> E}"

abbreviation nodes :: "edge set \<Rightarrow> uuid set" where
  "nodes E \<equiv> fst ` E \<union> snd ` E"

lemma finite_preds [simp]: "finite E \<Longrightarrow> finite (preds E n)"
  unfolding preds_def by (rule finite_subset [of _ "fst ` E"]) (auto intro: rev_image_eqI)

lemma mem_succs_preds: "d \<in> succs E n \<longleftrightarrow> n \<in> preds E d"
  by (simp add: succs_def preds_def)

text \<open>What the counting loop builds.\<close>

definition counted :: "edge set \<Rightarrow> (uuid \<times> uuid list) list \<times> (uuid \<times> int) list \<Rightarrow> bool" where
  "counted E s \<longleftrightarrow> dom (map_of (fst s)) = nodes E \<and> dom (map_of (snd s)) = nodes E \<and> distinct (map fst (snd s))
     \<and> (\<forall>n ns. map_of (fst s) n = Some ns \<longrightarrow> distinct ns \<and> set ns = succs E n)
     \<and> (\<forall>n \<in> nodes E. map_of (snd s) n = Some (int (card (preds E n))))"

lemma preds_insert:
  "preds (insert (t, d) E) n = (if n = d then insert t (preds E n) else preds E n)"
  by (auto simp: preds_def)

lemma succs_insert:
  "succs (insert (t, d) E) n = (if n = t then insert d (succs E n) else succs E n)"
  by (auto simp: succs_def)

lemma map_of_setdefault:
  "map_of (setdefault k v d) = (if map_of d k = None then (map_of d)(k \<mapsto> v) else map_of d)"
  by (simp add: setdefault_def update_conv')

lemma no_node: "n \<notin> nodes E \<Longrightarrow> preds E n = {} \<and> succs E n = {}"
  by (force simp: preds_def succs_def)

lemma count_edge_maps:
  "map_of (fst (count_edge (t, d) (graph, indegree))) n =
     (if n = t then Some (List.insert d (case map_of graph t of None \<Rightarrow> [] | Some ns \<Rightarrow> ns))
      else if n = d \<and> map_of graph d = None then Some [] else map_of graph n)"
  "map_of (snd (count_edge (t, d) (graph, indegree))) n =
     (if n = d then Some ((case map_of indegree d of None \<Rightarrow> 0 | Some k \<Rightarrow> k) + 1)
      else if n = t \<and> map_of indegree t = None then Some 0 else map_of indegree n)"
  by (simp_all add: count_edge.simps Let_def update_conv' map_of_setdefault split: option.split)

declare count_edge.simps [simp del]

lemma counted_step:
  assumes c: "counted E (graph, indegree)" and new: "(t, d) \<notin> E" and fin: "finite E"
  shows "counted (insert (t, d) E) (count_edge (t, d) (graph, indegree))"
proof -
  have dom: "map_of graph n = None \<longleftrightarrow> n \<notin> nodes E" "map_of indegree n = None \<longleftrightarrow> n \<notin> nodes E" for n
    using c unfolding counted_def fst_conv snd_conv by (metis domIff)+
  have graph: "distinct ns \<and> set ns = succs E n" if "map_of graph n = Some ns" for n ns
    using c that unfolding counted_def fst_conv snd_conv by blast
  have indegree: "map_of indegree n = Some (int (card (preds E n)))" if "n \<in> nodes E" for n
    using c that unfolding counted_def fst_conv snd_conv by blast
  have adj: "distinct (case map_of graph n of None \<Rightarrow> [] | Some ns \<Rightarrow> ns)
      \<and> set (case map_of graph n of None \<Rightarrow> [] | Some ns \<Rightarrow> ns) = succs E n" for n
  proof (cases "map_of graph n")
    case None
    then show ?thesis
      using dom(1) [of n] no_node [of n E] by simp
  next
    case (Some ns)
    from graph [OF this] show ?thesis by (simp add: Some)
  qed
  have deg: "(case map_of indegree n of None \<Rightarrow> 0 | Some k \<Rightarrow> k) = int (card (preds E n))" for n
  proof (cases "n \<in> nodes E")
    case True
    then show ?thesis using indegree by simp
  next
    case False
    then show ?thesis using dom(2) [of n] no_node [OF False] by simp
  qed
  have card: "card (insert t (preds E d)) = Suc (card (preds E d))"
    using new fin by (simp add: preds_def [of E d] card_insert_disjoint finite_preds [unfolded preds_def])
  let ?g = "fst (count_edge (t, d) (graph, indegree))" and ?i = "snd (count_edge (t, d) (graph, indegree))"
  have keys: "distinct (map fst indegree)"
    using c unfolding counted_def fst_conv snd_conv by blast
  have "distinct (map fst ?i)"
    by (simp add: keys count_edge.simps setdefault_def Let_def distinct_update)
  moreover have "dom (map_of ?g) = nodes (insert (t, d) E)"
  proof (rule set_eqI)
    show "n \<in> dom (map_of ?g) \<longleftrightarrow> n \<in> nodes (insert (t, d) E)" for n
      using dom(1) [of n] by (auto simp: domIff count_edge_maps)
  qed
  moreover have "dom (map_of ?i) = nodes (insert (t, d) E)"
  proof (rule set_eqI)
    show "n \<in> dom (map_of ?i) \<longleftrightarrow> n \<in> nodes (insert (t, d) E)" for n
      using dom(2) [of n] by (auto simp: domIff count_edge_maps)
  qed
  moreover have "distinct ns \<and> set ns = succs (insert (t, d) E) n" if "map_of ?g n = Some ns" for n ns
    using that adj [of n] adj [of t] unfolding count_edge_maps succs_insert
    by (auto split: if_splits option.splits)
  moreover have "map_of ?i n = Some (int (card (preds (insert (t, d) E) n)))" if "n \<in> nodes (insert (t, d) E)" for n
    using that deg [of n] dom(2) [of n] card unfolding count_edge_maps preds_insert
    by (auto split: if_splits option.splits)
  ultimately show ?thesis unfolding counted_def by blast
qed

lemma counted_edges: "distinct es \<Longrightarrow> counted (set es) (fold count_edge es ([], []))"
proof (induction es rule: rev_induct)
  case Nil
  then show ?case by (simp add: counted_def)
next
  case (snoc e es)
  obtain t d where e: "e = (t, d)" by (cases e)
  obtain graph indegree where g: "fold count_edge es ([], []) = (graph, indegree)"
    by (cases "fold count_edge es ([], [])")
  from snoc have "counted (set es) (graph, indegree)" "(t, d) \<notin> set es" by (simp_all add: g e)
  from counted_step [OF this] show ?case by (simp add: g e)
qed

text \<open>One round of the loop: the degrees of the neighbours drop, those that reach zero become roots.\<close>

lemma visit_neighbors:
  assumes "distinct xs" and "\<And>x. x \<in> set xs \<Longrightarrow> map_of d x \<noteq> None"
  shows "\<exists>d'. fold visit_neighbor xs (d, roots) = (d', rev (filter (\<lambda>x. map_of d x = Some 1) xs) @ roots)
     \<and> map_of d' = (\<lambda>k. if k \<in> set xs then map_option (\<lambda>n. n - 1) (map_of d k) else map_of d k)"
  using assms
proof (induction xs arbitrary: d roots)
  case (Cons x xs)
  from Cons.prems(2) [of x] obtain n where n: "map_of d x = Some n" by auto
  let ?d = "AList.update x (n - 1) d" and ?r = "if n - 1 = 0 then x # roots else roots"
  have "\<And>y. y \<in> set xs \<Longrightarrow> map_of ?d y \<noteq> None" using Cons.prems(2) by (simp add: update_conv')
  from Cons.IH [OF _ this, of ?r] Cons.prems(1) obtain d' where d':
    "fold visit_neighbor xs (?d, ?r) = (d', rev (filter (\<lambda>x. map_of ?d x = Some 1) xs) @ ?r)"
    "map_of d' = (\<lambda>k. if k \<in> set xs then map_option (\<lambda>n. n - 1) (map_of ?d k) else map_of ?d k)"
    by auto
  have "filter (\<lambda>y. map_of ?d y = Some 1) xs = filter (\<lambda>y. map_of d y = Some 1) xs"
    by (rule filter_cong) (use Cons.prems(1) in \<open>auto simp: update_conv'\<close>)
  with d' n Cons.prems(1) show ?case by (auto simp: update_conv' fun_eq_iff)
qed simp

primrec topological :: "edge set \<Rightarrow> uuid list \<Rightarrow> bool" where
  "topological E [] \<longleftrightarrow> True"
| "topological E (n # visited) \<longleftrightarrow> preds E n \<subseteq> set visited \<and> topological E visited"

definition kahn :: "edge set \<Rightarrow> (uuid \<times> int) list \<Rightarrow> uuid list \<Rightarrow> uuid list \<Rightarrow> bool" where
  "kahn E indegree roots visited \<longleftrightarrow> topological E visited \<and> distinct (visited @ roots)
     \<and> dom (map_of indegree) = nodes E
     \<and> (\<forall>n \<in> nodes E. map_of indegree n = Some (int (card (preds E n - set visited))))
     \<and> set visited \<union> set roots = {n \<in> nodes E. preds E n \<subseteq> set visited}"

lemmas kahn_topological = kahn_def [THEN iffD1, THEN conjunct1]
lemmas kahn_distinct = kahn_def [THEN iffD1, THEN conjunct2, THEN conjunct1]
lemmas kahn_dom = kahn_def [THEN iffD1, THEN conjunct2, THEN conjunct2, THEN conjunct1]
lemmas kahn_degrees = kahn_def [THEN iffD1, THEN conjunct2, THEN conjunct2, THEN conjunct2, THEN conjunct1]
lemmas kahn_ready = kahn_def [THEN iffD1, THEN conjunct2, THEN conjunct2, THEN conjunct2, THEN conjunct2]

lemma card_one_member: "x \<in> A \<Longrightarrow> card A = 1 \<longleftrightarrow> A = {x}"
  by (auto simp: card_1_singleton_iff)

lemma kahn_step:
  assumes k: "kahn E indegree (node # roots) visited" and fin: "finite E"
    and ns: "distinct ns" "set ns = succs E node"
  obtains indegree' roots' where "fold visit_neighbor ns (indegree, roots) = (indegree', roots')"
    and "kahn E indegree' roots' (node # visited)"
proof -
  note topo = kahn_topological [OF k] and dis = kahn_distinct [OF k] and dom = kahn_dom [OF k]
    and deg = kahn_degrees [OF k, rule_format] and fin_set = kahn_ready [OF k]
  have node: "node \<in> nodes E" "preds E node \<subseteq> set visited" "node \<notin> set visited"
    using fin_set dis by auto
  have succ: "x \<in> nodes E \<and> node \<in> preds E x - set visited" if "x \<in> succs E node" for x
    using that node(3) by (force simp: succs_def preds_def)
  have "map_of indegree x \<noteq> None" if "x \<in> set ns" for x
    using that ns succ dom by blast
  from visit_neighbors [OF ns(1) this, of roots] obtain indegree' where step:
    "fold visit_neighbor ns (indegree, roots) = (indegree', rev (filter (\<lambda>x. map_of indegree x = Some 1) ns) @ roots)"
    and deg': "map_of indegree' = (\<lambda>k. if k \<in> set ns then map_option (\<lambda>n. n - 1) (map_of indegree k) else map_of indegree k)"
    by blast
  let ?new = "rev (filter (\<lambda>x. map_of indegree x = Some 1) ns)"
  have new: "x \<in> set ?new \<longleftrightarrow> x \<in> nodes E \<and> preds E x - set visited = {node}" for x
  proof (cases "x \<in> succs E node")
    case True
    then have "card (preds E x - set visited) = 1 \<longleftrightarrow> preds E x - set visited = {node}"
      using succ [OF True] by (intro card_one_member) simp
    then show ?thesis using True ns(2) succ [OF True] deg [of x] by auto
  next
    case False
    then show ?thesis using ns(2) by (auto simp: mem_succs_preds)
  qed
  have card: "card (preds E x - set (node # visited)) = card (preds E x - set visited) - (if x \<in> succs E node then 1 else 0)" for x
  proof -
    have "preds E x - set (node # visited) = (preds E x - set visited) - {node}" by auto
    then show ?thesis
      using succ [of x] fin by (auto simp: card_Diff_singleton_if mem_succs_preds)
  qed
  have pos: "0 < card (preds E x - set visited)" if "x \<in> succs E node" for x
    using succ [OF that] fin by (auto simp: card_gt_0_iff)
  have "kahn E indegree' (?new @ roots) (node # visited)"
    unfolding kahn_def
  proof (intro conjI ballI)
    show "topological E (node # visited)" using topo node by simp
    have "x \<notin> set visited \<union> set (node # roots)" if "x \<in> set ?new" for x
      using that unfolding fin_set new by blast
    then show "distinct ((node # visited) @ ?new @ roots)" using dis ns(1) by auto
    show "dom (map_of indegree') = nodes E" unfolding deg' using dom by (auto simp: dom_def split: if_splits)
    show "map_of indegree' n = Some (int (card (preds E n - set (node # visited))))" if "n \<in> nodes E" for n
      using pos [of n] unfolding deg' card by (auto simp: deg [OF that] ns(2))
    show "set (node # visited) \<union> set (?new @ roots) = {n \<in> nodes E. preds E n \<subseteq> set (node # visited)}"
    proof -
      have "set (node # visited) \<union> set (?new @ roots) = (set visited \<union> set (node # roots)) \<union> set ?new" by auto
      also have "\<dots> = {n \<in> nodes E. preds E n \<subseteq> set (node # visited)}"
        unfolding fin_set using new by auto
      finally show ?thesis .
    qed
  qed
  with step that show thesis by blast
qed

lemma visit_roots_kahn:
  assumes "\<And>n. n \<in> nodes E \<Longrightarrow> \<exists>ns. map_of graph n = Some ns \<and> distinct ns \<and> set ns = succs E n"
    and "finite E" and "kahn E indegree roots visited"
  shows "\<exists>visited' indegree'. visit_roots graph indegree roots (length visited) = length visited'
     \<and> kahn E indegree' [] visited'"
  using assms
proof (induction graph indegree roots "length visited" arbitrary: visited rule: visit_roots.induct)
  case (1 graph indegree)
  then show ?case by (metis visit_roots.simps(1))
next
  case (2 graph indegree node roots)
  have "node \<in> nodes E" using kahn_ready [OF 2(4)] by auto
  from 2(2) [OF this] obtain ns where ns: "map_of graph node = Some ns" "distinct ns" "set ns = succs E node"
    by blast
  from kahn_step [OF 2(4,3) ns(2,3)] obtain indegree' roots' where step:
    "fold visit_neighbor ns (indegree, roots) = (indegree', roots')" "kahn E indegree' roots' (node # visited)"
    by blast
  from 2(1) [OF _ _ _ 2(2,3) step(2)] ns(1) step(1) show ?case by (simp add: ns)
qed

lemma topological_closed: "topological E visited \<Longrightarrow> n \<in> set visited \<Longrightarrow> preds E n \<subseteq> set visited"
  by (induction visited) auto

lemma topological_rank:
  assumes "topological E visited" and "distinct visited" and "n \<in> set visited" and "(u, n) \<in> E"
  shows "length (dropWhile (\<lambda>x. x \<noteq> u) visited) < length (dropWhile (\<lambda>x. x \<noteq> n) visited)"
  using assms
proof (induction visited)
  case (Cons x xs)
  show ?case
  proof (cases "n = x")
    case True
    with Cons.prems have "u \<in> set xs" by (auto simp: preds_def)
    with Cons.prems True show ?thesis
      using length_dropWhile_le [of "\<lambda>x. x \<noteq> u" xs] by auto
  next
    case False
    with Cons.prems have "u \<in> set xs" "n \<in> set xs"
      using topological_closed [of E xs n] by (auto simp: preds_def)
    with False Cons show ?thesis by auto
  qed
qed simp

lemma topological_acyclic:
  assumes "topological E visited" and "distinct visited" and "nodes E \<subseteq> set visited"
  shows "acyclic E"
proof -
  have "E \<subseteq> measure (\<lambda>n. length (dropWhile (\<lambda>x. x \<noteq> n) visited))"
    using assms by (auto intro!: topological_rank)
  then show ?thesis by (metis wf_acyclic wf_measure wf_subset)
qed

lemma contains_cycle_iff:
  assumes "distinct es"
  shows "contains_cycle es \<longleftrightarrow> \<not> acyclic (set es)"
proof -
  let ?E = "set es"
  obtain graph indegree where s: "fold count_edge es ([], []) = (graph, indegree)"
    by (cases "fold count_edge es ([], [])")
  with counted_edges [OF assms] have c: "counted ?E (graph, indegree)" by simp
  let ?roots = "rev (map fst (filter (\<lambda>(node, degree). degree = 0) indegree))"
  note cs = c [unfolded counted_def fst_conv snd_conv]
  note dom = cs [THEN conjunct1] cs [THEN conjunct2, THEN conjunct1] cs [THEN conjunct2, THEN conjunct2, THEN conjunct1]
  note adj = cs [THEN conjunct2, THEN conjunct2, THEN conjunct2, THEN conjunct1, rule_format]
    and deg = cs [THEN conjunct2, THEN conjunct2, THEN conjunct2, THEN conjunct2, rule_format]
  have graph: "\<exists>ns. map_of graph n = Some ns \<and> distinct ns \<and> set ns = succs ?E n" if "n \<in> nodes ?E" for n
    using that dom(1) adj by blast
  have "n \<in> set ?roots \<longleftrightarrow> n \<in> nodes ?E \<and> preds ?E n = {}" for n
  proof -
    have "n \<in> set ?roots \<longleftrightarrow> map_of indegree n = Some 0"
      using dom(3) by (force simp: map_of_eq_Some_iff)
    also have "\<dots> \<longleftrightarrow> n \<in> nodes ?E \<and> preds ?E n = {}"
    proof (cases "n \<in> nodes ?E")
      case True
      then show ?thesis by (simp add: deg [OF True] card_eq_0_iff)
    next
      case False
      then have "map_of indegree n = None" using dom(2) by (metis domIff)
      with False show ?thesis by simp
    qed
    finally show ?thesis .
  qed
  then have "kahn ?E indegree ?roots []"
    using dom deg by (auto simp: kahn_def distinct_map_filter)
  from visit_roots_kahn [OF graph _ this] obtain visited indegree'
    where v: "visit_roots graph indegree ?roots 0 = length visited" and k: "kahn ?E indegree' [] visited"
    by auto
  have topo: "topological ?E visited" "distinct visited" and closed: "set visited = {n \<in> nodes ?E. preds ?E n \<subseteq> set visited}"
    using kahn_topological [OF k] kahn_distinct [OF k] kahn_ready [OF k] by simp_all
  have "card (nodes ?E) = length indegree"
    using dom(2,3) by (metis distinct_card dom_map_of_conv_image_fst length_map list.set_map)
  then have cyc: "contains_cycle es \<longleftrightarrow> card (set visited) \<noteq> card (nodes ?E)"
    by (simp add: contains_cycle_def s v distinct_card [OF topo(2)])
  have sub: "set visited \<subseteq> nodes ?E" using closed by blast
  show ?thesis
  proof (cases "set visited = nodes ?E")
    case True
    then show ?thesis using cyc topological_acyclic [OF topo] by simp
  next
    case False
    then have "card (set visited) \<noteq> card (nodes ?E)" using sub by (metis List.finite_set card_subset_eq finite_UnI finite_imageI)
    moreover have "\<not> acyclic ?E"
    proof
      assume "acyclic ?E"
      then have "wf ?E" by (simp add: finite_acyclic_wf)
      moreover from False sub obtain x where "x \<in> nodes ?E - set visited" by blast
      ultimately obtain n where n: "n \<in> nodes ?E - set visited" "\<And>u. (u, n) \<in> ?E \<Longrightarrow> u \<notin> nodes ?E - set visited"
        by (metis wfE_min)
      then have "preds ?E n \<subseteq> set visited" by (force simp: preds_def)
      with n(1) closed show False by blast
    qed
    ultimately show ?thesis using cyc by simp
  qed
qed

text \<open>
  C30. The topological sort decides cycles exactly: on every set of edges the check ends, and it
  reports a cycle if and only if some task reaches itself along the edges.
\<close>

theorem cycle_check_exact:
  "contains_cycle (remdups es) \<longleftrightarrow> (\<exists>n. (n, n) \<in> (set es)\<^sup>+)"
  using contains_cycle_iff [of "remdups es"] by (simp add: acyclic_def)

end
