(* ===== verification/Task_Recovery.thy ===== *)
theory Task_Recovery
  imports Tasks
begin

text \<open>
  The maintenance transactions of \<open>repositories/tasks.py\<close> that every API replica runs
  (\<open>resolve_dependency_readiness\<close>, \<open>release_due_retries\<close>, \<open>recover_expired\<close>) and its read
  queries. Every scan takes \<open>limit\<close> rows in the order of its query and skips the rows that
  other transactions hold, given by \<open>locked\<close>; the rows of a scan are read before its loop
  runs, as in the code.
\<close>

section \<open>Dependency resolution\<close>

definition dependants :: "(uuid \<Rightarrow> bool) \<Rightarrow> nat \<Rightarrow> task_db \<Rightarrow> task list" where
  "dependants locked limit db =
     take limit (filter (\<lambda>t. \<not> locked (t_id t)) (sort_key (\<lambda>t. (t_created_at t, t_id t))
       (filter (\<lambda>t. t_id t \<in> dep_task_id ` set (tb_task_dependencies db)
                    \<and> t_status t \<in> {TS_PENDING, TS_QUEUED}) (tb_tasks db))))"

definition failed_dependency :: "string \<times> task_status \<Rightarrow> bool" where
  "failed_dependency = (\<lambda>(policy, status). status \<in> FINAL_TASK_STATUSES \<and> status \<noteq> TS_SUCCEEDED)"

definition resolve_one ::
  "datetime \<Rightarrow> task \<times> (string \<times> task_status) list \<Rightarrow> task_db \<times> uuid list
   \<Rightarrow> repo_error + task_db \<times> uuid list" where
  "resolve_one now = (\<lambda>(task, rows) (db, changed).
     if rows = [] then Inr (db, changed)
     else if \<forall>(_, status) \<in> set rows. status = TS_SUCCEEDED
     then
       if t_status task = TS_PENDING
       then
         ebind (transition task TS_QUEUED now ''task.dependencies_satisfied'' db) (\<lambda>(db, task).
         Inr (add_ready_event now task (put_task task db), changed @ [t_id task]))
       else Inr (db, changed)
     else if \<exists>row \<in> set rows. failed_dependency row \<and> fst row = ''cancel''
     then
       ebind (transition task TS_CANCELLED now ''task.dependency_cancelled'' db) (\<lambda>(db, task).
       let task = task\<lparr>t_cancel_requested := True, t_error_message := Some prerequisite_message,
                       t_failure_category := cancelled, t_error_category := cancelled\<rparr> in
       ebind (release_queued now (t_project_id task) db) (\<lambda>(db, _).
       Inr (add_terminal_event now task TS_CANCELLED (put_task task db), changed @ [t_id task])))
     else Inr (db, changed))"

definition resolve_dependency_readiness ::
  "(uuid \<Rightarrow> bool) \<Rightarrow> datetime \<Rightarrow> nat \<Rightarrow> task_db \<Rightarrow> uuid list tx" where
  "resolve_dependency_readiness locked now limit db =
     efold (resolve_one now)
       (map (\<lambda>task. (task, dependency_statuses (t_id task) db)) (dependants locked limit db)) (db, [])"

section \<open>Due retries\<close>

definition due_retries :: "(uuid \<Rightarrow> bool) \<Rightarrow> datetime \<Rightarrow> nat \<Rightarrow> task_db \<Rightarrow> task list" where
  "due_retries locked now limit db =
     take limit (filter (\<lambda>t. \<not> locked (t_id t)) (sort_key (\<lambda>t. nulls_last (t_next_attempt_at t))
       (filter (\<lambda>t. t_status t = TS_RETRYING
                    \<and> (case t_next_attempt_at t of None \<Rightarrow> True | Some due \<Rightarrow> due \<le> now)) (tb_tasks db))))"

definition release_retry :: "datetime \<Rightarrow> task \<Rightarrow> task_db \<Rightarrow> repo_error + task_db" where
  "release_retry now task db =
    (if t_cancel_requested task
     then
       ebind (transition task TS_CANCELLED now status_changed db) (\<lambda>(db, task).
       let task = task\<lparr>t_next_attempt_at := None, t_failure_category := cancelled,
                       t_error_category := cancelled, t_error_code := None\<rparr> in
       Inr (add_terminal_event now task TS_CANCELLED (put_task task db)))
     else
       ebind (transition task TS_QUEUED now status_changed db) (\<lambda>(db, task).
       let task = task\<lparr>t_next_attempt_at := None, t_cancel_requested := False\<rparr> in
       Inr (add_ready_event now task (put_task task db))))"

definition release_due_retries :: "(uuid \<Rightarrow> bool) \<Rightarrow> datetime \<Rightarrow> nat \<Rightarrow> task_db \<Rightarrow> uuid list tx" where
  "release_due_retries locked now limit db =
    (let tasks = due_retries locked now limit db in
     ebind (efold (release_retry now) tasks db) (\<lambda>db. Inr (db, map t_id tasks)))"

section \<open>Lease recovery\<close>

definition expired :: "(uuid \<Rightarrow> bool) \<Rightarrow> datetime \<Rightarrow> nat \<Rightarrow> task_db \<Rightarrow> task list" where
  "expired locked now limit db =
     take limit (filter (\<lambda>t. \<not> locked (t_id t)) (sort_key (\<lambda>t. nulls_last (t_lease_expires_at t))
       (filter (\<lambda>t. t_status t \<in> ACTIVE_TASK_STATUSES
                    \<and> (case t_lease_expires_at t of None \<Rightarrow> False | Some expiry \<Rightarrow> expiry < now))
         (tb_tasks db))))"

text \<open>What the recovery of an expired lease does with the task, and the reason it records.\<close>

definition recovery_cancelled :: "task \<Rightarrow> bool" where
  "recovery_cancelled task =
    (let preemption_requested = (t_status task = TS_PREEMPTING);
         user_cancelled_preemption =
           (preemption_requested \<and> t_failure_category task = cancelled)
     in t_cancel_requested task \<and> (\<not> preemption_requested \<or> user_cancelled_preemption))"

definition recovered_status :: "task \<Rightarrow> task_status" where
  "recovered_status task =
    (if recovery_cancelled task then TS_CANCELLED
     else if t_status task = TS_PREEMPTING then TS_PREEMPTED
     else TS_FAILED)"

definition recovery_code :: "task \<Rightarrow> task_db \<Rightarrow> error_code" where
  "recovery_code task db =
    (case (case t_worker_id task of None \<Rightarrow> None | Some wid \<Rightarrow> tget w_id wid (tb_workers db)) of
       None \<Rightarrow> WORKER_LOST
     | Some worker \<Rightarrow> if w_status worker = WS_OFFLINE then WORKER_LOST else LEASE_EXPIRED)"

definition recovery_message :: "task_status \<Rightarrow> string" where
  "recovery_message status =
    (case status of
       TS_CANCELLED \<Rightarrow> ''task was cancelled before its execution lease expired''
     | TS_PREEMPTED \<Rightarrow> ''preempted execution lease expired; worker ownership was revoked''
     | _ \<Rightarrow> ''execution lease expired; worker ownership was revoked'')"

definition recovery_category :: "task_status \<Rightarrow> string option" where
  "recovery_category status = Some (error_category_value
    (case status of TS_CANCELLED \<Rightarrow> EC_CANCELLED | TS_PREEMPTED \<Rightarrow> EC_PREEMPTED | _ \<Rightarrow> EC_INFRA_ERROR))"

definition suppressed :: "string option \<Rightarrow> string option" where
  "suppressed message = map_option (\<lambda>m. m @ ''; retry suppressed by project queue quota'') message"

definition retry_after :: "datetime \<Rightarrow> pyfloat \<Rightarrow> task \<Rightarrow> task_db \<Rightarrow> repo_error + task_db" where
  "retry_after now grace task db =
     ebind (transition task TS_RETRYING now status_changed db) (\<lambda>(db, task).
     let task = task\<lparr>t_next_attempt_at := Some (now + timedelta_seconds grace),
                     t_cancel_requested := False\<rparr> in
     Inr (put_task task db))"

definition revoke_ownership :: "datetime \<Rightarrow> task \<Rightarrow> task_db \<Rightarrow> task tx" where
  "revoke_ownership now task db =
    (let worker_id = t_worker_id task; execution_id = t_execution_id task;
         preemption_requested = (t_status task = TS_PREEMPTING);
         status = recovered_status task; task = task\<lparr>t_lease_expires_at := None\<rparr> in
     ebind (case execution_id of
              None \<Rightarrow> Inr (db, task, False)
            | Some eid \<Rightarrow>
                release_and_settle now task eid status ''execution_lease_expired'' db)
       (\<lambda>(db, task, released).
     let db = (if released then db else release_unreserved worker_id task db);
         task = task\<lparr>t_execution_id := None, t_worker_id := None\<rparr>;
         db = (if preemption_requested then complete_preemption_plans now (t_id task) db else db) in
     Inr (db, task)))"

definition close_expired :: "datetime \<Rightarrow> task \<Rightarrow> task_db \<Rightarrow> task tx" where
  "close_expired now task db =
    (let execution_id = t_execution_id task; status = recovered_status task;
         code = (if status = TS_FAILED then Some (error_code_value (recovery_code task db)) else None);
         event_type = (if status = TS_PREEMPTED then ''task.preempted'' else status_changed) in
     ebind (revoke_ownership now task db) (\<lambda>(db, task).
     ebind (transition task status now event_type db) (\<lambda>(db, task).
     let task = task\<lparr>t_error_message := Some (recovery_message status),
                     t_failure_category := recovery_category status,
                     t_error_category := recovery_category status, t_error_code := code\<rparr> in
     Inr (set_execution_error execution_id task db, task))))"

definition end_recovery ::
  "datetime \<Rightarrow> task \<Rightarrow> bool \<Rightarrow> task_db \<times> uuid list \<Rightarrow> task_db \<times> uuid list" where
  "end_recovery now task retry_suppressed = (\<lambda>(db, recovered).
    (let task = (if retry_suppressed
                 then task\<lparr>t_error_message := suppressed (t_error_message task)\<rparr> else task) in
     (add_terminal_event now task (t_status task) (put_task task db), recovered)))"

definition recover_next ::
  "datetime \<Rightarrow> int \<Rightarrow> pyfloat \<Rightarrow> task \<Rightarrow> task_db \<times> uuid list \<Rightarrow> repo_error + task_db \<times> uuid list" where
  "recover_next now max_recovery_attempts grace task = (\<lambda>(db, recovered).
     if t_status task = TS_CANCELLED
     then Inr (end_recovery now task False (db, recovered @ [t_id task]))
     else if t_status task = TS_PREEMPTED
     then
       ebind (if t_requeue_on_preempt task then admit_retry now (t_project_id task) db else Inr (db, False))
         (\<lambda>(db, admitted).
       if admitted
       then ebind (retry_after now grace task db) (\<lambda>db. Inr (db, recovered @ [t_id task]))
       else Inr (end_recovery now task (t_requeue_on_preempt task) (db, recovered)))
     else if t_recovery_count task < max_recovery_attempts
     then
       ebind (admit_retry now (t_project_id task) db) (\<lambda>(db, admitted).
       if admitted
       then ebind (retry_after now grace (task\<lparr>t_recovery_count := t_recovery_count task + 1\<rparr>) db)
              (\<lambda>db. Inr (db, recovered @ [t_id task]))
       else Inr (end_recovery now task True (db, recovered)))
     else Inr (end_recovery now task False (db, recovered)))"

definition recover_one ::
  "datetime \<Rightarrow> int \<Rightarrow> pyfloat \<Rightarrow> task \<Rightarrow> task_db \<times> uuid list \<Rightarrow> repo_error + task_db \<times> uuid list" where
  "recover_one now max_recovery_attempts grace task = (\<lambda>(db, recovered).
     ebind (close_expired now task db) (\<lambda>(db, task).
     recover_next now max_recovery_attempts grace task (db, recovered)))"

definition lock_quotas :: "datetime \<Rightarrow> uuid list \<Rightarrow> task_db \<Rightarrow> repo_error + task_db" where
  "lock_quotas now project_ids =
     efold (\<lambda>project_id db. ebind (get_locked now project_id db) (\<lambda>(db, _). Inr db))
       (sort (remdups project_ids))"

definition recover_expired ::
  "(uuid \<Rightarrow> bool) \<Rightarrow> datetime \<Rightarrow> nat \<Rightarrow> int \<Rightarrow> pyfloat \<Rightarrow> task_db \<Rightarrow> uuid list tx" where
  "recover_expired locked now limit max_recovery_attempts recovery_cleanup_grace_seconds db =
    (let tasks = expired locked now limit db in
     ebind (lock_quotas now (map t_project_id tasks) db) (\<lambda>db.
     efold (recover_one now max_recovery_attempts recovery_cleanup_grace_seconds) tasks (db, [])))"

section \<open>Queries\<close>

definition get_by_idempotency_key :: "string \<Rightarrow> uuid \<Rightarrow> task_db \<Rightarrow> task option" where
  "get_by_idempotency_key idempotency_key project_id db =
     find (\<lambda>t. t_project_id t = project_id \<and> t_idempotency_key t = Some idempotency_key) (tb_tasks db)"

definition get_for_project :: "uuid \<Rightarrow> uuid \<Rightarrow> task_db \<Rightarrow> task option" where
  "get_for_project project_id task_id db =
     find (\<lambda>t. t_project_id t = project_id \<and> t_id t = task_id) (tb_tasks db)"

definition task_filter :: "task_status option \<Rightarrow> string option \<Rightarrow> task \<Rightarrow> bool" where
  "task_filter status worker_id t \<longleftrightarrow>
     (case status of None \<Rightarrow> True | Some s \<Rightarrow> t_status t = s)
     \<and> (case worker_id of None \<Rightarrow> True | Some w \<Rightarrow> t_worker_id t = Some w)"

definition list_tasks :: "task_status option \<Rightarrow> string option \<Rightarrow> nat \<Rightarrow> nat \<Rightarrow> task_db \<Rightarrow> task list" where
  "list_tasks status worker_id limit skip db =
     take limit (drop skip (sort_key (\<lambda>t. - t_created_at t) (filter (task_filter status worker_id) (tb_tasks db))))"

definition before_cursor :: "(datetime \<times> uuid) option \<Rightarrow> task \<Rightarrow> bool" where
  "before_cursor after t =
    (case after of
       None \<Rightarrow> True
     | Some (created_at, item_id) \<Rightarrow>
         t_created_at t < created_at \<or> (t_created_at t = created_at \<and> t_id t < item_id))"

definition list_for_project ::
  "uuid \<Rightarrow> task_status option \<Rightarrow> string option \<Rightarrow> nat \<Rightarrow> nat \<Rightarrow> (datetime \<times> uuid) option \<Rightarrow> task_db
   \<Rightarrow> task list" where
  "list_for_project project_id status worker_id limit skip after db =
     take limit (drop (if after \<noteq> None then 0 else skip) (sort_key (\<lambda>t. (- t_created_at t, - int (t_id t)))
       (filter (\<lambda>t. t_project_id t = project_id \<and> task_filter status worker_id t \<and> before_cursor after t)
         (tb_tasks db))))"

definition list_queued_ids :: "nat \<Rightarrow> task_db \<Rightarrow> uuid list" where
  "list_queued_ids limit db =
     map t_id (take limit (sort_key (\<lambda>t. nulls_last (t_queued_at t))
       (filter (\<lambda>t. t_status t = TS_QUEUED \<and> \<not> unsatisfied_dependencies (t_id t) db) (tb_tasks db))))"

definition list_queued_candidates_for_worker ::
  "worker \<Rightarrow> nat \<Rightarrow> nat \<Rightarrow> task_db \<Rightarrow> uuid list \<times> nat" where
  "list_queued_candidates_for_worker worker limit skip db =
    (let available_cpu = max 0 (of_int (w_cpu_allocatable_millicores worker) / 1000 - w_reserved_cpu worker);
         available_memory = max 0 (w_memory_allocatable_mb worker - w_reserved_memory_mb worker);
         available_gpus = max 0 (w_gpu_count worker - w_reserved_gpus worker);
         page = take limit (drop skip (sort_key (\<lambda>t. (nulls_last (t_queued_at t), t_id t))
           (filter (\<lambda>t. t_status t = TS_QUEUED \<and> \<not> t_cancel_requested t
               \<and> t_cpu_limit t \<le> available_cpu \<and> t_memory_limit_mb t \<le> available_memory
               \<and> t_gpu_count t \<le> available_gpus \<and> \<not> unsatisfied_dependencies (t_id t) db)
             (tb_tasks db))))
     in (map t_id (filter (worker_can_run_task worker) page), length page))"

definition list_logs :: "uuid \<Rightarrow> int \<Rightarrow> nat \<Rightarrow> task_db \<Rightarrow> task_log list" where
  "list_logs task_id after limit db =
     take limit (sort_key g_sequence
       (filter (\<lambda>g. g_task_id g = task_id \<and> g_sequence g > after) (tb_task_logs db)))"

definition list_logs_for_project :: "uuid \<Rightarrow> uuid \<Rightarrow> int \<Rightarrow> nat \<Rightarrow> task_db \<Rightarrow> task_log list" where
  "list_logs_for_project project_id task_id after limit db =
     take limit (sort_key g_sequence
       (filter (\<lambda>g. (\<exists>t \<in> set (tb_tasks db). t_id t = g_task_id g \<and> t_project_id t = project_id)
                    \<and> g_task_id g = task_id \<and> g_sequence g > after) (tb_task_logs db)))"

definition list_events_for_project :: "uuid \<Rightarrow> uuid \<Rightarrow> nat \<Rightarrow> task_db \<Rightarrow> task_event list" where
  "list_events_for_project project_id task_id limit db =
     take limit (sort_key e_sequence
       (filter (\<lambda>e. e_project_id e = project_id \<and> e_task_id e = task_id) (tb_task_events db)))"

definition candidate_workers :: "task \<Rightarrow> task_db \<Rightarrow> worker list" where
  "candidate_workers task db =
     filter (\<lambda>w. worker_can_run_task w task)
       (sort_key (\<lambda>w. (w_running_tasks w, - w_last_heartbeat_at w))
         (filter (\<lambda>w. w_status w = WS_ONLINE \<and> w_running_tasks w < w_concurrency w) (tb_workers db)))"

definition counts_by_status :: "task_db \<Rightarrow> task_status \<Rightarrow> nat option" where
  "counts_by_status db status =
    (let n = length (filter (\<lambda>t. t_status t = status) (tb_tasks db))
     in if n = 0 then None else Some n)"

end
