(* ===== verification/Task_Frames.thy ===== *)
theory Task_Frames
  imports Task_Recovery
begin

text \<open>
  What the operations leave alone. The quota operations work on every database that
  extends the quota tables, so they keep the rest of the record (\<open>quota_only\<close>); the row
  updates keep every table but their own. The proofs about whole transactions rest on
  these facts.
\<close>

section \<open>Quota operations\<close>

definition quota_only :: "'a quota_db_scheme \<Rightarrow> 'a quota_db_scheme \<Rightarrow> bool" where
  "quota_only db db' \<longleftrightarrow> quota_db.more db' = quota_db.more db"

lemma quota_only_refl [simp]: "quota_only db db"
  by (simp add: quota_only_def)

lemma quota_only_trans: "quota_only a b \<Longrightarrow> quota_only b c \<Longrightarrow> quota_only a c"
  by (simp add: quota_only_def)

lemma quota_only_put_state [simp]: "quota_only db (put_state state db)"
  by (simp add: quota_only_def put_state_def)

lemma quota_only_tables:
  fixes db db' :: task_db
  assumes "quota_only db db'"
  shows "tb_outbox db' = tb_outbox db" "tb_tasks db' = tb_tasks db" "tb_task_logs db' = tb_task_logs db"
    "tb_task_events db' = tb_task_events db" "tb_workers db' = tb_workers db"
    "tb_task_executions db' = tb_task_executions db" "tb_reservations db' = tb_reservations db"
    "tb_reservation_devices db' = tb_reservation_devices db" "tb_gpu_devices db' = tb_gpu_devices db"
    "tb_usage_ledger db' = tb_usage_ledger db" "tb_preemption_plans db' = tb_preemption_plans db"
    "tb_task_dependencies db' = tb_task_dependencies db"
  using assms by (cases db; cases db'; simp add: quota_only_def)+

lemma quota_only_tasks:
  fixes db db' :: task_db
  shows "quota_only db db' \<Longrightarrow> tb_tasks db' = tb_tasks db \<and> tb_task_events db' = tb_task_events db
    \<and> tb_task_executions db' = tb_task_executions db"
  by (simp add: quota_only_tables)

lemma get_locked_frame: "get_locked now pid db = Inr (db', snap) \<Longrightarrow> quota_only db db'"
  by (auto simp: get_locked_Inr)

lemma admit_queued_frame: "admit_queued now pid db = Inr (db', st) \<Longrightarrow> quota_only db db'"
  by (auto dest: admit_queued_InrD)

lemma release_queued_frame: "release_queued now pid db = Inr (db', st) \<Longrightarrow> quota_only db db'"
  by (auto dest: release_queued_InrD)

lemma reserve_execution_frame:
  "reserve_execution now pid cpu mem gpus cost vendor db = Inr (db', st) \<Longrightarrow> quota_only db db'"
  by (auto dest: reserve_execution_InrD)

lemma release_execution_frame:
  "release_execution now pid cpu mem gpus cost settled date vendor db = Inr (db', st) \<Longrightarrow> quota_only db db'"
  by (auto dest: release_execution_InrD)

lemma initialize_frame: "initialize now pid db = Inr (db', snap) \<Longrightarrow> quota_only db db'"
  by (auto simp: initialize_def quota_only_def ebind_eq_Inr split: option.splits if_splits)

lemma admit_retry_frame: "admit_retry now pid db = Inr (db', b) \<Longrightarrow> quota_only db db'"
  by (auto simp: admit_retry_def ebind_eq_Inr split: option.splits sum.splits repo_error.splits
      dest: admit_queued_frame get_locked_frame)

lemma lock_quotas_frame:
  assumes "lock_quotas now pids db = Inr db'"
  shows "quota_only db db'"
  using assms unfolding lock_quotas_def
  by (rule efold_invariant) (auto simp: ebind_eq_Inr intro: quota_only_trans dest: get_locked_frame)

lemmas quota_frames =
  get_locked_frame admit_queued_frame release_queued_frame reserve_execution_frame
  release_execution_frame initialize_frame admit_retry_frame lock_quotas_frame

section \<open>Row updates\<close>

lemma put_worker_frame [simp]:
  "tb_tasks (put_worker w db) = tb_tasks db" "tb_task_events (put_worker w db) = tb_task_events db"
  "tb_task_executions (put_worker w db) = tb_task_executions db"
  "tb_reservations (put_worker w db) = tb_reservations db"
  "tb_reservation_devices (put_worker w db) = tb_reservation_devices db"
  "tb_usage_ledger (put_worker w db) = tb_usage_ledger db"
  "tb_task_logs (put_worker w db) = tb_task_logs db"
  "tb_gpu_devices (put_worker w db) = tb_gpu_devices db"
  "tb_quota_states (put_worker w db) = tb_quota_states db" "tb_quotas (put_worker w db) = tb_quotas db"
  "tb_projects (put_worker w db) = tb_projects db"
  "tb_workers (put_worker w db) = tput w_id w (tb_workers db)"
  by (simp_all add: put_worker_def)

lemma put_task_frame [simp]:
  "tb_tasks (put_task t db) = tput t_id t (tb_tasks db)" "tb_task_events (put_task t db) = tb_task_events db"
  "tb_task_executions (put_task t db) = tb_task_executions db"
  "tb_reservations (put_task t db) = tb_reservations db"
  "tb_reservation_devices (put_task t db) = tb_reservation_devices db"
  "tb_usage_ledger (put_task t db) = tb_usage_ledger db"
  "tb_task_logs (put_task t db) = tb_task_logs db"
  "tb_gpu_devices (put_task t db) = tb_gpu_devices db"
  "tb_quota_states (put_task t db) = tb_quota_states db" "tb_quotas (put_task t db) = tb_quotas db"
  "tb_projects (put_task t db) = tb_projects db"
  "tb_workers (put_task t db) = tb_workers db"
  by (simp_all add: put_task_def)

lemma put_execution_frame [simp]:
  "tb_tasks (put_execution x db) = tb_tasks db" "tb_task_events (put_execution x db) = tb_task_events db"
  "tb_task_executions (put_execution x db) = tput x_id x (tb_task_executions db)"
  "tb_reservations (put_execution x db) = tb_reservations db"
  "tb_reservation_devices (put_execution x db) = tb_reservation_devices db"
  "tb_usage_ledger (put_execution x db) = tb_usage_ledger db"
  "tb_task_logs (put_execution x db) = tb_task_logs db"
  "tb_gpu_devices (put_execution x db) = tb_gpu_devices db"
  "tb_quota_states (put_execution x db) = tb_quota_states db" "tb_quotas (put_execution x db) = tb_quotas db"
  "tb_projects (put_execution x db) = tb_projects db"
  "tb_workers (put_execution x db) = tb_workers db"
  by (simp_all add: put_execution_def)

lemma put_reservation_frame [simp]:
  "tb_tasks (put_reservation r db) = tb_tasks db" "tb_task_events (put_reservation r db) = tb_task_events db"
  "tb_task_executions (put_reservation r db) = tb_task_executions db"
  "tb_reservations (put_reservation r db) = tput r_id r (tb_reservations db)"
  "tb_reservation_devices (put_reservation r db) = tb_reservation_devices db"
  "tb_usage_ledger (put_reservation r db) = tb_usage_ledger db"
  "tb_task_logs (put_reservation r db) = tb_task_logs db"
  "tb_gpu_devices (put_reservation r db) = tb_gpu_devices db"
  "tb_quota_states (put_reservation r db) = tb_quota_states db"
  "tb_quotas (put_reservation r db) = tb_quotas db"
  "tb_projects (put_reservation r db) = tb_projects db"
  "tb_workers (put_reservation r db) = tb_workers db"
  by (simp_all add: put_reservation_def)

lemma add_event_frame [simp]:
  "tb_tasks (add_event now aid ty p a db) = tb_tasks db"
  "tb_task_events (add_event now aid ty p a db) = tb_task_events db"
  "tb_task_executions (add_event now aid ty p a db) = tb_task_executions db"
  "tb_reservations (add_event now aid ty p a db) = tb_reservations db"
  "tb_reservation_devices (add_event now aid ty p a db) = tb_reservation_devices db"
  "tb_usage_ledger (add_event now aid ty p a db) = tb_usage_ledger db"
  "tb_task_logs (add_event now aid ty p a db) = tb_task_logs db"
  "tb_gpu_devices (add_event now aid ty p a db) = tb_gpu_devices db"
  "tb_quota_states (add_event now aid ty p a db) = tb_quota_states db"
  "tb_quotas (add_event now aid ty p a db) = tb_quotas db"
  "tb_projects (add_event now aid ty p a db) = tb_projects db"
  "tb_workers (add_event now aid ty p a db) = tb_workers db"
  by (simp_all add: add_event_def Let_def)

lemma complete_plans_frame [simp]:
  "tb_tasks (complete_preemption_plans now tid db) = tb_tasks db"
  "tb_task_events (complete_preemption_plans now tid db) = tb_task_events db"
  "tb_task_executions (complete_preemption_plans now tid db) = tb_task_executions db"
  "tb_reservations (complete_preemption_plans now tid db) = tb_reservations db"
  "tb_reservation_devices (complete_preemption_plans now tid db) = tb_reservation_devices db"
  "tb_usage_ledger (complete_preemption_plans now tid db) = tb_usage_ledger db"
  "tb_quota_states (complete_preemption_plans now tid db) = tb_quota_states db"
  "tb_quotas (complete_preemption_plans now tid db) = tb_quotas db"
  "tb_projects (complete_preemption_plans now tid db) = tb_projects db"
  "tb_workers (complete_preemption_plans now tid db) = tb_workers db"
  by (simp_all add: complete_preemption_plans_def)

lemma set_execution_error_keys [simp]:
  "map x_id (tb_task_executions (set_execution_error eid t db)) = map x_id (tb_task_executions db)"
  by (simp add: set_execution_error_def tput_keys split: option.split)

lemma set_execution_error_frame [simp]:
  "tb_tasks (set_execution_error eid t db) = tb_tasks db"
  "tb_task_events (set_execution_error eid t db) = tb_task_events db"
  "tb_reservations (set_execution_error eid t db) = tb_reservations db"
  "tb_reservation_devices (set_execution_error eid t db) = tb_reservation_devices db"
  "tb_usage_ledger (set_execution_error eid t db) = tb_usage_ledger db"
  "tb_quota_states (set_execution_error eid t db) = tb_quota_states db"
  "tb_quotas (set_execution_error eid t db) = tb_quotas db"
  "tb_projects (set_execution_error eid t db) = tb_projects db"
  "tb_workers (set_execution_error eid t db) = tb_workers db"
  by (simp_all add: set_execution_error_def split: option.split)

lemma release_unreserved_frame [simp]:
  "tb_tasks (release_unreserved wid t db) = tb_tasks db"
  "tb_task_events (release_unreserved wid t db) = tb_task_events db"
  "tb_reservations (release_unreserved wid t db) = tb_reservations db"
  "tb_reservation_devices (release_unreserved wid t db) = tb_reservation_devices db"
  "tb_task_executions (release_unreserved wid t db) = tb_task_executions db"
  "tb_usage_ledger (release_unreserved wid t db) = tb_usage_ledger db"
  "tb_quota_states (release_unreserved wid t db) = tb_quota_states db"
  "tb_quotas (release_unreserved wid t db) = tb_quotas db"
  "tb_projects (release_unreserved wid t db) = tb_projects db"
  by (simp_all add: release_unreserved_def split: option.split)

lemmas outbox_event_defs = add_terminal_event_def add_ready_event_def

section \<open>The task row\<close>

lemma transition_task_simps [simp]:
  "t_id (transition_task t u now) = t_id t" "t_project_id (transition_task t u now) = t_project_id t"
  "t_status (transition_task t u now) = u" "t_version (transition_task t u now) = t_version t + 1"
  "t_worker_id (transition_task t u now) = t_worker_id t"
  "t_execution_id (transition_task t u now) = t_execution_id t"
  "t_cancel_requested (transition_task t u now) = t_cancel_requested t"
  "t_cpu_limit (transition_task t u now) = t_cpu_limit t"
  "t_cpu_millicores (transition_task t u now) = t_cpu_millicores t"
  "t_memory_limit_mb (transition_task t u now) = t_memory_limit_mb t"
  "t_gpu_count (transition_task t u now) = t_gpu_count t"
  "t_requeue_on_preempt (transition_task t u now) = t_requeue_on_preempt t"
  "t_runtime_handle (transition_task t u now) = t_runtime_handle t"
  "t_runtime_type (transition_task t u now) = t_runtime_type t"
  "t_lease_expires_at (transition_task t u now) = t_lease_expires_at t"
  by (simp_all add: transition_task_def Let_def)

lemma prepare_for_assignment_simps [simp]:
  "t_id (prepare_for_assignment t) = t_id t" "t_project_id (prepare_for_assignment t) = t_project_id t"
  "t_status (prepare_for_assignment t) = t_status t" "t_version (prepare_for_assignment t) = t_version t"
  "t_worker_id (prepare_for_assignment t) = t_worker_id t"
  "t_execution_id (prepare_for_assignment t) = t_execution_id t"
  "t_cpu_limit (prepare_for_assignment t) = t_cpu_limit t"
  "t_cpu_millicores (prepare_for_assignment t) = t_cpu_millicores t"
  "t_memory_limit_mb (prepare_for_assignment t) = t_memory_limit_mb t"
  "t_gpu_count (prepare_for_assignment t) = t_gpu_count t"
  "t_cancel_requested (prepare_for_assignment t) = False"
  by (simp_all add: prepare_for_assignment_def)

lemma record_duration_simps [simp]:
  "t_id (record_duration now c g t) = t_id t" "t_project_id (record_duration now c g t) = t_project_id t"
  "t_status (record_duration now c g t) = t_status t" "t_version (record_duration now c g t) = t_version t"
  "t_worker_id (record_duration now c g t) = t_worker_id t"
  "t_execution_id (record_duration now c g t) = t_execution_id t"
  "t_cpu_limit (record_duration now c g t) = t_cpu_limit t"
  "t_cpu_millicores (record_duration now c g t) = t_cpu_millicores t"
  "t_memory_limit_mb (record_duration now c g t) = t_memory_limit_mb t"
  "t_gpu_count (record_duration now c g t) = t_gpu_count t"
  "t_cancel_requested (record_duration now c g t) = t_cancel_requested t"
  by (simp_all add: record_duration_def Let_def split: option.split)

lemma bump_version_simps [simp]:
  "t_id (bump_version t) = t_id t" "t_project_id (bump_version t) = t_project_id t"
  "t_status (bump_version t) = t_status t" "t_version (bump_version t) = t_version t + 1"
  "t_worker_id (bump_version t) = t_worker_id t" "t_execution_id (bump_version t) = t_execution_id t"
  "t_cpu_limit (bump_version t) = t_cpu_limit t" "t_cpu_millicores (bump_version t) = t_cpu_millicores t"
  "t_memory_limit_mb (bump_version t) = t_memory_limit_mb t" "t_gpu_count (bump_version t) = t_gpu_count t"
  "t_cancel_requested (bump_version t) = t_cancel_requested t"
  by (simp_all add: bump_version_def)

lemma transition_Inr:
  "transition t u now ty db = Inr (db', t') \<longleftrightarrow>
     u \<in> ALLOWED_TRANSITIONS (t_status t) \<and> t' = transition_task t u now
     \<and> db' = db\<lparr>tb_task_events := tb_task_events db @ [transition_event t u ty now]\<rparr>"
  by (auto simp: transition_def ensure_transition_def split: if_splits)

lemma transition_frame:
  assumes "transition t u now ty db = Inr (db', t')"
  shows "tb_tasks db' = tb_tasks db" "tb_task_executions db' = tb_task_executions db"
    "tb_reservations db' = tb_reservations db" "tb_reservation_devices db' = tb_reservation_devices db"
    "tb_usage_ledger db' = tb_usage_ledger db" "tb_workers db' = tb_workers db"
    "tb_quotas db' = tb_quotas db" "tb_quota_states db' = tb_quota_states db"
    "tb_projects db' = tb_projects db" "tb_gpu_devices db' = tb_gpu_devices db"
    "tb_task_events db' = tb_task_events db @ [transition_event t u ty now]"
    "t' = transition_task t u now" "u \<in> ALLOWED_TRANSITIONS (t_status t)"
  using assms by (simp_all add: transition_Inr)

section \<open>Release\<close>

lemma release_and_settle_frame:
  "returns (release_and_settle now t eid status reason db) (\<lambda>(db', t', released).
     tb_tasks db' = tb_tasks db \<and> tb_task_events db' = tb_task_events db
     \<and> map x_id (tb_task_executions db') = map x_id (tb_task_executions db)
     \<and> (\<exists>cost. t' = t\<lparr>t_estimated_cost := cost\<rparr>))"
proof -
  have same: "\<exists>cost. t = t\<lparr>t_estimated_cost := cost\<rparr>"
    by (rule exI [of _ "t_estimated_cost t"]) simp
  show ?thesis
    unfolding release_and_settle_def
    by (intro returns_intros)
      (auto simp: same tput_keys dest!: quota_frames [THEN quota_only_tasks])
qed

lemma release_and_settleD:
  "release_and_settle now t eid status reason db = Inr (db', t', released) \<Longrightarrow>
     tb_tasks db' = tb_tasks db \<and> tb_task_events db' = tb_task_events db
     \<and> map x_id (tb_task_executions db') = map x_id (tb_task_executions db) \<and> t_id t' = t_id t
     \<and> t_status t' = t_status t \<and> t_version t' = t_version t \<and> t_execution_id t' = t_execution_id t"
  using release_and_settle_frame [of now t eid status reason db]
  by (auto simp: returns_def)

lemmas task_facts = quota_frames [THEN quota_only_tasks] release_and_settleD

lemma owned_task_get:
  "owned_task k wid eid sid db = Inr t \<Longrightarrow> tget t_id (t_id t) (tb_tasks db) = Some t \<and> k = t_id t
   \<and> t_worker_id t = Some wid \<and> t_execution_id t = Some eid"
  by (auto simp: owned_task_def split: option.splits if_splits dest: tget_SomeD)

section \<open>Scans\<close>

text \<open>A scan writes each row it has read at most once.\<close>

definition writes :: "uuid \<Rightarrow> task_db \<Rightarrow> task_db \<Rightarrow> bool" where
  "writes k db db' \<longleftrightarrow> map t_id (tb_tasks db') = map t_id (tb_tasks db)
     \<and> (\<forall>j. j \<noteq> k \<longrightarrow> tget t_id j (tb_tasks db') = tget t_id j (tb_tasks db))"

lemma writes_put: "tb_tasks db' = tput t_id t (tb_tasks db) \<Longrightarrow> k = t_id t \<Longrightarrow> writes k db db'"
  by (simp add: writes_def tput_keys tget_tput)

lemma writes_none: "tb_tasks db' = tb_tasks db \<Longrightarrow> writes k db db'"
  by (simp add: writes_def)

lemma scan_loop:
  assumes "reflp R" "transp R" and "distinct (map (\<lambda>x. t_id (row x)) xs)"
    and "\<forall>x \<in> set xs. tget t_id (t_id (row x)) (tb_tasks (proj s)) = Some (row x)"
    and step: "\<And>x s. x \<in> set xs \<Longrightarrow> tget t_id (t_id (row x)) (tb_tasks (proj s)) = Some (row x)
       \<Longrightarrow> returns (f x s) (\<lambda>s'. R (proj s) (proj s') \<and> writes (t_id (row x)) (proj s) (proj s'))"
  shows "returns (efold f xs s) (\<lambda>s'. R (proj s) (proj s'))"
  using assms
proof (induction xs arbitrary: s)
  case Nil
  then show ?case by (simp add: returns_Inr reflpD)
next
  case (Cons x xs)
  have "returns (efold f xs s1) (\<lambda>s'. R (proj s) (proj s'))" if "f x s = Inr s1" for s1
  proof -
    from Cons.prems(4) have "tget t_id (t_id (row x)) (tb_tasks (proj s)) = Some (row x)" by simp
    from returnsD [OF Cons.prems(5) [OF _ this] that] have
      r: "R (proj s) (proj s1)" and w: "writes (t_id (row x)) (proj s) (proj s1)" by simp_all
    have rows: "\<forall>y \<in> set xs. tget t_id (t_id (row y)) (tb_tasks (proj s1)) = Some (row y)"
    proof
      fix y assume y: "y \<in> set xs"
      have "t_id (row y) \<noteq> t_id (row x)"
        using imageI [OF y, of "\<lambda>x. t_id (row x)"] Cons.prems(3) by auto
      with w Cons.prems(4) y show "tget t_id (t_id (row y)) (tb_tasks (proj s1)) = Some (row y)"
        by (simp add: writes_def)
    qed
    from Cons.prems(3) have "distinct (map (\<lambda>x. t_id (row x)) xs)" by simp
    from Cons.IH [OF Cons.prems(1,2) this rows] Cons.prems(5)
    have "returns (efold f xs s1) (\<lambda>s'. R (proj s1) (proj s'))" by simp
    then show ?thesis by (rule returns_mono) (rule transpD [OF Cons.prems(2) r])
  qed
  then show ?case by (simp add: returns_bind)
qed

lemma scan_distinct:
  assumes "distinct (map t_id (tb_tasks db))"
  shows "distinct (map t_id (take n (filter P (sort_key g (filter Q (tb_tasks db))))))"
proof -
  from assms have "distinct (map t_id (filter Q (tb_tasks db)))" by (rule distinct_map_filter)
  then have "distinct (map t_id (sort_key g (filter Q (tb_tasks db))))" by (simp add: distinct_map)
  then have "distinct (map t_id (filter P (sort_key g (filter Q (tb_tasks db)))))" by (rule distinct_map_filter)
  then show ?thesis by (simp add: take_map [symmetric])
qed

lemma scan_rows:
  assumes "distinct (map t_id (tb_tasks db))" and "t \<in> set (take n (filter P (sort_key g (filter Q (tb_tasks db)))))"
  shows "tget t_id (t_id t) (tb_tasks db) = Some t" and "P t" "Q t"
proof -
  from in_set_takeD [OF assms(2)] show "P t" "Q t" by simp_all
  from in_set_takeD [OF assms(2)] show "tget t_id (t_id t) (tb_tasks db) = Some t"
    by (intro tget_member [OF assms(1)]) simp
qed

lemma take_global_assignment_cases:
  assumes "take_global_assignment locked now wid sid lease db = Inr (db', r)"
    and "distinct (map t_id (tb_tasks db))"
  obtains "db' = db"
  | t where "tget t_id (t_id t) (tb_tasks db) = Some t" "assignable wid sid db t"
      "TS_PREPARING \<in> ALLOWED_TRANSITIONS (t_status t)"
      "db' = put_task ((transition_task t TS_PREPARING now)
           \<lparr>t_lease_expires_at := Some (now + timedelta_seconds lease)\<rparr>)
         (db\<lparr>tb_task_events := tb_task_events db @ [transition_event t TS_PREPARING status_changed now]\<rparr>)"
proof (cases "filter (\<lambda>t. \<not> locked (t_id t)) (sort_key (\<lambda>t. (nulls_last (t_assigned_at t), t_id t))
    (filter (assignable wid sid db) (tb_tasks db)))")
  case Nil
  with assms(1) that(1) show ?thesis by (simp add: take_global_assignment_def)
next
  case (Cons t ts)
  then have "t \<in> set (filter (\<lambda>t. \<not> locked (t_id t)) (sort_key (\<lambda>t. (nulls_last (t_assigned_at t), t_id t))
    (filter (assignable wid sid db) (tb_tasks db))))" by simp
  then have "t \<in> set (tb_tasks db)" "assignable wid sid db t" by simp_all
  with tget_member [OF assms(2)] assms(1) show ?thesis
    by (intro that(2) [of t]) (auto simp: take_global_assignment_def Cons ebind_eq_Inr transition_Inr Let_def)
qed

end
