(* ===== verification/Task_Examples.thy ===== *)
theory Task_Examples
  imports Task_Recovery
begin

text \<open>
  A concrete history that the witnesses evaluate: one project, one worker with a GPU, and
  one task that is submitted, claimed, pulled and run. In one continuation it finishes, in
  the other its lease expires, it is recovered and claimed again with another execution id.
\<close>

definition example_project_db :: task_db where
  "example_project_db =
     \<lparr>tb_projects = [\<lparr>p_id = 1, p_status = PS_ACTIVE\<rparr>], tb_quotas = [], tb_quota_states = [],
      tb_outbox = [], tb_tasks = [], tb_task_logs = [], tb_task_events = [],
      tb_workers = [\<lparr>w_id = ''w1'', w_worker_session_id = 7, w_hostname = ''h1'', w_node_name = Some ''h1'',
        w_runtime_types = [''docker''],
        w_status = WS_ONLINE, w_started_at = 0, w_last_heartbeat_at = 0, w_running_tasks = 0,
        w_concurrency = 2, w_reserved_cpu = 0, w_reserved_memory_mb = 0, w_reserved_gpus = 0,
        w_cpu_count = 8, w_cpu_total_millicores = 8000, w_cpu_allocatable_millicores = 8000, w_memory_total_mb = 16000,
        w_memory_allocatable_mb = 16000, w_docker_version = None, w_labels = [], w_taints = [], w_gpu_count = 1,
        w_gpu_model = Some ''A10'', w_gpu_memory_mb = 24000, w_inventory_generation = 1,
        w_inventory_updated_at = 0,
        w_overcommitted = False, w_drain_reason = None, w_version = 1\<rparr>],
      tb_task_executions = [], tb_reservations = [], tb_reservation_devices = [],
      tb_gpu_devices = [\<lparr>d_id = 3, d_worker_id = ''w1'', d_device_uuid = ''GPU-3'', d_device_index = 0,
        d_vendor = ''nvidia'', d_accelerator_kind = ''gpu'', d_model = ''A10'', d_memory_total_mb = 24000,
        d_memory_free_mb = 24000, d_compute_capability = None, d_compute_arch = None,
        d_runtime_profile_ids = [], d_capabilities_json = [], d_kubernetes_resource_name = None,
        d_kubernetes_node_name = None, d_health = ''healthy'', d_fake = False,
        d_inventory_generation = 1, d_last_seen_at = 0\<rparr>],
      tb_usage_ledger = [], tb_preemption_plans = [], tb_task_dependencies = []\<rparr>"

definition example_spec :: task_spec where
  "example_spec =
     \<lparr>sp_project_id = 1, sp_runtime_type = RT_DOCKER, sp_timeout_seconds = 60, sp_max_retries = 1,
      sp_retry_backoff = RB_EXPONENTIAL, sp_retry_base_seconds = 1, sp_retry_max_seconds = 60,
      sp_retry_on_exit_codes = None, sp_cpu_limit = 3 / 2, sp_memory_limit_mb = 512, sp_gpu_count = 1,
      sp_gpu_memory_mb = 1000, sp_gpu_model = None, sp_accelerator_request = None, sp_labels = [],
      sp_tolerations = [], sp_priority = 50, sp_preemptible = False, sp_idempotency_key = None,
      sp_request_hash = None, sp_depends_on = [], sp_dependency_failure_policy = ''cancel''\<rparr>"

definition example_outcome :: outcome where
  "example_outcome = \<lparr>oc_target = TS_SUCCEEDED, oc_error_message = None, oc_error_category = None,
     oc_error_code = None\<rparr>"

definition committed :: "'e + 's \<times> 'a \<Rightarrow> 's" where
  "committed r = fst (projr r)"

lemma committed_Inr: "\<not> isl r \<Longrightarrow> \<exists>x. r = Inr (committed r, x)"
  by (cases r) (auto simp: committed_def)

definition example_create where "example_create = create_queued 0 example_spec example_project_db"
definition example_queued where "example_queued = committed example_create"
definition example_claim where
  "example_claim = claim (\<lambda>_. False) 10 5 1 ''w1'' 30 (Some 7) 1 1 1 example_queued"
definition example_claimed where "example_claimed = committed example_claim"
definition example_pull where
  "example_pull = mark_pulling 20 1 ''w1'' 5 30 (Some 7) 0 example_claimed"
definition example_pulling where "example_pulling = committed example_pull"
definition example_run where
  "example_run = mark_running 30 1 ''w1'' 5 30 (Some 7) 0 example_pulling"
definition example_running where "example_running = committed example_run"
definition example_finish where
  "example_finish = finish_execution 1000030 1 ''w1'' 5 example_outcome (Some 0) 60 1 1 (Some 7) example_running"
definition example_finished where "example_finished = committed example_finish"

definition example_recovery where
  "example_recovery = recover_expired (\<lambda>_. False) 100000000 10 3 0 example_running"
definition example_recovered where "example_recovered = committed example_recovery"
definition example_release where
  "example_release = release_due_retries (\<lambda>_. False) 100000001 10 example_recovered"
definition example_requeued where "example_requeued = committed example_release"
definition example_reclaim where
  "example_reclaim = claim (\<lambda>_. False) 100000002 6 1 ''w1'' 30 (Some 7) 1 1 1 example_requeued"
definition example_reclaimed where "example_reclaimed = committed example_reclaim"

lemma example_recovery_ok: "\<not> isl example_recovery" by code_simp
lemma example_release_ok: "\<not> isl example_release" by code_simp
lemma example_reclaim_ok: "\<not> isl example_reclaim" by code_simp
lemma example_create_ok: "\<not> isl example_create" by code_simp
lemma example_claim_ok: "\<not> isl example_claim" by code_simp
lemma example_pull_ok: "\<not> isl example_pull" by code_simp
lemma example_run_ok: "\<not> isl example_run" by code_simp
lemma example_finish_ok: "\<not> isl example_finish" by code_simp

lemma example_transactions:
  "\<exists>x. create_queued 0 example_spec example_project_db = Inr (example_queued, x)"
  "\<exists>x. claim (\<lambda>_. False) 10 5 1 ''w1'' 30 (Some 7) 1 1 1 example_queued = Inr (example_claimed, x)"
  "\<exists>x. mark_pulling 20 1 ''w1'' 5 30 (Some 7) 0 example_claimed = Inr (example_pulling, x)"
  "\<exists>x. mark_running 30 1 ''w1'' 5 30 (Some 7) 0 example_pulling = Inr (example_running, x)"
  "\<exists>x. finish_execution 1000030 1 ''w1'' 5 example_outcome (Some 0) 60 1 1 (Some 7) example_running
     = Inr (example_finished, x)"
  "\<exists>x. recover_expired (\<lambda>_. False) 100000000 10 3 0 example_running = Inr (example_recovered, x)"
  "\<exists>x. release_due_retries (\<lambda>_. False) 100000001 10 example_recovered = Inr (example_requeued, x)"
  "\<exists>x. claim (\<lambda>_. False) 100000002 6 1 ''w1'' 30 (Some 7) 1 1 1 example_requeued = Inr (example_reclaimed, x)"
  using committed_Inr [OF example_create_ok] committed_Inr [OF example_claim_ok]
    committed_Inr [OF example_pull_ok] committed_Inr [OF example_run_ok] committed_Inr [OF example_finish_ok]
    committed_Inr [OF example_recovery_ok] committed_Inr [OF example_release_ok]
    committed_Inr [OF example_reclaim_ok]
  by (simp_all only: example_create_def example_queued_def example_claim_def example_claimed_def
      example_pull_def example_pulling_def example_run_def example_running_def example_finish_def
      example_finished_def example_recovery_def example_recovered_def example_release_def
      example_requeued_def example_reclaim_def example_reclaimed_def)

end
