(* ===== verification/Task_Lifecycle.thy ===== *)
theory Task_Lifecycle
  imports Task_Frames Task_Examples
begin

text \<open>
  The life cycle of tasks as an abstract machine, and the refinement of that machine by the
  transactions of the task repository. The abstract state is the status and the version of
  every task and the append-only event log. A submission creates a task with its first
  event, a move follows the transition table and appends the event that records it, a
  touch only raises a version.
\<close>

section \<open>The abstract machine\<close>

record lifecycle =
  lc_tasks :: "uuid \<Rightarrow> (task_status \<times> int) option"
  lc_events :: "task_event list"

inductive lifecycle_step :: "lifecycle \<Rightarrow> lifecycle \<Rightarrow> bool" where
  lc_submit:
    "lc_tasks s k = None \<Longrightarrow> e_task_id e = k \<Longrightarrow> e_sequence e = 0 \<Longrightarrow> e_from_status e = None
     \<Longrightarrow> e_status e = TS_PENDING
     \<Longrightarrow> lifecycle_step s \<lparr>lc_tasks = (lc_tasks s)(k \<mapsto> (TS_PENDING, 1)), lc_events = lc_events s @ [e]\<rparr>"
| lc_move:
    "lc_tasks s k = Some (u, v) \<Longrightarrow> w \<in> ALLOWED_TRANSITIONS u \<Longrightarrow> e_task_id e = k
     \<Longrightarrow> e_sequence e = v + 1 \<Longrightarrow> e_from_status e = Some u \<Longrightarrow> e_status e = w
     \<Longrightarrow> lifecycle_step s \<lparr>lc_tasks = (lc_tasks s)(k \<mapsto> (w, v + 1)), lc_events = lc_events s @ [e]\<rparr>"
| lc_touch:
    "lc_tasks s k = Some (u, v) \<Longrightarrow> v \<le> v'
     \<Longrightarrow> lifecycle_step s (s\<lparr>lc_tasks := (lc_tasks s)(k \<mapsto> (u, v'))\<rparr>)"

text \<open>
  The history of one task: its events after the first one lead from status to status along
  the transition table, with growing sequence numbers.
\<close>

fun history :: "task_status \<Rightarrow> int \<Rightarrow> task_event list \<Rightarrow> task_status \<Rightarrow> int \<Rightarrow> bool" where
  "history s n [] u v \<longleftrightarrow> s = u \<and> n \<le> v"
| "history s n (e # es) u v \<longleftrightarrow>
     e_from_status e = Some s \<and> e_status e \<in> ALLOWED_TRANSITIONS s \<and> n < e_sequence e
     \<and> history (e_status e) (e_sequence e) es u v"

definition task_events :: "uuid \<Rightarrow> task_event list \<Rightarrow> task_event list" where
  "task_events k es = filter (\<lambda>e. e_task_id e = k) es"

definition created :: "task_event \<Rightarrow> bool" where
  "created e \<longleftrightarrow> e_from_status e = None \<and> e_status e = TS_PENDING \<and> e_sequence e = 0"

definition task_history :: "(task_status \<times> int) option \<Rightarrow> task_event list \<Rightarrow> bool" where
  "task_history st events =
    (case st of
       None \<Rightarrow> events = []
     | Some (u, v) \<Rightarrow> events \<noteq> [] \<and> created (hd events) \<and> history TS_PENDING 0 (tl events) u v)"

definition lifecycle_inv :: "lifecycle \<Rightarrow> bool" where
  "lifecycle_inv s \<longleftrightarrow> (\<forall>k. task_history (lc_tasks s k) (task_events k (lc_events s)))"

lemma task_events_append [simp]: "task_events k (es @ es') = task_events k es @ task_events k es'"
  by (simp add: task_events_def)

lemma task_events_single [simp]: "task_events k [e] = (if e_task_id e = k then [e] else [])"
  by (simp add: task_events_def)

lemma history_snoc:
  "history s n es u v \<Longrightarrow> e_from_status e = Some u \<Longrightarrow> e_status e \<in> ALLOWED_TRANSITIONS u
   \<Longrightarrow> e_sequence e = v + 1 \<Longrightarrow> history s n (es @ [e]) (e_status e) (v + 1)"
  by (induction s n es u v rule: history.induct) auto

lemma history_later: "history s n es u v \<Longrightarrow> v \<le> v' \<Longrightarrow> history s n es u v'"
  by (induction s n es u v rule: history.induct) auto

lemma history_path: "history s n es u v \<Longrightarrow> status_path s (map e_status es) u"
  by (induction s n es u v rule: history.induct) (auto intro: status_path.intros)

lemma history_sequences:
  "history s n es u v \<Longrightarrow> sorted_wrt (<) (n # map e_sequence es) \<and> (\<forall>e \<in> set es. e_sequence e \<le> v) \<and> n \<le> v"
  by (induction s n es u v rule: history.induct) (auto intro: less_trans dest: less_le_trans)

lemma task_history_move:
  assumes "task_history (Some (u, v)) events" and "e_from_status e = Some u"
    and "e_status e \<in> ALLOWED_TRANSITIONS u" and "e_sequence e = v + 1"
  shows "task_history (Some (e_status e, v + 1)) (events @ [e])"
  using assms history_snoc [of TS_PENDING 0 "tl events" u v e] by (simp add: task_history_def)

lemma task_history_touch:
  "task_history (Some (u, v)) events \<Longrightarrow> v \<le> v' \<Longrightarrow> task_history (Some (u, v')) events"
  using history_later by (auto simp: task_history_def)

lemma lifecycle_inv_update:
  assumes "lifecycle_inv s" and "task_history x (task_events k (lc_events s @ es))"
    and "\<And>e. e \<in> set es \<Longrightarrow> e_task_id e = k"
  shows "lifecycle_inv \<lparr>lc_tasks = (lc_tasks s)(k := x), lc_events = lc_events s @ es\<rparr>"
proof -
  have "task_events k' es = []" if "k' \<noteq> k" for k'
    using assms(3) that by (auto simp: task_events_def filter_empty_conv)
  with assms(1,2) show ?thesis
    by (simp add: lifecycle_inv_def)
qed

lemma lifecycle_step_inv: "lifecycle_step s s' \<Longrightarrow> lifecycle_inv s \<Longrightarrow> lifecycle_inv s'"
proof (induction rule: lifecycle_step.induct)
  case (lc_submit s k e)
  then have "task_events k (lc_events s) = []"
    unfolding lifecycle_inv_def by (auto simp: task_history_def dest: spec [of _ k])
  with lc_submit show ?case
    by (intro lifecycle_inv_update) (simp_all add: task_history_def created_def)
next
  case (lc_move s k u v w e)
  then have "task_history (Some (u, v)) (task_events k (lc_events s))"
    unfolding lifecycle_inv_def by (auto dest: spec [of _ k])
  from task_history_move [OF this, of e] lc_move show ?case
    by (intro lifecycle_inv_update) simp_all
next
  case (lc_touch s k u v v')
  then have "task_history (Some (u, v)) (task_events k (lc_events s))"
    unfolding lifecycle_inv_def by (auto dest: spec [of _ k])
  from lifecycle_inv_update [of s "Some (u, v')" k "[]"] task_history_touch [OF this lc_touch(2)] lc_touch
  show ?case by (cases s) simp
qed

section \<open>The abstraction of the database\<close>

definition lifecycle_of :: "task_db \<Rightarrow> lifecycle" where
  "lifecycle_of db =
     \<lparr>lc_tasks = (\<lambda>k. map_option (\<lambda>t. (t_status t, t_version t)) (tget t_id k (tb_tasks db))),
      lc_events = tb_task_events db\<rparr>"

definition refines :: "task_db \<Rightarrow> task_db \<Rightarrow> bool" where
  "refines db db' \<longleftrightarrow> lifecycle_step\<^sup>*\<^sup>* (lifecycle_of db) (lifecycle_of db')
     \<and> (distinct (map t_id (tb_tasks db)) \<longrightarrow> distinct (map t_id (tb_tasks db')))"

lemma refines_refl [simp]: "refines db db"
  by (simp add: refines_def)

lemma refines_trans: "refines a b \<Longrightarrow> refines b c \<Longrightarrow> refines a c"
  by (auto simp: refines_def)

lemma lifecycle_cong:
  "tb_tasks db' = tb_tasks db \<Longrightarrow> tb_task_events db' = tb_task_events db \<Longrightarrow> lifecycle_of db' = lifecycle_of db"
  by (simp add: lifecycle_of_def)

lemma refines_cong:
  "tb_tasks db' = tb_tasks db \<Longrightarrow> tb_task_events db' = tb_task_events db \<Longrightarrow> refines db db'"
  using lifecycle_cong [of db' db] by (simp add: refines_def)

lemma lifecycle_put:
  assumes "tget t_id (t_id t') (tb_tasks db) = Some t" and "tb_tasks db' = tput t_id t' (tb_tasks db)"
  shows "lifecycle_of db' =
    \<lparr>lc_tasks = (lc_tasks (lifecycle_of db))(t_id t' \<mapsto> (t_status t', t_version t')),
     lc_events = tb_task_events db'\<rparr>"
  using assms(2) tget_key [OF assms(1)] by (auto simp: lifecycle_of_def tget_tput fun_eq_iff)

lemma refines_touch:
  assumes "tb_tasks db' = tput t_id t' (tb_tasks db)" and "tget t_id (t_id t') (tb_tasks db) = Some t"
    and "tb_task_events db' = tb_task_events db" and "t_status t' = t_status t" "t_version t \<le> t_version t'"
  shows "refines db db'"
proof -
  have "lc_tasks (lifecycle_of db) (t_id t') = Some (t_status t, t_version t)"
    using assms(2) by (simp add: lifecycle_of_def)
  from lc_touch [OF this assms(5)] have "lifecycle_step (lifecycle_of db) (lifecycle_of db')"
    by (subst lifecycle_put [OF assms(2,1)]) (simp add: assms(3,4) lifecycle_of_def)
  then show ?thesis by (simp add: refines_def assms(1) tput_keys r_into_rtranclp)
qed

lemma refines_move:
  assumes "tb_tasks db' = tput t_id t' (tb_tasks db)" and "tget t_id (t_id t') (tb_tasks db) = Some t"
    and "tb_task_events db' = tb_task_events db @ [transition_event t0 u ty now]"
    and "t_id t0 = t_id t'" "t_status t0 = t_status t" "t_version t0 = t_version t"
    and "u \<in> ALLOWED_TRANSITIONS (t_status t)" and "t_status t' = u" "t_version t' = t_version t + 1"
  shows "refines db db'"
proof -
  have "lc_tasks (lifecycle_of db) (t_id t') = Some (t_status t, t_version t)"
    using assms(2) by (simp add: lifecycle_of_def)
  from lc_move [OF this assms(7), of "transition_event t0 u ty now"] assms(4-6)
  have "lifecycle_step (lifecycle_of db) (lifecycle_of db')"
    by (subst lifecycle_put [OF assms(2,1)])
      (simp add: assms(3,8,9) lifecycle_of_def transition_event_def)
  then show ?thesis by (simp add: refines_def assms(1) tput_keys r_into_rtranclp)
qed

lemma refines_submit:
  assumes "tb_tasks db' = tb_tasks db @ [t]" and "t_id t \<notin> t_id ` set (tb_tasks db)"
    and "tb_task_events db' = tb_task_events db @ [created_event t now]"
    and "t_status t = TS_PENDING" "t_version t = 1"
  shows "refines db db'"
proof -
  have none: "tget t_id (t_id t) (tb_tasks db) = None"
    using assms(2) by (simp add: tget_None_iff)
  then have "lc_tasks (lifecycle_of db) (t_id t) = None"
    by (simp add: lifecycle_of_def)
  from lc_submit [OF this, of "created_event t now"]
  have "lifecycle_step (lifecycle_of db)
      \<lparr>lc_tasks = (lc_tasks (lifecycle_of db))(t_id t \<mapsto> (TS_PENDING, 1)),
       lc_events = lc_events (lifecycle_of db) @ [created_event t now]\<rparr>"
    by (simp add: created_event_def)
  also have "\<dots> = lifecycle_of db'"
    using assms none by (auto simp: lifecycle_of_def tget_append fun_eq_iff split: option.split)
  finally show ?thesis using assms by (auto simp: refines_def)
qed

text \<open>
  Inside a transaction the task row is a local object that is written back at the end:
  \<open>reaches db0 db t\<close> says that writing \<open>t\<close> back to \<open>db\<close> is a legal continuation of \<open>db0\<close>.
\<close>

definition reaches :: "task_db \<Rightarrow> task_db \<Rightarrow> task \<Rightarrow> bool" where
  "reaches db0 db t \<longleftrightarrow> (\<exists>old. tget t_id (t_id t) (tb_tasks db) = Some old) \<and> refines db0 (put_task t db)"

lemma reaches_fetched:
  "refines db0 db \<Longrightarrow> tget t_id (t_id t) (tb_tasks db) = Some t \<Longrightarrow> reaches db0 db t"
  unfolding reaches_def by (auto intro!: refines_trans [of db0 db] refines_touch)

lemmas reaches_row = reaches_fetched [OF refines_refl]

lemma reaches_get: "tget t_id k (tb_tasks db) = Some t \<Longrightarrow> reaches db db t"
  using tget_SomeD [of t_id k "tb_tasks db" t] by (auto intro: reaches_row)

lemma reaches_touch:
  assumes "reaches db0 db t" and "tb_tasks db' = tb_tasks db" "tb_task_events db' = tb_task_events db"
    and "t_id t' = t_id t" "t_status t' = t_status t" "t_version t \<le> t_version t'"
  shows "reaches db0 db' t'"
proof -
  from assms(1) obtain old where old: "tget t_id (t_id t) (tb_tasks db) = Some old"
    and r: "refines db0 (put_task t db)" by (auto simp: reaches_def)
  have "refines (put_task t db) (put_task t' db')"
    by (rule refines_touch [of _ t' _ t]) (use assms tget_key [OF old] in \<open>simp_all add: tget_tput\<close>)
  with r old assms show ?thesis unfolding reaches_def by (auto intro: refines_trans)
qed

lemma reaches_move:
  assumes "reaches db0 db t" and "u \<in> ALLOWED_TRANSITIONS (t_status t)"
    and "tb_task_events db' = tb_task_events db @ [transition_event t1 u ty now]"
    and "t_id t1 = t_id t" "t_status t1 = t_status t" "t_version t1 = t_version t"
    and "tb_tasks db' = tb_tasks db" 
    and "t_id t' = t_id t" "t_status t' = u" "t_version t' = t_version t + 1"
  shows "reaches db0 db' t'"
proof -
  from assms(1) obtain old where old: "tget t_id (t_id t) (tb_tasks db) = Some old"
    and r: "refines db0 (put_task t db)" by (auto simp: reaches_def)
  have "refines (put_task t db) (put_task t' db')"
    by (rule refines_move [of _ t' _ t t1 u ty now]) (use assms tget_key [OF old] in \<open>simp_all add: tget_tput\<close>)
  with r old assms show ?thesis unfolding reaches_def by (auto intro: refines_trans)
qed

lemma reaches_put:
  assumes "reaches db0 db t" and "tb_tasks db' = tput t_id t' (tb_tasks db)"
    and "tb_task_events db' = tb_task_events db" and "t_id t' = t_id t" "t_status t' = t_status t"
    "t_version t \<le> t_version t'"
  shows "refines db0 db'"
proof -
  have "reaches db0 db t'" by (rule reaches_touch) (use assms in simp_all)
  then have "refines db0 (put_task t' db)" by (simp add: reaches_def)
  moreover have "refines (put_task t' db) db'" by (rule refines_cong) (simp_all add: assms)
  ultimately show ?thesis by (rule refines_trans)
qed

lemma reaches_move_put:
  assumes "reaches db0 db t" and "tb_tasks db' = tput t_id t' (tb_tasks db)"
    and "u \<in> ALLOWED_TRANSITIONS (t_status t)"
    and "tb_task_events db' = tb_task_events db @ [transition_event t1 u ty now]"
    and "t_id t1 = t_id t" "t_status t1 = t_status t" "t_version t1 = t_version t"
    and "t_id t' = t_id t" "t_status t' = u" "t_version t' = t_version t + 1"
  shows "refines db0 db'"
proof -
  have "reaches db0 (db\<lparr>tb_task_events := tb_task_events db'\<rparr>) t'"
    by (rule reaches_move [OF assms(1,3), of _ t1 ty now]) (use assms in simp_all)
  then have "refines db0 (put_task t' (db\<lparr>tb_task_events := tb_task_events db'\<rparr>))"
    by (simp add: reaches_def)
  moreover have "refines (put_task t' (db\<lparr>tb_task_events := tb_task_events db'\<rparr>)) db'"
    by (rule refines_cong) (simp_all add: assms)
  ultimately show ?thesis by (rule refines_trans)
qed

section \<open>Every transaction refines the machine\<close>

lemma close_execution_reaches:
  assumes "reaches db0 db t"
  shows "returns (close_execution now wid eid oc code cpu gpu t db) (\<lambda>(db', t'). reaches db0 db' t')"
  unfolding close_execution_def
  by (intro returns_intros) (auto simp: transition_Inr dest!: task_facts intro!: reaches_move [OF assms])

lemma retry_or_end_refines:
  assumes "reaches db0 db t"
  shows "returns (retry_or_end now oc code backoff t db) (\<lambda>(db', _). refines db0 db')"
  unfolding retry_or_end_def
  by (intro returns_intros) 
  (auto simp: transition_Inr dest!: task_facts intro: reaches_move_put [OF assms] reaches_put [OF assms])


lemma finish_execution_refines:
  "returns (finish_execution now k wid eid reported code backoff cpu gpu sid db) (\<lambda>(db', _). refines db db')"
proof -
  have r: "returns (retry_or_end now oc code backoff t' db2) (\<lambda>(db', _). refines db db')"
    if "close_execution now wid eid oc code cpu gpu t db1 = Inr (db2, t')" "reaches db db1 t" for oc db1 db2 t t'
    using returnsD [OF close_execution_reaches [OF that(2)] that(1)] by (simp add: retry_or_end_refines)
  show ?thesis
    unfolding finish_execution_def
    by (intro returns_intros)
      (auto dest!: task_facts intro: refines_cong intro!: r elim!: reaches_touch [OF reaches_row])
qed
lemma append_log_refines:
  "returns (append_log now k eid stream content wid sid db) (\<lambda>(db', _). refines db db')"
  unfolding append_log_def
  by (intro returns_intros)
    (auto split: option.splits prod.splits dest!: owned_task_get task_facts intro: reaches_put [OF reaches_row])

lemma mark_progress_refines:
  "returns (mark_progress a b u now k wid eid lease sid grace db) (\<lambda>(db', _). refines db db')"
  unfolding mark_progress_def
  by (intro returns_intros)
    (auto simp: transition_Inr dest!: owned_task_get task_facts intro: reaches_put [OF reaches_row] reaches_move_put [OF reaches_row])

lemma renew_lease_refines:
  "returns (renew_lease now k wid eid lease sid grace db) (\<lambda>(db', _). refines db db')"
  unfolding renew_lease_def
  by (intro returns_intros) (auto intro: reaches_put [OF reaches_row])

lemma preserve_lease_refines:
  "returns (preserve_kubernetes_handoff_lease now k wid eid sid grace db) (\<lambda>(db', _). refines db db')"
  unfolding preserve_kubernetes_handoff_lease_def
  by (intro returns_intros) (auto dest!: owned_task_get task_facts intro: reaches_put [OF reaches_row])

lemma record_runtime_handle_refines:
  "returns (record_runtime_handle now k wid eid q sid grace db) (\<lambda>(db', _). refines db db')"
  unfolding record_runtime_handle_def
  by (intro returns_intros) (auto dest!: owned_task_get task_facts intro: reaches_put [OF reaches_row])

lemma advance_cursor_refines:
  "returns (advance_runtime_log_cursor k wid eid cursor name uid hash sid db) (\<lambda>(db', _). refines db db')"
  unfolding advance_runtime_log_cursor_def
  by (intro returns_intros) (auto split: option.splits dest!: owned_task_get task_facts intro: reaches_put [OF reaches_row] intro!: returns_intros)

lemma take_global_assignment_refines:
  assumes "distinct (map t_id (tb_tasks db))"
  shows "returns (take_global_assignment locked now wid sid lease db) (\<lambda>(db', _). refines db db')"
  using assms unfolding returns_def
  by (auto elim!: take_global_assignment_cases intro: reaches_move_put [OF reaches_row])

lemma cancel_refines: "returns (cancel now k db) (\<lambda>(db', _). refines db db')"
  unfolding cancel_def
  by (intro returns_intros)
    (auto simp: transition_Inr outbox_event_defs dest!: owned_task_get task_facts intro: reaches_put [OF reaches_row] reaches_move_put [OF reaches_row])

lemma claim_refines:
  "returns (claim locked now eid k wid lease sid cpu mem gpu db) (\<lambda>(db', _). refines db db')"
  unfolding claim_def
  apply (intro returns_intros)
  apply   (auto simp: transition_Inr outbox_event_defs dest!: owned_task_get task_facts intro: reaches_put [OF reaches_row] reaches_move_put [OF reaches_row])
  done

lemma refines_reflp: "reflp refines" and refines_transp: "transp refines"
  by (auto intro: reflpI transpI refines_trans)

lemma release_retry_row:
  assumes "tget t_id (t_id t) (tb_tasks db) = Some t"
  shows "returns (release_retry now t db) (\<lambda>db'. refines db db' \<and> writes (t_id t) db db')"
  unfolding release_retry_def
  by (intro returns_intros) 
   (auto simp: transition_Inr outbox_event_defs intro: reaches_move_put [OF reaches_row] writes_put assms)

lemma release_due_retries_refines:
  assumes "distinct (map t_id (tb_tasks db))"
  shows "returns (release_due_retries locked now limit db) (\<lambda>(db', _). refines db db')"
proof -
  have "returns (efold (release_retry now) (due_retries locked now limit db) db) (\<lambda>db'. refines db db')"
    by (rule scan_loop [where row = "\<lambda>t. t" and proj = "\<lambda>db. db", OF refines_reflp refines_transp])
      (use assms in \<open>auto simp: due_retries_def comp_def scan_distinct scan_rows(1) release_retry_row\<close>)
  then show ?thesis
    unfolding release_due_retries_def Let_def by (auto intro!: returns_intros dest: returnsD)
qed

lemma resolve_one_row:
  assumes "tget t_id (t_id t) (tb_tasks db) = Some t"
  shows "returns (resolve_one now (t, rows) (db, changed)) (\<lambda>s'. refines db (fst s') \<and> writes (t_id t) db (fst s'))"
  unfolding resolve_one_def prod.case
  by (intro returns_intros)
    (auto simp: transition_Inr outbox_event_defs dest!: owned_task_get task_facts
      intro: reaches_move_put [OF reaches_row] writes_put writes_none assms)

lemma resolve_dependency_readiness_refines:
  assumes "distinct (map t_id (tb_tasks db))"
  shows "returns (resolve_dependency_readiness locked now limit db) (\<lambda>(db', _). refines db db')"
proof -
  have "returns (efold (resolve_one now)
      (map (\<lambda>task. (task, dependency_statuses (t_id task) db)) (dependants locked limit db)) (db, []))
      (\<lambda>s'. refines (fst (db, [] :: uuid list)) (fst s'))"
    by (rule scan_loop [where row = fst and proj = fst, OF refines_reflp refines_transp])
      (use assms in \<open>auto simp: dependants_def comp_def scan_distinct scan_rows(1) resolve_one_row\<close>)
  then show ?thesis
    unfolding resolve_dependency_readiness_def by (rule returns_mono) auto
qed

lemma retry_after_row:
  assumes "reaches db0 db t"
  shows "returns (retry_after now grace t db) (\<lambda>db'. refines db0 db' \<and> writes (t_id t) db db')"
  unfolding retry_after_def
  by (intro returns_intros) (auto simp: transition_Inr intro: reaches_move_put [OF assms] writes_put)

lemma revoke_ownership_reaches:
  assumes "reaches db0 db t"
  shows "returns (revoke_ownership now t db) (\<lambda>(db', t'). reaches db0 db' t' \<and> tb_tasks db' = tb_tasks db \<and> t_id t' = t_id t)"
  unfolding revoke_ownership_def
  by (intro returns_intros) (auto dest!: owned_task_get task_facts intro: reaches_touch [OF assms])

lemma close_expired_reaches:
  assumes "tget t_id (t_id t) (tb_tasks db) = Some t"
  shows "returns (close_expired now t db) (\<lambda>(db', t'). reaches db db' t' \<and> tb_tasks db' = tb_tasks db
     \<and> t_id t' = t_id t \<and> t_status t' = recovered_status t)"
  unfolding close_expired_def
  by (intro returns_intros)
    (auto simp: transition_Inr dest!: returnsD [OF revoke_ownership_reaches [OF reaches_row [OF assms]]]
      intro: reaches_move)

lemma end_recovery_row:
  "reaches db0 db t \<Longrightarrow> refines db0 (fst (end_recovery now t b (db, recovered)))
     \<and> writes (t_id t) db (fst (end_recovery now t b (db, recovered)))"
  by (auto simp: end_recovery_def Let_def outbox_event_defs intro: reaches_put writes_put)

lemma recover_next_row:
  assumes "reaches db0 db t"
  shows "returns (recover_next now attempts grace t (db, recovered))
    (\<lambda>s'. refines db0 (fst s') \<and> writes (t_id t) db (fst s'))"
proof -
  have admitted: "reaches db0 db1 t1 \<and> tb_tasks db1 = tb_tasks db"
    if "admit_retry now pid db = Inr (db1, b)" "t_id t1 = t_id t" "t_status t1 = t_status t" "t_version t1 = t_version t"
    for pid db1 b t1
    using quota_only_tasks [OF admit_retry_frame [OF that(1)]] that by (auto intro: reaches_touch [OF assms])
  have retry: "refines db0 db2 \<and> writes (t_id t) db db2"
    if "retry_after now grace t1 db1 = Inr db2" "admit_retry now pid db = Inr (db1, b)"
      "t_id t1 = t_id t" "t_status t1 = t_status t" "t_version t1 = t_version t" for t1 db1 db2 pid b
    using returnsD [OF retry_after_row that(1)] admitted [OF that(2-5)] that(3) by (auto simp: writes_def)
  have stop: "refines db0 (fst (end_recovery now t c (db1, r))) \<and> writes (t_id t) db (fst (end_recovery now t c (db1, r)))"
    if "admit_retry now pid db = Inr (db1, b)" for pid db1 b c r
    using end_recovery_row [of db0 db1 t now c r] admitted [OF that, of t] by (auto simp: writes_def)
  show ?thesis
    unfolding recover_next_def prod.case
    by (intro returns_intros) (auto simp: end_recovery_row [OF assms] dest: retry stop)
qed

lemma recover_one_row:
  assumes "tget t_id (t_id t) (tb_tasks db) = Some t"
  shows "returns (recover_one now attempts grace t (db, recovered))
    (\<lambda>s'. refines db (fst s') \<and> writes (t_id t) db (fst s'))"
  unfolding recover_one_def prod.case
proof (intro returns_bind returns_pair)
  fix x db1 t1
  assume "close_expired now t db = Inr x" "x = (db1, t1)"
  then have "reaches db db1 t1" and "tb_tasks db1 = tb_tasks db" "t_id t1 = t_id t"
    using returnsD [OF close_expired_reaches [OF assms]] by auto
  with recover_next_row [OF this(1), of now attempts grace recovered]
  show "returns (recover_next now attempts grace t1 (db1, recovered))
      (\<lambda>s'. refines db (fst s') \<and> writes (t_id t) db (fst s'))"
    by (simp add: writes_def)
qed

lemma recover_expired_refines:
  assumes "distinct (map t_id (tb_tasks db))"
  shows "returns (recover_expired locked now limit attempts grace db) (\<lambda>(db', _). refines db db')"
  unfolding recover_expired_def Let_def
proof (rule returns_bind)
  fix db1 assume "lock_quotas now (map t_project_id (expired locked now limit db)) db = Inr db1"
  then have same: "tb_tasks db1 = tb_tasks db" "tb_task_events db1 = tb_task_events db"
    by (auto dest!: lock_quotas_frame [THEN quota_only_tasks])
  have "returns (efold (recover_one now attempts grace) (expired locked now limit db) (db1, []))
      (\<lambda>s'. refines (fst (db1, [] :: uuid list)) (fst s'))"
    by (rule scan_loop [where row = "\<lambda>t. t" and proj = fst, OF refines_reflp refines_transp])
      (use assms in \<open>auto simp: expired_def same scan_distinct scan_rows(1) recover_one_row\<close>)
  then show "returns (efold (recover_one now attempts grace) (expired locked now limit db) (db1, []))
      (\<lambda>(db', _). refines db db')"
    by (rule returns_mono) (auto intro: refines_trans [OF refines_cong [OF same]])
qed

lemma transfer_one_refines:
  "returns (transfer_one now wid sid lease grace ob s) (\<lambda>s'. refines (fst s) (fst s'))"
  unfolding transfer_one_def
  by (cases s) (auto intro!: returns_intros intro: reaches_put [OF reaches_get] split: option.splits)

lemma transfer_refines:
  "returns (transfer_recoverable_kubernetes_executions now wid sid lease obs grace db) (\<lambda>(db', _). refines db db')"
proof -
  have "returns (efold (transfer_one now wid sid lease grace) obs (db, [])) (\<lambda>s'. refines db (fst s'))"
    by (rule returns_efold) (auto intro: returns_mono [OF transfer_one_refines] refines_trans)
  then have "returns (efold (transfer_one now wid sid lease grace) obs (db, [])) (\<lambda>(db', _). refines db db')"
    by (rule returns_mono) auto
  then show ?thesis
    unfolding transfer_recoverable_kubernetes_executions_def by (intro returns_intros) auto
qed

lemma new_task_simps [simp]:
  "t_id (new_task spec k now) = k" "t_status (new_task spec k now) = TS_PENDING"
  "t_version (new_task spec k now) = 1" "t_project_id (new_task spec k now) = sp_project_id spec"
  by (simp_all add: new_task_def)

lemma create_queued_refines: "returns (create_queued now spec db) (\<lambda>(db', _). refines db db')"
proof -
  let ?t = "\<lambda>db1. new_task spec (fresh_id t_id (tb_tasks db1)) now"
  let ?new = "\<lambda>db1. db1\<lparr>tb_tasks := tb_tasks db1 @ [?t db1],
      tb_task_dependencies := tb_task_dependencies db1 @ dependency_rows spec (t_id (?t db1)),
      tb_task_events := tb_task_events db1 @ [created_event (?t db1) now]\<rparr>"
  have pending: "refines db (?new db1)"
    if "tb_tasks db1 = tb_tasks db \<and> tb_task_events db1 = tb_task_events db" for db1
    using that fresh_id_notin [of t_id "tb_tasks db"]
    by (intro refines_submit [where now = now and t = "?t db"]) auto
  have fresh: "reaches db (?new db1) (?t db1)"
    if "tb_tasks db1 = tb_tasks db \<and> tb_task_events db1 = tb_task_events db" for db1
    using that by (intro reaches_fetched pending) (auto simp: tget_append tget_fresh)
  show ?thesis
    unfolding create_queued_def
    apply (intro returns_intros)
    apply (auto simp: transition_Inr outbox_event_defs dest!: task_facts intro: reaches_move_put [OF fresh])[2]
    using pending apply (auto dest!: task_facts)
    done
qed

section \<open>Transactions\<close>

text \<open>
  One committed transaction of the task repository, with any arguments. The execution id
  of a claim is a fresh random UUID.
\<close>

inductive task_tx :: "task_db \<Rightarrow> task_db \<Rightarrow> bool" where
  tx_create: "create_queued now spec db = Inr (db', t) \<Longrightarrow> task_tx db db'"
| tx_claim: "claim locked now eid k wid lease sid cpu mem gpu db = Inr (db', r)
     \<Longrightarrow> eid \<notin> x_id ` set (tb_task_executions db) \<Longrightarrow> task_tx db db'"
| tx_take: "take_global_assignment locked now wid sid lease db = Inr (db', r) \<Longrightarrow> task_tx db db'"
| tx_pulling: "mark_pulling now k wid eid lease osid grace db = Inr (db', t) \<Longrightarrow> task_tx db db'"
| tx_starting: "mark_starting now k wid eid lease osid grace db = Inr (db', t) \<Longrightarrow> task_tx db db'"
| tx_running: "mark_running now k wid eid lease osid grace db = Inr (db', t) \<Longrightarrow> task_tx db db'"
| tx_renew: "renew_lease now k wid eid lease osid grace db = Inr (db', b) \<Longrightarrow> task_tx db db'"
| tx_preserve: "preserve_kubernetes_handoff_lease now k wid eid sid n db = Inr (db', t) \<Longrightarrow> task_tx db db'"
| tx_log: "append_log now k oeid stream content owid osid db = Inr (db', g) \<Longrightarrow> task_tx db db'"
| tx_handle: "record_runtime_handle now k wid eid q osid grace db = Inr (db', t) \<Longrightarrow> task_tx db db'"
| tx_cursor: "advance_runtime_log_cursor k wid eid cursor name uid hash sid db = Inr (db', t) \<Longrightarrow> task_tx db db'"
| tx_transfer: "transfer_recoverable_kubernetes_executions now wid sid lease obs grace db = Inr (db', rs)
     \<Longrightarrow> task_tx db db'"
| tx_finish: "finish_execution now k wid eid reported code backoff cpu gpu osid db = Inr (db', r) \<Longrightarrow> task_tx db db'"
| tx_cancel: "cancel now k db = Inr (db', ot) \<Longrightarrow> task_tx db db'"
| tx_resolve: "resolve_dependency_readiness locked now limit db = Inr (db', ks) \<Longrightarrow> task_tx db db'"
| tx_retries: "release_due_retries locked now limit db = Inr (db', ks) \<Longrightarrow> task_tx db db'"
| tx_recover: "recover_expired locked now limit attempts grace db = Inr (db', ks) \<Longrightarrow> task_tx db db'"

lemma task_tx_refines:
  assumes "task_tx db db'" and "distinct (map t_id (tb_tasks db))"
  shows "refines db db'"
  using assms
  by (induction rule: task_tx.induct)
    (auto simp: mark_pulling_def mark_starting_def mark_running_def
      dest: returnsD [OF create_queued_refines] returnsD [OF claim_refines]
        returnsD [OF take_global_assignment_refines] returnsD [OF mark_progress_refines]
        returnsD [OF renew_lease_refines] returnsD [OF preserve_lease_refines]
        returnsD [OF append_log_refines] returnsD [OF record_runtime_handle_refines]
        returnsD [OF advance_cursor_refines] returnsD [OF transfer_refines]
        returnsD [OF finish_execution_refines] returnsD [OF cancel_refines]
        returnsD [OF resolve_dependency_readiness_refines] returnsD [OF release_due_retries_refines]
        returnsD [OF recover_expired_refines])

lemma task_txs_refine:
  assumes "task_tx\<^sup>*\<^sup>* db db'" and "distinct (map t_id (tb_tasks db))"
  shows "refines db db'"
  using assms
proof (induction rule: rtranclp_induct)
  case base
  show ?case by simp
next
  case (step db1 db2)
  then have "distinct (map t_id (tb_tasks db1))" by (simp add: refines_def)
  with step show ?case by (blast intro: refines_trans task_tx_refines)
qed

lemma lifecycle_steps_inv: "lifecycle_step\<^sup>*\<^sup>* s s' \<Longrightarrow> lifecycle_inv s \<Longrightarrow> lifecycle_inv s'"
  by (induction rule: rtranclp_induct) (auto intro: lifecycle_step_inv)

lemma txs_history:
  assumes "task_tx\<^sup>*\<^sup>* db db'" and "distinct (map t_id (tb_tasks db))" and "lifecycle_inv (lifecycle_of db)"
    and "t \<in> set (tb_tasks db')"
  shows "task_history (Some (t_status t, t_version t)) (task_events (t_id t) (tb_task_events db'))"
proof -
  have r: "refines db db'" by (rule task_txs_refine [OF assms(1,2)])
  with assms(2) have "distinct (map t_id (tb_tasks db'))" by (simp add: refines_def)
  from tget_member [OF this assms(4)] have t: "lc_tasks (lifecycle_of db') (t_id t) = Some (t_status t, t_version t)"
    by (simp add: lifecycle_of_def)
  from r assms(3) have "lifecycle_inv (lifecycle_of db')"
    by (auto simp: refines_def intro: lifecycle_steps_inv)
  then have "task_history (lc_tasks (lifecycle_of db') (t_id t)) (task_events (t_id t) (lc_events (lifecycle_of db')))"
    by (simp add: lifecycle_inv_def)
  then show ?thesis by (simp add: t) (simp add: lifecycle_of_def)
qed

section \<open>Properties\<close>

text \<open>The example history is one of committed transactions.\<close>

lemma example_keys: "distinct (map t_id (tb_tasks example_project_db))"
  by (simp add: example_project_db_def)

lemma example_lifecycle: "lifecycle_inv (lifecycle_of example_project_db)"
  by (simp add: lifecycle_inv_def lifecycle_of_def example_project_db_def task_history_def task_events_def)

lemma example_txs: "task_tx\<^sup>*\<^sup>* example_project_db example_running"
proof -
  have "task_tx example_project_db example_queued"
    using example_transactions(1) by (auto intro: tx_create)
  moreover have "5 \<notin> x_id ` set (tb_task_executions example_queued)"
    by code_simp
  then have "task_tx example_queued example_claimed"
    using example_transactions(2) by (auto intro: tx_claim)
  moreover have "task_tx example_claimed example_pulling"
    using example_transactions(3) by (auto intro: tx_pulling)
  moreover have "task_tx example_pulling example_running"
    using example_transactions(4) by (auto intro: tx_running)
  ultimately show ?thesis by (meson converse_rtranclp_into_rtranclp rtranclp.rtrancl_refl)
qed

text \<open>
  C4. Every transaction of the task repository implements the life-cycle machine: what any
  sequence of committed transactions (submission, claim, progress marks, leases, logs,
  runtime handles, completion, cancellation, dependency resolution, retry release, lease
  recovery) does to the statuses, the versions and the event log is a sequence of legal
  submissions, moves and touches of that machine.
\<close>

theorem transactions_refine_lifecycle:
  assumes "task_tx\<^sup>*\<^sup>* db db'" and "distinct (map t_id (tb_tasks db))"
  shows "lifecycle_step\<^sup>*\<^sup>* (lifecycle_of db) (lifecycle_of db') \<and> distinct (map t_id (tb_tasks db'))"
  using task_txs_refine [OF assms] assms(2) by (simp add: refines_def)

theorem transactions_refine_lifecycle_witness:
  "lifecycle_step\<^sup>*\<^sup>* (lifecycle_of example_project_db) (lifecycle_of example_running)"
  using transactions_refine_lifecycle [OF example_txs example_keys] by simp

text \<open>
  C15. The event log explains every task: after any committed transactions the events of a
  task start with its creation, carry strictly increasing sequence numbers bounded by its
  version, and lead along legal transitions from PENDING to its present status.
\<close>

theorem event_log_explains_status:
  assumes "task_tx\<^sup>*\<^sup>* db db'" and "distinct (map t_id (tb_tasks db))"
    and "lifecycle_inv (lifecycle_of db)" and "t \<in> set (tb_tasks db')"
  shows "\<exists>e es. task_events (t_id t) (tb_task_events db') = e # es \<and> created e
     \<and> status_path TS_PENDING (map e_status es) (t_status t)
     \<and> sorted_wrt (<) (map e_sequence (e # es)) \<and> (\<forall>x \<in> set es. e_sequence x \<le> t_version t)"
proof -
  from txs_history [OF assms] obtain e es where
    "task_events (t_id t) (tb_task_events db') = e # es" "created e"
    "history TS_PENDING 0 es (t_status t) (t_version t)"
    by (cases "task_events (t_id t) (tb_task_events db')") (auto simp: task_history_def)
  with history_sequences [OF this(3)] show ?thesis
    by (auto simp: created_def intro: history_path)
qed

theorem event_log_explains_status_witness:
  "\<exists>t e es. t \<in> set (tb_tasks example_running) \<and> t_status t = TS_RUNNING
     \<and> task_events (t_id t) (tb_task_events example_running) = e # es
     \<and> status_path TS_PENDING (map e_status es) TS_RUNNING"
proof -
  have "list_ex (\<lambda>t. t_status t = TS_RUNNING) (tb_tasks example_running)" by code_simp
  then obtain t where "t \<in> set (tb_tasks example_running)" "t_status t = TS_RUNNING"
    by (auto simp: list_ex_iff)
  with event_log_explains_status [OF example_txs example_keys example_lifecycle this(1)] show ?thesis
    by metis
qed

text \<open>
  C16. A task is on a worker only after it was assigned: whenever a task is in a status that
  a worker owns, its log holds an event that moved it to ASSIGNED.
\<close>

theorem owned_task_was_assigned:
  assumes "task_tx\<^sup>*\<^sup>* db db'" and "distinct (map t_id (tb_tasks db))"
    and "lifecycle_inv (lifecycle_of db)" and "t \<in> set (tb_tasks db')" and "t_status t \<in> owned_statuses"
  shows "\<exists>e \<in> set (tb_task_events db'). e_task_id e = t_id t \<and> e_status e = TS_ASSIGNED"
proof -
  from txs_history [OF assms(1-4)] obtain e es where
    es: "task_events (t_id t) (tb_task_events db') = e # es"
    and "history TS_PENDING 0 es (t_status t) (t_version t)"
    by (cases "task_events (t_id t) (tb_task_events db')") (auto simp: task_history_def)
  then have "TS_ASSIGNED \<in> set (map e_status es)"
    using path_through_assigned [OF history_path _ assms(5)]
    by (auto simp: owned_statuses_def ACTIVE_TASK_STATUSES_def)
  then obtain e' where "e' \<in> set (task_events (t_id t) (tb_task_events db'))" "e_status e' = TS_ASSIGNED"
    using es by (metis in_set_conv_decomp image_iff list.set_intros(2) list.set_map)
  then show ?thesis by (auto simp: task_events_def)
qed

theorem owned_task_was_assigned_witness:
  "\<exists>t \<in> set (tb_tasks example_running). t_status t = TS_RUNNING
     \<and> (\<exists>e \<in> set (tb_task_events example_running). e_task_id e = t_id t \<and> e_status e = TS_ASSIGNED)"
proof -
  have "list_ex (\<lambda>t. t_status t = TS_RUNNING) (tb_tasks example_running)" by code_simp
  then obtain t where t: "t \<in> set (tb_tasks example_running)" "t_status t = TS_RUNNING"
    by (auto simp: list_ex_iff)
  then have "t_status t \<in> owned_statuses" by (simp add: owned_statuses_def ACTIVE_TASK_STATUSES_def)
  from owned_task_was_assigned [OF example_txs example_keys example_lifecycle t(1) this] t show ?thesis
    by blast
qed

end
