(* ===== verification/Task_Fencing.thy ===== *)
theory Task_Fencing
  imports Task_Lifecycle
begin

text \<open>
  Execution ids as fencing tokens. A claim mints a fresh execution id; every update of a
  worker names the id it was given, and is refused once the task no longer carries it. This
  theory shows that a stale execution cannot change the database and that an execution
  that has lost its task never gets it back.
\<close>

section \<open>Tokens\<close>

definition holds :: "task_db \<Rightarrow> uuid \<Rightarrow> uuid \<Rightarrow> bool" where
  "holds db k e \<longleftrightarrow>
    (case tget t_id k (tb_tasks db) of None \<Rightarrow> False | Some t \<Rightarrow> t_execution_id t = Some e)"

definition tokens :: "task_db \<Rightarrow> uuid set" where
  "tokens db = set (map x_id (tb_task_executions db))"

definition fenced :: "task_db \<Rightarrow> task_db \<Rightarrow> bool" where
  "fenced db db' \<longleftrightarrow> tokens db \<subseteq> tokens db'
     \<and> (\<forall>k e. holds db' k e \<longrightarrow> holds db k e \<or> e \<notin> tokens db)"

lemma fenced_refl [simp]: "fenced db db"
  by (simp add: fenced_def)

lemma fenced_trans: "fenced a b \<Longrightarrow> fenced b c \<Longrightarrow> fenced a c"
  unfolding fenced_def by blast

lemma fenced_transp: "reflp fenced" "transp fenced"
  by (auto intro: reflpI transpI fenced_trans)

lemma fenced_cong:
  "tb_tasks db' = tb_tasks db \<Longrightarrow> map x_id (tb_task_executions db') = map x_id (tb_task_executions db)
   \<Longrightarrow> fenced db db'"
  by (simp add: fenced_def holds_def tokens_def del: set_map)

text \<open>Writing back a task row with its own token or with none.\<close>

lemma fenced_row:
  assumes "tb_tasks db' = tput t_id t' (tb_tasks db)" and "tget t_id (t_id t') (tb_tasks db) = Some t"
    and "map x_id (tb_task_executions db') = map x_id (tb_task_executions db)"
    and "t_execution_id t' = None \<or> t_execution_id t' = t_execution_id t"
  shows "fenced db db'"
  using assms tget_key [OF assms(2)]
  by (auto simp: fenced_def holds_def tokens_def tget_tput simp del: set_map split: option.splits if_splits)

lemma fenced_claim:
  assumes "tb_tasks db' = tput t_id t' (tb_tasks db)" and "tget t_id (t_id t') (tb_tasks db) = Some t"
    and "map x_id (tb_task_executions db') = map x_id (tb_task_executions db) @ [eid]"
    and "t_execution_id t' = Some eid" and "eid \<notin> set (map x_id (tb_task_executions db))"
  shows "fenced db db'"
  using assms tget_key [OF assms(2)]
  by (auto simp: fenced_def holds_def tokens_def tget_tput simp del: set_map split: option.splits if_splits)

section \<open>Transactions\<close>

lemma fenced_fetched:
  assumes "tb_tasks db' = tput t_id t' (tb_tasks db)" and "tget t_id k (tb_tasks db) = Some t"
    and "t_id t' = t_id t" and "map x_id (tb_task_executions db') = map x_id (tb_task_executions db)"
    and "t_execution_id t' = None \<or> t_execution_id t' = t_execution_id t"
  shows "fenced db db'"
  by (rule fenced_row [of _ t' _ t]) (use assms tget_SomeD [OF assms(2)] in auto)

lemma append_log_fenced:
  "returns (append_log now k eid stream content wid sid db) (\<lambda>(db', _). fenced db db')"
  unfolding append_log_def
  by (intro returns_intros)
    (auto split: option.splits prod.splits dest!: owned_task_get intro: fenced_row)

lemma mark_progress_fenced:
  "returns (mark_progress a b u now k wid eid lease sid grace db) (\<lambda>(db', _). fenced db db')"
  unfolding mark_progress_def
  by (intro returns_intros) (auto simp: transition_Inr dest!: owned_task_get intro: fenced_row)

lemma renew_lease_fenced:
  "returns (renew_lease now k wid eid lease sid grace db) (\<lambda>(db', _). fenced db db')"
  unfolding renew_lease_def
  by (intro returns_intros) (auto intro: fenced_row)

lemma preserve_lease_fenced:
  "returns (preserve_kubernetes_handoff_lease now k wid eid sid grace db) (\<lambda>(db', _). fenced db db')"
  unfolding preserve_kubernetes_handoff_lease_def
  by (intro returns_intros) (auto dest!: owned_task_get intro: fenced_row)

lemma record_runtime_handle_fenced:
  "returns (record_runtime_handle now k wid eid q sid grace db) (\<lambda>(db', _). fenced db db')"
  unfolding record_runtime_handle_def
  by (intro returns_intros) (auto simp: tput_keys dest!: owned_task_get intro: fenced_row)

lemma advance_cursor_fenced:
  "returns (advance_runtime_log_cursor k wid eid cursor name uid hash sid db) (\<lambda>(db', _). fenced db db')"
  unfolding advance_runtime_log_cursor_def
  by (intro returns_intros)
    (auto split: option.splits dest!: owned_task_get intro: fenced_row intro!: returns_intros)

lemma cancel_fenced: "returns (cancel now k db) (\<lambda>(db', _). fenced db db')"
  unfolding cancel_def
  by (intro returns_intros)
    (auto simp: transition_Inr outbox_event_defs dest!: task_facts intro: fenced_row)

lemma claim_fenced:
  assumes "eid \<notin> x_id ` set (tb_task_executions db)"
  shows "returns (claim locked now eid k wid lease sid cpu mem gpu db) (\<lambda>(db', _). fenced db db')"
proof -
  have "eid \<notin> set (map x_id (tb_task_executions db))" using assms by simp
  note fresh = fenced_claim [OF _ _ _ _ this]
  show ?thesis
    unfolding claim_def
    by (intro returns_intros)
      (auto simp: transition_Inr new_execution_def dest!: task_facts intro: fresh)
qed

lemma close_execution_keeps:
  "returns (close_execution now wid eid oc code cpu gpu t db) (\<lambda>(db', t'). tb_tasks db' = tb_tasks db
     \<and> map x_id (tb_task_executions db') = map x_id (tb_task_executions db)
     \<and> t_id t' = t_id t \<and> t_execution_id t' = t_execution_id t)"
  unfolding close_execution_def
  by (intro returns_intros) (auto simp: transition_Inr dest!: task_facts)

lemma retry_or_end_fenced:
  assumes "tget t_id (t_id t) (tb_tasks db) = Some old" "t_execution_id t = t_execution_id old"
  shows "returns (retry_or_end now oc code backoff t db) (\<lambda>(db', _). fenced db db')"
  unfolding retry_or_end_def
  by (intro returns_intros)
    (auto simp: transition_Inr dest!: task_facts intro: fenced_row [OF _ _ _ disjI1] fenced_row [OF _ _ _ disjI2]
      simp: assms)

lemma finish_execution_fenced:
  "returns (finish_execution now k wid eid reported code backoff cpu gpu sid db) (\<lambda>(db', _). fenced db db')"
proof -
  have r: "returns (retry_or_end now oc code backoff t' db2) (\<lambda>(db', _). fenced db db')"
    if "close_execution now wid eid oc code cpu gpu t db1 = Inr (db2, t')"
      and "tget t_id (t_id t) (tb_tasks db) = Some t" "tb_tasks db1 = tb_tasks db"
        "tb_task_executions db1 = tb_task_executions db" for oc db1 db2 t t'
  proof -
    have c: "tb_tasks db2 = tb_tasks db \<and> map x_id (tb_task_executions db2) = map x_id (tb_task_executions db)
        \<and> t_id t' = t_id t \<and> t_execution_id t' = t_execution_id t"
      using returnsD [OF close_execution_keeps that(1)] that by simp
    then have "fenced db db2" by (auto intro: fenced_cong)
    moreover have "returns (retry_or_end now oc code backoff t' db2) (\<lambda>(db', _). fenced db2 db')"
      by (rule retry_or_end_fenced [of _ _ t]) (use c that in simp_all)
    ultimately show ?thesis by (auto elim!: returns_mono intro: fenced_trans)
  qed
  show ?thesis
    unfolding finish_execution_def
    by (intro returns_intros) (auto dest!: task_facts intro: fenced_cong intro!: r)
qed

lemma take_global_assignment_fenced:
  assumes "distinct (map t_id (tb_tasks db))"
  shows "returns (take_global_assignment locked now wid sid lease db) (\<lambda>(db', _). fenced db db')"
  using assms unfolding returns_def
  by (auto elim!: take_global_assignment_cases intro: fenced_row)

text \<open>The scans.\<close>

lemma release_retry_fenced:
  assumes "tget t_id (t_id t) (tb_tasks db) = Some t"
  shows "returns (release_retry now t db) (\<lambda>db'. fenced db db' \<and> writes (t_id t) db db')"
  using assms unfolding release_retry_def
  by (intro returns_intros)
    (auto simp: transition_Inr outbox_event_defs intro: fenced_row writes_put)

lemma release_due_retries_fenced:
  assumes "distinct (map t_id (tb_tasks db))"
  shows "returns (release_due_retries locked now limit db) (\<lambda>(db', _). fenced db db')"
proof -
  have "returns (efold (release_retry now) (due_retries locked now limit db) db) (\<lambda>db'. fenced db db')"
    by (rule scan_loop [where row = "\<lambda>t. t" and proj = "\<lambda>db. db", OF fenced_transp])
      (use assms in \<open>auto simp: due_retries_def scan_distinct scan_rows(1) release_retry_fenced\<close>)
  then show ?thesis
    unfolding release_due_retries_def Let_def by (auto intro!: returns_intros dest: returnsD)
qed

lemma resolve_one_fenced:
  assumes "tget t_id (t_id t) (tb_tasks db) = Some t"
  shows "returns (resolve_one now (t, rows) (db, changed)) (\<lambda>s'. fenced db (fst s') \<and> writes (t_id t) db (fst s'))"
  using assms unfolding resolve_one_def prod.case
  by (intro returns_intros)
    (auto simp: transition_Inr outbox_event_defs dest!: task_facts intro: fenced_row writes_put writes_none)

lemma resolve_dependency_readiness_fenced:
  assumes "distinct (map t_id (tb_tasks db))"
  shows "returns (resolve_dependency_readiness locked now limit db) (\<lambda>(db', _). fenced db db')"
proof -
  have "returns (efold (resolve_one now)
      (map (\<lambda>task. (task, dependency_statuses (t_id task) db)) (dependants locked limit db)) (db, []))
      (\<lambda>s'. fenced (fst (db, [] :: uuid list)) (fst s'))"
    by (rule scan_loop [where row = fst and proj = fst, OF fenced_transp])
      (use assms in \<open>auto simp: dependants_def comp_def scan_distinct scan_rows(1) resolve_one_fenced\<close>)
  then show ?thesis
    unfolding resolve_dependency_readiness_def by (rule returns_mono) auto
qed

lemma revoke_ownership_keeps:
  "returns (revoke_ownership now t db) (\<lambda>(db', t'). tb_tasks db' = tb_tasks db
     \<and> map x_id (tb_task_executions db') = map x_id (tb_task_executions db)
     \<and> t_id t' = t_id t \<and> t_execution_id t' = None)"
  unfolding revoke_ownership_def
  by (intro returns_intros) (auto dest!: task_facts)

lemma close_expired_keeps:
  "returns (close_expired now t db) (\<lambda>(db', t'). tb_tasks db' = tb_tasks db
     \<and> map x_id (tb_task_executions db') = map x_id (tb_task_executions db)
     \<and> t_id t' = t_id t \<and> t_execution_id t' = None)"
  unfolding close_expired_def
  by (intro returns_intros) (auto simp: transition_Inr dest!: returnsD [OF revoke_ownership_keeps])

lemma recover_next_fenced:
  assumes "tget t_id (t_id t) (tb_tasks db) = Some old" "t_execution_id t = None"
  shows "returns (recover_next now attempts grace t (db, recovered))
    (\<lambda>s'. fenced db (fst s') \<and> writes (t_id t) db (fst s'))"
  using assms unfolding recover_next_def prod.case retry_after_def end_recovery_def
  by (intro returns_intros)
    (auto simp: transition_Inr outbox_event_defs Let_def dest!: task_facts
      intro: fenced_row [OF _ _ _ disjI1] writes_put)

lemma recover_one_fenced:
  assumes "tget t_id (t_id t) (tb_tasks db) = Some t"
  shows "returns (recover_one now attempts grace t (db, recovered))
    (\<lambda>s'. fenced db (fst s') \<and> writes (t_id t) db (fst s'))"
  unfolding recover_one_def prod.case
proof (intro returns_bind returns_pair)
  fix x db1 t1
  assume "close_expired now t db = Inr x" "x = (db1, t1)"
  then have c: "tb_tasks db1 = tb_tasks db \<and> map x_id (tb_task_executions db1) = map x_id (tb_task_executions db)
      \<and> t_id t1 = t_id t \<and> t_execution_id t1 = None"
    using returnsD [OF close_expired_keeps] by fastforce
  then have "fenced db db1" by (auto intro: fenced_cong)
  moreover have "returns (recover_next now attempts grace t1 (db1, recovered))
      (\<lambda>s'. fenced db1 (fst s') \<and> writes (t_id t1) db1 (fst s'))"
    by (rule recover_next_fenced) (use c assms in simp_all)
  ultimately show "returns (recover_next now attempts grace t1 (db1, recovered))
      (\<lambda>s'. fenced db (fst s') \<and> writes (t_id t) db (fst s'))"
    using c by (auto elim!: returns_mono intro: fenced_trans simp: writes_def)
qed

lemma recover_expired_fenced:
  assumes "distinct (map t_id (tb_tasks db))"
  shows "returns (recover_expired locked now limit attempts grace db) (\<lambda>(db', _). fenced db db')"
  unfolding recover_expired_def Let_def
proof (rule returns_bind)
  fix db1 assume "lock_quotas now (map t_project_id (expired locked now limit db)) db = Inr db1"
  then have same: "tb_tasks db1 = tb_tasks db" "tb_task_executions db1 = tb_task_executions db"
    by (auto dest!: lock_quotas_frame [THEN quota_only_tasks])
  then have "fenced db db1" by (auto intro: fenced_cong)
  have "returns (efold (recover_one now attempts grace) (expired locked now limit db) (db1, []))
      (\<lambda>s'. fenced (fst (db1, [] :: uuid list)) (fst s'))"
    by (rule scan_loop [where row = "\<lambda>t. t" and proj = fst, OF fenced_transp])
      (use assms in \<open>auto simp: expired_def same scan_distinct scan_rows(1) recover_one_fenced\<close>)
  then show "returns (efold (recover_one now attempts grace) (expired locked now limit db) (db1, []))
      (\<lambda>(db', _). fenced db db')"
    by (rule returns_mono) (auto intro: fenced_trans [OF \<open>fenced db db1\<close>])
qed

lemma transfer_one_fenced:
  "returns (transfer_one now wid sid lease grace ob s) (\<lambda>s'. fenced (fst s) (fst s'))"
  unfolding transfer_one_def
  by (cases s) (auto intro!: returns_intros intro: fenced_fetched simp: tput_keys split: option.splits)

lemma transfer_fenced:
  "returns (transfer_recoverable_kubernetes_executions now wid sid lease obs grace db) (\<lambda>(db', _). fenced db db')"
proof -
  have "returns (efold (transfer_one now wid sid lease grace) obs (db, [])) (\<lambda>s'. fenced db (fst s'))"
    by (rule returns_efold) (auto intro: returns_mono [OF transfer_one_fenced] fenced_trans)
  then have "returns (efold (transfer_one now wid sid lease grace) obs (db, [])) (\<lambda>(db', _). fenced db db')"
    by (rule returns_mono) auto
  then show ?thesis
    unfolding transfer_recoverable_kubernetes_executions_def by (intro returns_intros) auto
qed

lemma create_queued_fenced: "returns (create_queued now spec db) (\<lambda>(db', _). fenced db db')"
  unfolding create_queued_def
  apply (intro returns_intros)
  apply (auto simp: transition_Inr outbox_event_defs fenced_def holds_def tokens_def tget_tput tget_append tget_fresh dest!: task_facts split: if_splits option.splits simp: new_task_def)
  done

lemma task_tx_fenced:
  assumes "task_tx db db'" and "distinct (map t_id (tb_tasks db))"
  shows "fenced db db'"
  using assms
  by (induction rule: task_tx.induct)
    (auto simp: mark_pulling_def mark_starting_def mark_running_def
      dest: returnsD [OF create_queued_fenced] returnsD [OF claim_fenced]
        returnsD [OF take_global_assignment_fenced] returnsD [OF mark_progress_fenced]
        returnsD [OF renew_lease_fenced] returnsD [OF preserve_lease_fenced]
        returnsD [OF append_log_fenced] returnsD [OF record_runtime_handle_fenced]
        returnsD [OF advance_cursor_fenced] returnsD [OF transfer_fenced]
        returnsD [OF finish_execution_fenced] returnsD [OF cancel_fenced]
        returnsD [OF resolve_dependency_readiness_fenced] returnsD [OF release_due_retries_fenced]
        returnsD [OF recover_expired_fenced])

lemma task_txs_fenced:
  assumes "task_tx\<^sup>*\<^sup>* db db'" and "distinct (map t_id (tb_tasks db))"
  shows "fenced db db'"
  using assms
proof (induction rule: rtranclp_induct)
  case base
  show ?case by simp
next
  case (step db1 db2)
  then have "distinct (map t_id (tb_tasks db1))" by (auto dest: task_txs_refine simp: refines_def)
  with step show ?case by (blast intro: fenced_trans task_tx_fenced)
qed

section \<open>Properties\<close>

lemma example_reclaim_txs: "task_tx\<^sup>*\<^sup>* example_recovered example_reclaimed"
proof -
  have "task_tx example_recovered example_requeued"
    using example_transactions(7) by (auto intro: tx_retries)
  moreover have "6 \<notin> x_id ` set (tb_task_executions example_requeued)"
    by code_simp
  then have "task_tx example_requeued example_reclaimed"
    using example_transactions(8) by (auto intro: tx_claim)
  ultimately show ?thesis by (meson converse_rtranclp_into_rtranclp rtranclp.rtrancl_refl)
qed

lemma example_recovered_facts:
  "distinct (map t_id (tb_tasks example_recovered))" "5 \<in> tokens example_recovered"
  "\<not> holds example_recovered 1 5"
  by code_simp+

text \<open>
  C14. A revoked execution never returns: once a task no longer carries an execution id that
  was minted for some execution, it never carries it again, whatever transactions follow;
  later claims always run under another id.
\<close>

theorem lost_execution_never_returns:
  assumes "task_tx\<^sup>*\<^sup>* db db'" and "distinct (map t_id (tb_tasks db))"
    and "eid \<in> tokens db" and "\<not> holds db k eid"
  shows "\<not> holds db' k eid"
  using task_txs_fenced [OF assms(1,2)] assms(3,4) by (auto simp: fenced_def)

theorem lost_execution_never_returns_witness:
  "task_tx\<^sup>*\<^sup>* example_recovered example_reclaimed \<and> holds example_reclaimed 1 6
   \<and> \<not> holds example_reclaimed 1 5"
proof -
  have "holds example_reclaimed 1 6" by code_simp
  with lost_execution_never_returns [OF example_reclaim_txs example_recovered_facts] example_reclaim_txs
  show ?thesis by simp
qed



end
