(* ===== verification/Task_Graph.thy ===== *)
theory Task_Graph
  imports Task_Fencing
begin

text \<open>
  The task transactions and the dependency table: a submission adds the edges of the new task,
  every other transaction leaves the edges and the set of tasks as they are.
\<close>

definition same_graph :: "task_db \<Rightarrow> task_db \<Rightarrow> bool" where
  "same_graph db db' \<longleftrightarrow> tb_task_dependencies db' = tb_task_dependencies db
     \<and> map t_id (tb_tasks db') = map t_id (tb_tasks db)"

lemma same_graph_refl [simp]: "same_graph db db"
  by (simp add: same_graph_def)

lemma same_graph_trans: "same_graph a b \<Longrightarrow> same_graph b c \<Longrightarrow> same_graph a c"
  by (simp add: same_graph_def)

lemma dependencies_frame [simp]:
  "tb_task_dependencies (put_worker w db) = tb_task_dependencies db"
  "tb_task_dependencies (put_task t db) = tb_task_dependencies db"
  "tb_task_dependencies (put_execution x db) = tb_task_dependencies db"
  "tb_task_dependencies (put_reservation r db) = tb_task_dependencies db"
  "tb_task_dependencies (add_event now aid ty p a db) = tb_task_dependencies db"
  "tb_task_dependencies (complete_preemption_plans now tid db) = tb_task_dependencies db"
  "tb_task_dependencies (set_execution_error eid t db) = tb_task_dependencies db"
  "tb_task_dependencies (release_unreserved wid t db) = tb_task_dependencies db"
  by (simp_all add: put_worker_def put_task_def put_execution_def put_reservation_def add_event_def Let_def
      complete_preemption_plans_def set_execution_error_def release_unreserved_def split: option.split)

lemma quota_only_graph:
  fixes db db' :: task_db
  shows "quota_only db db' \<Longrightarrow> tb_task_dependencies db' = tb_task_dependencies db \<and> tb_tasks db' = tb_tasks db"
  by (simp add: quota_only_tables)

lemma release_and_settle_graph:
  "release_and_settle now t eid status reason db = Inr (db', t', released) \<Longrightarrow>
     tb_task_dependencies db' = tb_task_dependencies db \<and> tb_tasks db' = tb_tasks db"
proof -
  have "returns (release_and_settle now t eid status reason db)
      (\<lambda>(db', _). tb_task_dependencies db' = tb_task_dependencies db \<and> tb_tasks db' = tb_tasks db)"
    unfolding release_and_settle_def
    by (intro returns_intros) (auto dest!: quota_frames [THEN quota_only_graph])
  then show "release_and_settle now t eid status reason db = Inr (db', t', released) \<Longrightarrow>
     tb_task_dependencies db' = tb_task_dependencies db \<and> tb_tasks db' = tb_tasks db"
    by (auto simp: returns_def)
qed

lemmas graph_facts = quota_frames [THEN quota_only_graph] release_and_settle_graph
lemmas graph_simps = same_graph_def tput_keys transition_Inr outbox_event_defs Let_def

lemma claim_graph:
  "returns (claim locked now eid k wid lease sid cpu mem gpu db) (\<lambda>(db', _). same_graph db db')"
  unfolding claim_def by (intro returns_intros) (auto simp: graph_simps dest!: graph_facts)

lemma take_global_assignment_graph:
  "returns (take_global_assignment locked now wid sid lease db) (\<lambda>(db', _). same_graph db db')"
  unfolding take_global_assignment_def
  by (auto simp: graph_simps split: list.split intro!: returns_intros)

lemma mark_progress_graph:
  "returns (mark_progress a b u now k wid eid lease sid grace db) (\<lambda>(db', _). same_graph db db')"
  unfolding mark_progress_def by (intro returns_intros) (auto simp: graph_simps)

lemma renew_lease_graph:
  "returns (renew_lease now k wid eid lease sid grace db) (\<lambda>(db', _). same_graph db db')"
  unfolding renew_lease_def by (intro returns_intros) (auto simp: graph_simps)

lemma preserve_lease_graph:
  "returns (preserve_kubernetes_handoff_lease now k wid eid sid grace db) (\<lambda>(db', _). same_graph db db')"
  unfolding preserve_kubernetes_handoff_lease_def by (intro returns_intros) (auto simp: graph_simps)

lemma append_log_graph:
  "returns (append_log now k eid stream content wid sid db) (\<lambda>(db', _). same_graph db db')"
  unfolding append_log_def
  by (intro returns_intros) (auto simp: graph_simps split: option.splits prod.splits)

lemma record_runtime_handle_graph:
  "returns (record_runtime_handle now k wid eid q sid grace db) (\<lambda>(db', _). same_graph db db')"
  unfolding record_runtime_handle_def by (intro returns_intros) (auto simp: graph_simps)

lemma advance_cursor_graph:
  "returns (advance_runtime_log_cursor k wid eid cursor name uid hash sid db) (\<lambda>(db', _). same_graph db db')"
  unfolding advance_runtime_log_cursor_def
  by (intro returns_intros) (auto simp: graph_simps split: option.splits intro!: returns_intros)

lemma transfer_graph:
  "returns (transfer_recoverable_kubernetes_executions now wid sid lease obs grace db) (\<lambda>(db', _). same_graph db db')"
proof -
  have one: "returns (transfer_one now wid sid lease grace ob s) (\<lambda>s'. same_graph (fst s) (fst s'))" for ob s
    unfolding transfer_one_def
    by (cases s) (auto intro!: returns_intros simp: graph_simps split: option.splits)
  have "returns (efold (transfer_one now wid sid lease grace) obs (db, [])) (\<lambda>s'. same_graph db (fst s'))"
    by (rule returns_efold) (auto intro: returns_mono [OF one] same_graph_trans)
  then have "returns (efold (transfer_one now wid sid lease grace) obs (db, [])) (\<lambda>(db', _). same_graph db db')"
    by (rule returns_mono) auto
  then show ?thesis
    unfolding transfer_recoverable_kubernetes_executions_def by (intro returns_intros) auto
qed

lemma close_execution_graph:
  "returns (close_execution now wid eid oc code cpu gpu t db) (\<lambda>(db', _). same_graph db db')"
  unfolding close_execution_def by (intro returns_intros) (auto simp: graph_simps dest!: graph_facts)

lemma retry_or_end_graph:
  "returns (retry_or_end now oc code backoff t db) (\<lambda>(db', _). same_graph db db')"
  unfolding retry_or_end_def by (intro returns_intros) (auto simp: graph_simps dest!: graph_facts)

lemma finish_execution_graph:
  "returns (finish_execution now k wid eid reported code backoff cpu gpu sid db) (\<lambda>(db', _). same_graph db db')"
  unfolding finish_execution_def
  by (intro returns_intros)
    (auto simp: same_graph_def dest!: graph_facts returnsD [OF close_execution_graph]
      intro!: returns_mono [OF retry_or_end_graph])

lemma cancel_graph: "returns (cancel now k db) (\<lambda>(db', _). same_graph db db')"
  unfolding cancel_def by (intro returns_intros) (auto simp: graph_simps dest!: graph_facts)

lemma resolve_dependency_readiness_graph:
  "returns (resolve_dependency_readiness locked now limit db) (\<lambda>(db', _). same_graph db db')"
proof -
  have one: "returns (resolve_one now x s) (\<lambda>s'. same_graph (fst s) (fst s'))" for x s
    unfolding resolve_one_def
    by (cases x; cases s; simp only: prod.case; intro returns_intros) (auto simp: graph_simps dest!: graph_facts)
  have "returns (efold (resolve_one now) xs (db, [])) (\<lambda>s'. same_graph db (fst s'))" for xs
    by (rule returns_efold) (auto intro: returns_mono [OF one] same_graph_trans)
  then show ?thesis
    unfolding resolve_dependency_readiness_def by (rule returns_mono) auto
qed

lemma release_due_retries_graph:
  "returns (release_due_retries locked now limit db) (\<lambda>(db', _). same_graph db db')"
proof -
  have one: "returns (release_retry now t db) (\<lambda>db'. same_graph db db')" for t db
    unfolding release_retry_def by (intro returns_intros) (auto simp: graph_simps)
  have "returns (efold (release_retry now) xs db) (\<lambda>db'. same_graph db db')" for xs
    by (rule returns_efold) (auto intro: returns_mono [OF one] same_graph_trans)
  then show ?thesis
    unfolding release_due_retries_def Let_def by (auto intro!: returns_intros dest: returnsD)
qed

lemma close_expired_graph: "returns (close_expired now t db) (\<lambda>(db', _). same_graph db db')"
proof -
  have "returns (revoke_ownership now t db) (\<lambda>(db', _). same_graph db db')" for t db
    unfolding revoke_ownership_def by (intro returns_intros) (auto simp: graph_simps dest!: graph_facts)
  note revoke = returnsD [OF this]
  show ?thesis
    unfolding close_expired_def by (intro returns_intros) (auto simp: graph_simps dest!: revoke)
qed

lemma recover_next_graph:
  "returns (recover_next now attempts grace t s) (\<lambda>s'. same_graph (fst s) (fst s'))"
  unfolding recover_next_def retry_after_def end_recovery_def
  by (cases s; simp only: prod.case; intro returns_intros) (auto simp: graph_simps dest!: graph_facts)

lemma recover_expired_graph:
  "returns (recover_expired locked now limit attempts grace db) (\<lambda>(db', _). same_graph db db')"
proof -
  have one: "returns (recover_one now attempts grace t s) (\<lambda>s'. same_graph (fst s) (fst s'))" for t s
    unfolding recover_one_def
    by (cases s; simp only: prod.case; intro returns_bind returns_pair)
      (auto dest!: returnsD [OF close_expired_graph] intro!: returns_mono [OF recover_next_graph] intro: same_graph_trans)
  have "returns (efold (recover_one now attempts grace) xs (db, [])) (\<lambda>s'. same_graph db (fst s'))" for xs db
    by (rule returns_efold) (auto intro: returns_mono [OF one] same_graph_trans)
  note loop = this
  show ?thesis
    unfolding recover_expired_def Let_def
    by (intro returns_bind)
      (auto dest!: graph_facts simp: same_graph_def intro!: returns_mono [OF loop])
qed

lemma create_queued_graph:
  "returns (create_queued now spec db) (\<lambda>(db', _).
     tb_task_dependencies db' = tb_task_dependencies db @ dependency_rows spec (fresh_id t_id (tb_tasks db))
     \<and> map t_id (tb_tasks db') = map t_id (tb_tasks db) @ [fresh_id t_id (tb_tasks db)])"
  unfolding create_queued_def
  by (intro returns_intros) (auto simp: graph_simps new_task_def dest!: graph_facts)

lemma create_queued_dependencies:
  assumes "create_queued now spec db = Inr (db', t)" and "distinct (map t_id (tb_tasks db))"
  shows "set (sp_depends_on spec) \<subseteq> t_id ` set (tb_tasks db)"
proof -
  let ?found = "filter (\<lambda>t. t_project_id t = sp_project_id spec \<and> t_id t \<in> set (sp_depends_on spec)) (tb_tasks db)"
  have "returns (create_queued now spec db)
      (\<lambda>_. distinct (sp_depends_on spec) \<and> length ?found = length (sp_depends_on spec))"
    unfolding create_queued_def by (intro returns_intros) simp_all
  from returnsD [OF this assms(1)]
  have d: "distinct (sp_depends_on spec)" and l: "length ?found = length (sp_depends_on spec)"
    by simp_all
  show ?thesis using query_finds_all [OF assms(2) d l] by auto
qed

lemma task_tx_graph:
  assumes "task_tx db db'" and "distinct (map t_id (tb_tasks db))"
  shows "same_graph db db' \<or> (\<exists>spec. set (sp_depends_on spec) \<subseteq> t_id ` set (tb_tasks db)
     \<and> tb_task_dependencies db' = tb_task_dependencies db @ dependency_rows spec (fresh_id t_id (tb_tasks db))
     \<and> map t_id (tb_tasks db') = map t_id (tb_tasks db) @ [fresh_id t_id (tb_tasks db)])"
  using assms
proof (induction rule: task_tx.induct)
  case (tx_create now spec db db' t)
  with returnsD [OF create_queued_graph tx_create(1)] create_queued_dependencies [OF tx_create]
  show ?case by auto
qed (auto simp: mark_pulling_def mark_starting_def mark_running_def
      dest: returnsD [OF claim_graph]
        returnsD [OF take_global_assignment_graph] returnsD [OF mark_progress_graph]
        returnsD [OF renew_lease_graph] returnsD [OF preserve_lease_graph]
        returnsD [OF append_log_graph] returnsD [OF record_runtime_handle_graph]
        returnsD [OF advance_cursor_graph] returnsD [OF transfer_graph]
        returnsD [OF finish_execution_graph] returnsD [OF cancel_graph]
        returnsD [OF resolve_dependency_readiness_graph] returnsD [OF release_due_retries_graph]
        returnsD [OF recover_expired_graph])

end
