(* ===== verification/Job_Groups.thy ===== *)
theory Job_Groups
  imports Dag Task_Graph
begin

text \<open>
  The operations of \<open>DAGRepository\<close> in \<open>repositories/dag.py\<close> on the group, task and
  dependency tables, and what they guarantee together with the task transactions: the
  dependency graph never gets a cycle, and the state shown for a task in its group is the state
  the scheduler acts on.
\<close>

section \<open>Names, projects, retry policies\<close>

text \<open>\<open>_GROUP_NAME.fullmatch\<close>\<close>

definition group_name_ok :: "string \<Rightarrow> bool" where
  "group_name_ok name =
    (case name of
       [] \<Rightarrow> False
     | c # cs \<Rightarrow> ascii_alnum c \<and> length cs \<le> 254
         \<and> (\<forall>c \<in> set cs. ascii_alnum c \<or> c \<in> set ''_. -''))"

definition validate_retry_policy :: "string option \<Rightarrow> dag_error + string" where
  "validate_retry_policy encoded =
    (case encoded of
       None \<Rightarrow> Inl DAGValueError
     | Some bytes \<Rightarrow> if length bytes > 16384 then Inl DAGValueError else Inr bytes)"

definition lock_active_project :: "uuid \<Rightarrow> task_db \<Rightarrow> dag_error + project" where
  "lock_active_project project_id db =
    (case tget p_id project_id (tb_projects db) of
       None \<Rightarrow> Inl DAGNotFoundError
     | Some project \<Rightarrow> if p_status project \<noteq> PS_ACTIVE then Inl DAGNotFoundError else Inr project)"

section \<open>Adding edges\<close>

definition task_ids :: "task_dependency list \<Rightarrow> uuid list" where
  "task_ids edges = remdups (concat (map (\<lambda>e. [dep_task_id e, dep_depends_on_task_id e]) edges))"

definition group_edges :: "uuid \<Rightarrow> task_db \<Rightarrow> task_dependency list" where
  "group_edges group_id db = filter (\<lambda>e. dep_job_group_id e = Some group_id) (tb_task_dependencies db)"

definition project_tasks :: "uuid \<Rightarrow> uuid list \<Rightarrow> task_db \<Rightarrow> task list" where
  "project_tasks project_id ids db = filter (\<lambda>t. t_project_id t = project_id \<and> t_id t \<in> set ids) (tb_tasks db)"

definition requested_task_ids :: "dependency_spec list \<Rightarrow> uuid list" where
  "requested_task_ids dependencies =
     remdups (concat (map (\<lambda>d. [ds_task_id d, ds_depends_on_task_id d]) dependencies))"

definition membership_edges :: "uuid list \<Rightarrow> task_db \<Rightarrow> task_dependency list" where
  "membership_edges ids db =
     filter (\<lambda>e. dep_task_id e \<in> set ids \<or> dep_depends_on_task_id e \<in> set ids) (tb_task_dependencies db)"

definition RUNNABLE_STATUSES :: "task_status set" where
  "RUNNABLE_STATUSES = {TS_PENDING, TS_QUEUED, TS_RETRYING}"

text \<open>The variables of the loop: \<open>edge_map\<close> by its rows, \<open>combined\<close>, \<open>created\<close> and the rows added.\<close>

type_synonym edge_loop = "task_dependency list \<times> edge list \<times> task_dependency list \<times> task_dependency list"

fun add_one_dependency ::
  "task list \<Rightarrow> uuid \<Rightarrow> dependency_spec \<Rightarrow> edge_loop \<Rightarrow> dag_error + edge_loop" where
  "add_one_dependency tasks group_id d (edge_map, combined, rows, added) =
    (let key = (ds_task_id d, ds_depends_on_task_id d) in
     case tget edge_of key edge_map of
       Some existing \<Rightarrow>
         ebind (guard (dep_failure_policy existing = failure_policy_value (ds_failure_policy d)) DAGConflictError) (\<lambda>_.
         Inr (edge_map, combined, rows @ [existing], added))
     | None \<Rightarrow>
         let candidate = List.insert key combined in
         ebind (guard (\<not> contains_cycle candidate) DAGCycleError) (\<lambda>_.
         ebind (guard (case tget t_id (ds_task_id d) tasks of
                         None \<Rightarrow> False | Some t \<Rightarrow> t_status t \<in> RUNNABLE_STATUSES) DAGConflictError) (\<lambda>_.
         let row = \<lparr>dep_task_id = ds_task_id d, dep_depends_on_task_id = ds_depends_on_task_id d,
                    dep_job_group_id = Some group_id,
                    dep_failure_policy = failure_policy_value (ds_failure_policy d)\<rparr> in
         Inr (edge_map @ [row], candidate, rows @ [row], added @ [row]))))"

definition add_dependencies_locked ::
  "job_group \<Rightarrow> dependency_spec list \<Rightarrow> task_db \<Rightarrow> dag_error + task_db \<times> task_dependency list" where
  "add_dependencies_locked grp dependencies db =
    ebind (guard (length dependencies \<le> 1000) DAGValueError) (\<lambda>_.
    ebind (guard (\<forall>d \<in> set dependencies. ds_task_id d \<noteq> ds_depends_on_task_id d) DAGCycleError) (\<lambda>_.
    let requested = requested_task_ids dependencies;
        tasks = project_tasks (jg_project_id grp) requested db in
    ebind (guard (length tasks = length requested) DAGNotFoundError) (\<lambda>_.
    ebind (guard (\<forall>e \<in> set (membership_edges requested db). dep_job_group_id e = Some (jg_id grp))
             DAGConflictError) (\<lambda>_.
    let existing = group_edges (jg_id grp) db in
    ebind (efold (add_one_dependency tasks (jg_id grp)) dependencies
             (existing, remdups (map edge_of existing), [], [])) (\<lambda>(edge_map, combined, rows, added).
    Inr (db\<lparr>tb_task_dependencies := tb_task_dependencies db @ added\<rparr>, rows))))))"

section \<open>Groups\<close>

definition get_group :: "uuid \<Rightarrow> uuid \<Rightarrow> dag_db \<Rightarrow> job_group option" where
  "get_group project_id group_id db =
    (case tget jg_id group_id (tb_job_groups db) of
       None \<Rightarrow> None
     | Some g \<Rightarrow> if jg_project_id g = project_id then Some g else None)"

definition require_group :: "uuid \<Rightarrow> uuid \<Rightarrow> dag_db \<Rightarrow> dag_error + job_group" where
  "require_group project_id group_id db =
    (case get_group project_id group_id db of None \<Rightarrow> Inl DAGNotFoundError | Some g \<Rightarrow> Inr g)"

definition create_group ::
  "datetime \<Rightarrow> uuid \<Rightarrow> string \<Rightarrow> string option \<Rightarrow> dependency_spec list \<Rightarrow> dag_db \<Rightarrow> dag_error + dag_db \<times> job_group" where
  "create_group now project_id name retry_policy dependencies db =
    ebind (lock_active_project project_id (dag_tables db)) (\<lambda>_.
    let normalized_name = strip name in
    ebind (guard (group_name_ok normalized_name) DAGValueError) (\<lambda>_.
    ebind (validate_retry_policy retry_policy) (\<lambda>policy.
    let grp = \<lparr>jg_id = fresh_id jg_id (tb_job_groups db), jg_project_id = project_id, jg_name = normalized_name,
                 jg_status = JG_PENDING, jg_retry_policy = policy, jg_created_at = now\<rparr>;
        db = db\<lparr>tb_job_groups := tb_job_groups db @ [grp]\<rparr> in
    if dependencies = [] then Inr (db, grp)
    else ebind (add_dependencies_locked grp dependencies (dag_tables db)) (\<lambda>(tables, _).
         Inr (db\<lparr>dag_tables := tables\<rparr>, grp)))))"

definition add_dependency ::
  "uuid \<Rightarrow> uuid \<Rightarrow> dependency_spec \<Rightarrow> dag_db \<Rightarrow> dag_error + dag_db \<times> task_dependency" where
  "add_dependency project_id group_id dependency db =
    ebind (lock_active_project project_id (dag_tables db)) (\<lambda>_.
    ebind (require_group project_id group_id db) (\<lambda>grp.
    ebind (add_dependencies_locked grp [dependency] (dag_tables db)) (\<lambda>(tables, rows).
    Inr (db\<lparr>dag_tables := tables\<rparr>, hd rows))))"

definition list_groups :: "uuid \<Rightarrow> nat \<Rightarrow> nat \<Rightarrow> dag_db \<Rightarrow> job_group list" where
  "list_groups project_id limit skip db =
     take limit (drop skip (sort_key (\<lambda>g. (- jg_created_at g, - int (jg_id g)))
       (filter (\<lambda>g. jg_project_id g = project_id) (tb_job_groups db))))"

section \<open>Resolution\<close>

definition task_statuses :: "uuid \<Rightarrow> uuid list \<Rightarrow> task_db \<Rightarrow> dag_error + (uuid \<times> task_status) list" where
  "task_statuses project_id ids db =
    (let tasks = project_tasks project_id ids db in
     ebind (guard (length tasks = length ids) DAGInvariantViolation) (\<lambda>_.
     Inr (map (\<lambda>t. (t_id t, t_status t)) tasks)))"

text \<open>
  The loop over the edges of a task: the lists \<open>waiting\<close>, \<open>failed\<close> and
  \<open>failed_policies\<close>. The canonical text of a UUID orders UUIDs like their numbers.
\<close>

fun resolve_edge ::
  "(uuid \<times> task_status) list \<Rightarrow> task_dependency \<Rightarrow> uuid list \<times> uuid list \<times> dependency_failure_policy list
   \<Rightarrow> dag_error + uuid list \<times> uuid list \<times> dependency_failure_policy list" where
  "resolve_edge statuses e (waiting, failed, policies) =
    (case map_of statuses (dep_depends_on_task_id e) of
       None \<Rightarrow> Inl DAGInvariantViolation
     | Some status \<Rightarrow>
         if status = TS_SUCCEEDED then Inr (waiting, failed, policies)
         else if status \<in> FINAL_TASK_STATUSES
         then (case parse_failure_policy (dep_failure_policy e) of
                 None \<Rightarrow> Inl DAGInvariantViolation
               | Some policy \<Rightarrow> Inr (waiting, failed @ [dep_depends_on_task_id e], policies @ [policy]))
         else Inr (waiting @ [dep_depends_on_task_id e], failed, policies))"

definition resolution_state :: "uuid list \<Rightarrow> dependency_failure_policy list \<Rightarrow> dependency_state" where
  "resolution_state waiting policies =
    (if FP_CANCEL \<in> set policies then DS_CANCELLED
     else if policies \<noteq> [] then DS_BLOCKED
     else if waiting \<noteq> [] then DS_WAITING
     else DS_READY)"

definition resolve_task ::
  "uuid \<Rightarrow> (uuid \<times> task_status) list \<Rightarrow> task_dependency list \<Rightarrow> dag_error + dependency_resolution" where
  "resolve_task task_id statuses edges =
    (let incoming = filter (\<lambda>e. dep_task_id e = task_id) edges in
     ebind (efold (resolve_edge statuses) incoming ([], [], [])) (\<lambda>(waiting, failed, policies).
     case map_of statuses task_id of
       None \<Rightarrow> Inl DAGInvariantViolation
     | Some task_status \<Rightarrow>
         Inr \<lparr>dr_task_id = task_id, dr_task_status = task_status, dr_state = resolution_state waiting policies,
              dr_dependency_ids = sort (map dep_depends_on_task_id incoming),
              dr_waiting_on_task_ids = sort waiting, dr_failed_dependency_ids = sort failed\<rparr>))"

definition list_dependencies :: "uuid \<Rightarrow> uuid \<Rightarrow> dag_db \<Rightarrow> dag_error + task_dependency list" where
  "list_dependencies project_id group_id db =
    ebind (require_group project_id group_id db) (\<lambda>_.
    let edges = sort_key edge_of (group_edges group_id (dag_tables db)) in
    ebind (task_statuses project_id (task_ids edges) (dag_tables db)) (\<lambda>_.
    Inr edges))"

definition dependency_state_of :: "uuid \<Rightarrow> uuid \<Rightarrow> uuid \<Rightarrow> dag_db \<Rightarrow> dag_error + dependency_resolution" where
  "dependency_state_of project_id group_id task_id db =
    ebind (require_group project_id group_id db) (\<lambda>_.
    let tables = dag_tables db in
    ebind (guard (project_tasks project_id [task_id] tables \<noteq> []) DAGNotFoundError) (\<lambda>_.
    let edges = group_edges group_id tables in
    ebind (guard (task_id \<in> set (task_ids edges)) DAGNotFoundError) (\<lambda>_.
    ebind (task_statuses project_id (task_ids edges) tables) (\<lambda>statuses.
    resolve_task task_id statuses edges))))"

definition ready_tasks :: "uuid \<Rightarrow> uuid \<Rightarrow> dag_db \<Rightarrow> dag_error + dependency_resolution list" where
  "ready_tasks project_id group_id db =
    ebind (require_group project_id group_id db) (\<lambda>_.
    let edges = group_edges group_id (dag_tables db) in
    ebind (task_statuses project_id (task_ids edges) (dag_tables db)) (\<lambda>statuses.
    ebind (emap (\<lambda>k. resolve_task k statuses edges) (task_ids edges)) (\<lambda>resolutions.
    Inr (sort_key dr_task_id
      (filter (\<lambda>r. dr_state r = DS_READY \<and> dr_task_status r \<in> RUNNABLE_STATUSES) resolutions)))))"

section \<open>Summaries\<close>

definition group_status :: "task list \<Rightarrow> dependency_resolution list \<Rightarrow> job_group_status" where
  "group_status tasks resolutions =
    (if tasks = [] then JG_PENDING
     else if \<forall>t \<in> set tasks. t_status t = TS_SUCCEEDED then JG_SUCCEEDED
     else if (\<exists>t \<in> set tasks. t_status t \<in> FINAL_TASK_STATUSES \<and> t_status t \<noteq> TS_SUCCEEDED)
             \<or> (\<exists>r \<in> set resolutions. dr_state r \<in> {DS_BLOCKED, DS_CANCELLED}) then JG_FAILED
     else if \<exists>t \<in> set tasks. t_status t \<in> ACTIVE_TASK_STATUSES then JG_RUNNING
     else JG_PENDING)"

definition count_state :: "dependency_resolution list \<Rightarrow> dependency_state \<Rightarrow> nat" where
  "count_state resolutions state = length (filter (\<lambda>r. dr_state r = state) resolutions)"

definition finished_times :: "task list \<Rightarrow> datetime list" where
  "finished_times tasks = List.map_filter t_finished_at tasks"

definition summarize_loaded_group ::
  "job_group \<Rightarrow> task list \<Rightarrow> task_dependency list \<Rightarrow> dag_error + job_group_summary" where
  "summarize_loaded_group grp tasks edges =
    (let ids = task_ids edges in
     ebind (guard (length tasks = length ids \<and> t_id ` set tasks = set ids) DAGInvariantViolation) (\<lambda>_.
     let statuses = map (\<lambda>t. (t_id t, t_status t)) tasks in
     ebind (emap (\<lambda>k. resolve_task k statuses edges) ids) (\<lambda>resolutions.
     let status = group_status tasks resolutions; times = finished_times tasks in
     Inr \<lparr>js_group = grp, js_status = status, js_task_count = length ids,
          js_ready_tasks = length (filter (\<lambda>r. dr_state r = DS_READY \<and> dr_task_status r \<in> RUNNABLE_STATUSES) resolutions),
          js_waiting_tasks = count_state resolutions DS_WAITING,
          js_blocked_tasks = count_state resolutions DS_BLOCKED,
          js_cancelled_tasks = count_state resolutions DS_CANCELLED,
          js_succeeded_tasks = length (filter (\<lambda>t. t_status t = TS_SUCCEEDED) tasks),
          js_failed_tasks = length (filter (\<lambda>t. t_status t \<in> FINAL_TASK_STATUSES \<and> t_status t \<noteq> TS_SUCCEEDED) tasks),
          js_finished_at = (if times \<noteq> [] \<and> status \<in> {JG_SUCCEEDED, JG_FAILED}
                            then Some (Max (set times)) else None)\<rparr>)))"

definition summarize_group :: "uuid \<Rightarrow> uuid \<Rightarrow> dag_db \<Rightarrow> dag_error + job_group_summary" where
  "summarize_group project_id group_id db =
    ebind (require_group project_id group_id db) (\<lambda>grp.
    let edges = group_edges group_id (dag_tables db);
        tasks = project_tasks project_id (task_ids edges) (dag_tables db) in
    ebind (guard (length tasks = length (task_ids edges)) DAGInvariantViolation) (\<lambda>_.
    summarize_loaded_group grp tasks edges))"

text \<open>
  The batch: one query for the edges of all groups, one for their tasks. Every edge of the
  query has one of the groups, so the check of \<open>edges_by_group\<close> never raises.
\<close>

definition batch_edges :: "job_group list \<Rightarrow> task_db \<Rightarrow> task_dependency list" where
  "batch_edges groups db =
     filter (\<lambda>e. dep_job_group_id e \<in> Some ` jg_id ` set groups) (tb_task_dependencies db)"

definition summarize_groups :: "uuid \<Rightarrow> job_group list \<Rightarrow> task_db \<Rightarrow> dag_error + job_group_summary list" where
  "summarize_groups project_id groups db =
    (if groups = [] then Inr []
     else
       ebind (guard (\<forall>g \<in> set groups. jg_project_id g = project_id) DAGInvariantViolation) (\<lambda>_.
       let edges = batch_edges groups db; ids = task_ids edges; tasks = project_tasks project_id ids db in
       ebind (guard (length (remdups (map t_id tasks)) = length ids) DAGInvariantViolation) (\<lambda>_.
       emap (\<lambda>g.
         let edges_g = filter (\<lambda>e. dep_job_group_id e = Some (jg_id g)) edges in
         summarize_loaded_group g (map (\<lambda>k. the (tget t_id k tasks)) (task_ids edges_g)) edges_g) groups)))"

section \<open>The graph stays acyclic\<close>

definition edges :: "task_db \<Rightarrow> edge set" where
  "edges db = edge_of ` set (tb_task_dependencies db)"

text \<open>
  The invariant of the dependency table: the graph is acyclic, its nodes are tasks, a task
  submitted with prerequisites is in no job group, and no task is in two groups.
\<close>

definition graph_inv :: "task_db \<Rightarrow> bool" where
  "graph_inv db \<longleftrightarrow> acyclic (edges db) \<and> nodes (edges db) \<subseteq> t_id ` set (tb_tasks db)
     \<and> (\<forall>e \<in> set (tb_task_dependencies db). \<forall>e' \<in> set (tb_task_dependencies db).
          dep_job_group_id e' \<noteq> None \<longrightarrow> dep_task_id e \<in> {dep_task_id e', dep_depends_on_task_id e'}
          \<longrightarrow> dep_job_group_id e = dep_job_group_id e')"

lemmas graph_inv_acyclic = graph_inv_def [THEN iffD1, THEN conjunct1]
lemmas graph_inv_nodes = graph_inv_def [THEN iffD1, THEN conjunct2, THEN conjunct1]

lemma acyclic_Un:
  assumes "acyclic R" and "acyclic S" and "S O R = {}"
  shows "acyclic (R \<union> S)"
proof -
  have no: False if "(x, y) \<in> S\<^sup>+" "(y, z) \<in> R" for x y z
    using tranclD2 [OF that(1)] that(2) assms(3) by blast
  have "(R \<union> S)\<^sup>+ \<subseteq> R\<^sup>+ \<union> S\<^sup>+ \<union> R\<^sup>+ O S\<^sup>+"
  proof
    fix p assume "p \<in> (R \<union> S)\<^sup>+"
    moreover obtain x y where p: "p = (x, y)" by (cases p)
    ultimately have "(x, y) \<in> (R \<union> S)\<^sup>+" by simp
    then have "(x, y) \<in> R\<^sup>+ \<union> S\<^sup>+ \<union> R\<^sup>+ O S\<^sup>+"
    proof (induction rule: trancl_induct)
      case (base y)
      then show ?case by auto
    next
      case (step y z)
      then show ?case
      proof (elim UnE)
        assume "(x, y) \<in> R\<^sup>+" "(y, z) \<in> S" then show ?thesis by blast
      next
        assume "(x, y) \<in> S\<^sup>+" "(y, z) \<in> R"
        then have False by (rule no)
        then show ?thesis ..
      next
        assume "(x, y) \<in> R\<^sup>+ O S\<^sup>+" "(y, z) \<in> R"
        then have False by (blast intro: no)
        then show ?thesis ..
      next
        assume "(x, y) \<in> R\<^sup>+ O S\<^sup>+" "(y, z) \<in> S"
        then show ?thesis by (blast intro: trancl_into_trancl)
      qed (blast intro: trancl_into_trancl)+
    qed
    with p show "p \<in> R\<^sup>+ \<union> S\<^sup>+ \<union> R\<^sup>+ O S\<^sup>+" by simp
  qed
  moreover have "(x, x) \<notin> R\<^sup>+ O S\<^sup>+" for x
  proof
    assume "(x, x) \<in> R\<^sup>+ O S\<^sup>+"
    then obtain y where "(x, y) \<in> R\<^sup>+" "(y, x) \<in> S\<^sup>+" by blast
    then show False using tranclD [of x y R] no [of y x] by blast
  qed
  ultimately show ?thesis using assms(1,2) unfolding acyclic_def by blast
qed

lemma graph_inv_same:
  assumes "same_graph db db'" and "graph_inv db"
  shows "graph_inv db'"
proof -
  have ids: "t_id ` set (tb_tasks db') = t_id ` set (tb_tasks db)"
    and deps: "tb_task_dependencies db' = tb_task_dependencies db"
    using assms(1) unfolding same_graph_def by (metis list.set_map, blast)
  show ?thesis using assms(2) unfolding graph_inv_def edges_def ids deps .
qed

lemma graph_inv_create:
  assumes "graph_inv db" and sub: "set (sp_depends_on spec) \<subseteq> t_id ` set (tb_tasks db)"
    and d: "tb_task_dependencies db' = tb_task_dependencies db @ dependency_rows spec (fresh_id t_id (tb_tasks db))"
    and t: "map t_id (tb_tasks db') = map t_id (tb_tasks db) @ [fresh_id t_id (tb_tasks db)]"
  shows "graph_inv db'"
proof -
  let ?k = "fresh_id t_id (tb_tasks db)"
  let ?N = "{?k} \<times> set (sp_depends_on spec)"
  have k: "?k \<notin> t_id ` set (tb_tasks db)" by (rule fresh_id_notin)
  have ids: "t_id ` set (tb_tasks db') = insert ?k (t_id ` set (tb_tasks db))"
    using arg_cong [OF t, of set] by simp
  have e: "edges db' = ?N \<union> edges db"
    by (auto simp: edges_def d dependency_rows_def edge_of_def image_Un image_image)
  have nodes: "nodes (edges db) \<subseteq> t_id ` set (tb_tasks db)" and ac: "acyclic (edges db)"
    using graph_inv_acyclic [OF assms(1)] graph_inv_nodes [OF assms(1)] by simp_all
  have "acyclic ?N"
    by (rule acyclicI_order [where f = "\<lambda>n. if n = ?k then (1 :: nat) else 0"]) (use k sub in auto)
  moreover have "edges db O ?N = {}" using nodes k by force
  ultimately have "acyclic (edges db')" unfolding e using ac by (intro acyclic_Un)
  moreover have "nodes (edges db') \<subseteq> t_id ` set (tb_tasks db')"
    using nodes sub unfolding e ids by force
  moreover have "dep_job_group_id a = dep_job_group_id b"
    if a: "a \<in> set (tb_task_dependencies db')" and b: "b \<in> set (tb_task_dependencies db')"
      and g: "dep_job_group_id b \<noteq> None" "dep_task_id a \<in> {dep_task_id b, dep_depends_on_task_id b}" for a b
  proof -
    have b': "b \<in> set (tb_task_dependencies db)" using b g(1) by (auto simp: d dependency_rows_def)
    then have "{dep_task_id b, dep_depends_on_task_id b} \<subseteq> nodes (edges db)"
      by (force simp: edges_def edge_of_def)
    then have "dep_task_id a \<in> t_id ` set (tb_tasks db)" using nodes g(2) by (meson subsetD)
    with k have "dep_task_id a \<noteq> ?k" by metis
    then have "a \<in> set (tb_task_dependencies db)" using a by (auto simp: d dependency_rows_def)
    with b' g assms(1) show ?thesis unfolding graph_inv_def by blast
  qed
  ultimately show ?thesis unfolding graph_inv_def by blast
qed

text \<open>The loop that adds edges to a group.\<close>

definition edge_loop_inv :: "task_dependency list \<Rightarrow> uuid \<Rightarrow> uuid set \<Rightarrow> edge_loop \<Rightarrow> bool" where
  "edge_loop_inv existing gid requested = (\<lambda>(edge_map, combined, rows, added).
     edge_map = existing @ added \<and> distinct combined \<and> set combined = edge_of ` set edge_map
     \<and> acyclic (set combined)
     \<and> (\<forall>e \<in> set added. dep_job_group_id e = Some gid
          \<and> dep_task_id e \<in> requested \<and> dep_depends_on_task_id e \<in> requested))"

lemma add_one_dependency_inv:
  assumes "edge_loop_inv existing gid requested s"
    and "ds_task_id d \<in> requested" "ds_depends_on_task_id d \<in> requested"
  shows "returns (add_one_dependency tasks gid d s) (edge_loop_inv existing gid requested)"
proof -
  obtain edge_map combined rows added where s: "s = (edge_map, combined, rows, added)" by (cases s)
  have "distinct combined" using assms(1) by (simp add: s edge_loop_inv_def)
  then have cyc: "contains_cycle (List.insert k combined) \<longleftrightarrow> \<not> acyclic (insert k (set combined))" for k
    using contains_cycle_iff [of "List.insert k combined"] by simp
  show ?thesis
    unfolding s add_one_dependency.simps
    by (intro returns_intros)
      (use assms in \<open>auto simp: s edge_loop_inv_def cyc edge_of_def\<close>)
qed

lemma requested_subset: "d \<in> set ds \<Longrightarrow> ds_task_id d \<in> set (requested_task_ids ds) \<and> ds_depends_on_task_id d \<in> set (requested_task_ids ds)"
  by (auto simp: requested_task_ids_def)

lemma project_tasks_all:
  assumes "length (project_tasks pid ids db) = length ids" and "distinct ids" and "distinct (map t_id (tb_tasks db))"
  shows "set ids = t_id ` set (project_tasks pid ids db)"
  using query_finds_all [OF assms(3,2), of "\<lambda>t. t_project_id t = pid \<and> t_id t \<in> set ids"] assms(1)
  by (simp add: project_tasks_def)

lemma add_dependencies_locked_Inr:
  assumes "add_dependencies_locked grp ds db = Inr (db', rows)"
    and "acyclic (edges db)" and "distinct (map t_id (tb_tasks db))"
  obtains added requested where "db' = db\<lparr>tb_task_dependencies := tb_task_dependencies db @ added\<rparr>"
    and "acyclic (edge_of ` set (group_edges (jg_id grp) db @ added))"
    and "requested \<subseteq> t_id ` set (tb_tasks db)"
    and "\<And>e. e \<in> set added \<Longrightarrow> dep_job_group_id e = Some (jg_id grp)
          \<and> dep_task_id e \<in> requested \<and> dep_depends_on_task_id e \<in> requested"
    and "\<And>e. e \<in> set (tb_task_dependencies db) \<Longrightarrow> dep_task_id e \<in> requested \<or> dep_depends_on_task_id e \<in> requested
          \<Longrightarrow> dep_job_group_id e = Some (jg_id grp)"
proof -
  let ?req = "requested_task_ids ds" and ?ex = "group_edges (jg_id grp) db"
  let ?tasks = "project_tasks (jg_project_id grp) ?req db"
  from assms(1) obtain edge_map combined added where
    len: "length ?tasks = length ?req"
    and mem: "\<forall>e \<in> set (membership_edges ?req db). dep_job_group_id e = Some (jg_id grp)"
    and loop: "efold (add_one_dependency ?tasks (jg_id grp)) ds (?ex, remdups (map edge_of ?ex), [], [])
        = Inr (edge_map, combined, rows, added)"
    and db': "db' = db\<lparr>tb_task_dependencies := tb_task_dependencies db @ added\<rparr>"
    unfolding add_dependencies_locked_def Let_def by (auto simp: ebind_eq_Inr)
  have "acyclic (edge_of ` set ?ex)"
    by (rule acyclic_subset [OF assms(2)]) (auto simp: edges_def group_edges_def)
  then have "edge_loop_inv ?ex (jg_id grp) (set ?req) (?ex, remdups (map edge_of ?ex), [], [])"
    by (simp add: edge_loop_inv_def)
  with loop have inv: "edge_loop_inv ?ex (jg_id grp) (set ?req) (edge_map, combined, rows, added)"
    by (rule efold_invariant) (auto intro: returnsD [OF add_one_dependency_inv] dest: requested_subset)
  have sub: "set ?req \<subseteq> t_id ` set (tb_tasks db)"
    using project_tasks_all [OF len _ assms(3)] by (auto simp: requested_task_ids_def project_tasks_def)
  show thesis
  proof (rule that [OF db' _ sub])
    show "acyclic (edge_of ` set (?ex @ added))" using inv by (auto simp: edge_loop_inv_def)
    show "dep_job_group_id e = Some (jg_id grp) \<and> dep_task_id e \<in> set ?req \<and> dep_depends_on_task_id e \<in> set ?req"
      if "e \<in> set added" for e using inv that by (simp add: edge_loop_inv_def)
    show "dep_job_group_id e = Some (jg_id grp)"
      if "e \<in> set (tb_task_dependencies db)" "dep_task_id e \<in> set ?req \<or> dep_depends_on_task_id e \<in> set ?req" for e
      using mem that by (simp add: membership_edges_def)
  qed
qed

text \<open>
  A cycle through a new edge would stay inside the group: the tasks of a group have no
  prerequisites outside it.
\<close>

lemma add_dependencies_graph_inv:
  assumes "add_dependencies_locked grp ds db = Inr (db', rows)"
    and inv: "graph_inv db" and "distinct (map t_id (tb_tasks db))"
  shows "graph_inv db' \<and> tb_tasks db' = tb_tasks db"
proof -
  have ac: "acyclic (edges db)" and nodes: "nodes (edges db) \<subseteq> t_id ` set (tb_tasks db)"
    using graph_inv_acyclic [OF inv] graph_inv_nodes [OF inv] by simp_all
  have apart: "dep_job_group_id e = dep_job_group_id e'"
    if "e \<in> set (tb_task_dependencies db)" "e' \<in> set (tb_task_dependencies db)"
      "dep_job_group_id e' \<noteq> None" "dep_task_id e \<in> {dep_task_id e', dep_depends_on_task_id e'}" for e e'
    using inv that unfolding graph_inv_def by blast
  from add_dependencies_locked_Inr [OF assms(1) ac assms(3)] obtain added req where
    db': "db' = db\<lparr>tb_task_dependencies := tb_task_dependencies db @ added\<rparr>"
    and S: "acyclic (edge_of ` set (group_edges (jg_id grp) db @ added))"
    and req: "req \<subseteq> t_id ` set (tb_tasks db)"
    and new: "\<And>e. e \<in> set added \<Longrightarrow> dep_job_group_id e = Some (jg_id grp)
          \<and> dep_task_id e \<in> req \<and> dep_depends_on_task_id e \<in> req"
    and mem: "\<And>e. e \<in> set (tb_task_dependencies db) \<Longrightarrow> dep_task_id e \<in> req \<or> dep_depends_on_task_id e \<in> req
          \<Longrightarrow> dep_job_group_id e = Some (jg_id grp)"
    by blast
  let ?S = "group_edges (jg_id grp) db @ added"
  let ?R = "filter (\<lambda>e. dep_job_group_id e \<noteq> Some (jg_id grp)) (tb_task_dependencies db)"
  have e: "edges db' = edge_of ` set ?R \<union> edge_of ` set ?S"
    by (auto simp: edges_def db' group_edges_def)
  have S': "dep_job_group_id a = Some (jg_id grp)" if "a \<in> set ?S" for a
    using that new by (auto simp: group_edges_def)
  have "edge_of ` set ?S O edge_of ` set ?R = {}"
  proof (rule ccontr)
    assume "edge_of ` set ?S O edge_of ` set ?R \<noteq> {}"
    then obtain a b where a: "a \<in> set ?S" and b: "b \<in> set (tb_task_dependencies db)" "dep_job_group_id b \<noteq> Some (jg_id grp)"
      and ab: "dep_depends_on_task_id a = dep_task_id b"
      by (auto simp: edge_of_def)
    have "dep_job_group_id b = Some (jg_id grp)"
    proof (cases "a \<in> set added")
      case True
      then show ?thesis using new [OF True] mem [OF b(1)] ab by simp
    next
      case False
      then have "a \<in> set (tb_task_dependencies db)" using a by (simp add: group_edges_def)
      from apart [OF b(1) this] S' [OF a] ab show ?thesis by simp
    qed
    with b(2) show False by simp
  qed
  moreover have "acyclic (edge_of ` set ?R)"
    by (rule acyclic_subset [OF ac]) (auto simp: edges_def)
  ultimately have 1: "acyclic (edges db')" unfolding e using S by (intro acyclic_Un)
  have "nodes (edge_of ` set added) \<subseteq> req" using new by (auto simp: edge_of_def)
  then have 2: "nodes (edges db') \<subseteq> t_id ` set (tb_tasks db')"
    using nodes req unfolding edges_def db' by (simp add: image_Un) (meson order_trans)
  have 3: "dep_job_group_id a = dep_job_group_id b"
    if a: "a \<in> set (tb_task_dependencies db')" and b: "b \<in> set (tb_task_dependencies db')"
      and g: "dep_job_group_id b \<noteq> None" "dep_task_id a \<in> {dep_task_id b, dep_depends_on_task_id b}" for a b
  proof (cases "b \<in> set added")
    case True
    then show ?thesis using new [OF True] a g(2) mem [of a] new [of a] by (auto simp: db')
  next
    case False
    then have b': "b \<in> set (tb_task_dependencies db)" using b by (simp add: db')
    show ?thesis
    proof (cases "a \<in> set added")
      case True
      then show ?thesis using new [OF True] mem [OF b'] g(2) by auto
    next
      case False
      then show ?thesis using apart [OF _ b' g] a by (simp add: db')
    qed
  qed
  from 1 2 3 have "graph_inv db'" unfolding graph_inv_def by blast
  then show ?thesis by (simp add: db')
qed

section \<open>Group transactions\<close>

inductive dag_tx :: "dag_db \<Rightarrow> dag_db \<Rightarrow> bool" where
  dtx_task: "task_tx (dag_tables db) tables \<Longrightarrow> dag_tx db (db\<lparr>dag_tables := tables\<rparr>)"
| dtx_create: "create_group now pid name policy ds db = Inr (db', g) \<Longrightarrow> dag_tx db db'"
| dtx_add: "add_dependency pid gid d db = Inr (db', e) \<Longrightarrow> dag_tx db db'"

definition dag_inv :: "dag_db \<Rightarrow> bool" where
  "dag_inv db \<longleftrightarrow> graph_inv (dag_tables db) \<and> distinct (map t_id (tb_tasks (dag_tables db)))"

lemma create_group_inv:
  assumes "create_group now pid name policy ds db = Inr (db', g)" and "dag_inv db"
  shows "dag_inv db'"
proof -
  have "returns (create_group now pid name policy ds db) (\<lambda>(db', _). dag_inv db')"
    unfolding create_group_def
    by (intro returns_intros) (use assms(2) in \<open>auto simp: dag_inv_def dest: add_dependencies_graph_inv\<close>)
  from returnsD [OF this assms(1)] show ?thesis by simp
qed

lemma add_dependency_inv:
  assumes "add_dependency pid gid d db = Inr (db', e)" and "dag_inv db"
  shows "dag_inv db'"
proof -
  have "returns (add_dependency pid gid d db) (\<lambda>(db', _). dag_inv db')"
    unfolding add_dependency_def
    by (intro returns_intros) (use assms(2) in \<open>auto simp: dag_inv_def dest: add_dependencies_graph_inv\<close>)
  from returnsD [OF this assms(1)] show ?thesis by simp
qed

lemma dag_tx_inv: "dag_tx db db' \<Longrightarrow> dag_inv db \<Longrightarrow> dag_inv db'"
proof (induction rule: dag_tx.induct)
  case (dtx_task db tables)
  then have g: "graph_inv (dag_tables db)" and d: "distinct (map t_id (tb_tasks (dag_tables db)))"
    by (simp_all add: dag_inv_def)
  from task_tx_refines [OF dtx_task(1) d] d have "distinct (map t_id (tb_tasks tables))" by (simp add: refines_def)
  moreover from task_tx_graph [OF dtx_task(1) d] have "graph_inv tables"
    using g graph_inv_same graph_inv_create by blast
  ultimately show ?case by (simp add: dag_inv_def)
qed (auto intro: create_group_inv add_dependency_inv)

lemma dag_txs_inv: "dag_tx\<^sup>*\<^sup>* db db' \<Longrightarrow> dag_inv db \<Longrightarrow> dag_inv db'"
  by (induction rule: rtranclp_induct) (auto intro: dag_tx_inv)

section \<open>Resolution and the scheduler\<close>

definition prerequisite_status :: "(uuid \<times> task_status) list \<Rightarrow> task_dependency \<Rightarrow> task_status" where
  "prerequisite_status statuses e = the (map_of statuses (dep_depends_on_task_id e))"

definition prerequisite_failed :: "(uuid \<times> task_status) list \<Rightarrow> task_dependency \<Rightarrow> bool" where
  "prerequisite_failed statuses e \<longleftrightarrow>
     prerequisite_status statuses e \<in> FINAL_TASK_STATUSES \<and> prerequisite_status statuses e \<noteq> TS_SUCCEEDED"

lemma resolve_edges_result:
  assumes "efold (resolve_edge statuses) es (w, f, p) = Inr (w', f', p')"
  shows "(\<forall>e \<in> set es. map_of statuses (dep_depends_on_task_id e) \<noteq> None)
    \<and> w' = w @ map dep_depends_on_task_id (filter (\<lambda>e. prerequisite_status statuses e \<notin> FINAL_TASK_STATUSES) es)
    \<and> map Some p' = map Some p @ map (parse_failure_policy \<circ> dep_failure_policy) (filter (prerequisite_failed statuses) es)"
  using assms
proof (induction es arbitrary: w f p)
  case Nil
  then show ?case by simp
next
  case (Cons e es)
  have succ: "TS_SUCCEEDED \<in> FINAL_TASK_STATUSES" by (simp add: FINAL_TASK_STATUSES_def)
  from Cons.prems obtain s1 where s1: "resolve_edge statuses e (w, f, p) = Inr s1"
    "efold (resolve_edge statuses) es s1 = Inr (w', f', p')"
    by (auto simp: ebind_eq_Inr)
  obtain w1 f1 p1 where t: "s1 = (w1, f1, p1)" by (cases s1)
  from Cons.IH [OF s1(2) [unfolded t]] s1(1) succ show ?case
    by (auto simp: t prerequisite_status_def prerequisite_failed_def split: option.splits if_splits)
qed

lemma resolve_task_state:
  assumes "resolve_task k statuses es = Inr r"
  defines "incoming \<equiv> filter (\<lambda>e. dep_task_id e = k) es"
  shows "dr_state r = DS_READY \<longleftrightarrow> (\<forall>e \<in> set incoming. prerequisite_status statuses e = TS_SUCCEEDED)"
    and "dr_state r = DS_CANCELLED \<longleftrightarrow>
      (\<exists>e \<in> set incoming. prerequisite_failed statuses e \<and> dep_failure_policy e = ''cancel'')"
    and "\<forall>e \<in> set incoming. map_of statuses (dep_depends_on_task_id e) \<noteq> None"
proof -
  from assms(1) obtain w f p where loop: "efold (resolve_edge statuses) incoming ([], [], []) = Inr (w, f, p)"
    and state: "dr_state r = resolution_state w p"
    by (auto simp: resolve_task_def incoming_def ebind_eq_Inr Let_def split: option.splits)
  note res = resolve_edges_result [OF loop]
  have w: "w = [] \<longleftrightarrow> (\<forall>e \<in> set incoming. prerequisite_status statuses e \<in> FINAL_TASK_STATUSES)"
    using res by (auto simp: filter_empty_conv)
  have p: "map Some p = map (parse_failure_policy \<circ> dep_failure_policy) (filter (prerequisite_failed statuses) incoming)"
    using res by simp
  then have p0: "p = [] \<longleftrightarrow> (\<forall>e \<in> set incoming. \<not> prerequisite_failed statuses e)"
    by (metis filter_empty_conv map_is_Nil_conv)
  have cancel: "parse_failure_policy s = Some FP_CANCEL \<longleftrightarrow> s = ''cancel''" for s
    by (simp add: parse_failure_policy_def)
  have "FP_CANCEL \<in> set p \<longleftrightarrow> Some FP_CANCEL \<in> set (map Some p)" by auto
  also have "\<dots> \<longleftrightarrow> (\<exists>e \<in> set incoming. prerequisite_failed statuses e \<and> dep_failure_policy e = ''cancel'')"
    unfolding p by (auto simp: image_iff eq_commute [of "Some FP_CANCEL"] cancel)
  finally have pc: "FP_CANCEL \<in> set p \<longleftrightarrow>
    (\<exists>e \<in> set incoming. prerequisite_failed statuses e \<and> dep_failure_policy e = ''cancel'')" .
  have "dr_state r = DS_READY \<longleftrightarrow> w = [] \<and> p = []"
    by (auto simp: state resolution_state_def)
  also have "\<dots> \<longleftrightarrow> (\<forall>e \<in> set incoming. prerequisite_status statuses e = TS_SUCCEEDED)"
    unfolding w p0 by (auto simp: prerequisite_failed_def FINAL_TASK_STATUSES_def)
  finally show "dr_state r = DS_READY \<longleftrightarrow> (\<forall>e \<in> set incoming. prerequisite_status statuses e = TS_SUCCEEDED)" .
  show "dr_state r = DS_CANCELLED \<longleftrightarrow>
      (\<exists>e \<in> set incoming. prerequisite_failed statuses e \<and> dep_failure_policy e = ''cancel'')"
    unfolding pc [symmetric] by (auto simp: state resolution_state_def)
  show "\<forall>e \<in> set incoming. map_of statuses (dep_depends_on_task_id e) \<noteq> None" using res by blast
qed

text \<open>All edges that leave a task of a group belong to the group.\<close>

lemma group_incoming:
  assumes "graph_inv db" and "k \<in> set (task_ids (group_edges gid db))"
  shows "filter (\<lambda>e. dep_task_id e = k) (group_edges gid db) = filter (\<lambda>e. dep_task_id e = k) (tb_task_dependencies db)"
proof -
  from assms(2) obtain e' where e': "e' \<in> set (tb_task_dependencies db)" "dep_job_group_id e' = Some gid"
    "k \<in> {dep_task_id e', dep_depends_on_task_id e'}"
    by (auto simp: task_ids_def group_edges_def)
  have "dep_job_group_id e = Some gid" if "e \<in> set (tb_task_dependencies db)" "dep_task_id e = k" for e
    using assms(1) that e' unfolding graph_inv_def by (metis option.distinct(1))
  then show ?thesis unfolding group_edges_def filter_filter by (intro filter_cong) auto
qed

lemma task_statuses_map_of:
  assumes "task_statuses pid ids db = Inr statuses" and "map_of statuses k = Some s"
  shows "\<exists>t \<in> set (tb_tasks db). t_id t = k \<and> t_status t = s"
proof -
  have "statuses = map (\<lambda>t. (t_id t, t_status t)) (project_tasks pid ids db)"
    using assms(1) by (auto simp: task_statuses_def ebind_eq_Inr Let_def)
  with map_of_SomeD [OF assms(2)] show ?thesis by (auto simp: project_tasks_def)
qed

lemma dependency_statuses_group:
  assumes "distinct (map t_id (tb_tasks db))" and "task_statuses pid ids db = Inr statuses"
    and "\<forall>e \<in> set incoming. map_of statuses (dep_depends_on_task_id e) \<noteq> None"
    and "incoming = filter (\<lambda>e. dep_task_id e = k) (tb_task_dependencies db)"
  shows "dependency_statuses k db = map (\<lambda>e. (dep_failure_policy e, prerequisite_status statuses e)) incoming"
proof -
  have "map (\<lambda>t. (dep_failure_policy e, t_status t)) (filter (\<lambda>t. t_id t = dep_depends_on_task_id e) (tb_tasks db))
      = [(dep_failure_policy e, prerequisite_status statuses e)]" if "e \<in> set incoming" for e
  proof -
    from assms(3) that obtain s where s: "map_of statuses (dep_depends_on_task_id e) = Some s" by auto
    from task_statuses_map_of [OF assms(2) s] obtain t where
      t: "t \<in> set (tb_tasks db)" "t_id t = dep_depends_on_task_id e" "t_status t = s" by blast
    from filter_key_single [OF assms(1) t(1)] t s show ?thesis by (simp add: prerequisite_status_def)
  qed
  then have "concat (map (\<lambda>e. map (\<lambda>t. (dep_failure_policy e, t_status t))
      (filter (\<lambda>t. t_id t = dep_depends_on_task_id e) (tb_tasks db))) incoming)
      = concat (map (\<lambda>e. [(dep_failure_policy e, prerequisite_status statuses e)]) incoming)"
    by (metis (no_types, lifting) map_cong)
  then show ?thesis unfolding dependency_statuses_def assms(4) [symmetric] by simp
qed

section \<open>Properties of job groups\<close>

definition example_dag_db :: dag_db where
  "example_dag_db =
     \<lparr>dag_tables = example_project_db\<lparr>tb_tasks := [new_task example_spec 1 0, new_task example_spec 2 5]\<rparr>,
      tb_job_groups = []\<rparr>"

definition example_dependency :: dependency_spec where
  "example_dependency = \<lparr>ds_task_id = 2, ds_depends_on_task_id = 1, ds_failure_policy = FP_CANCEL\<rparr>"

definition example_group :: job_group where
  "example_group = \<lparr>jg_id = 1, jg_project_id = 1, jg_name = ''g'', jg_status = JG_PENDING,
     jg_retry_policy = ''{}'', jg_created_at = 9\<rparr>"

definition example_edge :: task_dependency where
  "example_edge = \<lparr>dep_task_id = 2, dep_depends_on_task_id = 1, dep_job_group_id = Some 1,
     dep_failure_policy = ''cancel''\<rparr>"

definition example_grouped :: dag_db where
  "example_grouped = example_dag_db
     \<lparr>dag_tables := (dag_tables example_dag_db)\<lparr>tb_task_dependencies := [example_edge]\<rparr>,
      tb_job_groups := [example_group]\<rparr>"

lemma example_grouping:
  "create_group 9 1 ''g'' (Some ''{}'') [example_dependency] example_dag_db = Inr (example_grouped, example_group)"
  by code_simp

lemma example_group_txs: "dag_tx\<^sup>*\<^sup>* example_dag_db example_grouped"
  using dtx_create [OF example_grouping] by blast

lemma example_dag_inv: "dag_inv example_dag_db"
  by (simp add: dag_inv_def graph_inv_def edges_def example_dag_db_def example_project_db_def acyclic_def new_task_def)

lemma example_group_edges: "edges (dag_tables example_grouped) = {(2, 1)}"
  by (simp add: edges_def example_grouped_def example_edge_def edge_of_def)

text \<open>
  C3. The dependency graph never has a cycle: after any sequence of committed task transactions
  and job group operations no task is a prerequisite of itself, directly or through others, and
  every edge connects two existing tasks. The check of a new edge looks only at its own group,
  yet no cycle can run through several groups or through tasks submitted with prerequisites.
\<close>

theorem dependency_graph_acyclic:
  assumes "dag_tx\<^sup>*\<^sup>* db db'" and "dag_inv db"
  shows "(n, n) \<notin> (edges (dag_tables db'))\<^sup>+ \<and> nodes (edges (dag_tables db')) \<subseteq> t_id ` set (tb_tasks (dag_tables db'))"
proof -
  have inv: "graph_inv (dag_tables db')" using dag_txs_inv [OF assms] by (simp add: dag_inv_def)
  show ?thesis using graph_inv_acyclic [OF inv] graph_inv_nodes [OF inv] by (simp add: acyclic_def)
qed

theorem dependency_graph_acyclic_witness:
  "(2, 1) \<in> edges (dag_tables example_grouped) \<and> (2, 2) \<notin> (edges (dag_tables example_grouped))\<^sup>+"
  using dependency_graph_acyclic [OF example_group_txs example_dag_inv, of 2] by (simp add: example_group_edges)





section \<open>Summaries of several groups\<close>

lemma resolve_task_cong:
  assumes "map_of st = map_of st'"
  shows "resolve_task k st es = resolve_task k st' es"
proof -
  have "resolve_edge st = resolve_edge st'" by (intro ext) (auto simp: assms)
  then show ?thesis by (simp add: resolve_task_def assms)
qed

lemma mset_length_filter: "mset xs = mset ys \<Longrightarrow> length (filter P xs) = length (filter P ys)"
  by (metis mset_filter size_mset)

text \<open>A summary does not depend on the order in which the tasks were loaded.\<close>

lemma summarize_loaded_group_perm:
  assumes "mset ts = mset ts'" and "distinct (map t_id ts)"
  shows "summarize_loaded_group g ts es = summarize_loaded_group g ts' es"
proof -
  have set: "set ts = set ts'" using assms(1) by (rule mset_eq_setD)
  have len: "length ts = length ts'" using assms(1) by (rule mset_eq_length)
  have "mset (map t_id ts) = mset (map t_id ts')" using assms(1) by simp
  then have d: "distinct (map t_id ts')" using assms(2) by (metis mset_eq_imp_distinct_iff)
  have "map_of (map (\<lambda>t. (t_id t, t_status t)) ts) = map_of (map (\<lambda>t. (t_id t, t_status t)) ts')"
    by (rule map_of_inject_set [THEN iffD2]) (use assms(2) d set in \<open>simp_all add: comp_def\<close>)
  then have st: "resolve_task k (map (\<lambda>t. (t_id t, t_status t)) ts) es = resolve_task k (map (\<lambda>t. (t_id t, t_status t)) ts') es" for k
    by (rule resolve_task_cong)
  have nil: "ts = [] \<longleftrightarrow> ts' = []" using set by (metis set_empty)
  have gs: "group_status ts rs = group_status ts' rs" for rs
    unfolding group_status_def set nil ..
  have ft: "set (finished_times ts) = set (finished_times ts')"
    by (simp add: finished_times_def List.map_filter_def set)
  then have ft0: "finished_times ts = [] \<longleftrightarrow> finished_times ts' = []" by (metis empty_set set_empty)
  show ?thesis
    unfolding summarize_loaded_group_def Let_def st gs set len ft ft0 mset_length_filter [OF assms(1)] ..
qed

lemma project_tasks_perm:
  assumes d: "distinct (map t_id (tb_tasks db))" and sub: "set ids \<subseteq> set all"
    and found: "length (project_tasks pid all db) = length all" "distinct all" "distinct ids"
  shows "mset (map (\<lambda>k. the (tget t_id k (project_tasks pid all db))) ids) = mset (project_tasks pid ids db)"
proof -
  let ?all = "project_tasks pid all db"
  have da: "distinct (map t_id ?all)" unfolding project_tasks_def by (rule distinct_map_filter [OF d])
  have ids: "set all = t_id ` set ?all" by (rule project_tasks_all [OF found(1,2) d])
  have get: "the (tget t_id k ?all) \<in> set ?all \<and> t_id (the (tget t_id k ?all)) = k" if "k \<in> set ids" for k
  proof -
    from that sub ids obtain t where "t \<in> set ?all" "t_id t = k" by auto
    then show ?thesis using tget_member [OF da, of t] by simp
  qed
  have "set (map (\<lambda>k. the (tget t_id k ?all)) ids) = set (project_tasks pid ids db)"
  proof
    show "set (map (\<lambda>k. the (tget t_id k ?all)) ids) \<subseteq> set (project_tasks pid ids db)"
      using get by (auto simp: project_tasks_def)
    show "set (project_tasks pid ids db) \<subseteq> set (map (\<lambda>k. the (tget t_id k ?all)) ids)"
    proof
      fix t assume t: "t \<in> set (project_tasks pid ids db)"
      then have "t \<in> set ?all" "t_id t \<in> set ids" using sub by (auto simp: project_tasks_def)
      with tget_member [OF da, of t] show "t \<in> set (map (\<lambda>k. the (tget t_id k ?all)) ids)"
        by (force simp: image_iff)
    qed
  qed
  moreover have "distinct (map (\<lambda>k. the (tget t_id k ?all)) ids)"
    using found(3) get by (auto simp: distinct_map inj_on_def) metis
  moreover have "distinct (project_tasks pid ids db)"
    using d by (simp add: project_tasks_def distinct_map)
  ultimately show ?thesis using set_eq_iff_mset_eq_distinct by blast
qed

lemma task_ids_subset: "set es \<subseteq> set es' \<Longrightarrow> set (task_ids es) \<subseteq> set (task_ids es')"
  by (auto simp: task_ids_def)

lemma require_group_Inr:
  assumes "distinct (map jg_id (tb_job_groups db))" and "g \<in> set (tb_job_groups db)" and "jg_project_id g = pid"
  shows "require_group pid (jg_id g) db = Inr g"
  using tget_member [OF assms(1,2)] assms(3) by (simp add: require_group_def get_group_def)

text \<open>
  C32. The summary of a page of groups is the summary of each group: when the batch that reads
  the edges and tasks of all the groups at once succeeds, its entry for every group is what
  summarizing that group alone returns.
\<close>

theorem batch_summary_agrees:
  assumes "dag_inv db" and "distinct (map jg_id (tb_job_groups db))" and "set gs \<subseteq> set (tb_job_groups db)"
    and "summarize_groups pid gs (dag_tables db) = Inr ss"
  shows "list_all2 (\<lambda>g s. summarize_group pid (jg_id g) db = Inr s) gs ss"
proof (cases "gs = []")
  case True
  then show ?thesis using assms(4) by (simp add: summarize_groups_def)
next
  case False
  let ?T = "dag_tables db" and ?E = "batch_edges gs (dag_tables db)"
  let ?tasks = "project_tasks pid (task_ids ?E) ?T"
  have d: "distinct (map t_id (tb_tasks ?T))" using assms(1) by (simp add: dag_inv_def)
  have dt: "distinct (map t_id (project_tasks pid ids ?T))" for ids
    unfolding project_tasks_def by (rule distinct_map_filter [OF d])
  from assms(4) False have pid: "\<forall>g \<in> set gs. jg_project_id g = pid"
    and n: "length (remdups (map t_id ?tasks)) = length (task_ids ?E)"
    and each: "emap (\<lambda>g. summarize_loaded_group g
        (map (\<lambda>k. the (tget t_id k ?tasks)) (task_ids (filter (\<lambda>e. dep_job_group_id e = Some (jg_id g)) ?E)))
        (filter (\<lambda>e. dep_job_group_id e = Some (jg_id g)) ?E)) gs = Inr ss"
    unfolding summarize_groups_def Let_def by (simp_all add: ebind_eq_Inr)
  have found: "length ?tasks = length (task_ids ?E)" using n dt by (simp add: distinct_remdups_id)
  have one: "summarize_group pid (jg_id g) db = Inr s"
    if g: "g \<in> set gs" and s: "summarize_loaded_group g
        (map (\<lambda>k. the (tget t_id k ?tasks)) (task_ids (filter (\<lambda>e. dep_job_group_id e = Some (jg_id g)) ?E)))
        (filter (\<lambda>e. dep_job_group_id e = Some (jg_id g)) ?E) = Inr s" for g s
  proof -
    let ?es = "group_edges (jg_id g) ?T"
    have es: "filter (\<lambda>e. dep_job_group_id e = Some (jg_id g)) ?E = ?es"
      unfolding batch_edges_def group_edges_def filter_filter by (rule filter_cong) (use g in auto)
    have "set ?es \<subseteq> set ?E" unfolding es [symmetric] by auto
    then have perm: "mset (map (\<lambda>k. the (tget t_id k ?tasks)) (task_ids ?es)) = mset (project_tasks pid (task_ids ?es) ?T)"
      by (intro project_tasks_perm [OF d task_ids_subset found]) (simp_all add: task_ids_def)
    then have "length (project_tasks pid (task_ids ?es) ?T) = length (task_ids ?es)"
      by (metis length_map mset_eq_length)
    moreover have "summarize_loaded_group g (project_tasks pid (task_ids ?es) ?T) ?es = Inr s"
      using s summarize_loaded_group_perm [OF perm [symmetric] dt] unfolding es by simp
    ultimately show ?thesis
      using require_group_Inr [OF assms(2), of g pid] g assms(3) pid
      by (auto simp: summarize_group_def)
  qed
  show ?thesis
    using emap_Inr_nth [OF each] by (rule list.rel_mono_strong) (use one in blast)
qed

theorem batch_summary_agrees_witness:
  "\<exists>s. summarize_groups 1 [example_group] (dag_tables example_grouped) = Inr [s]
     \<and> summarize_group 1 1 example_grouped = Inr s \<and> js_task_count s = 2"
proof -
  have "map_sum id (map js_task_count) (summarize_groups 1 [example_group] (dag_tables example_grouped)) = Inr [2]"
    by code_simp
  then obtain s where s: "summarize_groups 1 [example_group] (dag_tables example_grouped) = Inr [s]" "js_task_count s = 2"
    by (cases "summarize_groups 1 [example_group] (dag_tables example_grouped)") auto
  have "dag_inv example_grouped" by (rule dag_txs_inv [OF example_group_txs example_dag_inv])
  from batch_summary_agrees [OF this _ _ s(1)] s show ?thesis
    by (simp add: example_grouped_def example_group_def)
qed

end
