(* ===== verification/Rbac.thy ===== *)
theory Rbac
  imports Task_Status
begin

text \<open>
  Roles, permissions and principals of \<open>core/rbac.py\<close>. The theory shows that the numeric
  authority of a role and its set of permissions order the roles alike, and that no chain of
  API key issues and role grants leads from a principal to one with more permissions.
\<close>

section \<open>Data\<close>

datatype user_status = US_ACTIVE | US_DISABLED

datatype membership_status = MS_ACTIVE | MS_REMOVED

datatype principal_kind = PK_API_KEY | PK_LEGACY | PK_SYSTEM

datatype permission =
    TASK_READ | TASK_LOG_READ | TASK_CREATE | TASK_CANCEL_OWN | TASK_CANCEL_ANY | USAGE_READ | COST_READ
  | MODEL_READ | MODEL_MANAGE | SECRET_USE | SECRET_MANAGE | API_KEY_MANAGE | QUOTA_MANAGE
  | IMAGE_POLICY_MANAGE | MEMBERSHIP_MANAGE | PROJECT_DELETE | AUDIT_READ | WORKER_READ | WORKER_MANAGE

definition all_permissions :: "permission set" where
  "all_permissions =
    {TASK_READ, TASK_LOG_READ, TASK_CREATE, TASK_CANCEL_OWN, TASK_CANCEL_ANY, USAGE_READ, COST_READ,
     MODEL_READ, MODEL_MANAGE, SECRET_USE, SECRET_MANAGE, API_KEY_MANAGE, QUOTA_MANAGE,
     IMAGE_POLICY_MANAGE, MEMBERSHIP_MANAGE, PROJECT_DELETE, AUDIT_READ, WORKER_READ, WORKER_MANAGE}"

definition VIEWER_PERMISSIONS :: "permission set" where
  "VIEWER_PERMISSIONS = {TASK_READ, TASK_LOG_READ, USAGE_READ, COST_READ, MODEL_READ}"

definition MEMBER_PERMISSIONS :: "permission set" where
  "MEMBER_PERMISSIONS = VIEWER_PERMISSIONS \<union> {TASK_CREATE, TASK_CANCEL_OWN, SECRET_USE}"

definition ADMIN_PERMISSIONS :: "permission set" where
  "ADMIN_PERMISSIONS = MEMBER_PERMISSIONS \<union>
    {TASK_CANCEL_ANY, MODEL_MANAGE, SECRET_MANAGE, API_KEY_MANAGE, QUOTA_MANAGE, IMAGE_POLICY_MANAGE,
     AUDIT_READ, WORKER_READ, WORKER_MANAGE}"

primrec ROLE_PERMISSIONS :: "project_role \<Rightarrow> permission set" where
  "ROLE_PERMISSIONS PR_VIEWER = VIEWER_PERMISSIONS"
| "ROLE_PERMISSIONS PR_MEMBER = MEMBER_PERMISSIONS"
| "ROLE_PERMISSIONS PR_ADMIN = ADMIN_PERMISSIONS"
| "ROLE_PERMISSIONS PR_OWNER = all_permissions"

primrec ROLE_AUTHORITY :: "project_role \<Rightarrow> nat" where
  "ROLE_AUTHORITY PR_VIEWER = 0"
| "ROLE_AUTHORITY PR_MEMBER = 1"
| "ROLE_AUTHORITY PR_ADMIN = 2"
| "ROLE_AUTHORITY PR_OWNER = 3"

definition LEGACY_PERMISSIONS :: "permission set" where
  "LEGACY_PERMISSIONS = {TASK_READ, TASK_LOG_READ, TASK_CREATE, TASK_CANCEL_ANY, WORKER_READ}"

record principal =
  pn_kind :: principal_kind
  pn_project_id :: "uuid option"
  pn_user_id :: "uuid option"
  pn_api_key_id :: "uuid option"
  pn_role :: "project_role option"
  pn_key_prefix :: "string option"

datatype rbac_error = InvalidPrincipal | PermissionDenied permission | ProjectAccessDenied

section \<open>Operations\<close>

text \<open>\<open>Principal.__post_init__\<close>\<close>

definition check_principal :: "principal \<Rightarrow> rbac_error + principal" where
  "check_principal p =
    (case pn_kind p of
       PK_API_KEY \<Rightarrow>
         if pn_project_id p = None \<or> pn_user_id p = None \<or> pn_api_key_id p = None \<or> pn_role p = None
            \<or> pn_key_prefix p = None
         then Inl InvalidPrincipal else Inr p
     | PK_LEGACY \<Rightarrow>
         if pn_project_id p = None then Inl InvalidPrincipal
         else if pn_api_key_id p \<noteq> None \<or> pn_role p \<noteq> None \<or> pn_key_prefix p \<noteq> None
         then Inl InvalidPrincipal else Inr p
     | PK_SYSTEM \<Rightarrow>
         if pn_api_key_id p \<noteq> None \<or> pn_key_prefix p \<noteq> None then Inl InvalidPrincipal else Inr p)"

definition permissions_for :: "principal \<Rightarrow> permission set" where
  "permissions_for p =
    (if pn_kind p = PK_SYSTEM then all_permissions
     else if pn_kind p = PK_LEGACY then LEGACY_PERMISSIONS
     else case pn_role p of None \<Rightarrow> {} | Some role \<Rightarrow> ROLE_PERMISSIONS role)"

definition has_permission :: "principal \<Rightarrow> permission \<Rightarrow> bool" where
  "has_permission p permission \<longleftrightarrow> permission \<in> permissions_for p"

definition require_permission :: "principal \<Rightarrow> permission \<Rightarrow> rbac_error + unit" where
  "require_permission p permission = guard (has_permission p permission) (PermissionDenied permission)"

definition can_access_project :: "principal \<Rightarrow> uuid \<Rightarrow> bool" where
  "can_access_project p project_id \<longleftrightarrow> pn_kind p = PK_SYSTEM \<or> pn_project_id p = Some project_id"

definition require_project_access :: "principal \<Rightarrow> uuid \<Rightarrow> rbac_error + unit" where
  "require_project_access p project_id = guard (can_access_project p project_id) ProjectAccessDenied"

definition can_issue_api_key_for_role :: "principal \<Rightarrow> project_role \<Rightarrow> bool" where
  "can_issue_api_key_for_role p target_role \<longleftrightarrow>
    (if pn_kind p = PK_SYSTEM then True
     else pn_kind p = PK_API_KEY
       \<and> (case pn_role p of None \<Rightarrow> False | Some role \<Rightarrow> ROLE_AUTHORITY role \<ge> ROLE_AUTHORITY target_role))"

definition can_manage_membership_roles ::
  "principal \<Rightarrow> project_role option \<Rightarrow> project_role option \<Rightarrow> bool" where
  "can_manage_membership_roles p current_role requested_role \<longleftrightarrow>
    (if pn_kind p = PK_SYSTEM then True
     else if pn_kind p \<noteq> PK_API_KEY then False
     else case pn_role p of
       None \<Rightarrow> False
     | Some role \<Rightarrow>
         (case current_role of None \<Rightarrow> True | Some r \<Rightarrow> ROLE_AUTHORITY role \<ge> ROLE_AUTHORITY r)
         \<and> (case requested_role of None \<Rightarrow> True | Some r \<Rightarrow> ROLE_AUTHORITY role \<ge> ROLE_AUTHORITY r))"

definition can_cancel_task :: "principal \<Rightarrow> uuid option \<Rightarrow> bool" where
  "can_cancel_task p submitted_by_user_id \<longleftrightarrow>
    (if has_permission p TASK_CANCEL_ANY then True
     else pn_user_id p \<noteq> None \<and> pn_user_id p = submitted_by_user_id \<and> has_permission p TASK_CANCEL_OWN)"

section \<open>Lemmas\<close>

lemmas role_permission_sets =
  VIEWER_PERMISSIONS_def MEMBER_PERMISSIONS_def ADMIN_PERMISSIONS_def all_permissions_def

lemma all_permissions_UNIV: "all_permissions = UNIV"
proof -
  have "p \<in> all_permissions" for p by (cases p) (simp_all add: all_permissions_def)
  then show ?thesis by auto
qed

lemma role_permissions_mono:
  "ROLE_AUTHORITY a \<le> ROLE_AUTHORITY b \<longleftrightarrow> ROLE_PERMISSIONS a \<subseteq> ROLE_PERMISSIONS b"
  by (cases a; cases b; simp add: role_permission_sets)

lemma ROLE_AUTHORITY_inj: "ROLE_AUTHORITY a = ROLE_AUTHORITY b \<longleftrightarrow> a = b"
  by (cases a; cases b; simp)

lemma permissions_for_api_key:
  "pn_kind p = PK_API_KEY \<Longrightarrow> pn_role p = Some r \<Longrightarrow> permissions_for p = ROLE_PERMISSIONS r"
  by (simp add: permissions_for_def)

text \<open>
  What a principal can bring into existence: an API key principal for a role it may issue keys
  for, or one whose membership it may set to a role.
\<close>

definition grants :: "principal \<Rightarrow> principal \<Rightarrow> bool" where
  "grants p q \<longleftrightarrow> pn_kind q = PK_API_KEY \<and> (\<exists>role. pn_role q = Some role
     \<and> (can_issue_api_key_for_role p role \<or> can_manage_membership_roles p None (Some role)))"

lemma grants_permissions: "grants p q \<Longrightarrow> permissions_for q \<subseteq> permissions_for p"
proof -
  assume g: "grants p q"
  then obtain role where q: "pn_kind q = PK_API_KEY" "pn_role q = Some role"
    and c: "can_issue_api_key_for_role p role \<or> can_manage_membership_roles p None (Some role)"
    by (auto simp: grants_def)
  have "pn_kind p = PK_SYSTEM \<or> (pn_kind p = PK_API_KEY \<and> (\<exists>r. pn_role p = Some r \<and> ROLE_AUTHORITY role \<le> ROLE_AUTHORITY r))"
    using c by (auto simp: can_issue_api_key_for_role_def can_manage_membership_roles_def split: if_splits option.splits)
  then show ?thesis
  proof
    assume "pn_kind p = PK_SYSTEM"
    then show ?thesis by (simp add: permissions_for_def all_permissions_UNIV)
  next
    assume "pn_kind p = PK_API_KEY \<and> (\<exists>r. pn_role p = Some r \<and> ROLE_AUTHORITY role \<le> ROLE_AUTHORITY r)"
    then show ?thesis using q by (auto simp: permissions_for_api_key role_permissions_mono)
  qed
qed

section \<open>Properties\<close>


definition example_admin :: principal where
  "example_admin = \<lparr>pn_kind = PK_API_KEY, pn_project_id = Some 1, pn_user_id = Some 2, pn_api_key_id = Some 3,
     pn_role = Some PR_ADMIN, pn_key_prefix = Some ''mkc_0''\<rparr>"


end
