(* ===== verification/Security.thy ===== *)
theory Security
  imports Text
begin

text \<open>
  The validators and API key functions of \<open>core/security.py\<close>. The keyed digest (HMAC-SHA256)
  is the argument \<open>digest\<close>; the random parts of a key are arguments of its generation. Password
  hashing belongs to the Argon2 package and is not modelled.
\<close>

section \<open>Normalization\<close>

datatype security_error = SecurityValueError

text \<open>\<open>_USERNAME\<close>, \<open>_PROJECT_SLUG\<close> and \<open>_HASH_KEY_ID\<close>: a first character and a bounded tail.\<close>

definition matches :: "(char \<Rightarrow> bool) \<Rightarrow> (char \<Rightarrow> bool) \<Rightarrow> nat \<Rightarrow> nat \<Rightarrow> string \<Rightarrow> bool" where
  "matches first_ok rest_ok low high s =
    (case s of
       [] \<Rightarrow> False
     | c # cs \<Rightarrow> first_ok c \<and> low \<le> length cs \<and> length cs \<le> high \<and> (\<forall>c \<in> set cs. rest_ok c))"

definition identifier_char :: "char \<Rightarrow> bool" where
  "identifier_char c \<longleftrightarrow> ascii_alnum c \<or> c \<in> set ''_.-''"

definition username_ok :: "string \<Rightarrow> bool" where
  "username_ok s \<longleftrightarrow> matches ascii_alnum identifier_char 2 63 s"

definition slug_ok :: "string \<Rightarrow> bool" where
  "slug_ok s \<longleftrightarrow>
     matches (\<lambda>c. ascii_lower c \<or> ascii_digit c) (\<lambda>c. ascii_lower c \<or> ascii_digit c \<or> c = CHR ''-'') 1 62 s"

definition hash_key_id_ok :: "string \<Rightarrow> bool" where
  "hash_key_id_ok s \<longleftrightarrow> matches ascii_alnum identifier_char 0 63 s"

definition normalize_username :: "string \<Rightarrow> security_error + string" where
  "normalize_username value =
    (let username = strip value in
     if username_ok username then Inr (casefold username) else Inl SecurityValueError)"

text \<open>Two adjacent dots.\<close>

fun double_dot :: "string \<Rightarrow> bool" where
  "double_dot (a # b # cs) \<longleftrightarrow> (a = CHR ''.'' \<and> b = CHR ''.'') \<or> double_dot (b # cs)"
| "double_dot _ \<longleftrightarrow> False"

definition normalize_email :: "string \<Rightarrow> security_error + string" where
  "normalize_email value =
    (let email = strip value in
     if length email > 320 \<or> length (filter (\<lambda>c. c = CHR ''@'') email) \<noteq> 1 then Inl SecurityValueError
     else
       let local_part = takeWhile (\<lambda>c. c \<noteq> CHR ''@'') email;
           domain = tl (dropWhile (\<lambda>c. c \<noteq> CHR ''@'') email) in
       if local_part = [] \<or> length local_part > 64 \<or> domain = [] \<or> length domain > 255 then Inl SecurityValueError
       else if \<exists>c \<in> set email. ascii_space c \<or> ascii_control c then Inl SecurityValueError
       else if hd domain = CHR ''.'' \<or> last domain = CHR ''.'' \<or> double_dot domain then Inl SecurityValueError
       else Inr (casefold email))"

definition normalize_project_slug :: "string \<Rightarrow> security_error + string" where
  "normalize_project_slug value =
    (let slug = casefold (strip value) in if slug_ok slug then Inr slug else Inl SecurityValueError)"

section \<open>API keys\<close>

definition hex_char :: "char \<Rightarrow> bool" where
  "hex_char c \<longleftrightarrow> ascii_digit c \<or> char_between 97 102 c"

definition secret_char :: "char \<Rightarrow> bool" where
  "secret_char c \<longleftrightarrow> ascii_alnum c \<or> c \<in> set ''_-''"

text \<open>\<open>_API_KEY.fullmatch\<close>: the public id has 16 characters, the secret 43.\<close>

definition api_key_format :: "string \<Rightarrow> bool" where
  "api_key_format token \<longleftrightarrow> length token = 64 \<and> take 4 token = ''mkc_''
     \<and> (\<forall>c \<in> set (take 16 (drop 4 token)). hex_char c) \<and> take 1 (drop 20 token) = ''_''
     \<and> (\<forall>c \<in> set (drop 21 token). secret_char c)"

definition parse_api_key_prefix :: "string \<Rightarrow> security_error + string" where
  "parse_api_key_prefix token =
    (if api_key_format token then Inr (''mkc_'' @ take 16 (drop 4 token)) else Inl SecurityValueError)"

record api_key_material =
  km_token :: string
  km_prefix :: string
  km_secret_hash :: string
  km_hash_key_id :: string

definition validate_hmac_key :: "string \<Rightarrow> security_error + unit" where
  "validate_hmac_key hmac_key = guard (length hmac_key \<ge> 32) SecurityValueError"

definition generate_api_key ::
  "(string \<Rightarrow> string \<Rightarrow> string) \<Rightarrow> string \<Rightarrow> string \<Rightarrow> string \<Rightarrow> string \<Rightarrow> security_error + api_key_material" where
  "generate_api_key digest public_id secret hmac_key hash_key_id =
    ebind (validate_hmac_key hmac_key) (\<lambda>_.
    ebind (guard (hash_key_id_ok hash_key_id) SecurityValueError) (\<lambda>_.
    let token = ''mkc_'' @ public_id @ ''_'' @ secret; prefix = ''mkc_'' @ public_id in
    Inr \<lparr>km_token = token, km_prefix = prefix, km_secret_hash = digest hmac_key token,
         km_hash_key_id = hash_key_id\<rparr>))"

definition hash_api_key ::
  "(string \<Rightarrow> string \<Rightarrow> string) \<Rightarrow> string \<Rightarrow> string \<Rightarrow> security_error + string" where
  "hash_api_key digest token hmac_key =
    ebind (validate_hmac_key hmac_key) (\<lambda>_.
    ebind (parse_api_key_prefix token) (\<lambda>_.
    Inr (digest hmac_key token)))"

definition verify_api_key :: "(string \<Rightarrow> string \<Rightarrow> string) \<Rightarrow> string \<Rightarrow> string \<Rightarrow> string \<Rightarrow> bool" where
  "verify_api_key digest token expected_hash hmac_key =
    (case hash_api_key digest token hmac_key of Inl _ \<Rightarrow> False | Inr actual \<Rightarrow> actual = expected_hash)"

section \<open>Lemmas\<close>

lemma fold_char_alnum [simp]: "ascii_alnum (fold_char c) = ascii_alnum c"
  by (auto simp: ascii_alnum_def ascii_digit_def ascii_upper_def ascii_lower_def char_between_def)

lemma fold_char_other: "\<not> ascii_alnum c \<Longrightarrow> fold_char c = c"
  by (simp add: fold_char_def ascii_alnum_def)

lemma fold_char_identifier [simp]: "identifier_char (fold_char c) = identifier_char c"
  by (cases "ascii_alnum c") (simp_all add: identifier_char_def fold_char_other)

lemma matches_fold:
  assumes "\<And>c. f (fold_char c) = f c" and "\<And>c. g (fold_char c) = g c"
  shows "matches f g l h (casefold s) = matches f g l h s"
  by (cases s) (simp_all add: matches_def casefold_def assms)

lemma normalize_username_idem:
  assumes "normalize_username value = Inr username"
  shows "normalize_username username = Inr username"
proof -
  have ok: "username_ok (strip value)" and u: "username = casefold (strip value)"
    using assms by (simp_all add: normalize_username_def Let_def split: if_splits)
  have "strip username = username" unfolding u by (simp add: strip_casefold)
  moreover have "username_ok username"
    using ok unfolding u username_ok_def by (simp add: matches_fold)
  ultimately show ?thesis by (simp add: normalize_username_def u)
qed

lemma generated_format:
  assumes "length public_id = 16" "\<forall>c \<in> set public_id. hex_char c"
    and "length secret = 43" "\<forall>c \<in> set secret. secret_char c"
  shows "api_key_format (''mkc_'' @ public_id @ ''_'' @ secret)"
    and "parse_api_key_prefix (''mkc_'' @ public_id @ ''_'' @ secret) = Inr (''mkc_'' @ public_id)"
proof -
  let ?token = "''mkc_'' @ public_id @ ''_'' @ secret"
  have d4: "drop 4 ?token = public_id @ ''_'' @ secret" by simp
  have "drop 20 ?token = drop 16 (drop 4 ?token)" by (simp only: drop_drop) simp
  then have d20: "drop 20 ?token = ''_'' @ secret" unfolding d4 using assms(1) by simp
  have "drop 21 ?token = drop 1 (drop 20 ?token)" by (simp only: drop_drop) simp
  then have d21: "drop 21 ?token = secret" unfolding d20 by simp
  show f: "api_key_format ?token"
    unfolding api_key_format_def d4 d20 d21 using assms by simp
  show "parse_api_key_prefix ?token = Inr (''mkc_'' @ public_id)"
    unfolding parse_api_key_prefix_def d4 using f assms(1) by simp
qed

lemma verify_generated:
  assumes "generate_api_key digest public_id secret hmac_key kid = Inr km"
    and "length public_id = 16" "\<forall>c \<in> set public_id. hex_char c"
    and "length secret = 43" "\<forall>c \<in> set secret. secret_char c"
  shows "parse_api_key_prefix (km_token km) = Inr (km_prefix km)"
    and "verify_api_key digest (km_token km) (km_secret_hash km) hmac_key"
proof -
  note f = generated_format [OF assms(2-5)]
  have t: "km_token km = ''mkc_'' @ public_id @ ''_'' @ secret" "km_prefix km = ''mkc_'' @ public_id"
    "km_secret_hash km = digest hmac_key (km_token km)" "validate_hmac_key hmac_key = Inr ()"
    using assms(1) by (auto simp: generate_api_key_def ebind_eq_Inr Let_def)
  show "parse_api_key_prefix (km_token km) = Inr (km_prefix km)" unfolding t using f by simp
  then show "verify_api_key digest (km_token km) (km_secret_hash km) hmac_key"
    by (simp add: verify_api_key_def hash_api_key_def t(3,4))
qed

end
