(* ===== verification/Identity.thy ===== *)
theory Identity
  imports Rbac Security Quotas
begin

text \<open>
  Users, projects, memberships and API keys: the repositories of \<open>repositories/identity.py\<close> and
  the handlers of \<open>api/routes/identity.py\<close> that change them. A row of the projects table is
  spread over \<open>tb_projects\<close> (id and status, which the other repositories read) and
  \<open>tb_project_details\<close>. The keyed digest, the random parts of an API key and the Argon2 format
  test are arguments. An expiry is a pair of a flag, whether the value carries a time zone, and
  the instant.
\<close>

section \<open>Rows\<close>

record user_row =
  usr_id :: uuid
  usr_username :: string
  usr_username_normalized :: string
  usr_email :: string
  usr_email_normalized :: string
  usr_password_hash :: string
  usr_status :: user_status
  usr_created_at :: datetime
  usr_updated_at :: datetime
  usr_version :: int

record project_details =
  pd_id :: uuid
  pd_name :: string
  pd_slug :: string
  pd_created_by_user_id :: uuid
  pd_created_at :: datetime

record membership =
  mb_project_id :: uuid
  mb_user_id :: uuid
  mb_role :: project_role
  mb_status :: membership_status
  mb_created_by_user_id :: uuid
  mb_created_at :: datetime
  mb_updated_at :: datetime
  mb_removed_at :: "datetime option"
  mb_version :: int

record api_key =
  ak_id :: uuid
  ak_project_id :: uuid
  ak_user_id :: uuid
  ak_name :: string
  ak_key_prefix :: string
  ak_secret_hash :: string
  ak_hash_key_id :: string
  ak_created_by_user_id :: uuid
  ak_created_at :: datetime
  ak_expires_at :: "datetime option"
  ak_revoked_at :: "datetime option"
  ak_last_used_at :: "datetime option"
  ak_version :: int

record identity_db = quota_db +
  tb_project_details :: "project_details list"
  tb_users :: "user_row list"
  tb_memberships :: "membership list"
  tb_api_keys :: "api_key list"

datatype identity_error =
    IdentityValueError
  | IdentityNotFoundError
  | MembershipNotActiveError
  | LastProjectOwnerError
  | IdentityIntegrityError string
  | QuotaError repo_error

type_synonym 'a id_tx = "identity_error + identity_db \<times> 'a"

definition lift_security :: "security_error + 'a \<Rightarrow> identity_error + 'a" where
  "lift_security = map_sum (\<lambda>_. IdentityValueError) id"

definition mb_key :: "membership \<Rightarrow> uuid \<times> uuid" where
  "mb_key m = (mb_project_id m, mb_user_id m)"

section \<open>Users\<close>

definition create_user ::
  "(string \<Rightarrow> bool) \<Rightarrow> datetime \<Rightarrow> string \<Rightarrow> string \<Rightarrow> string \<Rightarrow> identity_db \<Rightarrow> user_row id_tx" where
  "create_user is_argon2id now username email password_hash db =
    ebind (guard (is_argon2id password_hash) IdentityValueError) (\<lambda>_.
    ebind (lift_security (normalize_username username)) (\<lambda>username_normalized.
    ebind (lift_security (normalize_email email)) (\<lambda>email_normalized.
    let user = \<lparr>usr_id = fresh_id usr_id (tb_users db), usr_username = strip username,
                usr_username_normalized = username_normalized, usr_email = strip email,
                usr_email_normalized = email_normalized, usr_password_hash = password_hash,
                usr_status = US_ACTIVE, usr_created_at = now, usr_updated_at = now, usr_version = 1\<rparr> in
    ebind (guard (username_normalized \<notin> usr_username_normalized ` set (tb_users db))
             (IdentityIntegrityError ''uq_users_username_normalized'')) (\<lambda>_.
    ebind (guard (email_normalized \<notin> usr_email_normalized ` set (tb_users db))
             (IdentityIntegrityError ''uq_users_email_normalized'')) (\<lambda>_.
    Inr (db\<lparr>tb_users := tb_users db @ [user]\<rparr>, user))))))"

definition get_by_username :: "string \<Rightarrow> identity_db \<Rightarrow> identity_error + user_row option" where
  "get_by_username username db =
    ebind (lift_security (normalize_username username)) (\<lambda>normalized.
    Inr (tget usr_username_normalized normalized (tb_users db)))"

definition get_by_email :: "string \<Rightarrow> identity_db \<Rightarrow> identity_error + user_row option" where
  "get_by_email email db =
    ebind (lift_security (normalize_email email)) (\<lambda>normalized.
    Inr (tget usr_email_normalized normalized (tb_users db)))"

definition disable_user :: "datetime \<Rightarrow> uuid \<Rightarrow> identity_db \<Rightarrow> identity_db \<times> user_row option" where
  "disable_user now user_id db =
    (case tget usr_id user_id (tb_users db) of
       None \<Rightarrow> (db, None)
     | Some user \<Rightarrow>
         let user = user\<lparr>usr_status := US_DISABLED, usr_updated_at := now, usr_version := usr_version user + 1\<rparr>
         in (db\<lparr>tb_users := tput usr_id user (tb_users db)\<rparr>, Some user))"

definition active_user :: "uuid \<Rightarrow> identity_db \<Rightarrow> bool" where
  "active_user user_id db =
    (case tget usr_id user_id (tb_users db) of None \<Rightarrow> False | Some u \<Rightarrow> usr_status u = US_ACTIVE)"

section \<open>Projects\<close>

definition active_project :: "uuid \<Rightarrow> identity_db \<Rightarrow> bool" where
  "active_project project_id db =
    (case tget p_id project_id (tb_projects db) of None \<Rightarrow> False | Some p \<Rightarrow> p_status p = PS_ACTIVE)"

definition lock_project :: "uuid \<Rightarrow> identity_db \<Rightarrow> identity_error + unit" where
  "lock_project project_id db = guard (active_project project_id db) IdentityNotFoundError"

definition new_membership ::
  "datetime \<Rightarrow> uuid \<Rightarrow> uuid \<Rightarrow> project_role \<Rightarrow> uuid \<Rightarrow> membership" where
  "new_membership now project_id user_id role created_by =
     \<lparr>mb_project_id = project_id, mb_user_id = user_id, mb_role = role, mb_status = MS_ACTIVE,
      mb_created_by_user_id = created_by, mb_created_at = now, mb_updated_at = now, mb_removed_at = None,
      mb_version = 1\<rparr>"

definition create_with_owner ::
  "datetime \<Rightarrow> string \<Rightarrow> string \<Rightarrow> uuid \<Rightarrow> identity_db \<Rightarrow> (uuid \<times> membership) id_tx" where
  "create_with_owner now name slug owner_user_id db =
    ebind (guard (active_user owner_user_id db) IdentityNotFoundError) (\<lambda>_.
    let normalized_name = strip name in
    ebind (guard (normalized_name \<noteq> [] \<and> length normalized_name \<le> 128) IdentityValueError) (\<lambda>_.
    ebind (lift_security (normalize_project_slug slug)) (\<lambda>slug.
    ebind (guard (slug \<notin> pd_slug ` set (tb_project_details db)) (IdentityIntegrityError ''uq_projects_slug'')) (\<lambda>_.
    let project_id = fresh_id p_id (tb_projects db);
        m = new_membership now project_id owner_user_id PR_OWNER owner_user_id in
    Inr (db\<lparr>tb_projects := tb_projects db @ [\<lparr>p_id = project_id, p_status = PS_ACTIVE\<rparr>],
            tb_project_details := tb_project_details db @
              [\<lparr>pd_id = project_id, pd_name = normalized_name, pd_slug = slug,
                pd_created_by_user_id = owner_user_id, pd_created_at = now\<rparr>],
            tb_memberships := tb_memberships db @ [m]\<rparr>, project_id, m)))))"

definition user_projects :: "uuid \<Rightarrow> identity_db \<Rightarrow> project_details list" where
  "user_projects user_id db =
     filter (\<lambda>d. active_project (pd_id d) db
       \<and> (\<exists>m \<in> set (tb_memberships db). mb_project_id m = pd_id d \<and> mb_user_id m = user_id \<and> mb_status m = MS_ACTIVE))
       (tb_project_details db)"

definition list_for_user :: "uuid \<Rightarrow> nat \<Rightarrow> nat \<Rightarrow> identity_db \<Rightarrow> project_details list" where
  "list_for_user user_id limit skip db =
     take limit (drop skip (sort_key (\<lambda>d. (- pd_created_at d, - int (pd_id d))) (user_projects user_id db)))"

definition count_for_user :: "uuid \<Rightarrow> identity_db \<Rightarrow> nat" where
  "count_for_user user_id db = length (user_projects user_id db)"

section \<open>Memberships\<close>

definition get_membership :: "uuid \<Rightarrow> uuid \<Rightarrow> identity_db \<Rightarrow> membership option" where
  "get_membership project_id user_id db = tget mb_key (project_id, user_id) (tb_memberships db)"

definition get_active_membership :: "uuid \<Rightarrow> uuid \<Rightarrow> identity_db \<Rightarrow> membership option" where
  "get_active_membership project_id user_id db =
    (case get_membership project_id user_id db of
       None \<Rightarrow> None | Some m \<Rightarrow> if mb_status m = MS_ACTIVE then Some m else None)"

definition put_membership :: "membership \<Rightarrow> identity_db \<Rightarrow> identity_db" where
  "put_membership m db = db\<lparr>tb_memberships := tput mb_key m (tb_memberships db)\<rparr>"

definition add_or_restore ::
  "datetime \<Rightarrow> uuid \<Rightarrow> uuid \<Rightarrow> project_role \<Rightarrow> uuid \<Rightarrow> identity_db \<Rightarrow> membership id_tx" where
  "add_or_restore now project_id user_id role created_by db =
    ebind (lock_project project_id db) (\<lambda>_.
    ebind (guard (active_user user_id db) IdentityNotFoundError) (\<lambda>_.
    case get_membership project_id user_id db of
      None \<Rightarrow>
        let m = new_membership now project_id user_id role created_by
        in Inr (db\<lparr>tb_memberships := tb_memberships db @ [m]\<rparr>, m)
    | Some m \<Rightarrow>
        let m = m\<lparr>mb_role := role, mb_status := MS_ACTIVE, mb_removed_at := None, mb_updated_at := now,
                  mb_version := mb_version m + 1\<rparr>
        in Inr (put_membership m db, m)))"

definition active_owner :: "uuid \<Rightarrow> membership \<Rightarrow> bool" where
  "active_owner project_id m \<longleftrightarrow>
     mb_project_id m = project_id \<and> mb_status m = MS_ACTIVE \<and> mb_role m = PR_OWNER"

definition ensure_another_owner :: "uuid \<Rightarrow> identity_db \<Rightarrow> identity_error + unit" where
  "ensure_another_owner project_id db =
     guard (\<not> length (filter (active_owner project_id) (tb_memberships db)) \<le> 1) LastProjectOwnerError"

definition change_role ::
  "datetime \<Rightarrow> uuid \<Rightarrow> uuid \<Rightarrow> project_role \<Rightarrow> identity_db \<Rightarrow> membership id_tx" where
  "change_role now project_id user_id role db =
    ebind (lock_project project_id db) (\<lambda>_.
    case get_membership project_id user_id db of
      None \<Rightarrow> Inl MembershipNotActiveError
    | Some m \<Rightarrow>
        ebind (guard (mb_status m = MS_ACTIVE) MembershipNotActiveError) (\<lambda>_.
        ebind (if mb_role m = PR_OWNER \<and> role \<noteq> PR_OWNER then ensure_another_owner project_id db else Inr ()) (\<lambda>_.
        let m = m\<lparr>mb_role := role, mb_updated_at := now, mb_version := mb_version m + 1\<rparr>
        in Inr (put_membership m db, m))))"

definition remove_membership :: "datetime \<Rightarrow> uuid \<Rightarrow> uuid \<Rightarrow> identity_db \<Rightarrow> membership id_tx" where
  "remove_membership now project_id user_id db =
    ebind (lock_project project_id db) (\<lambda>_.
    case get_membership project_id user_id db of
      None \<Rightarrow> Inl MembershipNotActiveError
    | Some m \<Rightarrow>
        ebind (guard (mb_status m = MS_ACTIVE) MembershipNotActiveError) (\<lambda>_.
        ebind (if mb_role m = PR_OWNER then ensure_another_owner project_id db else Inr ()) (\<lambda>_.
        let m = m\<lparr>mb_status := MS_REMOVED, mb_removed_at := Some now, mb_updated_at := now,
                  mb_version := mb_version m + 1\<rparr>
        in Inr (put_membership m db, m))))"

section \<open>API keys\<close>

text \<open>The random parts of a key, in the format that \<open>secrets\<close> produces.\<close>

record key_randomness =
  kr_public_id :: string
  kr_secret :: string

definition issue_key ::
  "(string \<Rightarrow> string \<Rightarrow> string) \<Rightarrow> key_randomness \<Rightarrow> datetime \<Rightarrow> uuid \<Rightarrow> uuid \<Rightarrow> string \<Rightarrow> string \<Rightarrow> string
   \<Rightarrow> uuid \<Rightarrow> (bool \<times> datetime) option \<Rightarrow> identity_db \<Rightarrow> (api_key \<times> string) id_tx" where
  "issue_key digest random now project_id user_id name hmac_key hash_key_id created_by expires_at db =
    ebind (lock_project project_id db) (\<lambda>_.
    ebind (guard (get_active_membership project_id user_id db \<noteq> None) MembershipNotActiveError) (\<lambda>_.
    let normalized_name = strip name in
    ebind (guard (normalized_name \<noteq> [] \<and> length normalized_name \<le> 128) IdentityValueError) (\<lambda>_.
    ebind (guard (case expires_at of None \<Rightarrow> True | Some (aware, _) \<Rightarrow> aware) IdentityValueError) (\<lambda>_.
    ebind (guard (case expires_at of None \<Rightarrow> True | Some (_, t) \<Rightarrow> \<not> t \<le> now) IdentityValueError) (\<lambda>_.
    ebind (lift_security (generate_api_key digest (kr_public_id random) (kr_secret random) hmac_key hash_key_id)) (\<lambda>material.
    let key = \<lparr>ak_id = fresh_id ak_id (tb_api_keys db), ak_project_id = project_id, ak_user_id = user_id,
               ak_name = normalized_name, ak_key_prefix = km_prefix material,
               ak_secret_hash = km_secret_hash material, ak_hash_key_id = km_hash_key_id material,
               ak_created_by_user_id = created_by, ak_created_at = now,
               ak_expires_at = map_option snd expires_at, ak_revoked_at = None, ak_last_used_at = None,
               ak_version = 1\<rparr> in
    ebind (guard (ak_key_prefix key \<notin> ak_key_prefix ` set (tb_api_keys db))
             (IdentityIntegrityError ''uq_api_keys_key_prefix'')) (\<lambda>_.
    ebind (guard (ak_secret_hash key \<notin> ak_secret_hash ` set (tb_api_keys db))
             (IdentityIntegrityError ''uq_api_keys_secret_hash'')) (\<lambda>_.
    Inr (db\<lparr>tb_api_keys := tb_api_keys db @ [key]\<rparr>, key, km_token material)))))))))"

text \<open>The join of \<open>authenticate\<close>: keys that may be used now, with the role of their membership.\<close>

definition usable_key :: "datetime \<Rightarrow> identity_db \<Rightarrow> api_key \<Rightarrow> bool" where
  "usable_key now db key \<longleftrightarrow> ak_revoked_at key = None
     \<and> (case ak_expires_at key of None \<Rightarrow> True | Some t \<Rightarrow> t > now)
     \<and> active_user (ak_user_id key) db \<and> active_project (ak_project_id key) db
     \<and> get_active_membership (ak_project_id key) (ak_user_id key) db \<noteq> None"

definition authenticate ::
  "(string \<Rightarrow> string \<Rightarrow> string) \<Rightarrow> (string \<Rightarrow> string option) \<Rightarrow> datetime \<Rightarrow> string \<Rightarrow> identity_db \<Rightarrow> principal option" where
  "authenticate digest resolve_hmac_key now token db =
    (case parse_api_key_prefix token of
       Inl _ \<Rightarrow> None
     | Inr prefix \<Rightarrow>
         (case filter (\<lambda>k. ak_key_prefix k = prefix \<and> usable_key now db k) (tb_api_keys db) of
            [] \<Rightarrow> None
          | key # _ \<Rightarrow>
              (case resolve_hmac_key (ak_hash_key_id key) of
                 None \<Rightarrow> None
               | Some hmac_key \<Rightarrow>
                   if \<not> verify_api_key digest token (ak_secret_hash key) hmac_key then None
                   else Some \<lparr>pn_kind = PK_API_KEY, pn_project_id = Some (ak_project_id key),
                              pn_user_id = Some (ak_user_id key), pn_api_key_id = Some (ak_id key),
                              pn_role = map_option mb_role
                                (get_active_membership (ak_project_id key) (ak_user_id key) db),
                              pn_key_prefix = Some (ak_key_prefix key)\<rparr>)))"

definition list_keys_for_project :: "uuid \<Rightarrow> nat \<Rightarrow> nat \<Rightarrow> identity_db \<Rightarrow> api_key list" where
  "list_keys_for_project project_id limit skip db =
     take limit (drop skip (sort_key (\<lambda>k. (- ak_created_at k, - int (ak_id k)))
       (filter (\<lambda>k. ak_project_id k = project_id) (tb_api_keys db))))"

definition put_key :: "api_key \<Rightarrow> identity_db \<Rightarrow> identity_db" where
  "put_key key db = db\<lparr>tb_api_keys := tput ak_id key (tb_api_keys db)\<rparr>"

definition revoke_key :: "datetime \<Rightarrow> uuid \<Rightarrow> identity_db \<Rightarrow> identity_db \<times> api_key option" where
  "revoke_key now api_key_id db =
    (case tget ak_id api_key_id (tb_api_keys db) of
       None \<Rightarrow> (db, None)
     | Some key \<Rightarrow>
         if ak_revoked_at key = None
         then let key = key\<lparr>ak_revoked_at := Some now, ak_version := ak_version key + 1\<rparr> in (put_key key db, Some key)
         else (db, Some key))"

definition touch_last_used :: "datetime \<Rightarrow> uuid \<Rightarrow> identity_db \<Rightarrow> identity_db \<times> bool" where
  "touch_last_used now api_key_id db =
    (case tget ak_id api_key_id (tb_api_keys db) of
       None \<Rightarrow> (db, False)
     | Some key \<Rightarrow>
         if ak_revoked_at key \<noteq> None then (db, False)
         else (put_key (key\<lparr>ak_last_used_at := Some now, ak_version := ak_version key + 1\<rparr>) db, True))"

section \<open>Handlers\<close>

text \<open>An expected failure with its HTTP status and code; \<open>Unhandled\<close> is an exception no handler catches.\<close>

datatype api_error = APIError nat string | Unhandled identity_error

type_synonym 'a response = "api_error + identity_db \<times> 'a"

text \<open>The \<open>except\<close> clauses of a handler: which exceptions become which API error.\<close>

definition catching :: "(identity_error \<Rightarrow> api_error option) \<Rightarrow> identity_error + 'a \<Rightarrow> api_error + 'a" where
  "catching handler result =
    (case result of
       Inl e \<Rightarrow> (case handler e of Some a \<Rightarrow> Inl a | None \<Rightarrow> Inl (Unhandled e))
     | Inr x \<Rightarrow> Inr x)"

definition require_api_permission :: "permission \<Rightarrow> principal \<Rightarrow> api_error + unit" where
  "require_api_permission permission p =
    (case require_permission p permission of
       Inl _ \<Rightarrow> Inl (APIError 403 ''PERMISSION_DENIED'') | Inr _ \<Rightarrow> Inr ())"

definition require_same_project :: "principal \<Rightarrow> uuid \<Rightarrow> api_error + unit" where
  "require_same_project p project_id =
    (case require_project_access p project_id of
       Inl _ \<Rightarrow> Inl (APIError 404 ''PROJECT_NOT_FOUND'') | Inr _ \<Rightarrow> Inr ())"

definition require_membership_authority ::
  "principal \<Rightarrow> project_role option \<Rightarrow> project_role option \<Rightarrow> api_error + unit" where
  "require_membership_authority p current_role requested_role =
     guard (can_manage_membership_roles p current_role requested_role) (APIError 403 ''PERMISSION_DENIED'')"

definition require_user :: "principal \<Rightarrow> api_error + uuid" where
  "require_user p =
    (case pn_user_id p of None \<Rightarrow> Inl (APIError 403 ''PERMISSION_DENIED'') | Some u \<Rightarrow> Inr u)"

definition api_key_hmac_key :: "string \<Rightarrow> api_error + string" where
  "api_key_hmac_key pepper =
    (if length pepper < 32 then Inl (APIError 503 ''API_KEY_PEPPER_INVALID'') else Inr pepper)"

definition create_user_handler ::
  "(string \<Rightarrow> bool) \<Rightarrow> principal \<Rightarrow> datetime \<Rightarrow> string \<Rightarrow> string \<Rightarrow> string \<Rightarrow> identity_db \<Rightarrow> user_row response" where
  "create_user_handler is_argon2id p now username email password_hash db =
    ebind (require_api_permission MEMBERSHIP_MANAGE p) (\<lambda>_.
    catching (\<lambda>e. case e of IdentityIntegrityError _ \<Rightarrow> Some (APIError 409 ''USER_ALREADY_EXISTS'') | _ \<Rightarrow> None)
      (create_user is_argon2id now username email password_hash db))"

text \<open>A new project with its owner and its quota, then a first key: shared by two handlers.\<close>

definition found_project ::
  "(identity_error \<Rightarrow> api_error option) \<Rightarrow> (string \<Rightarrow> string \<Rightarrow> string) \<Rightarrow> key_randomness \<Rightarrow> string \<Rightarrow> datetime
   \<Rightarrow> string \<Rightarrow> string \<Rightarrow> string \<Rightarrow> uuid \<Rightarrow> identity_db \<Rightarrow> (uuid \<times> string) response" where
  "found_project handler digest random pepper now name slug key_name user_id db =
    ebind (catching handler (create_with_owner now name slug user_id db)) (\<lambda>(db, project_id, _).
    ebind (catching handler
             (case initialize now project_id db of Inl e \<Rightarrow> Inl (QuotaError e) | Inr (db, _) \<Rightarrow> Inr db)) (\<lambda>db.
    ebind (api_key_hmac_key pepper) (\<lambda>hmac_key.
    ebind (catching handler
             (issue_key digest random now project_id user_id key_name hmac_key ''v1'' user_id None db)) (\<lambda>(db, _, token).
    Inr (db, project_id, token)))))"

definition create_project_handler ::
  "(string \<Rightarrow> string \<Rightarrow> string) \<Rightarrow> key_randomness \<Rightarrow> string \<Rightarrow> principal \<Rightarrow> datetime \<Rightarrow> string \<Rightarrow> string \<Rightarrow> string
   \<Rightarrow> identity_db \<Rightarrow> (uuid \<times> string) response" where
  "create_project_handler digest random pepper p now name slug key_name db =
    ebind (guard (pn_kind p = PK_API_KEY) (APIError 403 ''PERMISSION_DENIED'')) (\<lambda>_.
    ebind (require_user p) (\<lambda>user_id.
    found_project (\<lambda>e. case e of
        IdentityNotFoundError \<Rightarrow> Some (APIError 403 ''USER_DISABLED'')
      | IdentityIntegrityError _ \<Rightarrow> Some (APIError 409 ''PROJECT_SLUG_ALREADY_EXISTS'')
      | _ \<Rightarrow> None) digest random pepper now name slug key_name user_id db))"

record bootstrap_settings =
  bs_enabled :: bool
  bs_token :: string
  bs_pepper :: string

definition bootstrap ::
  "(string \<Rightarrow> bool) \<Rightarrow> (string \<Rightarrow> string \<Rightarrow> string) \<Rightarrow> key_randomness \<Rightarrow> bootstrap_settings \<Rightarrow> string option \<Rightarrow> datetime
   \<Rightarrow> string \<Rightarrow> string \<Rightarrow> string \<Rightarrow> string \<Rightarrow> string \<Rightarrow> string \<Rightarrow> identity_db \<Rightarrow> (uuid \<times> string) response" where
  "bootstrap is_argon2id digest random settings token now username email password_hash name slug key_name db =
    (let handler = (\<lambda>e. case e of IdentityIntegrityError _ \<Rightarrow> Some (APIError 409 ''BOOTSTRAP_ALREADY_COMPLETED'') | _ \<Rightarrow> None) in
     ebind (guard (bs_enabled settings) (APIError 403 ''BOOTSTRAP_DISABLED'')) (\<lambda>_.
     ebind (guard (bs_token settings = [] \<or> token = Some (bs_token settings)) (APIError 403 ''INVALID_BOOTSTRAP_TOKEN'')) (\<lambda>_.
     ebind (guard (tb_users db = []) (APIError 409 ''BOOTSTRAP_ALREADY_COMPLETED'')) (\<lambda>_.
     ebind (catching handler (create_user is_argon2id now username email password_hash db)) (\<lambda>(db, user).
     found_project handler digest random (bs_pepper settings) now name slug key_name (usr_id user) db)))))"

text \<open>The role of a membership that counts for an authority check: only an active one.\<close>

definition current_role :: "uuid \<Rightarrow> uuid \<Rightarrow> identity_db \<Rightarrow> project_role option" where
  "current_role project_id user_id db = map_option mb_role (get_active_membership project_id user_id db)"

definition add_member ::
  "principal \<Rightarrow> datetime \<Rightarrow> uuid \<Rightarrow> uuid \<Rightarrow> project_role \<Rightarrow> identity_db \<Rightarrow> membership response" where
  "add_member p now project_id user_id role db =
    ebind (require_api_permission MEMBERSHIP_MANAGE p) (\<lambda>_.
    ebind (require_same_project p project_id) (\<lambda>_.
    ebind (require_user p) (\<lambda>caller.
    ebind (require_membership_authority p (current_role project_id user_id db) (Some role)) (\<lambda>_.
    catching (\<lambda>e. case e of IdentityNotFoundError \<Rightarrow> Some (APIError 404 ''MEMBERSHIP_TARGET_NOT_FOUND'') | _ \<Rightarrow> None)
      (add_or_restore now project_id user_id role caller db)))))"

definition membership_errors :: "identity_error \<Rightarrow> api_error option" where
  "membership_errors e =
    (case e of
       MembershipNotActiveError \<Rightarrow> Some (APIError 404 ''MEMBERSHIP_NOT_FOUND'')
     | IdentityNotFoundError \<Rightarrow> Some (APIError 404 ''MEMBERSHIP_NOT_FOUND'')
     | LastProjectOwnerError \<Rightarrow> Some (APIError 409 ''LAST_PROJECT_OWNER'')
     | _ \<Rightarrow> None)"

definition change_member_role ::
  "principal \<Rightarrow> datetime \<Rightarrow> uuid \<Rightarrow> uuid \<Rightarrow> project_role \<Rightarrow> identity_db \<Rightarrow> membership response" where
  "change_member_role p now project_id user_id role db =
    ebind (require_api_permission MEMBERSHIP_MANAGE p) (\<lambda>_.
    ebind (require_same_project p project_id) (\<lambda>_.
    case get_active_membership project_id user_id db of
      None \<Rightarrow> Inl (APIError 404 ''MEMBERSHIP_NOT_FOUND'')
    | Some existing \<Rightarrow>
        ebind (require_membership_authority p (Some (mb_role existing)) (Some role)) (\<lambda>_.
        catching membership_errors (change_role now project_id user_id role db))))"

definition remove_member :: "principal \<Rightarrow> datetime \<Rightarrow> uuid \<Rightarrow> uuid \<Rightarrow> identity_db \<Rightarrow> membership response" where
  "remove_member p now project_id user_id db =
    ebind (require_api_permission MEMBERSHIP_MANAGE p) (\<lambda>_.
    ebind (require_same_project p project_id) (\<lambda>_.
    case get_active_membership project_id user_id db of
      None \<Rightarrow> Inl (APIError 404 ''MEMBERSHIP_NOT_FOUND'')
    | Some existing \<Rightarrow>
        ebind (require_membership_authority p (Some (mb_role existing)) None) (\<lambda>_.
        catching membership_errors (remove_membership now project_id user_id db))))"

definition issue_api_key ::
  "(string \<Rightarrow> string \<Rightarrow> string) \<Rightarrow> key_randomness \<Rightarrow> string \<Rightarrow> principal \<Rightarrow> datetime \<Rightarrow> uuid \<Rightarrow> uuid option \<Rightarrow> string
   \<Rightarrow> (bool \<times> datetime) option \<Rightarrow> identity_db \<Rightarrow> (api_key \<times> string) response" where
  "issue_api_key digest random pepper p now project_id user_id name expires_at db =
    ebind (require_api_permission API_KEY_MANAGE p) (\<lambda>_.
    ebind (require_same_project p project_id) (\<lambda>_.
    ebind (require_user p) (\<lambda>caller.
    let target_user_id = (case user_id of None \<Rightarrow> caller | Some u \<Rightarrow> u) in
    case get_active_membership project_id target_user_id db of
      None \<Rightarrow> Inl (APIError 404 ''MEMBERSHIP_NOT_FOUND'')
    | Some target \<Rightarrow>
        ebind (guard (can_issue_api_key_for_role p (mb_role target)) (APIError 403 ''PERMISSION_DENIED'')) (\<lambda>_.
        ebind (api_key_hmac_key pepper) (\<lambda>hmac_key.
        catching (\<lambda>e. case e of
            MembershipNotActiveError \<Rightarrow> Some (APIError 404 ''MEMBERSHIP_NOT_FOUND'')
          | IdentityNotFoundError \<Rightarrow> Some (APIError 404 ''MEMBERSHIP_NOT_FOUND'')
          | IdentityValueError \<Rightarrow> Some (APIError 422 ''INVALID_API_KEY'')
          | _ \<Rightarrow> None)
          (issue_key digest random now project_id target_user_id name hmac_key ''v1'' caller expires_at db))))))"

definition revoke_api_key :: "principal \<Rightarrow> datetime \<Rightarrow> uuid \<Rightarrow> uuid \<Rightarrow> identity_db \<Rightarrow> api_key response" where
  "revoke_api_key p now project_id api_key_id db =
    ebind (require_api_permission API_KEY_MANAGE p) (\<lambda>_.
    ebind (require_same_project p project_id) (\<lambda>_.
    case tget ak_id api_key_id (tb_api_keys db) of
      None \<Rightarrow> Inl (APIError 404 ''API_KEY_NOT_FOUND'')
    | Some key \<Rightarrow>
        if ak_project_id key \<noteq> project_id then Inl (APIError 404 ''API_KEY_NOT_FOUND'')
        else (case revoke_key now api_key_id db of
                (_, None) \<Rightarrow> Inl (APIError 404 ''API_KEY_NOT_FOUND'')
              | (db, Some key) \<Rightarrow> Inr (db, key))))"

section \<open>Transactions\<close>

lemma lift_security_Inr [simp]: "lift_security r = Inr x \<longleftrightarrow> r = Inr x"
  by (cases r) (auto simp: lift_security_def)

inductive identity_step :: "identity_db \<Rightarrow> identity_db \<Rightarrow> bool" where
  id_create_user: "create_user argon now n e h db = Inr (db', u) \<Longrightarrow> identity_step db db'"
| id_disable: "disable_user now uid db = (db', u) \<Longrightarrow> identity_step db db'"
| id_project: "create_with_owner now name slug uid db = Inr (db', x) \<Longrightarrow> identity_step db db'"
| id_quota: "initialize now pid db = Inr (db', snap) \<Longrightarrow> identity_step db db'"
| id_add: "add_or_restore now pid uid role caller db = Inr (db', m) \<Longrightarrow> identity_step db db'"
| id_change: "change_role now pid uid role db = Inr (db', m) \<Longrightarrow> identity_step db db'"
| id_remove: "remove_membership now pid uid db = Inr (db', m) \<Longrightarrow> identity_step db db'"
| id_issue: "issue_key digest rnd now pid uid name hk kid caller expiry db = Inr (db', x) \<Longrightarrow> identity_step db db'"
| id_revoke: "revoke_key now k db = (db', x) \<Longrightarrow> identity_step db db'"
| id_touch: "touch_last_used now k db = (db', x) \<Longrightarrow> identity_step db db'"

lemma initialize_keys: "initialize now pid db = Inr (db', snap) \<Longrightarrow> tb_api_keys (db' :: identity_db) = tb_api_keys db"
  by (auto simp: initialize_def ebind_eq_Inr split: option.splits if_splits)

text \<open>What a step does to the keys: a key row is added, or one is replaced that keeps its revocation.\<close>

definition keys_step :: "api_key list \<Rightarrow> api_key list \<Rightarrow> bool" where
  "keys_step ks ks' \<longleftrightarrow> ks' = ks
     \<or> (\<exists>key. ks' = ks @ [key] \<and> ak_id key = fresh_id ak_id ks)
     \<or> (\<exists>key old. ks' = tput ak_id key ks \<and> tget ak_id (ak_id key) ks = Some old
          \<and> (ak_revoked_at old \<noteq> None \<longrightarrow> ak_revoked_at key \<noteq> None))"

lemma keys_step_refl [simp]: "keys_step ks ks"
  by (simp add: keys_step_def)

lemma keys_step_add: "ak_id key = fresh_id ak_id ks \<Longrightarrow> keys_step ks (ks @ [key])"
  unfolding keys_step_def by blast

lemma keys_step_put:
  "tget ak_id k ks = Some old \<Longrightarrow> ak_id key = ak_id old \<Longrightarrow> (ak_revoked_at old \<noteq> None \<longrightarrow> ak_revoked_at key \<noteq> None)
   \<Longrightarrow> keys_step ks (tput ak_id key ks)"
  unfolding keys_step_def by (metis tget_SomeD)

lemma issue_key_keys:
  "returns (issue_key digest rnd now pid uid name hk kid caller expiry db) (\<lambda>(db', key, token).
     tb_api_keys db' = tb_api_keys db @ [key] \<and> ak_id key = fresh_id ak_id (tb_api_keys db))"
  unfolding issue_key_def by (intro returns_intros) auto

lemma identity_step_keys: "identity_step db db' \<Longrightarrow> keys_step (tb_api_keys db) (tb_api_keys db')"
proof (induction rule: identity_step.induct)
  case (id_issue digest rnd now pid uid name hk kid caller expiry db db' x)
  then show ?case by (cases x) (auto dest!: returnsD [OF issue_key_keys] intro: keys_step_add)
next
  case (id_quota now pid db db' snap)
  then show ?case by (auto dest: initialize_keys)
next
  case (id_revoke now k db db' x)
  then show ?case
  proof (cases "tget ak_id k (tb_api_keys db)")
    case (Some old)
    with id_revoke keys_step_put [OF Some] show ?thesis
      by (auto simp: revoke_key_def put_key_def Let_def split: if_splits)
  qed (auto simp: revoke_key_def)
next
  case (id_touch now k db db' x)
  then show ?case
  proof (cases "tget ak_id k (tb_api_keys db)")
    case (Some old)
    with id_touch keys_step_put [OF Some] show ?thesis
      by (auto simp: touch_last_used_def put_key_def split: if_splits)
  qed (auto simp: touch_last_used_def)
qed (auto simp: create_user_def disable_user_def create_with_owner_def add_or_restore_def change_role_def
      remove_membership_def put_membership_def ebind_eq_Inr Let_def split: option.splits if_splits)

text \<open>Key ids are unique, and a revocation is never undone.\<close>

definition revoked :: "uuid \<Rightarrow> identity_db \<Rightarrow> bool" where
  "revoked k db = (case tget ak_id k (tb_api_keys db) of None \<Rightarrow> False | Some key \<Rightarrow> ak_revoked_at key \<noteq> None)"

lemma keys_step_distinct: "keys_step ks ks' \<Longrightarrow> distinct (map ak_id ks) \<Longrightarrow> distinct (map ak_id ks')"
  unfolding keys_step_def using fresh_id_notin [of ak_id ks] by (auto simp: tput_keys simp del: map_map)

lemma identity_steps_revoked:
  assumes "identity_step\<^sup>*\<^sup>* db db'" and "distinct (map ak_id (tb_api_keys db))" and "revoked k db"
  shows "distinct (map ak_id (tb_api_keys db')) \<and> revoked k db'"
  using assms
proof (induction rule: rtranclp_induct)
  case (step db1 db2)
  from identity_step_keys [OF step(2)] have s: "keys_step (tb_api_keys db1) (tb_api_keys db2)" .
  have "revoked k db2"
    using s step.IH [OF step.prems] unfolding keys_step_def revoked_def
    by (auto simp: tget_append tget_tput split: option.splits if_splits)
  with keys_step_distinct [OF s] step show ?case by blast
qed simp

lemma authenticate_Some:
  assumes "authenticate digest resolve now token db = Some p"
  obtains key hmac_key m where "key \<in> set (tb_api_keys db)" "usable_key now db key"
    "parse_api_key_prefix token = Inr (ak_key_prefix key)" "resolve (ak_hash_key_id key) = Some hmac_key"
    "verify_api_key digest token (ak_secret_hash key) hmac_key"
    "get_active_membership (ak_project_id key) (ak_user_id key) db = Some m"
    "p = \<lparr>pn_kind = PK_API_KEY, pn_project_id = Some (ak_project_id key), pn_user_id = Some (ak_user_id key),
          pn_api_key_id = Some (ak_id key), pn_role = Some (mb_role m), pn_key_prefix = Some (ak_key_prefix key)\<rparr>"
proof -
  from assms obtain prefix where prefix: "parse_api_key_prefix token = Inr prefix"
    by (auto simp: authenticate_def split: sum.splits)
  let ?rows = "filter (\<lambda>k. ak_key_prefix k = prefix \<and> usable_key now db k) (tb_api_keys db)"
  from assms prefix obtain key rest where rows: "?rows = key # rest"
    by (auto simp: authenticate_def split: list.splits)
  have "key \<in> set ?rows" unfolding rows by simp
  then have key: "key \<in> set (tb_api_keys db)" "ak_key_prefix key = prefix" "usable_key now db key" by simp_all
  from key(3) obtain m where m: "get_active_membership (ak_project_id key) (ak_user_id key) db = Some m"
    by (auto simp: usable_key_def)
  from assms prefix rows m that [OF key(1,3)] key(2) show thesis
    by (auto simp: authenticate_def split: option.splits if_splits)
qed

section \<open>Properties of identities\<close>

text \<open>
  C33. An issued API key works: until it expires, the token handed out authenticates as the user
  and project it was issued for, with the role of the user's membership, when the user is
  active. The random parts have the format that \<open>secrets.token_hex(8)\<close> and
  \<open>secrets.token_urlsafe(32)\<close> document.
\<close>

theorem issued_key_authenticates:
  assumes "issue_key digest rnd now pid uid name hk kid caller expiry db = Inr (db', key, token)"
    and "length (kr_public_id rnd) = 16" "\<forall>c \<in> set (kr_public_id rnd). hex_char c"
    and "length (kr_secret rnd) = 43" "\<forall>c \<in> set (kr_secret rnd). secret_char c"
    and "active_user uid db" and "resolve kid = Some hk"
    and "case expiry of None \<Rightarrow> True | Some (_, t) \<Rightarrow> later < t"
  shows "authenticate digest resolve later token db' =
    Some \<lparr>pn_kind = PK_API_KEY, pn_project_id = Some pid, pn_user_id = Some uid, pn_api_key_id = Some (ak_id key),
          pn_role = map_option mb_role (get_active_membership pid uid db), pn_key_prefix = Some (ak_key_prefix key)\<rparr>"
proof -
  have "returns (issue_key digest rnd now pid uid name hk kid caller expiry db) (\<lambda>(db', key, token).
      \<exists>km. generate_api_key digest (kr_public_id rnd) (kr_secret rnd) hk kid = Inr km \<and> token = km_token km
        \<and> ak_key_prefix key = km_prefix km \<and> ak_secret_hash key = km_secret_hash km
        \<and> ak_hash_key_id key = km_hash_key_id km \<and> ak_project_id key = pid \<and> ak_user_id key = uid
        \<and> ak_revoked_at key = None \<and> ak_expires_at key = map_option snd expiry
        \<and> ak_key_prefix key \<notin> ak_key_prefix ` set (tb_api_keys db)
        \<and> active_project pid db \<and> get_active_membership pid uid db \<noteq> None
        \<and> db' = db\<lparr>tb_api_keys := tb_api_keys db @ [key]\<rparr>)"
    unfolding issue_key_def lock_project_def by (intro returns_intros) auto
  from returnsD [OF this assms(1)] obtain km where
    gen: "generate_api_key digest (kr_public_id rnd) (kr_secret rnd) hk kid = Inr km" and t: "token = km_token km"
    and k: "ak_key_prefix key = km_prefix km" "ak_secret_hash key = km_secret_hash km"
      "ak_hash_key_id key = km_hash_key_id km" "ak_project_id key = pid" "ak_user_id key = uid"
      "ak_revoked_at key = None" "ak_expires_at key = map_option snd expiry"
    and new: "ak_key_prefix key \<notin> ak_key_prefix ` set (tb_api_keys db)"
    and act: "active_project pid db" "get_active_membership pid uid db \<noteq> None"
    and db': "db' = db\<lparr>tb_api_keys := tb_api_keys db @ [key]\<rparr>"
    by auto
  have kid: "km_hash_key_id km = kid" using gen by (auto simp: generate_api_key_def ebind_eq_Inr Let_def)
  have same: "active_project q db' = active_project q db" "active_user v db' = active_user v db"
    "get_active_membership q v db' = get_active_membership q v db" for q v
    by (simp_all add: db' active_project_def active_user_def get_active_membership_def get_membership_def)
  have usable: "usable_key later db' key"
    using assms(6,8) act k by (auto simp: usable_key_def same split: option.splits prod.splits)
  have "filter (\<lambda>x. ak_key_prefix x = km_prefix km \<and> usable_key later db' x) (tb_api_keys db) = []"
    using new k(1) by (auto simp: filter_empty_conv image_iff)
  then have rows: "filter (\<lambda>x. ak_key_prefix x = km_prefix km \<and> usable_key later db' x) (tb_api_keys db') = [key]"
    using usable k(1) by (simp add: db')
  show ?thesis
    using verify_generated [OF gen assms(2-5)] assms(7) k kid
    unfolding authenticate_def t by (simp add: rows same)
qed

definition example_random :: key_randomness where
  "example_random = \<lparr>kr_public_id = replicate 16 (CHR ''a''), kr_secret = replicate 43 (CHR ''b'')\<rparr>"

definition example_digest :: "string \<Rightarrow> string \<Rightarrow> string" where
  "example_digest key token = take 8 (rev token) @ take 2 key"

definition example_user :: "uuid \<Rightarrow> string \<Rightarrow> user_row" where
  "example_user k name = \<lparr>usr_id = k, usr_username = name, usr_username_normalized = name, usr_email = name @ ''@x.io'',
     usr_email_normalized = name @ ''@x.io'', usr_password_hash = ''h'', usr_status = US_ACTIVE, usr_created_at = 0,
     usr_updated_at = 0, usr_version = 1\<rparr>"

definition example_identity_db :: identity_db where
  "example_identity_db =
     \<lparr>tb_projects = [\<lparr>p_id = 1, p_status = PS_ACTIVE\<rparr>], tb_quotas = [], tb_quota_states = [],
      tb_project_details = [\<lparr>pd_id = 1, pd_name = ''lab'', pd_slug = ''lab'', pd_created_by_user_id = 1, pd_created_at = 0\<rparr>],
      tb_users = [example_user 1 ''ann'', example_user 2 ''bob''],
      tb_memberships = [new_membership 0 1 1 PR_OWNER 1, new_membership 0 1 2 PR_MEMBER 1], tb_api_keys = []\<rparr>"

definition example_hmac_key :: string where
  "example_hmac_key = replicate 32 (CHR ''k'')"

definition example_issue where
  "example_issue = issue_key example_digest example_random 10 1 2 ''ci'' example_hmac_key ''v1'' 1 (Some (True, 100)) example_identity_db"

lemma example_issued:
  "example_issue = Inr (fst (projr example_issue), fst (snd (projr example_issue)), snd (snd (projr example_issue)))"
proof -
  have "\<not> isl example_issue" by code_simp
  then show ?thesis by (cases example_issue) auto
qed

theorem issued_key_authenticates_witness:
  "map_option pn_role (authenticate example_digest (\<lambda>k. if k = ''v1'' then Some example_hmac_key else None) 50
     (snd (snd (projr example_issue))) (fst (projr example_issue))) = Some (Some PR_MEMBER)"
proof -
  have r: "length (kr_public_id example_random) = 16" "\<forall>c \<in> set (kr_public_id example_random). hex_char c"
    "length (kr_secret example_random) = 43" "\<forall>c \<in> set (kr_secret example_random). secret_char c"
    by code_simp+
  have u: "active_user 2 example_identity_db" by code_simp
  have m: "map_option mb_role (get_active_membership 1 2 example_identity_db) = Some PR_MEMBER" by code_simp
  show ?thesis
    using issued_key_authenticates [OF example_issued [unfolded example_issue_def] r u,
        of "\<lambda>k. if k = ''v1'' then Some example_hmac_key else None" 50] m
    unfolding example_issue_def [symmetric] by simp
qed

text \<open>
  C9. A revoked key never authenticates again: whatever identity transactions follow the
  revocation, no token authenticates as a principal of that key.
\<close>

theorem revoked_key_stays_out:
  assumes "identity_step\<^sup>*\<^sup>* db db'" and "distinct (map ak_id (tb_api_keys db))" and "revoked k db"
  shows "\<not> (\<exists>digest resolve now token p. authenticate digest resolve now token db' = Some p \<and> pn_api_key_id p = Some k)"
proof
  assume "\<exists>digest resolve now token p. authenticate digest resolve now token db' = Some p \<and> pn_api_key_id p = Some k"
  then obtain digest resolve now token p
    where auth: "authenticate digest resolve now token db' = Some p" and pk: "pn_api_key_id p = Some k" by blast
  from identity_steps_revoked [OF assms(1-3)] have d: "distinct (map ak_id (tb_api_keys db'))" and r: "revoked k db'"
    by simp_all
  from authenticate_Some [OF auth] obtain key where "key \<in> set (tb_api_keys db')" "usable_key now db' key" "ak_id key = k"
    using pk by (metis option.inject principal.select_convs(4))
  with tget_member [OF d] r show False by (auto simp: revoked_def usable_key_def)
qed

definition example_key :: api_key where
  "example_key = fst (snd (projr example_issue))"

definition example_revoked_db :: identity_db where
  "example_revoked_db = fst (revoke_key 60 1 (fst (projr example_issue)))"

theorem revoked_key_stays_out_witness:
  "revoked 1 example_revoked_db
   \<and> \<not> (\<exists>digest resolve now token p.
           authenticate digest resolve now token (fst (disable_user 70 1 example_revoked_db)) = Some p \<and>
           pn_api_key_id p = Some 1)"
proof -
  have r: "revoked 1 example_revoked_db" "distinct (map ak_id (tb_api_keys example_revoked_db))" by code_simp+
  have "identity_step example_revoked_db (fst (disable_user 70 1 example_revoked_db))"
    by (rule id_disable) (rule prod.collapse [symmetric])
  then have "identity_step\<^sup>*\<^sup>* example_revoked_db (fst (disable_user 70 1 example_revoked_db))" by blast
  from revoked_key_stays_out [OF this r(2,1)] r(1) show ?thesis by blast
qed



section \<open>The last owner\<close>

definition has_owner :: "uuid \<Rightarrow> identity_db \<Rightarrow> bool" where
  "has_owner project_id db \<longleftrightarrow> (\<exists>m \<in> set (tb_memberships db). active_owner project_id m)"

lemma put_membership_owner:
  assumes d: "distinct (map mb_key (tb_memberships db))" and m: "get_membership pid uid db = Some m"
    and key: "mb_key m' = mb_key m" and has: "has_owner q db"
    and safe: "active_owner pid m \<Longrightarrow> active_owner pid m' \<or> 1 < length (filter (active_owner pid) (tb_memberships db))"
  shows "has_owner q (put_membership m' db)"
proof -
  let ?ms = "tb_memberships db"
  have mem: "m \<in> set ?ms" "mb_key m = (pid, uid)" using m by (auto simp: get_membership_def dest: tget_SomeD)
  have stays: "y \<in> set (tput mb_key m' ?ms)" if "y \<in> set ?ms" "mb_key y \<noteq> mb_key m" for y
    using that key by (auto simp: tput_def image_iff intro: rev_bexI)
  have new: "m' \<in> set (tput mb_key m' ?ms)" using mem(1) key by (auto simp: tput_def image_iff intro: rev_bexI)
  have uniq: "y = m" if "y \<in> set ?ms" "mb_key y = mb_key m" for y
    using that mem(1) d by (metis inj_on_def distinct_map)
  from has obtain y where y: "y \<in> set ?ms" "active_owner q y" by (auto simp: has_owner_def)
  have "\<exists>y \<in> set (tput mb_key m' ?ms). active_owner q y"
  proof (cases "mb_key y = mb_key m")
    case False
    then show ?thesis using stays y by blast
  next
    case True
    then have "y = m" by (rule uniq [OF y(1)])
    then have q: "q = pid" and o: "active_owner pid m" using y(2) mem(2) by (auto simp: active_owner_def mb_key_def)
    from safe [OF o] show ?thesis
    proof
      assume "active_owner pid m'" then show ?thesis using new q by blast
    next
      assume two: "1 < length (filter (active_owner pid) ?ms)"
      have "\<exists>z \<in> set ?ms. active_owner pid z \<and> z \<noteq> m"
      proof (rule ccontr)
        assume none: "\<not> ?thesis"
        have "distinct (filter (active_owner pid) ?ms)" using d by (simp add: distinct_map)
        moreover have "set (filter (active_owner pid) ?ms) \<subseteq> {m}" using none by auto
        ultimately have "length (filter (active_owner pid) ?ms) \<le> card {m}"
          by (metis card_mono distinct_card finite.emptyI finite.insertI)
        with two show False by simp
      qed
      then obtain z where "z \<in> set ?ms" "active_owner pid z" "z \<noteq> m" by blast
      with stays uniq q show ?thesis by metis
    qed
  qed
  then show ?thesis by (simp add: has_owner_def put_membership_def)
qed

lemma change_role_owner:
  "distinct (map mb_key (tb_memberships db)) \<Longrightarrow> has_owner q db
   \<Longrightarrow> returns (change_role now pid uid role db) (\<lambda>(db', _). has_owner q db')"
  unfolding change_role_def ensure_another_owner_def
  by (intro returns_intros) (auto simp: mb_key_def active_owner_def intro!: put_membership_owner)

lemma remove_membership_owner:
  "distinct (map mb_key (tb_memberships db)) \<Longrightarrow> has_owner q db
   \<Longrightarrow> returns (remove_membership now pid uid db) (\<lambda>(db', _). has_owner q db')"
  unfolding remove_membership_def ensure_another_owner_def
  by (intro returns_intros) (auto simp: mb_key_def active_owner_def intro!: put_membership_owner)

lemma catching_Inr [simp]: "catching h r = Inr x \<longleftrightarrow> r = Inr x"
  by (cases r) (auto simp: catching_def split: option.splits)

text \<open>
  C6. Changing and removing members never leaves a project without an owner: when a role change
  or a removal is accepted, every project that had an active owner still has one.
\<close>

theorem last_owner_kept:
  assumes "change_member_role p now pid uid role db = Inr (db', m) \<or> remove_member p now pid uid db = Inr (db', m)"
    and "distinct (map mb_key (tb_memberships db))" and "has_owner q db"
  shows "has_owner q db'"
proof -
  have "change_role now pid uid role db = Inr (db', m) \<or> remove_membership now pid uid db = Inr (db', m)"
    using assms(1) by (auto simp: change_member_role_def remove_member_def ebind_eq_Inr split: option.splits)
  then show ?thesis
    using returnsD [OF change_role_owner [OF assms(2,3)]] returnsD [OF remove_membership_owner [OF assms(2,3)]]
    by fastforce
qed

definition example_owner :: principal where
  "example_owner = \<lparr>pn_kind = PK_API_KEY, pn_project_id = Some 1, pn_user_id = Some 1, pn_api_key_id = Some 9,
     pn_role = Some PR_OWNER, pn_key_prefix = Some ''mkc_9''\<rparr>"

definition example_promotion where
  "example_promotion = change_member_role example_owner 20 1 2 PR_OWNER example_identity_db"

theorem last_owner_kept_witness:
  "has_owner 1 (fst (projr example_promotion))"
proof -
  have "\<not> isl example_promotion" by code_simp
  from sum.collapse(2) [OF this]
  obtain db' m where e: "example_promotion = Inr (db', m)" by (metis surj_pair)
  have d: "distinct (map mb_key (tb_memberships example_identity_db))" "has_owner 1 example_identity_db" by code_simp+
  from last_owner_kept [OF disjI1 [OF e [unfolded example_promotion_def]] d] show ?thesis by (simp add: e)
qed


end
