(* ===== verification/Accelerators.thy ===== *)
theory Accelerators
  imports Task_Status Text
begin

text \<open>
  The vendor-neutral accelerator value object \<open>core/accelerators.py\<close>: the pairing of vendors
  with kinds and the validation of a discovered device (\<open>AcceleratorDevice.__post_init__\<close>),
  with the exception each check raises. The lemmas show what a device that passes the
  validation satisfies.
\<close>

section \<open>Vendors and kinds\<close>

definition VENDOR_KINDS :: "(accelerator_vendor \<times> accelerator_kind) list" where
  "VENDOR_KINDS = [(NVIDIA, GPU), (HUAWEI_ASCEND, NPU)]"

definition kind_for_vendor :: "accelerator_vendor \<Rightarrow> accelerator_kind" where
  "kind_for_vendor vendor = the (map_of VENDOR_KINDS vendor)"

definition vendor_for_kind :: "accelerator_kind \<Rightarrow> accelerator_vendor option" where
  "vendor_for_kind kind = map_option fst (find (\<lambda>(vendor, vendor_kind). vendor_kind = kind) VENDOR_KINDS)"

definition vendor_kind_is_compatible :: "accelerator_vendor \<Rightarrow> accelerator_kind \<Rightarrow> bool" where
  "vendor_kind_is_compatible vendor kind \<longleftrightarrow> map_of VENDOR_KINDS vendor = Some kind"

lemma vendor_of_kind_of_vendor [simp]: "vendor_for_kind (kind_for_vendor vendor) = Some vendor"
  by (cases vendor) (simp_all add: vendor_for_kind_def kind_for_vendor_def VENDOR_KINDS_def)

lemma compatible_iff [simp]: "vendor_kind_is_compatible vendor kind \<longleftrightarrow> kind = kind_for_vendor vendor"
  by (cases vendor) (auto simp: vendor_kind_is_compatible_def kind_for_vendor_def VENDOR_KINDS_def)

section \<open>Text\<close>

datatype device_error =
    NotCanonicalText string | TextTooLong string | ControlCharacter string
  | IncompatibleKind | InvalidMemoryTotal | InvalidMemoryFree | InvalidHealth
  | TooManyValues string | ValuesNotUnique string | NegativeIndex | UnqualifiedResource
  | LabelKeysNotUnique | LabelKeyWhitespace | LabelValueNotCanonical | LabelValueWhitespace
  | TaintKeyWhitespace | TaintValueInvalid | TaintEffectUnsupported

definition validate_inventory_text :: "string \<Rightarrow> nat \<Rightarrow> string \<Rightarrow> device_error + unit" where
  "validate_inventory_text name maximum v =
     ebind (guard (v \<noteq> [] \<and> v = strip v) (NotCanonicalText name)) (\<lambda>_.
     ebind (guard (length v \<le> maximum) (TextTooLong name)) (\<lambda>_.
     guard (\<not> list_ex ascii_control v) (ControlCharacter name)))"

definition inventory_text :: "nat \<Rightarrow> string \<Rightarrow> bool" where
  "inventory_text maximum v \<longleftrightarrow>
     v \<noteq> [] \<and> strip v = v \<and> length v \<le> maximum \<and> \<not> list_ex ascii_control v"

lemma validate_inventory_text_ok [simp]:
  "validate_inventory_text name maximum v = Inr u \<longleftrightarrow> inventory_text maximum v"
  by (auto simp: validate_inventory_text_def inventory_text_def ebind_eq_Inr)

text \<open>
  The pattern of a qualified resource name: two segments joined by one slash, each beginning
  and ending with a letter or digit of its class. The slash is in neither class.
\<close>

definition resource_segment :: "(char \<Rightarrow> bool) \<Rightarrow> (char \<Rightarrow> bool) \<Rightarrow> string \<Rightarrow> bool" where
  "resource_segment edge inner s \<longleftrightarrow>
     s \<noteq> [] \<and> edge (hd s) \<and> edge (last s) \<and> list_all (\<lambda>c. edge c \<or> inner c) s"

definition kubernetes_resource :: "string \<Rightarrow> bool" where
  "kubernetes_resource s \<longleftrightarrow>
     (let prefix = takeWhile (\<lambda>c. c \<noteq> CHR ''/'') s;
          rest = dropWhile (\<lambda>c. c \<noteq> CHR ''/'') s
      in resource_segment (\<lambda>c. ascii_lower c \<or> ascii_digit c) (\<lambda>c. c \<in> {CHR ''-'', CHR ''.''}) prefix \<and>
         rest \<noteq> [] \<and>
         resource_segment ascii_alnum (\<lambda>c. c \<in> {CHR ''-'', CHR ''_'', CHR ''.''}) (tl rest))"

section \<open>Devices\<close>

definition DISCOVERED_HEALTH_STATES :: "string list" where
  "DISCOVERED_HEALTH_STATES = [''healthy'', ''unknown'', ''inventory-only'', ''externally-allocated'']"

record accelerator_device =
  ad_device_id :: string
  ad_vendor :: accelerator_vendor
  ad_kind :: accelerator_kind
  ad_model :: string
  ad_memory_total_mb :: int
  ad_memory_free_mb :: int
  ad_health :: string
  ad_compute_arch :: "string option"
  ad_runtime_profile_ids :: "string list"
  ad_capabilities :: "string list"
  ad_fake :: bool
  ad_device_index :: int
  ad_kubernetes_resource_name :: "string option"
  ad_kubernetes_node_name :: "string option"
  ad_kubernetes_node_labels :: "(string \<times> string) list"
  ad_kubernetes_node_taints :: "(string \<times> string option \<times> string) list"

definition each_value :: "('a \<Rightarrow> device_error + unit) \<Rightarrow> 'a list \<Rightarrow> device_error + unit" where
  "each_value check xs = efold (\<lambda>x _. check x) xs ()"

lemma each_value_ok [simp]: "each_value check xs = Inr u \<longleftrightarrow> (\<forall>x \<in> set xs. check x = Inr ())"
  by (induction xs) (auto simp: each_value_def ebind_eq_Inr)

definition optional_value :: "('a \<Rightarrow> device_error + unit) \<Rightarrow> 'a option \<Rightarrow> device_error + unit" where
  "optional_value check x = (case x of None \<Rightarrow> Inr () | Some v \<Rightarrow> check v)"

lemma optional_value_ok [simp]: "optional_value check x = Inr u \<longleftrightarrow> (\<forall>v. x = Some v \<longrightarrow> check v = Inr ())"
  by (cases x) (simp_all add: optional_value_def)

definition validate_node_label :: "string \<times> string \<Rightarrow> device_error + unit" where
  "validate_node_label label = (case label of (label_key, label_value) \<Rightarrow>
     ebind (validate_inventory_text ''kubernetes_node_label key'' 253 label_key) (\<lambda>_.
     ebind (guard (\<not> list_ex ascii_space label_key) LabelKeyWhitespace) (\<lambda>_.
     ebind (guard (label_value = strip label_value \<and> length label_value \<le> 63) LabelValueNotCanonical) (\<lambda>_.
     guard (\<not> list_ex (\<lambda>c. ascii_space c \<or> of_char c < (32 :: nat)) label_value) LabelValueWhitespace))))"

definition validate_node_taint :: "string \<times> string option \<times> string \<Rightarrow> device_error + unit" where
  "validate_node_taint taint = (case taint of (taint_key, taint_value, effect) \<Rightarrow>
     ebind (validate_inventory_text ''kubernetes_node_taint key'' 253 taint_key) (\<lambda>_.
     ebind (guard (\<not> list_ex ascii_space taint_key) TaintKeyWhitespace) (\<lambda>_.
     ebind (optional_value (\<lambda>v. guard (v = strip v \<and> length v \<le> 63 \<and>
         \<not> list_ex (\<lambda>c. ascii_space c \<or> of_char c < (32 :: nat)) v) TaintValueInvalid) taint_value) (\<lambda>_.
     guard (effect \<in> {''NoSchedule'', ''PreferNoSchedule'', ''NoExecute''}) TaintEffectUnsupported))))"

definition validate_device :: "accelerator_device \<Rightarrow> device_error + unit" where
  "validate_device d =
     ebind (validate_inventory_text ''device_id'' 255 (ad_device_id d)) (\<lambda>_.
     ebind (guard (vendor_kind_is_compatible (ad_vendor d) (ad_kind d)) IncompatibleKind) (\<lambda>_.
     ebind (validate_inventory_text ''model'' 255 (ad_model d)) (\<lambda>_.
     ebind (guard (\<not> ad_memory_total_mb d \<le> 0) InvalidMemoryTotal) (\<lambda>_.
     ebind (guard (0 \<le> ad_memory_free_mb d \<and> ad_memory_free_mb d \<le> ad_memory_total_mb d) InvalidMemoryFree) (\<lambda>_.
     ebind (guard (ad_health d \<in> set DISCOVERED_HEALTH_STATES) InvalidHealth) (\<lambda>_.
     ebind (optional_value (validate_inventory_text ''compute_arch'' 128) (ad_compute_arch d)) (\<lambda>_.
     ebind (guard (length (ad_runtime_profile_ids d) \<le> 64) (TooManyValues ''runtime_profile_ids'')) (\<lambda>_.
     ebind (guard (distinct (ad_runtime_profile_ids d)) (ValuesNotUnique ''runtime_profile_ids'')) (\<lambda>_.
     ebind (each_value (validate_inventory_text ''runtime_profile_binding'' 255) (ad_runtime_profile_ids d)) (\<lambda>_.
     ebind (guard (length (ad_capabilities d) \<le> 128) (TooManyValues ''capabilities'')) (\<lambda>_.
     ebind (guard (distinct (ad_capabilities d)) (ValuesNotUnique ''capabilities'')) (\<lambda>_.
     ebind (each_value (validate_inventory_text ''capability'' 128) (ad_capabilities d)) (\<lambda>_.
     ebind (guard (\<not> ad_device_index d < 0) NegativeIndex) (\<lambda>_.
     ebind (optional_value (\<lambda>v. ebind (validate_inventory_text ''kubernetes_resource_name'' 255 v) (\<lambda>_.
        guard (kubernetes_resource v) UnqualifiedResource)) (ad_kubernetes_resource_name d)) (\<lambda>_.
     ebind (optional_value (validate_inventory_text ''kubernetes_node_name'' 253) (ad_kubernetes_node_name d)) (\<lambda>_.
     ebind (guard (distinct (map fst (ad_kubernetes_node_labels d))) LabelKeysNotUnique) (\<lambda>_.
     ebind (each_value validate_node_label (ad_kubernetes_node_labels d)) (\<lambda>_.
     ebind (guard (length (ad_kubernetes_node_taints d) \<le> 64) (TooManyValues ''kubernetes_node_taints'')) (\<lambda>_.
     each_value validate_node_taint (ad_kubernetes_node_taints d))))))))))))))))))))"

lemma validate_device_returns:
  "validate_device d = Inr u \<Longrightarrow>
     inventory_text 255 (ad_device_id d) \<and> ad_kind d = kind_for_vendor (ad_vendor d) \<and>
     inventory_text 255 (ad_model d) \<and> 0 < ad_memory_total_mb d \<and>
     0 \<le> ad_memory_free_mb d \<and> ad_memory_free_mb d \<le> ad_memory_total_mb d \<and>
     ad_health d \<in> set DISCOVERED_HEALTH_STATES \<and> 0 \<le> ad_device_index d \<and>
     distinct (ad_runtime_profile_ids d) \<and> distinct (ad_capabilities d)"
  by (simp add: validate_device_def ebind_eq_Inr)

lemma validate_device_texts:
  "validate_device d = Inr u \<Longrightarrow>
     (\<forall>v \<in> set (ad_runtime_profile_ids d). inventory_text 255 v) \<and>
     (\<forall>v \<in> set (ad_capabilities d). inventory_text 128 v) \<and>
     (\<forall>v. ad_kubernetes_resource_name d = Some v \<longrightarrow> inventory_text 255 v) \<and>
     (\<forall>v. ad_kubernetes_node_name d = Some v \<longrightarrow> inventory_text 253 v)"
  by (simp add: validate_device_def ebind_eq_Inr)

end
