(* ===== verification/Workers.thy ===== *)
theory Workers
  imports Models Accelerators Pyobj
begin

text \<open>
  The worker repository \<open>repositories/workers.py\<close>: registration of a worker process, its
  heartbeats, the replacement of its accelerator inventory, draining, and the sweep that
  takes silent workers offline; and the payload the worker process sends
  (\<open>_inventory_payload\<close> of \<open>worker/main.py\<close>).

  The writes of \<open>replace_gpu_inventory\<close> reach the database in one flush: first the updates of
  the existing rows in the order of their primary keys, then the inserts in the order in which
  the rows were added, each checked against the unique constraints of the table.
\<close>

section \<open>Registration and heartbeats\<close>

datatype worker_error = WorkerValueError | StaleWorkerSession | MissingKey string | DeviceIntegrityError

record registration =
  rg_hostname :: string
  rg_concurrency :: int
  rg_cpu_count :: int
  rg_memory_total_mb :: int
  rg_docker_version :: "string option"
  rg_labels :: str_dict
  rg_gpu_count :: int
  rg_gpu_model :: "string option"
  rg_gpu_memory_mb :: int
  rg_worker_session_id :: "uuid option"
  rg_node_name :: "string option"
  rg_runtime_types :: "string list option"
  rg_taints :: "str_dict list option"

text \<open>Python's \<open>x or default\<close> on an optional list or string: an empty one is false.\<close>

definition or_else :: "'a list option \<Rightarrow> 'a list \<Rightarrow> 'a list" where
  "or_else x v = (case x of None \<Rightarrow> v | Some [] \<Rightarrow> v | Some xs \<Rightarrow> xs)"

definition new_worker :: "datetime \<Rightarrow> uuid \<Rightarrow> string \<Rightarrow> registration \<Rightarrow> worker" where
  "new_worker now uuid4 worker_id g =
     \<lparr>w_id = worker_id,
      w_worker_session_id = (case rg_worker_session_id g of Some s \<Rightarrow> s | None \<Rightarrow> uuid4),
      w_hostname = rg_hostname g,
      w_node_name = Some (or_else (rg_node_name g) (rg_hostname g)),
      w_runtime_types = or_else (rg_runtime_types g) [''docker''],
      w_status = WS_ONLINE, w_started_at = now, w_last_heartbeat_at = now, w_running_tasks = 0,
      w_concurrency = rg_concurrency g, w_reserved_cpu = 0, w_reserved_memory_mb = 0,
      w_reserved_gpus = 0, w_cpu_count = rg_cpu_count g,
      w_cpu_total_millicores = rg_cpu_count g * 1000,
      w_cpu_allocatable_millicores = rg_cpu_count g * 1000,
      w_memory_total_mb = rg_memory_total_mb g, w_memory_allocatable_mb = rg_memory_total_mb g,
      w_docker_version = rg_docker_version g, w_labels = rg_labels g,
      w_taints = or_else (rg_taints g) [], w_gpu_count = rg_gpu_count g,
      w_gpu_model = rg_gpu_model g, w_gpu_memory_mb = rg_gpu_memory_mb g,
      w_inventory_generation = 1, w_inventory_updated_at = now, w_overcommitted = False,
      w_drain_reason = None, w_version = 1\<rparr>"

definition restarted_worker :: "datetime \<Rightarrow> uuid \<Rightarrow> registration \<Rightarrow> worker \<Rightarrow> worker" where
  "restarted_worker now uuid4 g worker =
    (let worker = worker\<lparr>
           w_hostname := rg_hostname g,
           w_worker_session_id := (case rg_worker_session_id g of Some s \<Rightarrow> s | None \<Rightarrow> uuid4),
           w_node_name := Some (or_else (rg_node_name g) (rg_hostname g)),
           w_runtime_types := or_else (rg_runtime_types g) [''docker''],
           w_taints := or_else (rg_taints g) [],
           w_started_at := now, w_last_heartbeat_at := now,
           w_concurrency := rg_concurrency g,
           w_cpu_count := rg_cpu_count g,
           w_cpu_total_millicores := rg_cpu_count g * 1000,
           w_cpu_allocatable_millicores := rg_cpu_count g * 1000,
           w_memory_total_mb := rg_memory_total_mb g,
           w_memory_allocatable_mb := rg_memory_total_mb g,
           w_docker_version := rg_docker_version g,
           w_labels := rg_labels g,
           w_gpu_count := rg_gpu_count g,
           w_gpu_model := rg_gpu_model g,
           w_gpu_memory_mb := rg_gpu_memory_mb g,
           w_inventory_generation := w_inventory_generation worker + 1,
           w_inventory_updated_at := now\<rparr>;
         over = (w_reserved_cpu worker * 1000 > of_int (w_cpu_allocatable_millicores worker) \<or>
                 w_reserved_memory_mb worker > w_memory_allocatable_mb worker \<or>
                 w_reserved_gpus worker > w_gpu_count worker)
     in worker\<lparr>
          w_overcommitted := over,
          w_status := (if over then WS_DRAINING else WS_ONLINE),
          w_drain_reason := (if over then Some ''inventory capacity is below active reservations'' else None),
          w_version := w_version worker + 1\<rparr>)"

definition register :: "datetime \<Rightarrow> uuid \<Rightarrow> string \<Rightarrow> registration \<Rightarrow> task_db \<Rightarrow> task_db \<times> worker" where
  "register now uuid4 worker_id g db =
     (case tget w_id worker_id (tb_workers db) of
        None \<Rightarrow> let worker = new_worker now uuid4 worker_id g
                in (db\<lparr>tb_workers := tb_workers db @ [worker]\<rparr>, worker)
      | Some w \<Rightarrow> let worker = restarted_worker now uuid4 g w
                  in (db\<lparr>tb_workers := tput w_id worker (tb_workers db)\<rparr>, worker))"

definition heartbeat :: "datetime \<Rightarrow> string \<Rightarrow> int \<Rightarrow> uuid option \<Rightarrow> task_db \<Rightarrow> task_db \<times> worker option" where
  "heartbeat now worker_id running_tasks session_id db =
     (case tget w_id worker_id (tb_workers db) of
        None \<Rightarrow> (db, None)
      | Some worker \<Rightarrow>
          if session_id \<noteq> None \<and> Some (w_worker_session_id worker) \<noteq> session_id then (db, None)
          else
            let worker = worker\<lparr>
                  w_status := (if w_status worker \<noteq> WS_DRAINING then WS_ONLINE else w_status worker),
                  w_last_heartbeat_at := now,
                  w_version := w_version worker + 1\<rparr>
            in (db\<lparr>tb_workers := tput w_id worker (tb_workers db)\<rparr>, Some worker))"

definition drain :: "string \<Rightarrow> string \<Rightarrow> task_db \<Rightarrow> task_db \<times> worker option" where
  "drain worker_id reason db =
     (case tget w_id worker_id (tb_workers db) of
        None \<Rightarrow> (db, None)
      | Some worker \<Rightarrow>
          let worker = worker\<lparr>w_status := WS_DRAINING, w_drain_reason := Some reason,
                w_version := w_version worker + 1\<rparr>
          in (db\<lparr>tb_workers := tput w_id worker (tb_workers db)\<rparr>, Some worker))"

definition set_status ::
  "datetime \<Rightarrow> string \<Rightarrow> worker_status \<Rightarrow> uuid option \<Rightarrow> task_db \<Rightarrow> task_db \<times> worker option" where
  "set_status now worker_id status session_id db =
     (case tget w_id worker_id (tb_workers db) of
        None \<Rightarrow> (db, None)
      | Some worker \<Rightarrow>
          if session_id \<noteq> None \<and> Some (w_worker_session_id worker) \<noteq> session_id then (db, None)
          else
            let worker = worker\<lparr>w_status := status, w_last_heartbeat_at := now,
                  w_version := w_version worker + 1\<rparr>
            in (db\<lparr>tb_workers := tput w_id worker (tb_workers db)\<rparr>, Some worker))"

text \<open>
  A text cursor, the position after the worker with that start time and id; a page is read in
  descending order of start time and id.
\<close>

definition list_workers :: "nat \<Rightarrow> nat \<Rightarrow> (datetime \<times> string) option \<Rightarrow> task_db \<Rightarrow> worker list" where
  "list_workers limit offset after db =
     take limit (drop offset (rev (sort_key (\<lambda>w. (w_started_at w, w_id w))
       (filter (\<lambda>w. case after of None \<Rightarrow> True
                    | Some (created_at, item_id) \<Rightarrow>
                        w_started_at w < created_at \<or> w_started_at w = created_at \<and> w_id w < item_id)
         (tb_workers db)))))"

definition stale_workers ::
  "(string \<Rightarrow> bool) \<Rightarrow> datetime \<Rightarrow> int option \<Rightarrow> worker list \<Rightarrow> worker list" where
  "stale_workers locked cutoff limit rows =
     (let found = filter (\<lambda>w. \<not> locked (w_id w)) (sort_key (\<lambda>w. (w_last_heartbeat_at w, w_id w))
            (filter (\<lambda>w. w_status w = WS_ONLINE \<and> w_last_heartbeat_at w < cutoff) rows))
      in case limit of None \<Rightarrow> found | Some n \<Rightarrow> take (nat n) found)"

definition mark_stale_offline ::
  "(string \<Rightarrow> bool) \<Rightarrow> datetime \<Rightarrow> pyfloat \<Rightarrow> int option \<Rightarrow> task_db
   \<Rightarrow> worker_error + task_db \<times> string list" where
  "mark_stale_offline locked now offline_timeout_seconds limit db =
     ebind (guard (case limit of None \<Rightarrow> True | Some n \<Rightarrow> \<not> n < 1) WorkerValueError) (\<lambda>_.
     let cutoff = now - timedelta_seconds offline_timeout_seconds;
         workers = map (\<lambda>w. w\<lparr>w_status := WS_OFFLINE, w_version := w_version w + 1\<rparr>)
                     (stale_workers locked cutoff limit (tb_workers db))
     in Inr (db\<lparr>tb_workers := fold (tput w_id) workers (tb_workers db)\<rparr>, map w_id workers))"

section \<open>Inventory\<close>

definition inventory_integer :: "pyobj \<Rightarrow> int \<Rightarrow> worker_error + int" where
  "inventory_integer v minimum =
     (case v of
        PyInt k \<Rightarrow> ebind (guard (\<not> k < minimum) WorkerValueError) (\<lambda>_. Inr k)
      | _ \<Rightarrow> Inl WorkerValueError)"

definition inventory_names :: "pyobj \<Rightarrow> worker_error + string list" where
  "inventory_names v =
     (case v of
        PyList items \<Rightarrow>
          ebind (emap (\<lambda>item. case item of
                 PyStr s \<Rightarrow> ebind (guard (strip s \<noteq> []) WorkerValueError) (\<lambda>_. Inr (strip s))
               | _ \<Rightarrow> Inl WorkerValueError) items) (\<lambda>names.
          ebind (guard (distinct names) WorkerValueError) (\<lambda>_. Inr names))
      | _ \<Rightarrow> Inl WorkerValueError)"

definition accelerator_kind_of :: "string \<Rightarrow> accelerator_kind option" where
  "accelerator_kind_of v = find (\<lambda>kind. accelerator_kind_value kind = v) [GPU, NPU]"

definition item_required :: "pydict \<Rightarrow> string \<Rightarrow> worker_error + string" where
  "item_required item key = (case map_of item key of None \<Rightarrow> Inl (MissingKey key) | Some v \<Rightarrow> Inr (py_str v))"

definition item_optional :: "pyobj \<Rightarrow> string option" where
  "item_optional v = (if v = PyNone then None else Some (py_str v))"

definition item_vendor :: "pydict \<Rightarrow> worker_error + accelerator_vendor" where
  "item_vendor item =
     (let raw_vendor = py_str (dict_get item ''vendor'' (PyStr (accelerator_vendor_value NVIDIA)));
          raw_vendor = (if raw_vendor = ''fake'' \<and> py_bool (dict_get item ''fake'' (PyBool False))
                        then accelerator_vendor_value NVIDIA else raw_vendor)
      in case accelerator_vendor_of raw_vendor of
           None \<Rightarrow> Inl WorkerValueError | Some vendor \<Rightarrow> Inr vendor)"

definition item_kind :: "pydict \<Rightarrow> accelerator_vendor \<Rightarrow> worker_error + accelerator_kind" where
  "item_kind item vendor =
     (case accelerator_kind_of (py_str (dict_get item ''accelerator_kind''
             (PyStr (accelerator_kind_value (kind_for_vendor vendor))))) of
        None \<Rightarrow> Inl WorkerValueError
      | Some kind \<Rightarrow>
          ebind (guard (vendor_kind_is_compatible vendor kind) WorkerValueError) (\<lambda>_. Inr kind))"

text \<open>The body of the loop from the validation of an item to the last field it sets.\<close>

definition read_item :: "datetime \<Rightarrow> int \<Rightarrow> pydict \<Rightarrow> gpu_device \<Rightarrow> worker_error + gpu_device" where
  "read_item now generation item device =
     ebind (inventory_integer (dict_get item ''index'' PyNone) 0) (\<lambda>device_index.
     ebind (inventory_integer (dict_get item ''memory_total_mb'' PyNone) 1) (\<lambda>memory_total_mb.
     ebind (inventory_integer (dict_get item ''memory_free_mb'' PyNone) 0) (\<lambda>memory_free_mb.
     ebind (guard (\<not> memory_free_mb > memory_total_mb) WorkerValueError) (\<lambda>_.
     ebind (item_vendor item) (\<lambda>vendor.
     ebind (item_kind item vendor) (\<lambda>accelerator_kind.
     ebind (inventory_names (dict_get item ''runtime_profile_ids'' (PyList []))) (\<lambda>runtime_profile_ids.
     ebind (inventory_names (dict_get item ''capabilities''
              (dict_get item ''capabilities_json'' (PyList [])))) (\<lambda>capabilities.
     ebind (item_required item ''model'') (\<lambda>model.
     let capability = dict_get item ''compute_capability'' PyNone;
         compute_arch = dict_get item ''compute_arch'' capability;
         resource_name = map_option strip (item_optional (dict_get item ''kubernetes_resource_name'' PyNone));
         node_name = map_option strip (item_optional (dict_get item ''kubernetes_node_name'' PyNone))
     in
     ebind (guard (resource_name \<noteq> Some []) WorkerValueError) (\<lambda>_.
     ebind (guard (node_name \<noteq> Some []) WorkerValueError) (\<lambda>_.
     Inr (device\<lparr>
       d_device_index := device_index,
       d_vendor := accelerator_vendor_value vendor,
       d_accelerator_kind := accelerator_kind_value accelerator_kind,
       d_model := model,
       d_memory_total_mb := memory_total_mb,
       d_memory_free_mb := memory_free_mb,
       d_compute_capability := item_optional capability,
       d_compute_arch := item_optional compute_arch,
       d_runtime_profile_ids := runtime_profile_ids,
       d_capabilities_json := capabilities,
       d_kubernetes_resource_name := resource_name,
       d_kubernetes_node_name := node_name,
       d_health := py_str (dict_get item ''health'' (PyStr ''healthy'')),
       d_fake := py_bool (dict_get item ''fake'' (PyBool False)),
       d_inventory_generation := generation,
       d_last_seen_at := now\<rparr>))))))))))))"

text \<open>
  The loop over the reported items: the session's copies of the existing rows, the rows added
  to the session, the UUIDs seen, and the ids of the rows of \<open>result\<close> (which refers to rows,
  so that a later write to a row shows in it).
\<close>

record inventory_loop =
  il_existing :: "gpu_device list"
  il_added :: "gpu_device list"
  il_seen :: "string list"
  il_result :: "uuid list"

definition new_device :: "uuid \<Rightarrow> string \<Rightarrow> string \<Rightarrow> gpu_device" where
  "new_device new_id worker_id device_uuid =
     \<lparr>d_id = new_id, d_worker_id = worker_id, d_device_uuid = device_uuid, d_device_index = 0,
      d_vendor = [], d_accelerator_kind = [], d_model = [], d_memory_total_mb = 0,
      d_memory_free_mb = 0, d_compute_capability = None, d_compute_arch = None,
      d_runtime_profile_ids = [], d_capabilities_json = [], d_kubernetes_resource_name = None,
      d_kubernetes_node_name = None, d_health = [], d_fake = False, d_inventory_generation = 1,
      d_last_seen_at = 0\<rparr>"

definition inventory_step ::
  "datetime \<Rightarrow> int \<Rightarrow> string \<Rightarrow> gpu_device list \<Rightarrow> pydict \<Rightarrow> inventory_loop
   \<Rightarrow> worker_error + inventory_loop" where
  "inventory_step now generation worker_id table item s =
     ebind (item_required item ''uuid'') (\<lambda>device_uuid.
     case tget d_device_uuid device_uuid (il_existing s) of
       Some old \<Rightarrow>
         ebind (read_item now generation item old) (\<lambda>device.
         Inr (s\<lparr>il_existing := tput d_id device (il_existing s),
                il_seen := device_uuid # il_seen s,
                il_result := il_result s @ [d_id device]\<rparr>))
     | None \<Rightarrow>
         let new_id = fresh_id d_id (table @ il_added s) in
         ebind (read_item now generation item (new_device new_id worker_id device_uuid)) (\<lambda>device.
         Inr (s\<lparr>il_added := il_added s @ [device],
                il_seen := device_uuid # il_seen s,
                il_result := il_result s @ [new_id]\<rparr>)))"

definition mark_missing :: "datetime \<Rightarrow> string list \<Rightarrow> gpu_device \<Rightarrow> gpu_device" where
  "mark_missing now seen device =
     (if d_device_uuid device \<in> set seen then device
      else device\<lparr>d_health := ''missing'', d_last_seen_at := now\<rparr>)"

text \<open>The unique constraints on worker and UUID, and on worker, vendor and index.\<close>

definition device_conflict :: "gpu_device \<Rightarrow> gpu_device \<Rightarrow> bool" where
  "device_conflict r d \<longleftrightarrow>
     d_id d \<noteq> d_id r \<and> d_worker_id d = d_worker_id r \<and>
     (d_device_uuid d = d_device_uuid r \<or> d_vendor d = d_vendor r \<and> d_device_index d = d_device_index r)"

definition flush_update :: "gpu_device \<Rightarrow> gpu_device list \<Rightarrow> worker_error + gpu_device list" where
  "flush_update r table =
     ebind (guard (\<not> list_ex (device_conflict r) table) DeviceIntegrityError) (\<lambda>_. Inr (tput d_id r table))"

definition flush_insert :: "gpu_device \<Rightarrow> gpu_device list \<Rightarrow> worker_error + gpu_device list" where
  "flush_insert r table =
     ebind (guard (\<not> list_ex (device_conflict r) table) DeviceIntegrityError) (\<lambda>_. Inr (table @ [r]))"

definition replace_gpu_inventory ::
  "datetime \<Rightarrow> string \<Rightarrow> uuid \<Rightarrow> pydict list \<Rightarrow> task_db \<Rightarrow> worker_error + task_db \<times> gpu_device list" where
  "replace_gpu_inventory now worker_id session_id devices db =
     (case tget w_id worker_id (tb_workers db) of
        None \<Rightarrow> Inl StaleWorkerSession
      | Some worker \<Rightarrow>
          ebind (guard (w_worker_session_id worker = session_id) StaleWorkerSession) (\<lambda>_.
          let table = tb_gpu_devices db in
          ebind (efold (inventory_step now (w_inventory_generation worker) worker_id table) devices
             \<lparr>il_existing = filter (\<lambda>d. d_worker_id d = worker_id) table, il_added = [],
              il_seen = [], il_result = []\<rparr>) (\<lambda>s.
          let existing = map (mark_missing now (il_seen s)) (il_existing s);
              result = map (\<lambda>i. the (tget d_id i (existing @ il_added s))) (il_result s);
              model = join '','' (sort (remdups (map d_model result)));
              worker = worker\<lparr>
                w_gpu_count := int (length result),
                w_gpu_model := (if model = [] then None else Some model),
                w_gpu_memory_mb := (\<Sum>d\<leftarrow>result. d_memory_total_mb d),
                w_inventory_updated_at := now,
                w_version := w_version worker + 1\<rparr>
          in
          ebind (efold flush_update (sort_key d_id existing) table) (\<lambda>table.
          ebind (efold flush_insert (il_added s) table) (\<lambda>table.
          Inr (db\<lparr>tb_workers := tput w_id worker (tb_workers db), tb_gpu_devices := table\<rparr>, result))))))"

text \<open>\<open>_inventory_payload\<close> of the worker process\<close>

definition optional_text :: "string option \<Rightarrow> pyobj" where
  "optional_text v = (case v of None \<Rightarrow> PyNone | Some s \<Rightarrow> PyStr s)"

definition inventory_payload :: "accelerator_device \<Rightarrow> pydict" where
  "inventory_payload d =
     [(''uuid'', PyStr (ad_device_id d)),
      (''index'', PyInt (ad_device_index d)),
      (''vendor'', PyStr (accelerator_vendor_value (ad_vendor d))),
      (''accelerator_kind'', PyStr (accelerator_kind_value (ad_kind d))),
      (''model'', PyStr (ad_model d)),
      (''memory_total_mb'', PyInt (ad_memory_total_mb d)),
      (''memory_free_mb'', PyInt (ad_memory_free_mb d)),
      (''compute_capability'', optional_text (ad_compute_arch d)),
      (''compute_arch'', optional_text (ad_compute_arch d)),
      (''runtime_profile_ids'', PyList (map PyStr (ad_runtime_profile_ids d))),
      (''capabilities'', PyList (map PyStr (ad_capabilities d))),
      (''kubernetes_resource_name'', optional_text (ad_kubernetes_resource_name d)),
      (''kubernetes_node_name'', optional_text (ad_kubernetes_node_name d)),
      (''health'', PyStr (ad_health d)),
      (''fake'', PyBool (ad_fake d))]"

end
