(* ===== verification/Worker_Inventory.thy ===== *)
theory Worker_Inventory
  imports Workers Task_Examples
begin

text \<open>
  Correctness of the worker repository: what a replacement of the inventory leaves in the
  device table, that it keeps the table well formed, that a device a worker process discovered
  is stored as it was discovered, and that no operation on a worker touches the capacity that
  running executions hold.
\<close>

section \<open>Rows of the device table\<close>

definition device_ok :: "gpu_device \<Rightarrow> bool" where
  "device_ok d \<longleftrightarrow>
     0 \<le> d_device_index d \<and> 0 < d_memory_total_mb d \<and> 0 \<le> d_memory_free_mb d \<and>
     d_memory_free_mb d \<le> d_memory_total_mb d \<and>
     (case accelerator_vendor_of (d_vendor d) of
        None \<Rightarrow> False
      | Some vendor \<Rightarrow> d_accelerator_kind d = accelerator_kind_value (kind_for_vendor vendor))"

definition inventory_wf :: "gpu_device list \<Rightarrow> bool" where
  "inventory_wf table \<longleftrightarrow>
     distinct (map d_id table) \<and> (\<forall>d \<in> set table. device_ok d) \<and>
     (\<forall>r \<in> set table. \<forall>d \<in> set table. \<not> device_conflict r d)"

lemma inventory_integer_Inr [simp]: "inventory_integer v m = Inr k \<longleftrightarrow> v = PyInt k \<and> m \<le> k"
  by (cases v) (auto simp: inventory_integer_def ebind_eq_Inr)

lemma item_kind_Inr [simp]: "item_kind item vendor = Inr kind \<Longrightarrow> kind = kind_for_vendor vendor"
  by (auto simp: item_kind_def ebind_eq_Inr split: option.splits)

definition same_device :: "gpu_device \<Rightarrow> gpu_device \<Rightarrow> bool" where
  "same_device d d' \<longleftrightarrow>
     d_id d' = d_id d \<and> d_worker_id d' = d_worker_id d \<and> d_device_uuid d' = d_device_uuid d"

lemma read_item_returns:
  "read_item now generation item d = Inr d' \<Longrightarrow> same_device d d' \<and> device_ok d'"
  by (auto simp: read_item_def ebind_eq_Inr Let_def same_device_def device_ok_def dest!: item_kind_Inr)

lemma device_conflict_sym: "device_conflict r d \<longleftrightarrow> device_conflict d r"
  by (auto simp: device_conflict_def)

lemma not_self_conflict [simp]: "\<not> device_conflict r r"
  by (simp add: device_conflict_def)

section \<open>The flush\<close>

lemma flush_updates_Inr: "efold flush_update rows table = Inr t \<Longrightarrow> t = fold (tput d_id) rows table"
  by (induction rows arbitrary: table) (auto simp: flush_update_def ebind_eq_Inr)

lemma flush_inserts_Inr: "efold flush_insert rows table = Inr t \<Longrightarrow> t = table @ rows"
  by (induction rows arbitrary: table) (fastforce simp: flush_insert_def ebind_eq_Inr)+

lemma flush_update_wf:
  assumes "inventory_wf table" and "device_ok r" and "flush_update r table = Inr t"
  shows "inventory_wf t"
proof -
  from assms(3) have t: "t = tput d_id r table" and free: "\<And>d. d \<in> set table \<Longrightarrow> \<not> device_conflict r d"
    by (auto simp: flush_update_def ebind_eq_Inr list_ex_iff)
  have old: "x = r \<or> x \<in> set table" if "x \<in> set t" for x
    using that set_tputD [of x d_id r table] by (auto simp: t)
  show ?thesis
    unfolding inventory_wf_def
  proof (intro conjI ballI)
    show "distinct (map d_id t)"
      using assms(1) by (simp add: t tput_keys inventory_wf_def)
    fix a assume a: "a \<in> set t"
    show "device_ok a"
      using old [OF a] assms(1,2) by (auto simp: inventory_wf_def)
    fix b assume b: "b \<in> set t"
    show "\<not> device_conflict a b"
      using old [OF a] old [OF b] assms(1) free device_conflict_sym [of a b]
      by (auto simp: inventory_wf_def)
  qed
qed

lemma flush_insert_wf:
  assumes "inventory_wf table" and "device_ok r" and "d_id r \<notin> d_id ` set table"
    and "flush_insert r table = Inr t"
  shows "inventory_wf t"
proof -
  from assms(4) have t: "t = table @ [r]" and free: "\<And>d. d \<in> set table \<Longrightarrow> \<not> device_conflict r d"
    by (auto simp: flush_insert_def ebind_eq_Inr list_ex_iff)
  then show ?thesis
    using assms(1-3) device_conflict_sym [of r] by (auto simp: inventory_wf_def)
qed

lemma flush_updates_wf:
  "efold flush_update rows table = Inr t \<Longrightarrow> inventory_wf table \<Longrightarrow> \<forall>r \<in> set rows. device_ok r
   \<Longrightarrow> inventory_wf t"
  by (erule efold_invariant) (auto intro: flush_update_wf)

lemma flush_inserts_wf:
  "efold flush_insert rows table = Inr t \<Longrightarrow> inventory_wf table \<Longrightarrow> \<forall>r \<in> set rows. device_ok r
   \<Longrightarrow> distinct (map d_id (table @ rows)) \<Longrightarrow> inventory_wf t"
proof (induction rows arbitrary: table)
  case (Cons r rows)
  from Cons.prems(1) obtain t1 where t1: "flush_insert r table = Inr t1" "efold flush_insert rows t1 = Inr t"
    by (auto simp: ebind_eq_Inr)
  then have "t1 = table @ [r]" by (auto simp: flush_insert_def ebind_eq_Inr)
  moreover have "inventory_wf t1"
    using Cons.prems t1(1) by (intro flush_insert_wf [OF _ _ _ t1(1)]) auto
  ultimately show ?case using Cons.prems t1 by (intro Cons.IH [OF t1(2)]) auto
qed simp

section \<open>The loop over the reported items\<close>

lemma efold_prefix_invariant:
  assumes "efold f xs s = Inr s'" and "P [] s"
    and "\<And>pre x post s s'. xs = pre @ x # post \<Longrightarrow> P pre s \<Longrightarrow> f x s = Inr s' \<Longrightarrow> P (pre @ [x]) s'"
  shows "P xs s'"
proof -
  have "P xs s'" if "efold f post t = Inr s'" "P pre t" "xs = pre @ post" for pre post t
    using that
  proof (induction post arbitrary: pre t)
    case (Cons x post)
    from Cons.prems(1) obtain t1 where t1: "f x t = Inr t1" "efold f post t1 = Inr s'"
      by (auto simp: ebind_eq_Inr)
    have "P (pre @ [x]) t1" using Cons.prems(2,3) t1(1) by (intro assms(3))
    from Cons.IH [OF t1(2) this] Cons.prems(3) show ?case by simp
  qed simp
  from this [OF assms(1,2)] show ?thesis by simp
qed

definition item_uuid :: "pydict \<Rightarrow> string" where
  "item_uuid item = py_str (the (map_of item ''uuid''))"

lemma item_required_uuid [simp]: "item_required item ''uuid'' = Inr u \<Longrightarrow> u = item_uuid item"
  by (auto simp: item_required_def item_uuid_def split: option.splits)

text \<open>
  What holds after the items \<open>reported\<close>: the session's copies belong to the rows read at the start,
  rows not reported are unchanged, and the added rows are new rows of this worker.
\<close>

definition row_kept :: "string list \<Rightarrow> gpu_device \<Rightarrow> gpu_device \<Rightarrow> bool" where
  "row_kept seen d d' \<longleftrightarrow> same_device d d' \<and> (d_device_uuid d \<notin> set seen \<longrightarrow> d' = d) \<and> device_ok d'"

definition loop_ok :: "string \<Rightarrow> gpu_device list \<Rightarrow> gpu_device list \<Rightarrow> pydict list \<Rightarrow> inventory_loop \<Rightarrow> bool" where
  "loop_ok worker_id table existing reported s \<longleftrightarrow>
     set (il_seen s) = item_uuid ` set reported \<and>
     list_all2 (row_kept (il_seen s)) existing (il_existing s) \<and>
     (\<forall>d \<in> set (il_added s). device_ok d \<and> d_worker_id d = worker_id \<and> d_id d \<notin> d_id ` set table) \<and>
     distinct (map d_id (il_added s))"

lemma list_all2_same_key:
  "list_all2 R xs ys \<Longrightarrow> (\<And>x y. R x y \<Longrightarrow> f y = f x) \<Longrightarrow> map f ys = map f xs"
  by (induction rule: list_all2_induct) auto

lemma list_all2_left: "list_all2 R xs ys \<Longrightarrow> x \<in> set xs \<Longrightarrow> \<exists>y \<in> set ys. R x y"
  by (induction rule: list_all2_induct) auto

lemma list_all2_right: "list_all2 R xs ys \<Longrightarrow> y \<in> set ys \<Longrightarrow> \<exists>x \<in> set xs. R x y"
  by (induction rule: list_all2_induct) auto

lemma row_kept_keys:
  assumes "list_all2 (row_kept seen) existing rows"
  shows "map d_id rows = map d_id existing" and "map d_device_uuid rows = map d_device_uuid existing"
  using list_all2_same_key [OF assms, of d_id] list_all2_same_key [OF assms, of d_device_uuid]
  by (auto simp: row_kept_def same_device_def)

lemma row_kept_tput:
  assumes "list_all2 (row_kept seen) existing rows" and "distinct (map d_id rows)" and "old \<in> set rows"
    and "same_device old d" and "device_ok d"
  shows "list_all2 (row_kept (d_device_uuid old # seen)) existing (tput d_id d rows)"
  unfolding tput_def list_all2_map2
proof (rule list.rel_mono_strong [OF assms(1)])
  fix x y assume xy: "x \<in> set existing" "y \<in> set rows" "row_kept seen x y"
  have "y = old" if "d_id y = d_id d"
    using that assms(2-4) xy(2) by (auto simp: same_device_def distinct_map dest: inj_onD)
  with xy assms(4,5) show "row_kept (d_device_uuid old # seen) x (if d_id y = d_id d then d else y)"
    by (auto simp: row_kept_def same_device_def)
qed

lemma row_kept_mono:
  "list_all2 (row_kept seen) existing rows \<Longrightarrow> set seen \<subseteq> set seen'
   \<Longrightarrow> list_all2 (row_kept seen') existing rows"
  by (erule list_all2_mono) (auto simp: row_kept_def)

lemma loop_ok_step:
  assumes "loop_ok worker_id table existing reported s" and "distinct (map d_id existing)"
    and step: "inventory_step now generation worker_id table item s = Inr s'"
  shows "loop_ok worker_id table existing (reported @ [item]) s'"
proof -
  note ok = assms(1) [unfolded loop_ok_def]
  from step obtain u where u: "item_required item ''uuid'' = Inr u"
    by (auto simp: inventory_step_def ebind_eq_Inr)
  then have uuid: "u = item_uuid item" by simp
  show ?thesis
  proof (cases "tget d_device_uuid u (il_existing s)")
    case None
    let ?id = "fresh_id d_id (table @ il_added s)"
    from step u None obtain d where d: "read_item now generation item (new_device ?id worker_id u) = Inr d"
      and s': "s' = s\<lparr>il_added := il_added s @ [d], il_seen := u # il_seen s, il_result := il_result s @ [?id]\<rparr>"
      by (auto simp: inventory_step_def ebind_eq_Inr Let_def)
    from read_item_returns [OF d] have dd: "device_ok d" "d_id d = ?id" "d_worker_id d = worker_id"
      by (auto simp: same_device_def new_device_def)
    have fresh: "?id \<notin> d_id ` set (table @ il_added s)" by (rule fresh_id_notin)
    show ?thesis
      using ok dd fresh by (auto simp: loop_ok_def s' uuid intro: row_kept_mono)
  next
    case (Some old)
    from step u Some obtain d where d: "read_item now generation item old = Inr d"
      and s': "s' = s\<lparr>il_existing := tput d_id d (il_existing s), il_seen := u # il_seen s,
        il_result := il_result s @ [d_id d]\<rparr>"
      by (auto simp: inventory_step_def ebind_eq_Inr Let_def)
    have old: "old \<in> set (il_existing s)" "d_device_uuid old = u"
      using tget_SomeD [OF Some] by auto
    have keys: "distinct (map d_id (il_existing s))"
      using row_kept_keys(1) [of "il_seen s" existing "il_existing s"] ok assms(2) by simp
    show ?thesis
      using ok row_kept_tput [OF _ keys old(1)] read_item_returns [OF d] old(2)
      by (auto simp: loop_ok_def s' uuid)
  qed
qed

lemma loop_ok_all:
  assumes "efold (inventory_step now generation worker_id table) items
      \<lparr>il_existing = existing, il_added = [], il_seen = [], il_result = []\<rparr> = Inr s"
    and "distinct (map d_id existing)" and "\<forall>d \<in> set existing. device_ok d"
  shows "loop_ok worker_id table existing items s"
proof (rule efold_prefix_invariant [OF assms(1)])
  show "loop_ok worker_id table existing [] \<lparr>il_existing = existing, il_added = [], il_seen = [], il_result = []\<rparr>"
    using assms(3) by (auto simp: loop_ok_def row_kept_def same_device_def list_all2_same)
qed (rule loop_ok_step [OF _ assms(2)])

section \<open>What a replacement leaves in the table\<close>

definition worker_devices :: "string \<Rightarrow> gpu_device list \<Rightarrow> gpu_device list" where
  "worker_devices worker_id table = filter (\<lambda>d. d_worker_id d = worker_id) table"

definition loop_start :: "string \<Rightarrow> gpu_device list \<Rightarrow> inventory_loop" where
  "loop_start worker_id table =
     \<lparr>il_existing = worker_devices worker_id table, il_added = [], il_seen = [], il_result = []\<rparr>"

lemma replace_gpu_inventory_returns:
  assumes "replace_gpu_inventory now worker_id session_id items db = Inr (db', rows)"
  obtains w s existing t where "tget w_id worker_id (tb_workers db) = Some w" and "w_worker_session_id w = session_id"
    and "efold (inventory_step now (w_inventory_generation w) worker_id (tb_gpu_devices db)) items
          (loop_start worker_id (tb_gpu_devices db)) = Inr s"
    and "existing = map (mark_missing now (il_seen s)) (il_existing s)"
    and "efold flush_update (sort_key d_id existing) (tb_gpu_devices db) = Inr t"
    and "efold flush_insert (il_added s) t = Inr (tb_gpu_devices db')"
    and "rows = map (\<lambda>i. the (tget d_id i (existing @ il_added s))) (il_result s)"
  using assms
  by (auto simp: replace_gpu_inventory_def ebind_eq_Inr Let_def loop_start_def worker_devices_def
      split: option.splits)

lemma inventory_wf_id:
  "inventory_wf table \<Longrightarrow> a \<in> set table \<Longrightarrow> b \<in> set table \<Longrightarrow> d_id a = d_id b \<Longrightarrow> a = b"
  by (auto simp: inventory_wf_def distinct_map dest: inj_onD)

lemma inventory_wf_devices:
  assumes "inventory_wf table"
  shows "distinct (map d_id (worker_devices worker_id table))"
    and "\<forall>d \<in> set (worker_devices worker_id table). device_ok d"
  using assms by (auto simp: inventory_wf_def worker_devices_def distinct_map_filter)

lemma row_kept_mark_missing:
  "row_kept seen d d' \<Longrightarrow>
     same_device d (mark_missing now seen d') \<and> device_ok (mark_missing now seen d') \<and>
     (d_device_uuid d \<notin> set seen \<longrightarrow> mark_missing now seen d' = d\<lparr>d_health := ''missing'', d_last_seen_at := now\<rparr>)"
  by (auto simp: row_kept_def same_device_def mark_missing_def device_ok_def split: option.splits)

text \<open>
  The outcome in terms of the loop: the session's copies of the worker's rows and the added rows
  are in the table, and the table is well formed.
\<close>

lemma updated_rows_stored:
  assumes "distinct (map d_id rows)" and "d_id ` set rows \<subseteq> d_id ` set table"
  shows "set rows \<subseteq> set (fold (tput d_id) (sort_key d_id rows) table)"
proof
  fix d assume d: "d \<in> set rows"
  have keys: "distinct (map d_id (sort_key d_id rows))" using assms(1) by (simp add: distinct_map)
  have "tget d_id (d_id d) (sort_key d_id rows) = Some d" using tget_member [OF keys, of d] d by simp
  moreover have "d_id d \<in> d_id ` set table" using assms(2) d by blast
  ultimately have "tget d_id (d_id d) (fold (tput d_id) (sort_key d_id rows) table) = Some d"
    using tget_fold_tput [OF keys, of "d_id d" table] by simp
  then show "d \<in> set (fold (tput d_id) (sort_key d_id rows) table)" by (auto dest: tget_SomeD)
qed

lemma fold_tput_other:
  "d \<in> set rows \<Longrightarrow> key d \<notin> key ` set new \<Longrightarrow> d \<in> set (fold (tput key) new rows)"
  by (induction new arbitrary: rows) (auto simp: tput_def)

lemma mark_missing_id [simp]: "d_id (mark_missing now seen d) = d_id d"
  by (simp add: mark_missing_def)

lemma replace_gpu_inventory_table:
  assumes wf: "inventory_wf (tb_gpu_devices db)"
    and ok: "replace_gpu_inventory now worker_id session_id items db = Inr (db', rows)"
  obtains w :: worker and s where
      "efold (inventory_step now (w_inventory_generation w) worker_id (tb_gpu_devices db)) items
         (loop_start worker_id (tb_gpu_devices db)) = Inr s"
    and "loop_ok worker_id (tb_gpu_devices db) (worker_devices worker_id (tb_gpu_devices db)) items s"
    and "set (map (mark_missing now (il_seen s)) (il_existing s) @ il_added s) \<subseteq> set (tb_gpu_devices db')"
    and "inventory_wf (tb_gpu_devices db')"
    and "\<And>d. d \<in> set (tb_gpu_devices db) \<Longrightarrow> d_worker_id d \<noteq> worker_id \<Longrightarrow> d \<in> set (tb_gpu_devices db')"
proof -
  let ?table = "tb_gpu_devices db"
  from replace_gpu_inventory_returns [OF ok] obtain w :: worker and s existing t where
      loop: "efold (inventory_step now (w_inventory_generation w) worker_id ?table) items
          (loop_start worker_id ?table) = Inr s"
    and existing: "existing = map (mark_missing now (il_seen s)) (il_existing s)"
    and upd: "efold flush_update (sort_key d_id existing) ?table = Inr t"
    and ins: "efold flush_insert (il_added s) t = Inr (tb_gpu_devices db')"
    by metis
  have l: "loop_ok worker_id ?table (worker_devices worker_id ?table) items s"
    using loop_ok_all [OF loop [unfolded loop_start_def]] inventory_wf_devices [OF wf] by blast
  note lo = l [unfolded loop_ok_def]
  have kept: "list_all2 (row_kept (il_seen s)) (worker_devices worker_id ?table) (il_existing s)"
    using lo by simp
  have "\<forall>d \<in> set existing. device_ok d"
    using list_all2_right [OF kept] row_kept_mark_missing by (fastforce simp: existing)
  then have wf_t: "inventory_wf t" by (intro flush_updates_wf [OF upd wf]) simp
  have t: "t = fold (tput d_id) (sort_key d_id existing) ?table" by (rule flush_updates_Inr [OF upd])
  have "d_id ` set t = d_id ` set ?table" unfolding t by (rule fold_tput_key_set)
  moreover have "d_id ` set (il_added s) \<inter> d_id ` set ?table = {}" using lo by blast
  ultimately have "distinct (map d_id (t @ il_added s))"
    using lo wf_t by (simp add: inventory_wf_def Int_commute)
  then have "inventory_wf (tb_gpu_devices db')"
    using lo by (intro flush_inserts_wf [OF ins wf_t]) auto
  moreover have "map d_id existing = map d_id (worker_devices worker_id ?table)"
    using row_kept_keys(1) [OF kept] by (simp add: existing o_def)
  then have ids: "distinct (map d_id existing)" "set (map d_id existing) = d_id ` set (worker_devices worker_id ?table)"
    using inventory_wf_devices(1) [OF wf, of worker_id] by simp_all
  then have "set existing \<subseteq> set t"
    unfolding t by (intro updated_rows_stored) (auto simp: worker_devices_def)
  moreover have "d \<in> set t" if "d \<in> set ?table" "d_worker_id d \<noteq> worker_id" for d
  proof -
    have "d_id d \<notin> d_id ` set (worker_devices worker_id ?table)"
      using wf that by (auto simp: worker_devices_def inventory_wf_def distinct_map dest: inj_onD)
    then show ?thesis using that ids(2) unfolding t by (intro fold_tput_other) simp_all
  qed
  ultimately show thesis
    using that [OF loop l] flush_inserts_Inr [OF ins] by (auto simp: existing)
qed

text \<open>A row the items do not mention keeps everything but its health and its time stamp.\<close>

lemma unreported_row_kept:
  assumes "loop_ok worker_id table (worker_devices worker_id table) items s"
    and "d \<in> set table" "d_worker_id d = worker_id" "d_device_uuid d \<notin> item_uuid ` set items"
  shows "d\<lparr>d_health := ''missing'', d_last_seen_at := now\<rparr>
    \<in> set (map (mark_missing now (il_seen s)) (il_existing s))"
proof -
  have kept: "list_all2 (row_kept (il_seen s)) (worker_devices worker_id table) (il_existing s)"
    and seen: "d_device_uuid d \<notin> set (il_seen s)" using assms by (auto simp: loop_ok_def)
  have "d \<in> set (worker_devices worker_id table)" using assms(2,3) by (simp add: worker_devices_def)
  then obtain d' where "d' \<in> set (il_existing s)" "row_kept (il_seen s) d d'"
    using list_all2_left [OF kept] by blast
  then show ?thesis
    using seen row_kept_mark_missing [of "il_seen s" d d' now] by (auto simp: image_iff intro: bexI [of _ d'])
qed

text \<open>Every reported item has its row, holding what the item says.\<close>

definition item_row :: "datetime \<Rightarrow> int \<Rightarrow> string \<Rightarrow> pydict \<Rightarrow> gpu_device \<Rightarrow> bool" where
  "item_row now generation worker_id item r \<longleftrightarrow>
     d_device_uuid r = item_uuid item \<and> d_worker_id r = worker_id \<and>
     (\<exists>d0. read_item now generation item d0 = Inr r)"

lemma reported_row_step:
  assumes ok: "loop_ok worker_id table existing reported s" and keys: "distinct (map d_id existing)"
    and own: "\<forall>d \<in> set existing. d_worker_id d = worker_id"
    and step: "inventory_step now generation worker_id table item s = Inr s'"
    and rows: "\<forall>y \<in> set reported. \<exists>r \<in> set (il_existing s @ il_added s). item_row now generation worker_id y r"
    and new: "item_uuid item \<notin> item_uuid ` set reported"
  shows "\<forall>y \<in> set (reported @ [item]). \<exists>r \<in> set (il_existing s' @ il_added s').
           item_row now generation worker_id y r"
proof -
  from step obtain u where u: "item_required item ''uuid'' = Inr u"
    by (auto simp: inventory_step_def ebind_eq_Inr)
  then have uuid: "u = item_uuid item" by simp
  have kept: "list_all2 (row_kept (il_seen s)) existing (il_existing s)"
    using ok by (simp add: loop_ok_def)
  show ?thesis
  proof (cases "tget d_device_uuid u (il_existing s)")
    case None
    let ?id = "fresh_id d_id (table @ il_added s)"
    from step u None obtain d where d: "read_item now generation item (new_device ?id worker_id u) = Inr d"
      and s': "il_existing s' = il_existing s" "il_added s' = il_added s @ [d]"
      by (auto simp: inventory_step_def ebind_eq_Inr Let_def)
    have "item_row now generation worker_id item d"
      using read_item_returns [OF d] d by (auto simp: item_row_def same_device_def new_device_def uuid)
    then show ?thesis using rows by (auto simp: s')
  next
    case (Some old)
    from step u Some obtain d where d: "read_item now generation item old = Inr d"
      and s': "il_existing s' = tput d_id d (il_existing s)" "il_added s' = il_added s"
      by (auto simp: inventory_step_def ebind_eq_Inr Let_def)
    have old: "old \<in> set (il_existing s)" "d_device_uuid old = u" using tget_SomeD [OF Some] by auto
    then obtain e where "e \<in> set existing" "same_device e old"
      using list_all2_right [OF kept] by (auto simp: row_kept_def)
    then have "d_worker_id old = worker_id" using own by (auto simp: same_device_def)
    then have row: "item_row now generation worker_id item d"
      using read_item_returns [OF d] d old(2) by (auto simp: item_row_def same_device_def uuid)
    have id: "d_id d = d_id old" using read_item_returns [OF d] by (simp add: same_device_def)
    have mem: "d \<in> set (il_existing s')" using old(1) by (auto simp: s' tput_def id image_iff intro!: bexI [of _ old])
    have ids: "distinct (map d_id (il_existing s))" using row_kept_keys(1) [OF kept] keys by simp
    have "r \<in> set (il_existing s' @ il_added s')"
      if "y \<in> set reported" "r \<in> set (il_existing s @ il_added s)" "item_row now generation worker_id y r" for y r
    proof -
      have "d_device_uuid r \<noteq> u" using that(1,3) new by (metis item_row_def imageI uuid)
      then have "d_id r \<noteq> d_id d" if "r \<in> set (il_existing s)"
        using that old ids by (auto simp: id distinct_map dest: inj_onD)
      then show ?thesis using that(2) by (auto simp: s' tput_def image_iff intro!: bexI [of _ r])
    qed
    then show ?thesis using rows row mem by fastforce
  qed
qed

lemma reported_rows:
  assumes "efold (inventory_step now generation worker_id table) items (loop_start worker_id table) = Inr s"
    and "inventory_wf table" and "distinct (map item_uuid items)"
  shows "\<forall>item \<in> set items. \<exists>r \<in> set (il_existing s @ il_added s). item_row now generation worker_id item r"
proof -
  let ?existing = "worker_devices worker_id table"
  let ?rows = "\<lambda>pre s. \<forall>item \<in> set pre. \<exists>r \<in> set (il_existing s @ il_added s). item_row now generation worker_id item r"
  have own: "\<forall>d \<in> set ?existing. d_worker_id d = worker_id" by (simp add: worker_devices_def)
  have keys: "distinct (map d_id ?existing)" by (rule inventory_wf_devices [OF assms(2)])
  have "loop_ok worker_id table ?existing items s \<and> ?rows items s"
  proof (rule efold_prefix_invariant [OF assms(1)])
    show "loop_ok worker_id table ?existing [] (loop_start worker_id table) \<and> ?rows [] (loop_start worker_id table)"
      using inventory_wf_devices(2) [OF assms(2)]
      by (auto simp: loop_ok_def loop_start_def row_kept_def same_device_def list_all2_same)
  next
    fix pre x post t t'
    assume items: "items = pre @ x # post" and inv: "loop_ok worker_id table ?existing pre t \<and> ?rows pre t"
      and step: "inventory_step now generation worker_id table x t = Inr t'"
    have "item_uuid x \<notin> item_uuid ` set pre" using assms(3) by (auto simp: items)
    with inv show "loop_ok worker_id table ?existing (pre @ [x]) t' \<and> ?rows (pre @ [x]) t'"
      using loop_ok_step [OF _ keys step] reported_row_step [OF _ keys own step] by blast
  qed
  then show ?thesis ..
qed

lemma item_row_mark_missing:
  "loop_ok worker_id table existing items s \<Longrightarrow> item \<in> set items \<Longrightarrow> item_row now g worker_id item r
   \<Longrightarrow> mark_missing now (il_seen s) r = r"
  by (auto simp: loop_ok_def item_row_def mark_missing_def)

section \<open>Payloads of discovered devices\<close>

lemma payload_uuid [simp]: "item_uuid (inventory_payload ad) = ad_device_id ad"
  by (simp add: item_uuid_def inventory_payload_def)

lemma payload_gets:
  shows "dict_get (inventory_payload ad) ''index'' x = PyInt (ad_device_index ad)"
  and "dict_get (inventory_payload ad) ''memory_total_mb'' x = PyInt (ad_memory_total_mb ad)"
  and "dict_get (inventory_payload ad) ''memory_free_mb'' x = PyInt (ad_memory_free_mb ad)"
  and "dict_get (inventory_payload ad) ''runtime_profile_ids'' x = PyList (map PyStr (ad_runtime_profile_ids ad))"
  and "dict_get (inventory_payload ad) ''capabilities'' x = PyList (map PyStr (ad_capabilities ad))"
  and "dict_get (inventory_payload ad) ''compute_capability'' x = optional_text (ad_compute_arch ad)"
  and "dict_get (inventory_payload ad) ''compute_arch'' x = optional_text (ad_compute_arch ad)"
  and "dict_get (inventory_payload ad) ''kubernetes_resource_name'' x = optional_text (ad_kubernetes_resource_name ad)"
  and "dict_get (inventory_payload ad) ''kubernetes_node_name'' x = optional_text (ad_kubernetes_node_name ad)"
  and "dict_get (inventory_payload ad) ''health'' x = PyStr (ad_health ad)"
  and "dict_get (inventory_payload ad) ''fake'' x = PyBool (ad_fake ad)"
  and "item_required (inventory_payload ad) ''model'' = Inr (ad_model ad)"
  and "dict_get (inventory_payload ad) ''accelerator_kind'' x = PyStr (accelerator_kind_value (ad_kind ad))"
  and "dict_get (inventory_payload ad) ''vendor'' x = PyStr (accelerator_vendor_value (ad_vendor ad))"
  by (simp_all add: inventory_payload_def item_required_def)

lemma vendor_value_not_fake [simp]: "accelerator_vendor_value vendor \<noteq> ''fake''"
  by (cases vendor) simp_all

lemma accelerator_kind_of_value [simp]: "accelerator_kind_of (accelerator_kind_value kind) = Some kind"
  by (cases kind) (simp_all add: accelerator_kind_of_def)

lemma item_vendor_payload [simp]: "item_vendor (inventory_payload ad) = Inr (ad_vendor ad)"
  by (simp add: item_vendor_def payload_gets)

lemma item_kind_payload [simp]:
  "item_kind (inventory_payload ad) vendor =
     (if ad_kind ad = kind_for_vendor vendor then Inr (ad_kind ad) else Inl WorkerValueError)"
  by (simp add: item_kind_def payload_gets)

lemma payload_slot:
  "read_item now g (inventory_payload ad) d0 = Inr r \<Longrightarrow>
     d_vendor r = accelerator_vendor_value (ad_vendor ad) \<and> d_device_index r = ad_device_index ad"
  by (auto simp: read_item_def ebind_eq_Inr Let_def payload_gets)

lemma inventory_names_texts:
  assumes "\<forall>v \<in> set xs. inventory_text n v" and "distinct xs"
  shows "inventory_names (PyList (map PyStr xs)) = Inr xs"
proof -
  have "emap (\<lambda>item. case item of
          PyStr s \<Rightarrow> ebind (guard (strip s \<noteq> []) WorkerValueError) (\<lambda>_. Inr (strip s))
        | _ \<Rightarrow> Inl WorkerValueError) (map PyStr xs) = Inr xs"
    using assms(1) by (induction xs) (auto simp: inventory_text_def)
  with assms(2) show ?thesis by (simp add: inventory_names_def)
qed

definition stored_row :: "datetime \<Rightarrow> int \<Rightarrow> accelerator_device \<Rightarrow> gpu_device \<Rightarrow> gpu_device" where
  "stored_row now generation ad d = d\<lparr>
     d_device_index := ad_device_index ad,
     d_vendor := accelerator_vendor_value (ad_vendor ad),
     d_accelerator_kind := accelerator_kind_value (ad_kind ad),
     d_model := ad_model ad,
     d_memory_total_mb := ad_memory_total_mb ad,
     d_memory_free_mb := ad_memory_free_mb ad,
     d_compute_capability := ad_compute_arch ad,
     d_compute_arch := ad_compute_arch ad,
     d_runtime_profile_ids := ad_runtime_profile_ids ad,
     d_capabilities_json := ad_capabilities ad,
     d_kubernetes_resource_name := ad_kubernetes_resource_name ad,
     d_kubernetes_node_name := ad_kubernetes_node_name ad,
     d_health := ad_health ad,
     d_fake := ad_fake ad,
     d_inventory_generation := generation,
     d_last_seen_at := now\<rparr>"

lemma item_optional_text [simp]: "item_optional (optional_text v) = v"
  by (cases v) (simp_all add: item_optional_def optional_text_def)

lemma strip_optional:
  "\<forall>v. x = Some v \<longrightarrow> inventory_text n v \<Longrightarrow> map_option strip x = x \<and> x \<noteq> Some []"
  by (cases x) (auto simp: inventory_text_def)

lemma read_item_payload:
  assumes "validate_device ad = Inr ()"
  shows "read_item now generation (inventory_payload ad) d = Inr (stored_row now generation ad d)"
proof -
  note v = validate_device_returns [OF assms] and t = validate_device_texts [OF assms]
  have names: "inventory_names (PyList (map PyStr (ad_runtime_profile_ids ad))) = Inr (ad_runtime_profile_ids ad)"
      "inventory_names (PyList (map PyStr (ad_capabilities ad))) = Inr (ad_capabilities ad)"
    using v t by (auto intro: inventory_names_texts)
  have opt: "map_option strip (ad_kubernetes_resource_name ad) = ad_kubernetes_resource_name ad"
      "ad_kubernetes_resource_name ad \<noteq> Some []"
      "map_option strip (ad_kubernetes_node_name ad) = ad_kubernetes_node_name ad"
      "ad_kubernetes_node_name ad \<noteq> Some []"
    using t strip_optional by blast+
  have ints: "inventory_integer (PyInt (ad_device_index ad)) 0 = Inr (ad_device_index ad)"
      "inventory_integer (PyInt (ad_memory_total_mb ad)) 1 = Inr (ad_memory_total_mb ad)"
      "inventory_integer (PyInt (ad_memory_free_mb ad)) 0 = Inr (ad_memory_free_mb ad)"
    using v by simp_all
  show ?thesis
    using v by (simp add: read_item_def payload_gets names opt ints stored_row_def)
qed

text \<open>The first inventory of a worker.\<close>

definition stored_as :: "datetime \<Rightarrow> int \<Rightarrow> string \<Rightarrow> accelerator_device \<Rightarrow> gpu_device \<Rightarrow> bool" where
  "stored_as now generation worker_id ad r \<longleftrightarrow>
     r = stored_row now generation ad (new_device (d_id r) worker_id (ad_device_id ad))"

lemma discovered_loop:
  assumes "\<forall>ad \<in> set ads. validate_device ad = Inr ()" and "il_existing s = []"
  shows "\<exists>s' rows. efold (inventory_step now g worker_id table) (map inventory_payload ads) s = Inr s' \<and>
    il_existing s' = [] \<and> il_added s' = il_added s @ rows \<and> il_result s' = il_result s @ map d_id rows \<and>
    list_all2 (stored_as now g worker_id) ads rows"
  using assms
proof (induction ads arbitrary: s)
  case (Cons ad ads)
  let ?r = "stored_row now g ad (new_device (fresh_id d_id (table @ il_added s)) worker_id (ad_device_id ad))"
  let ?s = "s\<lparr>il_added := il_added s @ [?r], il_seen := ad_device_id ad # il_seen s,
              il_result := il_result s @ [d_id ?r]\<rparr>"
  have ids: "d_id ?r = fresh_id d_id (table @ il_added s)" by (simp add: stored_row_def new_device_def)
  have step: "inventory_step now g worker_id table (inventory_payload ad) s = Inr ?s"
    using Cons.prems by (simp add: inventory_step_def read_item_payload ids Let_def
        item_required_def inventory_payload_def [THEN arg_cong, of "\<lambda>p. map_of p ''uuid''"])
  from Cons.IH [of ?s] Cons.prems obtain s' rows where
      "efold (inventory_step now g worker_id table) (map inventory_payload ads) ?s = Inr s'"
      "il_existing s' = []" "il_added s' = il_added ?s @ rows" "il_result s' = il_result ?s @ map d_id rows"
      "list_all2 (stored_as now g worker_id) ads rows" by auto
  moreover have "stored_as now g worker_id ad ?r" by (simp add: stored_as_def ids)
  ultimately show ?case
    using step by (intro exI [of _ s'] exI [of _ "?r # rows"]) simp
qed simp

lemma flush_inserts_ok:
  "\<forall>r \<in> set rows. \<forall>d \<in> set (table @ rows). \<not> device_conflict r d
   \<Longrightarrow> efold flush_insert rows table = Inr (table @ rows)"
proof (induction rows arbitrary: table)
  case (Cons r rows)
  have "flush_insert r table = Inr (table @ [r])"
    using Cons.prems by (auto simp: flush_insert_def list_ex_iff)
  moreover have "efold flush_insert rows (table @ [r]) = Inr ((table @ [r]) @ rows)"
    by (rule Cons.IH) (use Cons.prems in auto)
  ultimately show ?case by simp
qed simp

lemma vendor_value_inj [simp]: "accelerator_vendor_value v = accelerator_vendor_value v' \<longleftrightarrow> v = v'"
  by (cases v; cases v') simp_all

lemma stored_as_fields:
  "stored_as now g worker_id ad r \<Longrightarrow>
     d_worker_id r = worker_id \<and> d_device_uuid r = ad_device_id ad \<and>
     d_vendor r = accelerator_vendor_value (ad_vendor ad) \<and> d_device_index r = ad_device_index ad"
  unfolding stored_as_def by (drule arg_cong [of _ _ "\<lambda>r. (d_worker_id r, d_device_uuid r, d_vendor r, d_device_index r)"])
    (simp add: stored_row_def new_device_def)

lemma stored_rows_no_conflict:
  assumes "list_all2 (stored_as now g worker_id) ads rows"
    and "distinct (map ad_device_id ads)" and "distinct (map (\<lambda>ad. (ad_vendor ad, ad_device_index ad)) ads)"
    and "r \<in> set rows" and "d \<in> set rows"
  shows "\<not> device_conflict r d"
proof
  assume c: "device_conflict r d"
  from assms(4,5) obtain i j where ij: "i < length rows" "r = rows ! i" "j < length rows" "d = rows ! j"
    by (auto simp: in_set_conv_nth)
  have len: "length ads = length rows" using assms(1) by (rule list_all2_lengthD)
  have f: "stored_as now g worker_id (ads ! k) (rows ! k)" if "k < length rows" for k
    using assms(1) that len by (simp add: list_all2_conv_all_nth)
  have "i \<noteq> j" using c ij by auto
  then have "ad_device_id (ads ! i) \<noteq> ad_device_id (ads ! j)"
      "(ad_vendor (ads ! i), ad_device_index (ads ! i)) \<noteq> (ad_vendor (ads ! j), ad_device_index (ads ! j))"
    using assms(2,3) ij len by (auto simp: distinct_conv_nth)
  then show False
    using c stored_as_fields [OF f [OF ij(1)]] stored_as_fields [OF f [OF ij(3)]]
    by (auto simp: device_conflict_def ij)
qed

lemma map_tget_ids: "distinct (map key rows) \<Longrightarrow> map (\<lambda>i. the (tget key i rows)) (map key rows) = rows"
  by (intro nth_equalityI) (simp_all add: tget_member)

section \<open>Correctness of the inventory\<close>

text \<open>
  C10. A replacement of a worker's inventory that returns keeps the device table well formed
  (unique ids, unique UUID and unique vendor and index per worker, memory within bounds, the kind of
  each device that of its vendor), leaves the devices of other workers as they are, and marks each
  device of the worker that was not reported as missing without changing anything else of it but
  its time stamp.
\<close>
theorem inventory_stays_wf:
  assumes "inventory_wf (tb_gpu_devices db)"
    and "replace_gpu_inventory now worker_id session_id items db = Inr (db', rows)"
  shows "inventory_wf (tb_gpu_devices db') \<and>
    (\<forall>d \<in> set (tb_gpu_devices db).
       (d_worker_id d \<noteq> worker_id \<longrightarrow> d \<in> set (tb_gpu_devices db')) \<and>
       (d_worker_id d = worker_id \<and> d_device_uuid d \<notin> item_uuid ` set items \<longrightarrow>
          d\<lparr>d_health := ''missing'', d_last_seen_at := now\<rparr> \<in> set (tb_gpu_devices db')))"
proof (rule replace_gpu_inventory_table [OF assms], goal_cases)
  case (1 w s)
  then show ?thesis using unreported_row_kept [OF 1(2)] by auto
qed

text \<open>
  C36. A card cannot be swapped. When a worker discovers a new device in the slot (vendor and index)
  of a device it no longer has, the inventory is refused, whatever else it reports: the row of the
  device that is gone is kept with its slot, and the unique constraint rejects the new one.
\<close>
theorem card_swap_refused:
  assumes "inventory_wf (tb_gpu_devices db)" and "distinct (map ad_device_id ads)"
    and "d \<in> set (tb_gpu_devices db)" and "d_worker_id d = worker_id"
    and "d_device_uuid d \<notin> ad_device_id ` set ads" and "ad \<in> set ads"
    and "d_vendor d = accelerator_vendor_value (ad_vendor ad)" and "d_device_index d = ad_device_index ad"
  shows "isl (replace_gpu_inventory now worker_id session_id (map inventory_payload ads) db)"
proof (rule ccontr)
  assume "\<not> ?thesis"
  then obtain db' rows
    where ok: "replace_gpu_inventory now worker_id session_id (map inventory_payload ads) db = Inr (db', rows)"
    by (cases "replace_gpu_inventory now worker_id session_id (map inventory_payload ads) db") auto
  let ?items = "map inventory_payload ads" and ?table = "tb_gpu_devices db"
  let ?d = "d\<lparr>d_health := ''missing'', d_last_seen_at := now\<rparr>"
  obtain w :: worker and s where
      loop: "efold (inventory_step now (w_inventory_generation w) worker_id ?table) ?items
        (loop_start worker_id ?table) = Inr s"
    and l: "loop_ok worker_id ?table (worker_devices worker_id ?table) ?items s"
    and stored: "set (map (mark_missing now (il_seen s)) (il_existing s) @ il_added s) \<subseteq> set (tb_gpu_devices db')"
    and wf': "inventory_wf (tb_gpu_devices db')"
    by (rule replace_gpu_inventory_table [OF assms(1) ok])
  have uuids: "distinct (map item_uuid ?items)" using assms(2) by (simp add: o_def)
  have gone: "d_device_uuid d \<notin> item_uuid ` set ?items" using assms(5) by (auto simp: image_iff)
  have "?d \<in> set (tb_gpu_devices db')"
    using unreported_row_kept [OF l assms(3,4) gone, of now] stored by auto
  moreover obtain r where r: "r \<in> set (il_existing s @ il_added s)"
      "item_row now (w_inventory_generation w) worker_id (inventory_payload ad) r"
    using reported_rows [OF loop assms(1) uuids] assms(6) by auto
  have same: "mark_missing now (il_seen s) r = r" using item_row_mark_missing [OF l _ r(2)] assms(6) by simp
  have "r \<in> set (tb_gpu_devices db')"
    using r(1) imageI [of r "set (il_existing s)" "mark_missing now (il_seen s)"] stored unfolding same by auto
  moreover have row: "d_device_uuid r = ad_device_id ad" "d_worker_id r = worker_id"
      "d_vendor r = accelerator_vendor_value (ad_vendor ad)" "d_device_index r = ad_device_index ad"
    using r(2) payload_slot by (auto simp: item_row_def)
  moreover have "ad_device_id ad \<noteq> d_device_uuid d" using assms(5,6) by (metis imageI)
  then have "r \<noteq> ?d" using row(1) by auto
  ultimately have "d_id r \<noteq> d_id ?d"
    using inventory_wf_id [OF wf', of r ?d] by blast
  then have "device_conflict ?d r" using row assms(4,7,8) by (simp add: device_conflict_def)
  then show False
    using wf' \<open>?d \<in> set (tb_gpu_devices db')\<close> \<open>r \<in> set (tb_gpu_devices db')\<close> unfolding inventory_wf_def by blast
qed


section \<open>Reservations survive\<close>

definition same_reservations :: "worker \<Rightarrow> worker \<Rightarrow> bool" where
  "same_reservations w w' \<longleftrightarrow>
     w_id w' = w_id w \<and> w_running_tasks w' = w_running_tasks w \<and> w_reserved_cpu w' = w_reserved_cpu w \<and>
     w_reserved_memory_mb w' = w_reserved_memory_mb w \<and> w_reserved_gpus w' = w_reserved_gpus w"

definition fits :: "registration \<Rightarrow> worker \<Rightarrow> bool" where
  "fits g w \<longleftrightarrow>
     w_reserved_cpu w * 1000 \<le> of_int (rg_cpu_count g * 1000) \<and>
     w_reserved_memory_mb w \<le> rg_memory_total_mb g \<and> w_reserved_gpus w \<le> rg_gpu_count g"

lemma restarted_worker_facts:
  "same_reservations w (restarted_worker now uuid4 g w) \<and>
   w_overcommitted (restarted_worker now uuid4 g w) = (\<not> fits g w) \<and>
   w_status (restarted_worker now uuid4 g w) = (if fits g w then WS_ONLINE else WS_DRAINING) \<and>
   w_version (restarted_worker now uuid4 g w) = w_version w + 1 \<and>
   w_worker_session_id (restarted_worker now uuid4 g w) =
     (case rg_worker_session_id g of Some s \<Rightarrow> s | None \<Rightarrow> uuid4)"
  by (auto simp: restarted_worker_def same_reservations_def fits_def Let_def not_le)

text \<open>
  C11. A worker process that restarts under a known id takes over the row: the capacity that running
  executions hold stays reserved, the worker accepts new tasks (is online and not overcommitted)
  exactly when these reservations fit the capacity it registers with and drains otherwise, and the
  heartbeats, status changes and inventories of the previous process are refused from then on.
\<close>
theorem restart_keeps_reservations:
  assumes "tget w_id worker_id (tb_workers db) = Some w" and "register now uuid4 worker_id g db = (db', w')"
    and "w_worker_session_id w \<noteq> (case rg_worker_session_id g of Some s \<Rightarrow> s | None \<Rightarrow> uuid4)"
  shows "tget w_id worker_id (tb_workers db') = Some w' \<and> same_reservations w w' \<and>
    (w_status w' = WS_ONLINE \<and> \<not> w_overcommitted w' \<longleftrightarrow> fits g w) \<and>
    (w_status w' = WS_DRAINING \<and> w_overcommitted w' \<longleftrightarrow> \<not> fits g w) \<and>
    heartbeat t worker_id running (Some (w_worker_session_id w)) db' = (db', None) \<and>
    set_status t worker_id status (Some (w_worker_session_id w)) db' = (db', None) \<and>
    replace_gpu_inventory t worker_id (w_worker_session_id w) items db' = Inl StaleWorkerSession"
proof -
  have w': "w' = restarted_worker now uuid4 g w" "tb_workers db' = tput w_id w' (tb_workers db)"
    using assms(1,2) by (auto simp: register_def Let_def)
  note f = restarted_worker_facts [of w now uuid4 g, folded w'(1)]
  have id: "w_id w' = worker_id" "worker_id \<in> w_id ` set (tb_workers db)"
    using f tget_SomeD [OF assms(1)] tget_key [OF assms(1)] by (auto simp: same_reservations_def)
  have get: "tget w_id worker_id (tb_workers db') = Some w'"
    using id by (simp add: w'(2) tget_tput)
  show ?thesis
    using f get assms(3) by (auto simp: heartbeat_def set_status_def replace_gpu_inventory_def)
qed

inductive worker_step :: "task_db \<Rightarrow> task_db \<Rightarrow> bool" where
  register: "register now uuid4 worker_id g db = (db', w) \<Longrightarrow> worker_step db db'"
| heartbeat: "heartbeat now worker_id running session_id db = (db', w) \<Longrightarrow> worker_step db db'"
| drain: "drain worker_id reason db = (db', w) \<Longrightarrow> worker_step db db'"
| set_status: "set_status now worker_id status session_id db = (db', w) \<Longrightarrow> worker_step db db'"
| inventory: "replace_gpu_inventory now worker_id session_id items db = Inr (db', rows) \<Longrightarrow> worker_step db db'"
| stale: "mark_stale_offline locked now timeout limit db = Inr (db', ids) \<Longrightarrow> worker_step db db'"

text \<open>Every worker row of \<open>ws\<close> is still there in \<open>ws'\<close>, with the same reservations and no older version.\<close>

definition reservations_kept :: "worker list \<Rightarrow> worker list \<Rightarrow> bool" where
  "reservations_kept ws ws' \<longleftrightarrow>
     (\<forall>i w. tget w_id i ws = Some w \<longrightarrow>
        (\<exists>w'. tget w_id i ws' = Some w' \<and> same_reservations w w' \<and> w_version w \<le> w_version w'))"

lemma reservations_kept_refl: "reservations_kept ws ws"
  by (simp add: reservations_kept_def same_reservations_def)

lemma reservations_kept_trans: "reservations_kept a b \<Longrightarrow> reservations_kept b c \<Longrightarrow> reservations_kept a c"
  unfolding reservations_kept_def by (fastforce simp: same_reservations_def)

lemma reservations_kept_tput:
  assumes "tget w_id i ws = Some w" and "same_reservations w w'" and "w_version w \<le> w_version w'"
  shows "reservations_kept ws (tput w_id w' ws)"
proof -
  have "w_id w' = i" using assms(2) tget_SomeD [OF assms(1)] by (simp add: same_reservations_def)
  with assms tget_key [OF assms(1)] show ?thesis
    by (auto simp: reservations_kept_def tget_tput same_reservations_def)
qed

lemma reservations_kept_append: "reservations_kept ws (ws @ new)"
  by (auto simp: reservations_kept_def tget_append same_reservations_def)

lemma reservations_kept_fold:
  assumes "\<And>w'. w' \<in> set new \<Longrightarrow> \<exists>w. tget w_id (w_id w') ws = Some w \<and> same_reservations w w' \<and> w_version w \<le> w_version w'"
    and "distinct (map w_id new)"
  shows "reservations_kept ws (fold (tput w_id) new ws)"
  unfolding reservations_kept_def
proof (intro allI impI)
  fix i w assume w: "tget w_id i ws = Some w"
  show "\<exists>w'. tget w_id i (fold (tput w_id) new ws) = Some w' \<and> same_reservations w w' \<and> w_version w \<le> w_version w'"
  proof (cases "tget w_id i new")
    case None
    then show ?thesis using w by (simp add: tget_fold_tput [OF assms(2)] same_reservations_def)
  next
    case (Some w')
    then show ?thesis
      using w assms(1) [of w'] tget_SomeD [OF Some] tget_key [OF w] by (auto simp: tget_fold_tput [OF assms(2)])
  qed
qed

text \<open>The other operations write at most one row, with the same reservations.\<close>

definition worker_put :: "worker list \<Rightarrow> worker list \<Rightarrow> bool" where
  "worker_put ws ws' \<longleftrightarrow>
     ws' = ws \<or> (\<exists>i w w'. tget w_id i ws = Some w \<and> ws' = tput w_id w' ws \<and> same_reservations w w' \<and>
                   w_version w \<le> w_version w')"

lemma worker_put_refl: "worker_put ws ws"
  by (simp add: worker_put_def)

lemma worker_putI:
  "tget w_id i ws = Some w \<Longrightarrow> same_reservations w w' \<Longrightarrow> w_version w \<le> w_version w'
   \<Longrightarrow> worker_put ws (tput w_id w' ws)"
  by (auto simp: worker_put_def)

lemma worker_put_kept:
  "worker_put ws ws' \<Longrightarrow> distinct (map w_id ws) \<Longrightarrow> reservations_kept ws ws' \<and> distinct (map w_id ws')"
  by (auto simp: worker_put_def tput_keys reservations_kept_refl intro: reservations_kept_tput)

lemma heartbeat_put: "heartbeat now worker_id running session_id db = (db', w) \<Longrightarrow> worker_put (tb_workers db) (tb_workers db')"
  by (auto simp: heartbeat_def Let_def same_reservations_def split: option.splits if_splits
      intro!: worker_putI worker_put_refl)

lemma drain_put: "drain worker_id reason db = (db', w) \<Longrightarrow> worker_put (tb_workers db) (tb_workers db')"
  by (auto simp: drain_def Let_def same_reservations_def split: option.splits
      intro!: worker_putI worker_put_refl)

lemma set_status_put:
  "set_status now worker_id status session_id db = (db', w) \<Longrightarrow> worker_put (tb_workers db) (tb_workers db')"
  by (auto simp: set_status_def Let_def same_reservations_def split: option.splits if_splits
      intro!: worker_putI worker_put_refl)

lemmas put_cases = heartbeat_put drain_put set_status_put

lemma replace_gpu_inventory_put:
  "replace_gpu_inventory now worker_id session_id items db = Inr (db', rows)
   \<Longrightarrow> worker_put (tb_workers db) (tb_workers db')"
  by (auto simp: replace_gpu_inventory_def ebind_eq_Inr Let_def split: option.splits
      intro!: worker_putI simp: same_reservations_def)

lemma set_stale: "set (stale_workers locked cutoff limit ws) \<subseteq> set ws"
  by (auto simp: stale_workers_def Let_def split: option.splits dest: in_set_takeD)

lemma distinct_stale:
  assumes "distinct (map w_id ws)"
  shows "distinct (map w_id (stale_workers locked cutoff limit ws))"
proof -
  have "distinct (stale_workers locked cutoff limit ws)"
    using assms by (auto simp: stale_workers_def Let_def distinct_map split: option.splits)
  then show ?thesis
    using assms set_stale [of locked cutoff limit ws] by (auto simp: distinct_map intro: inj_on_subset)
qed

lemma worker_step_kept:
  assumes "worker_step db db'" and "distinct (map w_id (tb_workers db))"
  shows "reservations_kept (tb_workers db) (tb_workers db') \<and> distinct (map w_id (tb_workers db'))"
  using assms
proof cases
  case (register now uuid4 worker_id g w)
  show ?thesis
  proof (cases "tget w_id worker_id (tb_workers db)")
    case None
    have "w_id (new_worker now uuid4 worker_id g) = worker_id" by (simp add: new_worker_def)
    with register None assms(2) show ?thesis
      by (auto simp: register_def Let_def tget_None_iff reservations_kept_append)
  next
    case (Some w0)
    with register assms(2) reservations_kept_tput [OF Some] restarted_worker_facts [of w0 now uuid4 g]
    show ?thesis by (auto simp: register_def Let_def tput_keys)
  qed
next
  case (stale locked now timeout limit ids)
  let ?cutoff = "now - timedelta_seconds timeout"
  let ?new = "map (\<lambda>w. w\<lparr>w_status := WS_OFFLINE, w_version := w_version w + 1\<rparr>)
    (stale_workers locked ?cutoff limit (tb_workers db))"
  have "tb_workers db' = fold (tput w_id) ?new (tb_workers db)"
    using stale by (auto simp: mark_stale_offline_def ebind_eq_Inr Let_def)
  moreover have "reservations_kept (tb_workers db) (fold (tput w_id) ?new (tb_workers db))"
    using set_stale [of locked ?cutoff limit "tb_workers db"] distinct_stale [OF assms(2), of locked ?cutoff limit]
    by (intro reservations_kept_fold)
      (auto simp: same_reservations_def o_def tget_Some_iff [OF assms(2)])
  ultimately show ?thesis using assms(2) by (simp add: fold_tput_keys)
next
  case (inventory now worker_id session_id items rows)
  then show ?thesis using worker_put_kept [OF replace_gpu_inventory_put assms(2)] by blast
qed (use worker_put_kept [OF _ assms(2)] put_cases in blast)+

text \<open>
  C38. No sequence of registrations, heartbeats, drains, status changes, inventory replacements and
  sweeps removes a worker or changes the counters of running tasks and reserved CPU, memory and GPUs
  on its row, which belong to the claims and releases of executions; the row's version never
  decreases.
\<close>
theorem workers_keep_reservations:
  assumes "worker_step\<^sup>*\<^sup>* db db'" and "distinct (map w_id (tb_workers db))"
    and "tget w_id i (tb_workers db) = Some w"
  shows "\<exists>w'. tget w_id i (tb_workers db') = Some w' \<and> same_reservations w w' \<and> w_version w \<le> w_version w'"
proof -
  have "reservations_kept (tb_workers db) (tb_workers db') \<and> distinct (map w_id (tb_workers db'))"
    using assms(1,2)
  proof (induction rule: rtranclp_induct)
    case (step x y)
    then show ?case using worker_step_kept [OF step.hyps(2)] reservations_kept_trans by blast
  qed (simp add: reservations_kept_refl)
  then show ?thesis using assms(3) by (simp add: reservations_kept_def)
qed

section \<open>Examples\<close>

definition example_device :: "string \<Rightarrow> int \<Rightarrow> accelerator_device" where
  "example_device device_id index =
     \<lparr>ad_device_id = device_id, ad_vendor = NVIDIA, ad_kind = GPU, ad_model = ''A10'',
      ad_memory_total_mb = 24, ad_memory_free_mb = 20, ad_health = ''healthy'', ad_compute_arch = None,
      ad_runtime_profile_ids = [], ad_capabilities = [''x''], ad_fake = False, ad_device_index = index,
      ad_kubernetes_resource_name = None, ad_kubernetes_node_name = None,
      ad_kubernetes_node_labels = [], ad_kubernetes_node_taints = []\<rparr>"

definition example_busy_db :: task_db where
  "example_busy_db = example_project_db\<lparr>tb_workers :=
     map (\<lambda>w. w\<lparr>w_running_tasks := 1, w_reserved_gpus := 1\<rparr>) (tb_workers example_project_db)\<rparr>"

definition example_registration :: registration where
  "example_registration =
     \<lparr>rg_hostname = ''h'', rg_concurrency = 1, rg_cpu_count = 4, rg_memory_total_mb = 8, rg_docker_version = None,
      rg_labels = [], rg_gpu_count = 0, rg_gpu_model = None, rg_gpu_memory_mb = 0,
      rg_worker_session_id = Some 8, rg_node_name = None, rg_runtime_types = None, rg_taints = None\<rparr>"

theorem inventory_stays_wf_witness:
  "inventory_wf (tb_gpu_devices (fst (projr (replace_gpu_inventory 5 ''w1'' 7 [] example_project_db))))"
proof -
  have wf: "inventory_wf (tb_gpu_devices example_project_db)" by code_simp
  have "\<not> isl (replace_gpu_inventory 5 ''w1'' 7 [] example_project_db)" by code_simp
  then obtain db' rows where ok: "replace_gpu_inventory 5 ''w1'' 7 [] example_project_db = Inr (db', rows)"
    by (cases "replace_gpu_inventory 5 ''w1'' 7 [] example_project_db") auto
  show ?thesis using inventory_stays_wf [OF wf ok] by (simp add: ok)
qed

theorem card_swap_refused_witness:
  "isl (replace_gpu_inventory 5 ''w1'' 7 (map inventory_payload [example_device ''GPU-4'' 0]) example_project_db)"
  by (rule card_swap_refused [of _ _ "hd (tb_gpu_devices example_project_db)" _ "example_device ''GPU-4'' 0"]) code_simp+


theorem restart_keeps_reservations_witness:
  "fst (heartbeat 6 ''w1'' 0 (Some 7) (fst (register 5 9 ''w1'' example_registration example_busy_db)))
     = fst (register 5 9 ''w1'' example_registration example_busy_db)"
proof -
  let ?w = "the (tget w_id ''w1'' (tb_workers example_busy_db))"
  have w: "tget w_id ''w1'' (tb_workers example_busy_db) = Some ?w" "w_worker_session_id ?w = 7" by code_simp+
  obtain db' w' where r: "register 5 9 ''w1'' example_registration example_busy_db = (db', w')" by fastforce
  have "w_worker_session_id ?w \<noteq> (case rg_worker_session_id example_registration of Some s \<Rightarrow> s | None \<Rightarrow> 9)"
    by code_simp
  from restart_keeps_reservations [OF w(1) r this, of 6 0] show ?thesis by (simp add: r w(2))
qed

theorem workers_keep_reservations_witness:
  "\<exists>w'. tget w_id ''w1'' (tb_workers (fst (drain ''w1'' ''x'' example_busy_db))) = Some w' \<and>
     same_reservations (the (tget w_id ''w1'' (tb_workers example_busy_db))) w' \<and>
     w_version (the (tget w_id ''w1'' (tb_workers example_busy_db))) \<le> w_version w'"
proof (rule workers_keep_reservations [of example_busy_db])
  show "worker_step\<^sup>*\<^sup>* example_busy_db (fst (drain ''w1'' ''x'' example_busy_db))"
    by (intro r_into_rtranclp worker_step.drain [of _ _ _ _ "snd (drain ''w1'' ''x'' example_busy_db)"]) simp
qed code_simp+

end
