(* ===== verification/Pagination.thy ===== *)
theory Pagination
  imports Task_Examples Workers
begin

text \<open>
  Listings by page: the cursors of \<open>api/pagination.py\<close> and \<open>api/routes/_pagination.py\<close>, and the
  handlers that list tasks (\<open>api/routes/tasks.py\<close>, \<open>TaskService.list_tasks\<close>) and workers
  (\<open>api/routes/workers.py\<close>). A cursor is the key it denotes, a time stamp and an id; its text is the
  Base64 form of a JSON object. The handlers are two instances of one contract, the locale
  \<open>keyset_listing\<close>, under which following the cursors page by page comes to an end and yields every
  row once.
\<close>

section \<open>Cursors\<close>

datatype page_error = PageAPIError nat string | CursorValueError

definition validate_text_id :: "string \<Rightarrow> bool" where
  "validate_text_id v \<longleftrightarrow> \<not> (v = [] \<or> length v > 255 \<or> v \<noteq> strip v \<or> list_ex ascii_control v)"

definition encode_text_cursor :: "datetime \<Rightarrow> string \<Rightarrow> page_error + datetime \<times> string" where
  "encode_text_cursor created_at item_id =
     ebind (guard (validate_text_id item_id) CursorValueError) (\<lambda>_. Inr (created_at, item_id))"

definition decode_text_cursor :: "datetime \<times> string \<Rightarrow> page_error + datetime \<times> string" where
  "decode_text_cursor cursor = (case cursor of (created_at, item_id) \<Rightarrow>
     ebind (guard (validate_text_id item_id) CursorValueError) (\<lambda>_. Inr (created_at, item_id)))"

definition parse_list_cursor :: "(datetime \<times> uuid) option \<Rightarrow> nat \<Rightarrow> page_error + (datetime \<times> uuid) option" where
  "parse_list_cursor cursor skip =
     ebind (guard (\<not> (cursor \<noteq> None \<and> skip \<noteq> 0)) (PageAPIError 400 ''INVALID_PAGINATION'')) (\<lambda>_. Inr cursor)"

definition parse_text_list_cursor ::
  "(datetime \<times> string) option \<Rightarrow> nat \<Rightarrow> page_error + (datetime \<times> string) option" where
  "parse_text_list_cursor cursor skip =
     ebind (guard (\<not> (cursor \<noteq> None \<and> skip \<noteq> 0)) (PageAPIError 400 ''INVALID_PAGINATION'')) (\<lambda>_.
     case cursor of
       None \<Rightarrow> Inr None
     | Some c \<Rightarrow> (case decode_text_cursor c of
                   Inl _ \<Rightarrow> Inl (PageAPIError 400 ''INVALID_CURSOR'')
                 | Inr key \<Rightarrow> Inr (Some key)))"

section \<open>Handlers\<close>

record ('r, 'k) listing =
  li_items :: "'r list"
  li_total :: nat
  li_limit :: nat
  li_offset :: nat
  li_next_cursor :: "'k option"

definition list_workers_handler ::
  "nat \<Rightarrow> nat \<Rightarrow> (datetime \<times> string) option \<Rightarrow> task_db \<Rightarrow> page_error + (worker, datetime \<times> string) listing" where
  "list_workers_handler limit skip cursor db =
     ebind (parse_text_list_cursor cursor skip) (\<lambda>after.
     let rows = list_workers (limit + 1) skip after db;
         total = length (tb_workers db);
         has_more = length rows > limit;
         workers = take limit rows
     in
     ebind (if has_more \<and> workers \<noteq> []
            then ebind (encode_text_cursor (w_started_at (last workers)) (w_id (last workers))) (\<lambda>c. Inr (Some c))
            else Inr None) (\<lambda>next_cursor.
     Inr \<lparr>li_items = workers, li_total = total, li_limit = limit,
          li_offset = (if cursor = None then skip else 0), li_next_cursor = next_cursor\<rparr>))"

definition list_tasks_service ::
  "uuid option \<Rightarrow> task_status option \<Rightarrow> string option \<Rightarrow> nat \<Rightarrow> nat \<Rightarrow> (datetime \<times> uuid) option
   \<Rightarrow> task_db \<Rightarrow> task list \<times> nat" where
  "list_tasks_service project_id status worker_id limit skip after db =
     (case project_id of
        None \<Rightarrow> ([], 0)
      | Some project \<Rightarrow>
          (list_for_project project status worker_id limit skip after db,
           length (filter (\<lambda>t. t_project_id t = project \<and> task_filter status worker_id t) (tb_tasks db))))"

definition list_tasks_handler ::
  "uuid option \<Rightarrow> task_status option \<Rightarrow> string option \<Rightarrow> nat \<Rightarrow> nat \<Rightarrow> (datetime \<times> uuid) option
   \<Rightarrow> task_db \<Rightarrow> page_error + (task, datetime \<times> uuid) listing" where
  "list_tasks_handler project_id status worker_id limit skip cursor db =
     ebind (parse_list_cursor cursor skip) (\<lambda>after.
     let (rows, total) = list_tasks_service project_id status worker_id (limit + 1) skip after db;
         has_more = length rows > limit;
         items = take limit rows;
         next_cursor = (if has_more \<and> items \<noteq> [] then Some (t_created_at (last items), t_id (last items)) else None)
     in Inr \<lparr>li_items = items, li_total = total, li_limit = limit,
             li_offset = (if cursor = None then skip else 0), li_next_cursor = next_cursor\<rparr>)"

text \<open>A client that starts without a cursor and asks for the next page as long as there is one.\<close>

partial_function (option) follow ::
  "('k option \<Rightarrow> 'e + ('r, 'k) listing) \<Rightarrow> 'k option \<Rightarrow> ('e + 'r list) option" where
  "follow get cursor =
     (case get cursor of
        Inl e \<Rightarrow> Some (Inl e)
      | Inr page \<Rightarrow>
          (case li_next_cursor page of
             None \<Rightarrow> Some (Inr (li_items page))
           | Some next_cursor \<Rightarrow>
               Option.bind (follow get (Some next_cursor)) (\<lambda>r.
               Some (ebind r (\<lambda>rest. Inr (li_items page @ rest))))))"

section \<open>The contract of a listing\<close>

definition below :: "('r \<Rightarrow> 'k :: linorder) \<Rightarrow> 'k option \<Rightarrow> 'r \<Rightarrow> bool" where
  "below key after r \<longleftrightarrow> (case after of None \<Rightarrow> True | Some k \<Rightarrow> key r < k)"

definition descending :: "('r \<Rightarrow> 'k :: linorder) \<Rightarrow> 'r list \<Rightarrow> 'r list" where
  "descending key rows = rev (sort_key key rows)"

definition next_key :: "('r \<Rightarrow> 'k) \<Rightarrow> nat \<Rightarrow> 'r list \<Rightarrow> 'k option" where
  "next_key key limit found =
     (if length found > limit \<and> take limit found \<noteq> [] then Some (key (last (take limit found))) else None)"

lemma descending_filter: "descending key (filter P rows) = filter P (descending key rows)"
  by (simp add: descending_def filter_sort rev_filter [symmetric])

lemma descending_strict:
  assumes "distinct (map key rows)"
  shows "sorted_wrt (\<lambda>a b. key b < key a) (descending key rows)"
proof -
  have "distinct (map key (sort_key key rows))" using assms by (simp add: distinct_map)
  then have "sorted_wrt (<) (map key (sort_key key rows))"
    using sorted_sort_key [of key rows] by (simp add: strict_sorted_iff)
  then show ?thesis by (simp add: descending_def sorted_wrt_rev sorted_wrt_map)
qed

lemma below_position:
  assumes "sorted_wrt (\<lambda>a b. key b < key a) xs" and "n < length xs"
  shows "filter (below key (Some (key (xs ! n)))) xs = drop (Suc n) xs"
proof -
  have "filter (below key (Some (key (xs ! n)))) (take (Suc n) xs) = []"
  proof -
    have "\<not> key (xs ! i) < key (xs ! n)" if "i \<le> n" for i
      using sorted_wrt_nth_less [OF assms(1), of i n] assms(2) that by (cases "i = n") auto
    then show ?thesis using assms(2) by (auto simp: filter_empty_conv below_def in_set_conv_nth)
  qed
  moreover have "filter (below key (Some (key (xs ! n)))) (drop (Suc n) xs) = drop (Suc n) xs"
  proof -
    have "key (xs ! (Suc n + i)) < key (xs ! n)" if "Suc n + i < length xs" for i
      using sorted_wrt_nth_less [OF assms(1), of n "Suc n + i"] that by simp
    then show ?thesis by (auto simp: filter_id_conv below_def in_set_conv_nth)
  qed
  ultimately show ?thesis
    by (metis append_take_drop_id filter_append append_Nil)
qed

text \<open>
  For a state \<open>s\<close> that is \<open>ok\<close>, a listing reads \<open>rows s\<close>, returns the rows below the cursor in
  descending order of their keys up to the limit, and offers the key of the last one as the next
  cursor when there are more.
\<close>

locale keyset_listing =
  fixes key :: "'r \<Rightarrow> 'k :: linorder"
    and ok :: "'s \<Rightarrow> bool"
    and rows :: "'s \<Rightarrow> 'r list"
    and get :: "nat \<Rightarrow> 's \<Rightarrow> 'k option \<Rightarrow> 'e + ('r, 'k) listing"
  assumes distinct_keys: "ok s \<Longrightarrow> distinct (map key (rows s))"
    and get_page: "ok s \<Longrightarrow> 0 < limit \<Longrightarrow> after = None \<or> (\<exists>r \<in> set (rows s). after = Some (key r)) \<Longrightarrow>
      \<exists>page. get limit s after = Inr page \<and>
        li_items page = take limit (descending key (filter (below key after) (rows s))) \<and>
        li_next_cursor page = next_key key limit (descending key (filter (below key after) (rows s)))"
begin

lemma follow_from:
  assumes "ok s" and "0 < limit" and "after = None \<or> (\<exists>r \<in> set (rows s). after = Some (key r))"
    and "filter (below key after) (descending key (rows s)) = drop n (descending key (rows s))"
  shows "follow (get limit s) after = Some (Inr (drop n (descending key (rows s))))"
  using assms(3,4)
proof (induction "length (rows s) - n" arbitrary: n after rule: less_induct)
  case less
  let ?all = "descending key (rows s)"
  have len: "length ?all = length (rows s)" by (simp add: descending_def)
  from get_page [OF assms(1,2) less.prems(1)] obtain page where page: "get limit s after = Inr page"
      "li_items page = take limit (drop n ?all)" "li_next_cursor page = next_key key limit (drop n ?all)"
    by (auto simp: descending_filter less.prems(2))
  show ?case
  proof (cases "length (drop n ?all) > limit")
    case False
    then show ?thesis
      using page by (subst follow.simps) (simp add: next_key_def)
  next
    case True
    let ?m = "n + limit - 1"
    have m: "?m < length ?all" "Suc ?m = n + limit" using True assms(2) by auto
    have last: "last (take limit (drop n ?all)) = ?all ! ?m"
      using True assms(2) m by (simp add: last_conv_nth min_def)
    have mem: "?all ! ?m \<in> set (rows s)" using nth_mem [OF m(1)] by (simp add: descending_def)
    have "filter (below key (Some (key (?all ! ?m)))) ?all = drop (n + limit) ?all"
      using below_position [OF descending_strict [OF distinct_keys [OF assms(1)]] m(1)] m(2) by simp
    then have "follow (get limit s) (Some (key (?all ! ?m))) = Some (Inr (drop (n + limit) ?all))"
      using True assms(2) mem len by (intro less.hyps) auto
    moreover have "li_next_cursor page = Some (key (?all ! ?m))"
      using page(3) True assms(2) unfolding next_key_def last by auto
    moreover have "take limit (drop n ?all) @ drop (n + limit) ?all = drop n ?all"
      by (metis append_take_drop_id drop_drop add.commute)
    ultimately show ?thesis
      using page by (subst follow.simps) simp
  qed
qed

lemma follow_all: "ok s \<Longrightarrow> 0 < limit \<Longrightarrow> follow (get limit s) None = Some (Inr (descending key (rows s)))"
  using follow_from [of s limit None 0] by (simp add: below_def)

end

section \<open>Tasks and workers\<close>

definition task_key :: "task \<Rightarrow> datetime \<times> uuid" where
  "task_key t = (t_created_at t, t_id t)"

definition worker_key :: "worker \<Rightarrow> datetime \<times> string" where
  "worker_key w = (w_started_at w, w_id w)"

definition listed_tasks :: "uuid \<Rightarrow> task_status option \<Rightarrow> string option \<Rightarrow> task_db \<Rightarrow> task list" where
  "listed_tasks project_id status worker_id db =
     filter (\<lambda>t. t_project_id t = project_id \<and> task_filter status worker_id t) (tb_tasks db)"

lemma before_cursor_below: "before_cursor after t = below task_key after t"
  by (auto simp: before_cursor_def below_def task_key_def less_prod_def split: option.splits)

lemma distinct_keys_of_ids: "distinct (map snd (map key rows)) \<Longrightarrow> distinct (map key rows)"
  unfolding distinct_map by blast

lemma negated_order:
  assumes "distinct (map t_id rows)"
  shows "sort_key (\<lambda>t. (- t_created_at t, - int (t_id t))) rows = descending task_key rows"
proof (rule sort_key_inj_key_eq)
  show "inj_on (\<lambda>t. (- t_created_at t, - int (t_id t))) (set rows)"
    using assms by (auto simp: distinct_map inj_on_def)
  have "distinct (map task_key rows)"
    using assms by (intro distinct_keys_of_ids) (simp add: task_key_def o_def)
  then have "sorted_wrt (\<lambda>a b. task_key b < task_key a) (descending task_key rows)" by (rule descending_strict)
  then show "sorted (map (\<lambda>t. (- t_created_at t, - int (t_id t))) (descending task_key rows))"
    unfolding sorted_wrt_map by (rule sorted_wrt_mono_rel [rotated]) (auto simp: task_key_def less_prod_def)
qed (simp add: descending_def)

lemma list_for_project_page:
  assumes "distinct (map t_id (tb_tasks db))" and "after = None \<or> skip = 0"
  shows "list_for_project project_id status worker_id limit skip after db =
    take limit (drop skip (descending task_key (filter (below task_key after) (listed_tasks project_id status worker_id db))))"
proof -
  have "distinct (map t_id (filter (below task_key after) (listed_tasks project_id status worker_id db)))"
    using assms(1) by (simp add: listed_tasks_def distinct_map_filter)
  from negated_order [OF this] show ?thesis
    using assms(2) by (auto simp: list_for_project_def listed_tasks_def before_cursor_below conj_ac)
qed

lemma page_of_found:
  "take limit (take (Suc limit) found) = take limit found"
  "length (take (Suc limit) found) > limit \<longleftrightarrow> length found > limit"
  by (auto simp: min_def)

lemma distinct_listed_keys:
  "distinct (map t_id (tb_tasks db)) \<Longrightarrow> distinct (map task_key (listed_tasks project_id status worker_id db))"
  by (rule distinct_keys_of_ids) (simp add: listed_tasks_def task_key_def o_def distinct_map_filter)

interpretation task_listing: keyset_listing task_key
  "\<lambda>db. distinct (map t_id (tb_tasks db))" "listed_tasks project_id status worker_id"
  "\<lambda>limit db cursor. list_tasks_handler (Some project_id) status worker_id limit 0 cursor db"
  for project_id status worker_id
proof (unfold_locales, goal_cases)
  case (1 db)
  then show ?case by (rule distinct_listed_keys)
next
  case (2 db limit after)
  let ?found = "descending task_key (filter (below task_key after) (listed_tasks project_id status worker_id db))"
  have "list_for_project project_id status worker_id (Suc limit) 0 after db = take (Suc limit) ?found"
    using list_for_project_page [OF 2(1), of after 0] by simp
  then show ?case
    by (simp add: list_tasks_handler_def list_tasks_service_def parse_list_cursor_def next_key_def page_of_found
        task_key_def Let_def)
qed

definition worker_ids_ok :: "task_db \<Rightarrow> bool" where
  "worker_ids_ok db \<longleftrightarrow> distinct (map w_id (tb_workers db)) \<and> list_all validate_text_id (map w_id (tb_workers db))"

lemma list_workers_page:
  "list_workers limit skip after db =
     take limit (drop skip (descending worker_key (filter (below worker_key after) (tb_workers db))))"
proof -
  have "(case after of None \<Rightarrow> True | Some (created_at, item_id) \<Rightarrow>
      w_started_at w < created_at \<or> w_started_at w = created_at \<and> w_id w < item_id) = below worker_key after w" for w
    by (auto simp: below_def worker_key_def less_prod_def split: option.splits)
  then show ?thesis by (simp add: list_workers_def descending_def worker_key_def [abs_def])
qed

interpretation worker_listing: keyset_listing worker_key worker_ids_ok tb_workers
  "\<lambda>limit db cursor. list_workers_handler limit 0 cursor db"
proof (unfold_locales, goal_cases)
  case (1 db)
  then show ?case by (intro distinct_keys_of_ids) (simp add: worker_ids_ok_def worker_key_def o_def)
next
  case (2 db limit after)
  let ?found = "descending worker_key (filter (below worker_key after) (tb_workers db))"
  have rows: "list_workers (Suc limit) 0 after db = take (Suc limit) ?found" by (simp add: list_workers_page)
  have ids: "validate_text_id (w_id w)" if "w \<in> set (tb_workers db)" for w
    using 2(1) that by (simp add: worker_ids_ok_def list_all_iff)
  then have parse: "parse_text_list_cursor after 0 = Inr after"
    using 2(3) by (auto simp: parse_text_list_cursor_def decode_text_cursor_def worker_key_def)
  have "validate_text_id (w_id (last (take limit ?found)))" if "take limit ?found \<noteq> []"
    using last_in_set [OF that] by (intro ids) (auto dest!: in_set_takeD simp: descending_def)
  then show ?case
    by (simp add: list_workers_handler_def parse rows next_key_def page_of_found encode_text_cursor_def worker_key_def
        Let_def)
qed

text \<open>
  C13. Listing tasks by cursor terminates and is complete: a client that asks for a project's tasks
  (with any filter on status and worker) and follows the next cursors comes to a last page, whatever
  the page size, and has then received exactly the matching tasks, each once, from the newest to the
  oldest.
\<close>
theorem task_listing_complete:
  assumes "distinct (map t_id (tb_tasks db))" and "0 < limit"
  shows "\<exists>tasks. follow (\<lambda>cursor. list_tasks_handler (Some project_id) status worker_id limit 0 cursor db) None
      = Some (Inr tasks) \<and>
    mset tasks = mset (filter (\<lambda>t. t_project_id t = project_id \<and> task_filter status worker_id t) (tb_tasks db)) \<and>
    sorted_wrt (\<lambda>t t'. (t_created_at t', t_id t') < (t_created_at t, t_id t)) tasks"
  using task_listing.follow_all [OF assms, of project_id status worker_id]
    descending_strict [OF distinct_listed_keys [OF assms(1)], of project_id status worker_id]
  by (auto simp: listed_tasks_def descending_def task_key_def)


section \<open>Examples\<close>

definition example_two_workers :: task_db where
  "example_two_workers = example_project_db\<lparr>tb_workers :=
     tb_workers example_project_db @ map (\<lambda>w. w\<lparr>w_id := ''w2''\<rparr>) (tb_workers example_project_db)\<rparr>"

theorem task_listing_complete_witness:
  "\<exists>tasks. follow (\<lambda>cursor. list_tasks_handler (Some 1) (Some TS_QUEUED) None 1 0 cursor example_queued) None
      = Some (Inr tasks) \<and>
    mset tasks = mset (filter (\<lambda>t. t_project_id t = 1 \<and> task_filter (Some TS_QUEUED) None t) (tb_tasks example_queued)) \<and>
    sorted_wrt (\<lambda>t t'. (t_created_at t', t_id t') < (t_created_at t, t_id t)) tasks"
  by (rule task_listing_complete) code_simp+


end
