(* ===== verification/Serving_Placement.thy ===== *)
theory Serving_Placement
  imports Text
begin

text \<open>
  Placement of a tensor-parallel model replica, \<open>scheduler/serving.py\<close>: all GPUs of the replica
  come from one worker or none is allocated. The choice among the workers that can host it is an
  instance of \<open>ranked_choice\<close>; the lemmas show that a placement is returned exactly when some worker
  can host the replica, that it is the best one, and that a refusal names the first requirement that
  no worker meets.
\<close>

section \<open>Requests and workers\<close>

datatype serving_placement_reason =
  SR_INSUFFICIENT_CONTIGUOUS_GPUS | SR_GPU_MODEL_MISMATCH | SR_INSUFFICIENT_GPU_MEMORY

record serving_gpu =
  sg_uuid :: string
  sg_index :: int
  sg_model :: string
  sg_memory_free_mb :: int
  sg_fake :: bool

record serving_worker =
  sw_id :: string
  sw_gpu_devices :: "serving_gpu list"

record serving_request =
  sq_gpu_count :: int
  sq_gpu_model :: "string option"
  sq_gpu_memory_mb :: int
  sq_allow_fake :: bool

record serving_placement =
  sl_worker_id :: string
  sl_gpu_device_ids :: "string list"

record serving_explain =
  se_reason :: serving_placement_reason
  se_requested_gpu_count :: int
  se_largest_available_worker_gpu_count :: int
  se_requested_gpu_model :: "string option"
  se_required_gpu_memory_mb :: int

datatype serving_error = ServingValueError

definition explain :: "serving_request \<Rightarrow> serving_placement_reason \<Rightarrow> int \<Rightarrow> serving_explain" where
  "explain request reason largest_available =
     \<lparr>se_reason = reason, se_requested_gpu_count = sq_gpu_count request,
      se_largest_available_worker_gpu_count = largest_available,
      se_requested_gpu_model = sq_gpu_model request,
      se_required_gpu_memory_mb = sq_gpu_memory_mb request\<rparr>"

section \<open>The choice\<close>

type_synonym devices_by_worker = "(string \<times> serving_gpu list) list"
type_synonym gang_score = "int \<times> int \<times> string \<times> string list"

text \<open>A dictionary keeps the position of a key that is written again.\<close>

definition available_by_worker :: "serving_request \<Rightarrow> serving_worker list \<Rightarrow> devices_by_worker" where
  "available_by_worker request workers =
     fold (\<lambda>worker. AList.update (sw_id worker)
        (filter (\<lambda>device. sq_allow_fake request \<or> \<not> sg_fake device) (sw_gpu_devices worker))) workers []"

definition filter_devices :: "(serving_gpu \<Rightarrow> bool) \<Rightarrow> devices_by_worker \<Rightarrow> devices_by_worker" where
  "filter_devices P by_worker = map (\<lambda>(worker_id, devices). (worker_id, filter P devices)) by_worker"

definition largest :: "devices_by_worker \<Rightarrow> int" where
  "largest by_worker = fold (\<lambda>(_, devices) n. max n (int (length devices))) by_worker 0"

definition gang_candidate :: "serving_request \<Rightarrow> string \<times> serving_gpu list \<Rightarrow> gang_score \<times> serving_placement" where
  "gang_candidate request entry = (case entry of (worker_id, devices) \<Rightarrow>
     let ordered = sort_key (\<lambda>device. (sg_memory_free_mb device, sg_index device, sg_uuid device)) devices;
         selected = py_take (sq_gpu_count request) ordered;
         device_ids = map sg_uuid selected
     in ((int (length devices) - sq_gpu_count request, (\<Sum>device\<leftarrow>selected. sg_memory_free_mb device),
          worker_id, device_ids),
         \<lparr>sl_worker_id = worker_id, sl_gpu_device_ids = device_ids\<rparr>))"

definition hosts :: "serving_request \<Rightarrow> string \<times> serving_gpu list \<Rightarrow> bool" where
  "hosts request entry \<longleftrightarrow> \<not> int (length (snd entry)) < sq_gpu_count request"

definition gang_candidates :: "serving_request \<Rightarrow> devices_by_worker \<Rightarrow> (gang_score \<times> serving_placement) list" where
  "gang_candidates request by_worker = map (gang_candidate request) (filter (hosts request) by_worker)"

definition matches_model :: "serving_request \<Rightarrow> serving_gpu \<Rightarrow> bool" where
  "matches_model request device \<longleftrightarrow>
     sq_gpu_model request = None \<or> Some (sg_model device) = sq_gpu_model request"

definition choose_single_node_gang_placement ::
  "serving_request \<Rightarrow> serving_worker list
   \<Rightarrow> serving_error + serving_placement option \<times> serving_explain option" where
  "choose_single_node_gang_placement request workers =
     ebind (guard (\<not> (sq_gpu_count request < 0 \<or> sq_gpu_memory_mb request < 0)) ServingValueError) (\<lambda>_.
     ebind (guard (case sq_gpu_model request of None \<Rightarrow> True | Some model \<Rightarrow> strip model \<noteq> []) ServingValueError) (\<lambda>_.
     if sq_gpu_count request = 0 then
       if workers = [] then Inr (None, Some (explain request SR_INSUFFICIENT_CONTIGUOUS_GPUS 0))
       else Inr (Some \<lparr>sl_worker_id = Min (sw_id ` set workers), sl_gpu_device_ids = []\<rparr>, None)
     else
       let available = available_by_worker request workers;
           largest_available = largest available
       in if largest_available < sq_gpu_count request
          then Inr (None, Some (explain request SR_INSUFFICIENT_CONTIGUOUS_GPUS largest_available))
          else
            let model_devices = filter_devices (matches_model request) available;
                largest_model = largest model_devices
            in if largest_model < sq_gpu_count request
               then Inr (None, Some (explain request SR_GPU_MODEL_MISMATCH largest_model))
               else
                 let eligible = filter_devices
                       (\<lambda>device. sg_memory_free_mb device \<ge> sq_gpu_memory_mb request) model_devices;
                     largest_eligible = largest eligible
                 in if largest_eligible < sq_gpu_count request
                    then Inr (None, Some (explain request SR_INSUFFICIENT_GPU_MEMORY largest_eligible))
                    else Inr (Some (snd (hd (sort_key fst (gang_candidates request eligible)))), None)))"

section \<open>Correctness\<close>

definition eligible_devices :: "serving_request \<Rightarrow> serving_worker \<Rightarrow> serving_gpu list" where
  "eligible_devices request worker =
     filter (\<lambda>d. (sq_allow_fake request \<or> \<not> sg_fake d) \<and> matches_model request d \<and>
                 sq_gpu_memory_mb request \<le> sg_memory_free_mb d) (sw_gpu_devices worker)"

definition entry_of :: "serving_request \<Rightarrow> serving_worker \<Rightarrow> string \<times> serving_gpu list" where
  "entry_of request worker = (sw_id worker, eligible_devices request worker)"

definition pick_entry :: "serving_request \<Rightarrow> devices_by_worker \<Rightarrow> (string \<times> serving_gpu list) option" where
  "pick_entry request by_worker =
     (case sort_key (fst \<circ> gang_candidate request) (filter (hosts request) by_worker) of
        [] \<Rightarrow> None | entry # _ \<Rightarrow> Some entry)"

interpretation gang_choice: ranked_choice "hosts request" "fst \<circ> gang_candidate request" "pick_entry request"
  for request
  by unfold_locales (simp add: pick_entry_def)

lemma best_candidate:
  "filter (hosts request) by_worker \<noteq> []
   \<Longrightarrow> \<exists>entry. pick_entry request by_worker = Some entry \<and>
         hd (sort_key fst (gang_candidates request by_worker)) = gang_candidate request entry"
  by (auto simp: gang_choice.pick_hd gang_candidates_def sort_key_map hd_map)

lemma update_new: "k \<notin> fst ` set al \<Longrightarrow> AList.update k v al = al @ [(k, v)]"
  by (induction al) auto

lemma available_by_worker_eq:
  assumes "distinct (map sw_id workers)"
  shows "available_by_worker request workers =
    map (\<lambda>w. (sw_id w, filter (\<lambda>d. sq_allow_fake request \<or> \<not> sg_fake d) (sw_gpu_devices w))) workers"
proof -
  have "fold (\<lambda>w. AList.update (sw_id w) (f w)) ws al = al @ map (\<lambda>w. (sw_id w, f w)) ws"
    if "distinct (map sw_id ws)" "sw_id ` set ws \<inter> fst ` set al = {}" for ws al and f :: "serving_worker \<Rightarrow> serving_gpu list"
    using that
  proof (induction ws arbitrary: al)
    case (Cons w ws)
    then have "AList.update (sw_id w) (f w) al = al @ [(sw_id w, f w)]" by (intro update_new) auto
    then show ?case using Cons.prems Cons.IH [of "al @ [(sw_id w, f w)]"] by auto
  qed simp
  from this [OF assms, of "[]"] show ?thesis by (simp add: available_by_worker_def)
qed

lemma largest_less_iff:
  assumes "0 < n"
  shows "largest by_worker < n \<longleftrightarrow> (\<forall>entry \<in> set by_worker. int (length (snd entry)) < n)"
proof -
  have "fold (\<lambda>(_, ds) m. max m (int (length ds))) xs a < n \<longleftrightarrow>
      a < n \<and> (\<forall>entry \<in> set xs. int (length (snd entry)) < n)" for a :: int and xs :: devices_by_worker
    by (induction xs arbitrary: a) auto
  with assms show ?thesis by (simp add: largest_def)
qed

lemma largest_nonneg: "0 \<le> largest by_worker"
proof -
  have "(a :: int) \<le> fold (\<lambda>(_, ds) m. max m (int (length ds))) xs a" for a and xs :: devices_by_worker
    by (induction xs arbitrary: a) (auto intro: order_trans [OF max.cobounded1])
  then show ?thesis by (simp add: largest_def)
qed

lemma filter_devices_map:
  "filter_devices P (map (\<lambda>w. (sw_id w, f w)) ws) = map (\<lambda>w. (sw_id w, filter P (f w))) ws"
  by (simp add: filter_devices_def)

text \<open>The three stages of the filter, worker by worker.\<close>

definition available_devices :: "serving_request \<Rightarrow> serving_worker \<Rightarrow> serving_gpu list" where
  "available_devices request w = filter (\<lambda>d. sq_allow_fake request \<or> \<not> sg_fake d) (sw_gpu_devices w)"

definition model_devices :: "serving_request \<Rightarrow> serving_worker \<Rightarrow> serving_gpu list" where
  "model_devices request w = filter (matches_model request) (available_devices request w)"

lemma stages:
  assumes "distinct (map sw_id workers)"
  shows "available_by_worker request workers = map (\<lambda>w. (sw_id w, available_devices request w)) workers"
    and "filter_devices (matches_model request) (map (\<lambda>w. (sw_id w, available_devices request w)) workers) =
      map (\<lambda>w. (sw_id w, model_devices request w)) workers"
    and "filter_devices (\<lambda>d. sg_memory_free_mb d \<ge> sq_gpu_memory_mb request)
        (map (\<lambda>w. (sw_id w, model_devices request w)) workers) = map (entry_of request) workers"
  by (simp_all add: available_by_worker_eq [OF assms] filter_devices_map available_devices_def model_devices_def
      entry_of_def eligible_devices_def conj_ac)

definition valid_request :: "serving_request \<Rightarrow> bool" where
  "valid_request request \<longleftrightarrow>
     0 < sq_gpu_count request \<and> 0 \<le> sq_gpu_memory_mb request \<and>
     (case sq_gpu_model request of None \<Rightarrow> True | Some model \<Rightarrow> strip model \<noteq> [])"

definition can_host :: "serving_request \<Rightarrow> serving_gpu list \<Rightarrow> bool" where
  "can_host request devices \<longleftrightarrow> sq_gpu_count request \<le> int (length devices)"

lemma largest_stage:
  "valid_request request \<Longrightarrow>
     largest (map (\<lambda>w. (sw_id w, f w)) workers) < sq_gpu_count request
       \<longleftrightarrow> (\<forall>w \<in> set workers. \<not> can_host request (f w))"
  by (simp add: valid_request_def largest_less_iff can_host_def not_le)

lemma choose_by_stages:
  assumes "valid_request request" and "distinct (map sw_id workers)"
  shows "choose_single_node_gang_placement request workers =
    (if \<forall>w \<in> set workers. \<not> can_host request (available_devices request w)
     then Inr (None, Some (explain request SR_INSUFFICIENT_CONTIGUOUS_GPUS
            (largest (map (\<lambda>w. (sw_id w, available_devices request w)) workers))))
     else if \<forall>w \<in> set workers. \<not> can_host request (model_devices request w)
     then Inr (None, Some (explain request SR_GPU_MODEL_MISMATCH
            (largest (map (\<lambda>w. (sw_id w, model_devices request w)) workers))))
     else if \<forall>w \<in> set workers. \<not> can_host request (eligible_devices request w)
     then Inr (None, Some (explain request SR_INSUFFICIENT_GPU_MEMORY
            (largest (map (entry_of request) workers))))
     else Inr (Some (snd (hd (sort_key fst (gang_candidates request (map (entry_of request) workers))))), None))"
proof -
  have entries: "map (entry_of request) workers = map (\<lambda>w. (sw_id w, eligible_devices request w)) workers"
    by (simp add: entry_of_def)
  note l = largest_stage [OF assms(1), of "available_devices request" workers]
    largest_stage [OF assms(1), of "model_devices request" workers]
    largest_stage [OF assms(1), of "eligible_devices request" workers, folded entries]
  show ?thesis
    using assms(1)
    unfolding choose_single_node_gang_placement_def Let_def stages [OF assms(2)] l
    by (simp add: valid_request_def)
qed

lemma eligible_model: "can_host request (eligible_devices request w) \<Longrightarrow> can_host request (model_devices request w)"
proof -
  have "eligible_devices request w = filter (\<lambda>d. sq_gpu_memory_mb request \<le> sg_memory_free_mb d) (model_devices request w)"
    by (simp add: eligible_devices_def model_devices_def available_devices_def conj_ac)
  then have "length (eligible_devices request w) \<le> length (model_devices request w)" by simp
  then show "can_host request (eligible_devices request w) \<Longrightarrow> can_host request (model_devices request w)"
    by (simp add: can_host_def)
qed

lemma model_available: "can_host request (model_devices request w) \<Longrightarrow> can_host request (available_devices request w)"
  using length_filter_le [of "matches_model request" "available_devices request w"]
  unfolding can_host_def model_devices_def by linarith

definition device_order :: "serving_gpu \<Rightarrow> int \<times> int \<times> string" where
  "device_order d = (sg_memory_free_mb d, sg_index d, sg_uuid d)"

text \<open>The placement takes the least of the worker's eligible devices, as many as requested.\<close>

definition takes_least :: "serving_request \<Rightarrow> serving_worker \<Rightarrow> serving_placement \<Rightarrow> bool" where
  "takes_least request w placement \<longleftrightarrow>
     (\<exists>chosen rest.
        mset (eligible_devices request w) = mset chosen + mset rest \<and>
        int (length chosen) = sq_gpu_count request \<and>
        (\<forall>d \<in> set chosen. \<forall>d' \<in> set rest. device_order d \<le> device_order d') \<and>
        placement = \<lparr>sl_worker_id = sw_id w, sl_gpu_device_ids = map sg_uuid chosen\<rparr>)"

lemma gang_candidate_takes_least:
  assumes "valid_request request" and "can_host request (eligible_devices request w)"
  shows "takes_least request w (snd (gang_candidate request (entry_of request w)))"
proof -
  let ?n = "nat (sq_gpu_count request)" and ?ordered = "sort_key device_order (eligible_devices request w)"
  have n: "0 < sq_gpu_count request" using assms(1) by (simp add: valid_request_def)
  have "mset (eligible_devices request w) = mset (take ?n ?ordered) + mset (drop ?n ?ordered)"
    by (metis append_take_drop_id mset_append mset_sort)
  moreover have "int (length (take ?n ?ordered)) = sq_gpu_count request"
    using n assms(2) by (simp add: can_host_def)
  moreover have "\<forall>d \<in> set (take ?n ?ordered). \<forall>d' \<in> set (drop ?n ?ordered). device_order d \<le> device_order d'"
    using take_sort_key_le [where k = device_order] by blast
  moreover have "snd (gang_candidate request (entry_of request w)) =
      \<lparr>sl_worker_id = sw_id w, sl_gpu_device_ids = map sg_uuid (take ?n ?ordered)\<rparr>"
    using n by (simp add: gang_candidate_def entry_of_def Let_def device_order_def [abs_def])
  ultimately show ?thesis unfolding takes_least_def by blast
qed

lemma hosts_entry [simp]: "hosts request (entry_of request w) \<longleftrightarrow> can_host request (eligible_devices request w)"
  by (simp add: hosts_def entry_of_def can_host_def not_less)

text \<open>
  C12. All or nothing, and best. A placement is returned exactly when some worker has as many eligible
  devices as the replica needs. It then consists of exactly that many eligible devices of one worker,
  the least of them by free memory, index and UUID, and no worker that could host the replica has a
  smaller score (devices left over, memory of the chosen devices, worker id, device ids).
\<close>
theorem gang_placement_best:
  assumes "valid_request request" and "distinct (map sw_id workers)"
  shows "((\<exists>placement. choose_single_node_gang_placement request workers = Inr (Some placement, None))
      \<longleftrightarrow> (\<exists>w \<in> set workers. can_host request (eligible_devices request w))) \<and>
    (\<forall>placement e. choose_single_node_gang_placement request workers = Inr (Some placement, e) \<longrightarrow>
      (\<exists>w \<in> set workers. takes_least request w placement \<and>
        (\<forall>w' \<in> set workers. can_host request (eligible_devices request w') \<longrightarrow>
           fst (gang_candidate request (entry_of request w)) \<le> fst (gang_candidate request (entry_of request w')))))"
proof (intro conjI allI impI)
  show "(\<exists>placement. choose_single_node_gang_placement request workers = Inr (Some placement, None))
      \<longleftrightarrow> (\<exists>w \<in> set workers. can_host request (eligible_devices request w))"
  proof (cases "\<exists>w \<in> set workers. can_host request (eligible_devices request w)")
    case True
    then have "\<exists>w \<in> set workers. can_host request (model_devices request w)" using eligible_model by blast
    moreover from this have "\<exists>w \<in> set workers. can_host request (available_devices request w)"
      using model_available by blast
    ultimately show ?thesis using True by (simp add: choose_by_stages [OF assms])
  next
    case False
    then show ?thesis by (auto simp: choose_by_stages [OF assms] split: if_splits)
  qed
next
  fix placement e
  assume "choose_single_node_gang_placement request workers = Inr (Some placement, e)"
  then have host: "\<exists>w \<in> set workers. can_host request (eligible_devices request w)"
    and p: "placement = snd (hd (sort_key fst (gang_candidates request (map (entry_of request) workers))))"
    by (auto simp: choose_by_stages [OF assms] split: if_splits)
  have "filter (hosts request) (map (entry_of request) workers) \<noteq> []"
    using host by (auto simp: filter_empty_conv)
  from best_candidate [OF this] obtain entry
    where pick: "pick_entry request (map (entry_of request) workers) = Some entry"
      and best: "placement = snd (gang_candidate request entry)" by (auto simp: p)
  from gang_choice.pick_sound [OF pick] obtain w where w: "w \<in> set workers" "entry = entry_of request w"
      "can_host request (eligible_devices request w)" by auto
  show "\<exists>w \<in> set workers. takes_least request w placement \<and>
        (\<forall>w' \<in> set workers. can_host request (eligible_devices request w') \<longrightarrow>
           fst (gang_candidate request (entry_of request w)) \<le> fst (gang_candidate request (entry_of request w')))"
    using gang_choice.pick_least [OF pick] gang_candidate_takes_least [OF assms(1) w(3)] w(1,2)
    by (intro bexI [of _ w]) (auto simp: best)
qed


definition example_gpus :: "string \<Rightarrow> int list \<Rightarrow> serving_worker" where
  "example_gpus worker_id free = \<lparr>sw_id = worker_id, sw_gpu_devices =
     map (\<lambda>m. \<lparr>sg_uuid = worker_id @ [char_of m], sg_index = m, sg_model = ''L4'', sg_memory_free_mb = m,
               sg_fake = False\<rparr>) free\<rparr>"

definition example_request :: "int \<Rightarrow> serving_request" where
  "example_request n = \<lparr>sq_gpu_count = n, sq_gpu_model = None, sq_gpu_memory_mb = 2, sq_allow_fake = False\<rparr>"

theorem gang_placement_best_witness:
  "\<exists>placement. choose_single_node_gang_placement (example_request 2)
      [example_gpus ''a'' [1, 3], example_gpus ''b'' [2, 3, 4]] = Inr (Some placement, None)"
proof -
  have v: "valid_request (example_request 2)" by code_simp
  have d: "distinct (map sw_id [example_gpus ''a'' [1, 3], example_gpus ''b'' [2, 3, 4]])" by code_simp
  have "\<exists>w \<in> set [example_gpus ''a'' [1, 3], example_gpus ''b'' [2, 3, 4]].
      can_host (example_request 2) (eligible_devices (example_request 2) w)" by code_simp
  with gang_placement_best [OF v d] show ?thesis by blast
qed


end
