(* ===== verification/Spec2Isabelle.thy ===== *)
theory Spec2Isabelle
  imports Policies Redactor Job_Groups Identity Worker_Inventory Pagination Serving_Placement
begin

text \<open>
  Verification of the Mini-AI-Cloud control plane.
\<close>

end
